(* ===== verification/Prelude.thy ===== *)
theory Prelude
  imports Main "HOL-Library.Char_ord" "HOL-Library.List_Lexorder" "HOL-Library.Code_Target_Numeral"
begin

text \<open>
  Shared vocabulary of the development: Rust's \<open>Result\<close> as a sum type, the fixed-width integer operations the
  sources use (\<open>saturating_add\<close>, \<open>checked_add\<close>, \<open>as\<close> casts), strings as UTF-8 byte lists with
  the \<open>str\<close>/\<open>u8\<close> methods the sources call, JSON values, and the record of functions of
  third-party crates on which the code relies.
\<close>

named_theorems result_simps \<open>evaluation of Result combinators\<close>
named_theorems ascii_simps \<open>unfolding of the byte predicates\<close>

section \<open>Results\<close>

text \<open>\<open>Result<T, E>\<close> is \<open>'e + 'a\<close>, with \<open>Inl\<close> the error; \<open>rbind\<close> is the \<open>?\<close> operator and
  \<open>ensure c e\<close> is \<open>if !c { return Err(e) }\<close>.\<close>

definition rbind :: "'e + 'a \<Rightarrow> ('a \<Rightarrow> 'e + 'b) \<Rightarrow> 'e + 'b" where
  "rbind r f = (case r of Inl e \<Rightarrow> Inl e | Inr a \<Rightarrow> f a)"

definition ensure :: "bool \<Rightarrow> 'e \<Rightarrow> 'e + unit" where
  "ensure c e = (if c then Inr () else Inl e)"

definition map_err :: "('e \<Rightarrow> 'f) \<Rightarrow> 'e + 'a \<Rightarrow> 'f + 'a" where
  "map_err g r = (case r of Inl e \<Rightarrow> Inl (g e) | Inr a \<Rightarrow> Inr a)"

definition ok_or :: "'a option \<Rightarrow> 'e \<Rightarrow> 'e + 'a" where
  "ok_or x e = (case x of None \<Rightarrow> Inl e | Some a \<Rightarrow> Inr a)"

definition is_ok :: "'e + 'a \<Rightarrow> bool" where
  "is_ok r = (case r of Inl _ \<Rightarrow> False | Inr _ \<Rightarrow> True)"

text \<open>A sequence of checks that stops at the first error: the shape of every \<open>validate\<close>.\<close>

primrec all_ok :: "('e + unit) list \<Rightarrow> 'e + unit" where
  "all_ok [] = Inr ()"
| "all_ok (r # rs) = rbind r (\<lambda>_. all_ok rs)"

primrec each_ok :: "('a \<Rightarrow> 'e + unit) \<Rightarrow> 'a list \<Rightarrow> 'e + unit" where
  "each_ok f [] = Inr ()"
| "each_ok f (x # xs) = rbind (f x) (\<lambda>_. each_ok f xs)"

primrec map_ok :: "('a \<Rightarrow> 'e + 'b) \<Rightarrow> 'a list \<Rightarrow> 'e + 'b list" where
  "map_ok f [] = Inr []"
| "map_ok f (x # xs) = rbind (f x) (\<lambda>y. rbind (map_ok f xs) (\<lambda>ys. Inr (y # ys)))"

text \<open>Functions that may also panic report it as a value of its own.\<close>

datatype 'e fault = Fail 'e | Panic

section \<open>Machine integers\<close>

text \<open>\<open>u64\<close>, \<open>usize\<close> (64-bit targets) and \<open>u32\<close> values are natural numbers with their bound
  written out; \<open>i64\<close> values are integers.\<close>

definition u64_max :: nat where "u64_max = 18446744073709551615"
definition u32_max :: nat where "u32_max = 4294967295"
definition i64_max :: nat where "i64_max = 9223372036854775807"

definition u64_sat_add :: "nat \<Rightarrow> nat \<Rightarrow> nat" where
  "u64_sat_add a b = min (a + b) u64_max"

definition u64_sat_mul :: "nat \<Rightarrow> nat \<Rightarrow> nat" where
  "u64_sat_mul a b = min (a * b) u64_max"

definition u64_checked_add :: "nat \<Rightarrow> nat \<Rightarrow> nat option" where
  "u64_checked_add a b = (if a + b \<le> u64_max then Some (a + b) else None)"

definition i64_checked_add :: "int \<Rightarrow> int \<Rightarrow> int option" where
  "i64_checked_add a b =
     (if - int i64_max - 1 \<le> a + b \<and> a + b \<le> int i64_max then Some (a + b) else None)"

definition u64_as_i64 :: "nat \<Rightarrow> int" where
  "u64_as_i64 n = (if n \<le> i64_max then int n else int n - 18446744073709551616)"

text \<open>Durations and instants are in nanoseconds.\<close>

definition ns_of_ms :: "int \<Rightarrow> int" where "ns_of_ms m = m * 1000000"
definition ns_of_secs :: "int \<Rightarrow> int" where "ns_of_secs s = s * 1000000000"

section \<open>Byte strings\<close>

text \<open>A Rust \<open>String\<close> is its UTF-8 byte sequence, one \<open>char\<close> of HOL per byte; \<open>len()\<close> is
  \<open>length\<close>.\<close>

definition byte :: "char \<Rightarrow> nat" where
  "byte c = of_char c"

definition is_ascii_digit :: "char \<Rightarrow> bool" where
  "is_ascii_digit c \<longleftrightarrow> 48 \<le> byte c \<and> byte c \<le> 57"

definition is_ascii_lowercase :: "char \<Rightarrow> bool" where
  "is_ascii_lowercase c \<longleftrightarrow> 97 \<le> byte c \<and> byte c \<le> 122"

definition is_ascii_uppercase :: "char \<Rightarrow> bool" where
  "is_ascii_uppercase c \<longleftrightarrow> 65 \<le> byte c \<and> byte c \<le> 90"

definition is_ascii_alphabetic :: "char \<Rightarrow> bool" where
  "is_ascii_alphabetic c \<longleftrightarrow> is_ascii_lowercase c \<or> is_ascii_uppercase c"

definition is_ascii_alphanumeric :: "char \<Rightarrow> bool" where
  "is_ascii_alphanumeric c \<longleftrightarrow> is_ascii_alphabetic c \<or> is_ascii_digit c"

definition is_ascii_graphic :: "char \<Rightarrow> bool" where
  "is_ascii_graphic c \<longleftrightarrow> 33 \<le> byte c \<and> byte c \<le> 126"

definition is_ascii_control :: "char \<Rightarrow> bool" where
  "is_ascii_control c \<longleftrightarrow> byte c < 32 \<or> byte c = 127"

definition is_ascii_hexdigit :: "char \<Rightarrow> bool" where
  "is_ascii_hexdigit c \<longleftrightarrow>
     is_ascii_digit c \<or> (65 \<le> byte c \<and> byte c \<le> 70) \<or> (97 \<le> byte c \<and> byte c \<le> 102)"

definition is_ascii_byte :: "char \<Rightarrow> bool" where
  "is_ascii_byte c \<longleftrightarrow> byte c < 128"

definition to_ascii_lowercase :: "string \<Rightarrow> string" where
  "to_ascii_lowercase s = map (\<lambda>c. if is_ascii_uppercase c then char_of (byte c + 32) else c) s"

definition starts_with :: "string \<Rightarrow> string \<Rightarrow> bool" where
  "starts_with p s \<longleftrightarrow> take (length p) s = p"

definition ends_with :: "string \<Rightarrow> string \<Rightarrow> bool" where
  "ends_with p s \<longleftrightarrow> length p \<le> length s \<and> drop (length s - length p) s = p"

fun str_contains :: "string \<Rightarrow> string \<Rightarrow> bool" where
  "str_contains p [] \<longleftrightarrow> p = []"
| "str_contains p (c # cs) \<longleftrightarrow> starts_with p (c # cs) \<or> str_contains p cs"

text \<open>\<open>str::split\<close> on a character predicate: the segments between separators, empty ones
  included.\<close>

fun split_on :: "(char \<Rightarrow> bool) \<Rightarrow> string \<Rightarrow> string list" where
  "split_on p [] = [[]]"
| "split_on p (c # cs) =
     (if p c then [] # split_on p cs
      else (case split_on p cs of [] \<Rightarrow> [[c]] | s # ss \<Rightarrow> (c # s) # ss))"

text \<open>\<open>str::trim\<close> removes characters with the Unicode property \<open>White_Space\<close>. On UTF-8 bytes
  these are six single bytes and the encodings of U+0085, U+00A0, U+1680, U+2000 to U+200A,
  U+2028, U+2029, U+202F, U+205F and U+3000.\<close>

fun ws_head :: "nat list \<Rightarrow> nat" where
  "ws_head (a # rest) =
     (if (9 \<le> a \<and> a \<le> 13) \<or> a = 32 then 1
      else (case rest of
        [] \<Rightarrow> 0
      | b # rest2 \<Rightarrow>
          if a = 194 \<and> (b = 133 \<or> b = 160) then 2
          else (case rest2 of
            [] \<Rightarrow> 0
          | d # _ \<Rightarrow>
              if a = 225 \<and> b = 154 \<and> d = 128 then 3
              else if a = 226 \<and> b = 128 \<and> (128 \<le> d \<and> d \<le> 138 \<or> d = 168 \<or> d = 169 \<or> d = 175) then 3
              else if a = 226 \<and> b = 129 \<and> d = 159 then 3
              else if a = 227 \<and> b = 128 \<and> d = 128 then 3
              else 0)))"
| "ws_head [] = 0"

fun ws_last :: "nat list \<Rightarrow> nat" where
  "ws_last (d # rest) =
     (if (9 \<le> d \<and> d \<le> 13) \<or> d = 32 then 1
      else (case rest of
        [] \<Rightarrow> 0
      | b # rest2 \<Rightarrow>
          if ws_head [b, d] = 2 then 2
          else (case rest2 of [] \<Rightarrow> 0 | a # _ \<Rightarrow> if ws_head [a, b, d] = 3 then 3 else 0)))"
| "ws_last [] = 0"

function trim_start :: "string \<Rightarrow> string" where
  "trim_start s = (let k = ws_head (map byte s) in if k = 0 then s else trim_start (drop k s))"
  by auto
termination
  apply (relation "measure length")
   apply simp
  subgoal for s by (cases s) auto
  done

function trim_rev :: "string \<Rightarrow> string" where
  "trim_rev s = (let k = ws_last (map byte s) in if k = 0 then s else trim_rev (drop k s))"
  by auto
termination
  apply (relation "measure length")
   apply simp
  subgoal for s by (cases s) auto
  done

definition trim :: "string \<Rightarrow> string" where
  "trim s = rev (trim_rev (rev (trim_start s)))"

text \<open>The primitive-recursive decimal rendering of \<open>Display\<close> for unsigned integers.\<close>

definition digit_char :: "nat \<Rightarrow> char" where
  "digit_char d = char_of (48 + d mod 10)"

fun show_nat :: "nat \<Rightarrow> string" where
  "show_nat n = (if n < 10 then [digit_char n] else show_nat (n div 10) @ [digit_char n])"

definition show_int :: "int \<Rightarrow> string" where
  "show_int i = (if i < 0 then CHR ''-'' # show_nat (nat (- i)) else show_nat (nat i))"

section \<open>JSON values\<close>

text \<open>\<open>serde_json::Value\<close>. The crate is built without \<open>preserve_order\<close>, so an object is a
  \<open>BTreeMap\<close>: \<open>jobj\<close> builds one from \<open>json!\<close>-style fields by ordering them by key.\<close>

datatype json = JNull | JBool bool | JInt int | JStr string | JArr "json list"
  | JObj "(string \<times> json) list"

definition jobj :: "(string \<times> json) list \<Rightarrow> json" where
  "jobj kvs = JObj (sort_key fst kvs)"

definition jget :: "string \<Rightarrow> json \<Rightarrow> json option" where
  "jget k v = (case v of JObj kvs \<Rightarrow> map_of kvs k | _ \<Rightarrow> None)"

definition jopt :: "('a \<Rightarrow> json) \<Rightarrow> 'a option \<Rightarrow> json" where
  "jopt f x = (case x of None \<Rightarrow> JNull | Some a \<Rightarrow> f a)"

definition as_str :: "json \<Rightarrow> string option" where
  "as_str v = (case v of JStr s \<Rightarrow> Some s | _ \<Rightarrow> None)"

section \<open>Third-party functions\<close>

text \<open>What the code calls from crates outside the repository. Instants are nanoseconds since the
  Unix epoch.

  \<^item> \<open>parse_rfc3339\<close>: \<open>OffsetDateTime::parse(_, &Rfc3339)\<close>, \<open>None\<close> when it fails with the text
    \<open>rfc3339_error\<close>;
  \<^item> \<open>odt_add\<close>: \<open>OffsetDateTime + Duration\<close>, \<open>None\<close> when the operator panics because the sum is
    out of range;
  \<^item> \<open>uuid_ok\<close>: \<open>Uuid::parse_str(_).is_ok()\<close>;
  \<^item> \<open>base64url_decode\<close>: \<open>URL_SAFE_NO_PAD.decode\<close>, failing with the text \<open>base64url_error\<close>;
  \<^item> \<open>endpoint_id_from_str\<close>: \<open>iroh::EndpointId::from_str(_).map(|id| id.to_string())\<close>, the
    canonical text of the identity;
  \<^item> \<open>json_len\<close>: the length of \<open>serde_json::to_vec\<close>.\<close>

record ext =
  parse_rfc3339 :: "string \<Rightarrow> int option"
  rfc3339_error :: "string \<Rightarrow> string"
  odt_add :: "int \<Rightarrow> int \<Rightarrow> int option"
  uuid_ok :: "string \<Rightarrow> bool"
  base64url_decode :: "string \<Rightarrow> string option"
  base64url_error :: "string \<Rightarrow> string"
  endpoint_id_from_str :: "string \<Rightarrow> string option"
  json_len :: "json \<Rightarrow> nat"

text \<open>Documented behaviour used as hypotheses: adding a duration either panics or is exact, and the
  canonical text of an endpoint identity parses to itself.\<close>

definition odt_add_exact :: "ext \<Rightarrow> bool" where
  "odt_add_exact X \<longleftrightarrow> (\<forall>t d r. odt_add X t d = Some r \<longrightarrow> r = t + d)"

definition endpoint_id_canonical :: "ext \<Rightarrow> bool" where
  "endpoint_id_canonical X \<longleftrightarrow>
     (\<forall>s c. endpoint_id_from_str X s = Some c \<longrightarrow> endpoint_id_from_str X c = Some c)"

text \<open>A concrete instance of the third-party functions, used to evaluate the model on examples:
  timestamps are strings ending in \<open>Z\<close> whose length counts seconds, every non-empty text is a
  canonical endpoint identity, nonces and UUIDs decode to themselves.\<close>

definition example_ext :: ext where
  "example_ext = \<lparr>
     parse_rfc3339 = (\<lambda>s. if s \<noteq> [] \<and> last s = CHR ''Z'' then Some (ns_of_secs (int (length s))) else None),
     rfc3339_error = (\<lambda>s. ''invalid timestamp''),
     odt_add = (\<lambda>t d. Some (t + d)),
     uuid_ok = (\<lambda>s. length s = 36),
     base64url_decode = Some,
     base64url_error = (\<lambda>s. ''invalid base64''),
     endpoint_id_from_str = (\<lambda>s. if s = [] then None else Some s),
     json_len = size\<rparr>"

lemma starts_with_code [code]:
  "starts_with [] s = True"
  "starts_with (p # ps) [] = False"
  "starts_with (p # ps) (c # cs) = (if p = c then starts_with ps cs else False)"
  by (auto simp: starts_with_def)

declare trim_start.simps [simp del] trim_rev.simps [simp del] show_nat.simps [simp del]

section \<open>Laws of results\<close>

lemma rbind_simps [simp, result_simps]:
  "rbind (Inl e) f = Inl e"
  "rbind (Inr a) f = f a"
  by (simp_all add: rbind_def)

lemma rbind_Inr_iff [result_simps]: "rbind r f = Inr b \<longleftrightarrow> (\<exists>a. r = Inr a \<and> f a = Inr b)"
  by (cases r) auto

lemma rbind_Inl_iff: "rbind r f = Inl e \<longleftrightarrow> r = Inl e \<or> (\<exists>a. r = Inr a \<and> f a = Inl e)"
  by (cases r) auto

lemma rbind_assoc: "rbind (rbind r f) g = rbind r (\<lambda>a. rbind (f a) g)"
  by (cases r) auto

lemma ensure_Inr_iff [simp, result_simps]: "ensure c e = Inr u \<longleftrightarrow> c"
  by (simp add: ensure_def)

lemma ensure_Inl_iff [simp, result_simps]: "ensure c e = Inl e' \<longleftrightarrow> \<not> c \<and> e' = e"
  by (auto simp add: ensure_def)

lemma ensure_bool [simp]: "ensure True e = Inr ()" "ensure False e = Inl e"
  by (simp_all add: ensure_def)

lemma map_err_Inr_iff [simp, result_simps]: "map_err g r = Inr a \<longleftrightarrow> r = Inr a"
  by (cases r) (auto simp: map_err_def)

lemma map_err_Inl_iff: "map_err g r = Inl e \<longleftrightarrow> (\<exists>e'. r = Inl e' \<and> e = g e')"
  by (cases r) (auto simp: map_err_def)

lemma map_err_simps [simp]: "map_err g (Inl e) = Inl (g e)" "map_err g (Inr a) = Inr a"
  by (simp_all add: map_err_def)

lemma ok_or_Inr_iff [simp, result_simps]: "ok_or x e = Inr a \<longleftrightarrow> x = Some a"
  by (cases x) (auto simp: ok_or_def)

lemma ok_or_Inl_iff [simp]: "ok_or x e = Inl e' \<longleftrightarrow> x = None \<and> e' = e"
  by (cases x) (auto simp: ok_or_def)

lemma ok_or_simps [simp]: "ok_or None e = Inl e" "ok_or (Some a) e = Inr a"
  by (simp_all add: ok_or_def)

lemma is_ok_simps [simp]: "is_ok (Inl e) = False" "is_ok (Inr a) = True"
  by (simp_all add: is_ok_def)

lemma is_ok_iff: "is_ok r \<longleftrightarrow> (\<exists>a. r = Inr a)"
  by (cases r) auto

lemma all_ok_iff [result_simps]: "all_ok rs = Inr u \<longleftrightarrow> (\<forall>r\<in>set rs. r = Inr ())"
  by (induction rs) (auto simp: rbind_Inr_iff)

lemma each_ok_iff [result_simps]: "each_ok f xs = Inr u \<longleftrightarrow> (\<forall>x\<in>set xs. f x = Inr ())"
  by (induction xs) (auto simp: rbind_Inr_iff)

declare all_ok.simps [simp del] each_ok.simps [simp del]

lemma map_ok_Inr_length: "map_ok f xs = Inr ys \<Longrightarrow> length ys = length xs"
  by (induction xs arbitrary: ys) (auto simp: rbind_Inr_iff)

lemma map_ok_Inr_iff: "map_ok f xs = Inr ys \<longleftrightarrow> list_all2 (\<lambda>x y. f x = Inr y) xs ys"
  by (induction xs arbitrary: ys) (auto simp: rbind_Inr_iff list_all2_Cons1)

lemma example_ext_ok: "odt_add_exact example_ext" "endpoint_id_canonical example_ext"
  by (simp_all add: odt_add_exact_def endpoint_id_canonical_def example_ext_def)

end
