(* ===== verification/Nonce_Cache.thy ===== *)
theory Nonce_Cache
  imports Prelude "HOL-Library.AList"
begin

text \<open>
  The agent's replay cache (\<open>ocfleet-agent/src/nonce.rs\<close>): nonces per peer with their expiry, a
  heap of expirations that is pruned before every registration, and limits on live nonces per peer
  and in total. The hash maps are association lists with distinct keys; the binary heap of
  \<open>Reverse\<close> entries is the list of its entries in ascending order, whose head is what \<open>peek\<close> and
  \<open>pop\<close> return. Instants are nanoseconds of the monotonic clock.
\<close>

section \<open>State\<close>

datatype nonce_limit_scope = ScopeGlobal | ScopePerPeer

datatype nonce_decision =
    NonceAccepted
  | NonceReplay
  | NonceExhausted nonce_limit_scope nat

datatype expiry_entry = ExpiryEntry (expires_at: nat) (entry_peer: string) (entry_nonce: string)

text \<open>The derived \<open>Ord\<close> compares the fields in order.\<close>

instantiation expiry_entry :: linorder
begin

definition less_eq_expiry_entry :: "expiry_entry \<Rightarrow> expiry_entry \<Rightarrow> bool" where
  "less_eq_expiry_entry a b \<longleftrightarrow> expires_at a < expires_at b \<or> expires_at a = expires_at b \<and>
     (entry_peer a < entry_peer b \<or> entry_peer a = entry_peer b \<and> entry_nonce a \<le> entry_nonce b)"

definition less_expiry_entry :: "expiry_entry \<Rightarrow> expiry_entry \<Rightarrow> bool" where
  "less_expiry_entry a b \<longleftrightarrow> a \<le> b \<and> \<not> b \<le> (a :: expiry_entry)"

instance
  by standard
    (auto simp: less_eq_expiry_entry_def less_expiry_entry_def expiry_entry.expand)

end

type_synonym peer_nonces = "(string \<times> nat) list"

record nonce_cache =
  nc_peers :: "(string \<times> peer_nonces) list"
  expirations :: "expiry_entry list"
  live_total :: nat
  max_live_global :: nat
  max_live_per_peer :: nat

section \<open>Operations\<close>

definition with_limits :: "nat \<Rightarrow> nat \<Rightarrow> nonce_cache" where
  "with_limits global per_peer = \<lparr>nc_peers = [], expirations = [], live_total = 0,
     max_live_global = global, max_live_per_peer = per_peer\<rparr>"

definition nonce_cache_new :: nonce_cache where
  "nonce_cache_new = with_limits u64_max u64_max"

definition live_len :: "nonce_cache \<Rightarrow> nat" where
  "live_len c = live_total c"

definition nonces_of :: "nonce_cache \<Rightarrow> string \<Rightarrow> peer_nonces" where
  "nonces_of c p = (case map_of (nc_peers c) p of None \<Rightarrow> [] | Some ns \<Rightarrow> ns)"

text \<open>One iteration of the pruning loop on a popped entry.\<close>

definition drop_entry :: "expiry_entry \<Rightarrow> nonce_cache \<Rightarrow> nonce_cache" where
  "drop_entry e c =
     (if map_of (nonces_of c (entry_peer e)) (entry_nonce e) \<noteq> Some (expires_at e) then c
      else (case map_of (nc_peers c) (entry_peer e) of
          None \<Rightarrow> c
        | Some ns \<Rightarrow>
            let ns' = AList.delete (entry_nonce e) ns;
                c' = c \<lparr>live_total := (if map_of ns (entry_nonce e) \<noteq> None
                        then live_total c - 1 else live_total c),
                      nc_peers := AList.update (entry_peer e) ns' (nc_peers c)\<rparr>
            in if ns' = [] then c' \<lparr>nc_peers := AList.delete (entry_peer e) (nc_peers c')\<rparr>
               else c'))"

function prune_expired_at :: "nat \<Rightarrow> nonce_cache \<Rightarrow> nat \<times> nonce_cache" where
  "prune_expired_at now c =
     (case expirations c of
        [] \<Rightarrow> (0, c)
      | e # rest \<Rightarrow>
          if expires_at e > now then (0, c)
          else let r = prune_expired_at now (drop_entry e (c \<lparr>expirations := rest\<rparr>))
               in (fst r + 1, snd r))"
  by auto
termination
  by (relation "measure (\<lambda>(now, c). length (expirations c))")
    (auto simp: drop_entry_def Let_def split: option.splits)

text \<open>\<open>Instant::checked_add\<close>: the seconds of an \<open>Instant\<close> are a signed 64-bit number.\<close>

definition instant_checked_add :: "nat \<Rightarrow> nat \<Rightarrow> nat option" where
  "instant_checked_add t d = (if (t + d) div 1000000000 \<le> i64_max then Some (t + d) else None)"

definition nonce_expiry :: "nat \<Rightarrow> nat \<Rightarrow> nat" where
  "nonce_expiry now ttl = (case instant_checked_add now ttl of None \<Rightarrow> now | Some t \<Rightarrow> t)"

definition register_at ::
    "nat \<Rightarrow> string \<Rightarrow> string \<Rightarrow> nat \<Rightarrow> nonce_cache \<Rightarrow> nonce_decision \<times> nonce_cache" where
  "register_at now peer nonce ttl c0 =
     (let c = snd (prune_expired_at now c0);
          peer_live_count = length (nonces_of c peer)
      in if map_of (nonces_of c peer) nonce \<noteq> None then (NonceReplay, c)
         else if peer_live_count \<ge> max_live_per_peer c
         then (NonceExhausted ScopePerPeer (max_live_per_peer c), c)
         else if live_total c \<ge> max_live_global c
         then (NonceExhausted ScopeGlobal (max_live_global c), c)
         else (NonceAccepted,
           c \<lparr>nc_peers := AList.update peer
                 (AList.update nonce (nonce_expiry now ttl) (nonces_of c peer)) (nc_peers c),
              live_total := live_total c + 1,
              expirations := insort (ExpiryEntry (nonce_expiry now ttl) peer nonce) (expirations c)\<rparr>))"

section \<open>Specification\<close>

text \<open>What the cache promises: a finite map from (peer, nonce) to expiry. Registration first forgets
  what has expired, then decides from the remaining entries alone.\<close>

type_synonym nonce_map = "string \<times> string \<Rightarrow> nat option"

definition live_map :: "nonce_cache \<Rightarrow> nonce_map" where
  "live_map c = (\<lambda>(p, n). map_of (nonces_of c p) n)"

definition unexpired :: "nat \<Rightarrow> nonce_map \<Rightarrow> nonce_map" where
  "unexpired now M = (\<lambda>k. case M k of None \<Rightarrow> None | Some t \<Rightarrow> if now < t then Some t else None)"

definition spec_decision :: "nat \<Rightarrow> nat \<Rightarrow> string \<Rightarrow> string \<Rightarrow> nonce_map \<Rightarrow> nonce_decision" where
  "spec_decision global per_peer p n L =
     (if L (p, n) \<noteq> None then NonceReplay
      else if card {m. L (p, m) \<noteq> None} \<ge> per_peer then NonceExhausted ScopePerPeer per_peer
      else if card (dom L) \<ge> global then NonceExhausted ScopeGlobal global
      else NonceAccepted)"

definition spec_register ::
    "nat \<Rightarrow> nat \<Rightarrow> nat \<Rightarrow> string \<Rightarrow> string \<Rightarrow> nat \<Rightarrow> nonce_map \<Rightarrow> nonce_decision \<times> nonce_map" where
  "spec_register global per_peer now p n ttl M =
     (let L = unexpired now M; d = spec_decision global per_peer p n L
      in (d, if d = NonceAccepted then L((p, n) \<mapsto> nonce_expiry now ttl) else L))"

text \<open>Well-formedness: the heap holds exactly the live nonces, and \<open>live_total\<close> counts them.\<close>

definition nonce_inv :: "nonce_cache \<Rightarrow> bool" where
  "nonce_inv c \<longleftrightarrow>
     distinct (map fst (nc_peers c))
   \<and> (\<forall>p ns. (p, ns) \<in> set (nc_peers c) \<longrightarrow> ns \<noteq> [] \<and> distinct (map fst ns))
   \<and> sorted (expirations c) \<and> distinct (expirations c)
   \<and> (\<forall>t p n. ExpiryEntry t p n \<in> set (expirations c) \<longleftrightarrow> live_map c (p, n) = Some t)
   \<and> live_total c = length (expirations c)"

definition within_limits :: "nonce_cache \<Rightarrow> bool" where
  "within_limits c \<longleftrightarrow> live_total c \<le> max_live_global c
     \<and> (\<forall>p. length (nonces_of c p) \<le> max_live_per_peer c)"

text \<open>A history of registrations, oldest first.\<close>

record registration =
  reg_at :: nat
  reg_peer :: string
  reg_nonce :: string
  reg_ttl :: nat

fun run_registrations ::
    "registration list \<Rightarrow> nonce_cache \<Rightarrow> nonce_decision list \<times> nonce_cache" where
  "run_registrations [] c = ([], c)"
| "run_registrations (r # rs) c =
     (let dc = register_at (reg_at r) (reg_peer r) (reg_nonce r) (reg_ttl r) c;
          rest = run_registrations rs (snd dc)
      in (fst dc # fst rest, snd rest))"

definition reg_tuple :: "registration \<Rightarrow> nat \<times> string \<times> string \<times> nat" where
  "reg_tuple r = (reg_at r, reg_peer r, reg_nonce r, reg_ttl r)"

definition example_registration :: "nat \<Rightarrow> string \<Rightarrow> registration" where
  "example_registration t n = \<lparr>reg_at = t, reg_peer = ''p'', reg_nonce = n, reg_ttl = 10\<rparr>"

declare prune_expired_at.simps [simp del]

section \<open>The heap and the map agree\<close>

lemma length_alist_update:
  "length (AList.update k v al) = (if k \<in> fst ` set al then length al else Suc (length al))"
  by (induction al) auto

lemma alist_update_not_Nil [simp]: "AList.update k v al \<noteq> []" "[] \<noteq> AList.update k v al"
  by (cases al; auto)+

lemma set_alist_update: "x \<in> set (AList.update k v al) \<Longrightarrow> x = (k, v) \<or> x \<in> set al"
  by (induction al) (auto split: if_splits)

lemma set_alist_delete: "x \<in> set (AList.delete k al) \<Longrightarrow> x \<in> set al \<and> fst x \<noteq> k"
  by (auto simp: AList.delete_eq)

lemma live_map_Some: "live_map c (p, n) = Some t \<longleftrightarrow> map_of (nonces_of c p) n = Some t"
  by (simp add: live_map_def)

lemma nonces_of_distinct: "nonce_inv c \<Longrightarrow> distinct (map fst (nonces_of c p))"
  by (auto simp: nonce_inv_def nonces_of_def dest: map_of_SomeD split: option.splits)

lemma drop_entry_frame [simp]:
  "expirations (drop_entry e c) = expirations c"
  "max_live_global (drop_entry e c) = max_live_global c"
  "max_live_per_peer (drop_entry e c) = max_live_per_peer c"
  by (auto simp: drop_entry_def Let_def split: option.splits)

text \<open>Removing a live nonce: the map loses that key and nothing else.\<close>

lemma drop_entry_live:
  assumes d: "distinct (map fst (nc_peers c))"
    and ns: "\<forall>p ns. (p, ns) \<in> set (nc_peers c) \<longrightarrow> ns \<noteq> [] \<and> distinct (map fst ns)"
    and live: "live_map c (entry_peer e, entry_nonce e) = Some (expires_at e)"
  shows "live_map (drop_entry e c) = (live_map c)((entry_peer e, entry_nonce e) := None)"
    and "live_total (drop_entry e c) = live_total c - 1"
    and "distinct (map fst (nc_peers (drop_entry e c)))"
    and "\<forall>p ns. (p, ns) \<in> set (nc_peers (drop_entry e c)) \<longrightarrow> ns \<noteq> [] \<and> distinct (map fst ns)"
proof -
  from live obtain l where l: "map_of (nc_peers c) (entry_peer e) = Some l"
      "map_of l (entry_nonce e) = Some (expires_at e)"
    by (auto simp: live_map_def nonces_of_def split: option.splits)
  let ?l = "AList.delete (entry_nonce e) l"
  have dl: "distinct (map fst l)" using ns l(1) by (auto dest: map_of_SomeD)
  have eq: "drop_entry e c = c \<lparr>live_total := live_total c - 1,
      nc_peers := (if ?l = [] then AList.delete (entry_peer e) (AList.update (entry_peer e) ?l (nc_peers c))
        else AList.update (entry_peer e) ?l (nc_peers c))\<rparr>"
    using l by (simp add: drop_entry_def nonces_of_def Let_def)
  have empty: "map_of l n = None" if "?l = []" "n \<noteq> entry_nonce e" for n
    using delete_conv' [of "entry_nonce e" l] that by (metis fun_upd_other map_of.simps(1))
  show "live_map (drop_entry e c) = (live_map c)((entry_peer e, entry_nonce e) := None)"
    using l empty by (auto simp: eq live_map_def nonces_of_def update_conv' delete_conv' fun_eq_iff
        split: option.splits)
  show "live_total (drop_entry e c) = live_total c - 1" by (simp add: eq)
  show "distinct (map fst (nc_peers (drop_entry e c)))"
    using d by (simp add: eq distinct_update distinct_delete)
  show "\<forall>p ns. (p, ns) \<in> set (nc_peers (drop_entry e c)) \<longrightarrow> ns \<noteq> [] \<and> distinct (map fst ns)"
  proof (intro allI impI)
    fix p ns'
    assume "(p, ns') \<in> set (nc_peers (drop_entry e c))"
    then have "ns' = ?l \<and> ?l \<noteq> [] \<or> (p, ns') \<in> set (nc_peers c)"
      by (cases "?l = []") (fastforce simp: eq dest: set_alist_delete set_alist_update)+
    then show "ns' \<noteq> [] \<and> distinct (map fst ns')"
      using ns dl by (auto simp: distinct_delete)
  qed
qed

lemma nonce_inv_head:
  assumes inv: "nonce_inv c" and e: "expirations c = e # rest"
  shows "nonce_inv (drop_entry e (c \<lparr>expirations := rest\<rparr>))"
    and "live_map (drop_entry e (c \<lparr>expirations := rest\<rparr>)) =
         (live_map c)((entry_peer e, entry_nonce e) := None)"
    and "live_map c (entry_peer e, entry_nonce e) = Some (expires_at e)"
proof -
  let ?c = "c \<lparr>expirations := rest\<rparr>"
  have lm: "live_map ?c = live_map c" by (simp add: live_map_def nonces_of_def)
  have entries: "ExpiryEntry t p n \<in> set (e # rest) \<longleftrightarrow> live_map c (p, n) = Some t" for t p n
    using inv e by (auto simp: nonce_inv_def)
  show live: "live_map c (entry_peer e, entry_nonce e) = Some (expires_at e)"
    using entries [of "expires_at e" "entry_peer e" "entry_nonce e"] by simp
  note drop = drop_entry_live [of ?c e, unfolded lm, OF _ _ live]
  have wf: "distinct (map fst (nc_peers ?c))"
      "\<forall>p ns. (p, ns) \<in> set (nc_peers ?c) \<longrightarrow> ns \<noteq> [] \<and> distinct (map fst ns)"
    using inv by (auto simp: nonce_inv_def)
  show "live_map (drop_entry e ?c) = (live_map c)((entry_peer e, entry_nonce e) := None)"
    by (rule drop(1) [OF wf])
  have "e \<notin> set rest" using inv e by (auto simp: nonce_inv_def)
  then have "ExpiryEntry t p n \<in> set rest \<longleftrightarrow>
      ((live_map c)((entry_peer e, entry_nonce e) := None)) (p, n) = Some t" for t p n
    using entries [of t p n] live by (cases e) auto
  moreover have "sorted rest" "distinct rest" "live_total c = Suc (length rest)"
    using inv e by (auto simp: nonce_inv_def)
  ultimately show "nonce_inv (drop_entry e ?c)"
    using drop [OF wf] by (simp add: nonce_inv_def)
qed

lemma prune_ok:
  assumes "nonce_inv c"
  shows "nonce_inv (snd (prune_expired_at now c))
    \<and> live_map (snd (prune_expired_at now c)) = unexpired now (live_map c)
    \<and> max_live_global (snd (prune_expired_at now c)) = max_live_global c
    \<and> max_live_per_peer (snd (prune_expired_at now c)) = max_live_per_peer c"
  using assms
proof (induction now c rule: prune_expired_at.induct)
  case (1 now c)
  show ?case
  proof (cases "expirations c")
    case Nil
    then have "live_map c (p, n) = None" for p n
      using 1(2) by (cases "live_map c (p, n)") (auto simp: nonce_inv_def)
    then have "live_map c = unexpired now (live_map c)"
      by (auto simp: unexpired_def fun_eq_iff)
    then show ?thesis
      using Nil 1(2) by (simp add: prune_expired_at.simps)
  next
    case (Cons e rest)
    note head = nonce_inv_head [OF 1(2) Cons]
    show ?thesis
    proof (cases "expires_at e > now")
      case True
      have "now < t" if "live_map c (p, n) = Some t" for p n t
      proof -
        have "ExpiryEntry t p n \<in> set (e # rest)" "sorted (e # rest)"
          using that 1(2) Cons by (auto simp: nonce_inv_def)
        then have "e \<le> ExpiryEntry t p n" by auto
        with True show ?thesis by (auto simp: less_eq_expiry_entry_def)
      qed
      then have "live_map c = unexpired now (live_map c)"
        by (auto simp: unexpired_def fun_eq_iff split: option.splits)
      with True Cons 1(2) show ?thesis by (simp add: prune_expired_at.simps)
    next
      case False
      have "unexpired now (live_map (drop_entry e (c \<lparr>expirations := rest\<rparr>))) =
          unexpired now (live_map c)"
        unfolding head(2) using False head(3) by (auto simp: unexpired_def fun_eq_iff)
      with 1(1) [OF Cons False head(1)] False Cons show ?thesis
        by (simp add: prune_expired_at.simps [of now c] Let_def)
    qed
  qed
qed

lemma nonce_inv_counts:
  assumes "nonce_inv c"
  shows "length (nonces_of c p) = card {n. live_map c (p, n) \<noteq> None}"
    and "live_total c = card (dom (live_map c))"
    and "finite (dom (live_map c))"
proof -
  have "{n. live_map c (p, n) \<noteq> None} = fst ` set (nonces_of c p)"
    by (auto simp: live_map_def map_of_eq_None_iff)
  then show "length (nonces_of c p) = card {n. live_map c (p, n) \<noteq> None}"
    using nonces_of_distinct [OF assms] by (metis distinct_card length_map list.set_map)
  let ?key = "\<lambda>e. (entry_peer e, entry_nonce e)"
  have entries: "e \<in> set (expirations c) \<longleftrightarrow> live_map c (?key e) = Some (expires_at e)" for e
    using assms by (cases e) (auto simp: nonce_inv_def)
  have dom: "dom (live_map c) = ?key ` set (expirations c)"
  proof (intro equalityI subsetI)
    fix k assume "k \<in> dom (live_map c)"
    then obtain p n t where "k = (p, n)" "live_map c (p, n) = Some t" by (cases k) auto
    then show "k \<in> ?key ` set (expirations c)"
      using entries [of "ExpiryEntry t p n"] by (intro image_eqI [of _ _ "ExpiryEntry t p n"]) auto
  qed (auto simp: entries)
  then show "finite (dom (live_map c))" by simp
  have "inj_on ?key (set (expirations c))"
    by (auto simp: inj_on_def entries expiry_entry.expand)
  then show "live_total c = card (dom (live_map c))"
    using assms by (simp add: dom card_image nonce_inv_def distinct_card)
qed

lemma register_accept_ok:
  assumes inv: "nonce_inv c" and fresh: "map_of (nonces_of c p) n = None"
    and c': "c' = c \<lparr>nc_peers := AList.update p (AList.update n t (nonces_of c p)) (nc_peers c),
              live_total := live_total c + 1,
              expirations := insort (ExpiryEntry t p n) (expirations c)\<rparr>"
  shows "nonce_inv c'" and "live_map c' = (live_map c)((p, n) \<mapsto> t)"
    and "length (nonces_of c' q) = length (nonces_of c q) + (if q = p then 1 else 0)"
proof -
  have nonces: "nonces_of c' q = (if q = p then AList.update n t (nonces_of c p) else nonces_of c q)" for q
    by (simp add: c' nonces_of_def update_conv')
  show lm: "live_map c' = (live_map c)((p, n) \<mapsto> t)"
    by (auto simp: live_map_def nonces fun_eq_iff update_conv')
  have "n \<notin> fst ` set (nonces_of c p)" using fresh by (simp add: map_of_eq_None_iff)
  then show "length (nonces_of c' q) = length (nonces_of c q) + (if q = p then 1 else 0)"
    by (simp add: nonces length_alist_update)
  have "ExpiryEntry t' p n \<notin> set (expirations c)" for t'
    using inv fresh by (auto simp: nonce_inv_def live_map_def)
  moreover have "distinct (map fst (AList.update n t (nonces_of c p)))"
    by (rule distinct_update) (rule nonces_of_distinct [OF inv])
  moreover from this have "ns \<noteq> [] \<and> distinct (map fst ns)" if "(q, ns) \<in> set (nc_peers c')" for q ns
    using inv that set_alist_update [of "(q, ns)"] by (fastforce simp: nonce_inv_def c')
  ultimately show "nonce_inv c'"
    using inv lm unfolding nonce_inv_def
    by (auto simp: c' sorted_insort distinct_insort set_insort_key distinct_update)
qed


lemma register_frame [simp]:
  assumes "nonce_inv c"
  shows "max_live_global (snd (register_at now p n ttl c)) = max_live_global c"
    and "max_live_per_peer (snd (register_at now p n ttl c)) = max_live_per_peer c"
  using prune_ok [OF assms] by (auto simp: register_at_def Let_def)

lemma register_refines:
  assumes "nonce_inv c"
  shows "nonce_inv (snd (register_at now p n ttl c))"
    and "(fst (register_at now p n ttl c), live_map (snd (register_at now p n ttl c))) =
         spec_register (max_live_global c) (max_live_per_peer c) now p n ttl (live_map c)"
proof -
  let ?c = "snd (prune_expired_at now c)"
  have pr: "nonce_inv ?c" "live_map ?c = unexpired now (live_map c)"
      "max_live_global ?c = max_live_global c" "max_live_per_peer ?c = max_live_per_peer c"
    using prune_ok [OF assms, of now] by auto
  have key: "map_of (nonces_of ?c p) n = unexpired now (live_map c) (p, n)"
    unfolding pr(2) [symmetric] by (simp add: live_map_def)
  have cnt: "length (nonces_of ?c p) = card {m. unexpired now (live_map c) (p, m) \<noteq> None}"
      "live_total ?c = card (dom (unexpired now (live_map c)))"
    using nonce_inv_counts [OF pr(1)] by (simp_all add: pr(2))
  note acc = register_accept_ok [OF pr(1) _ refl, of p n "nonce_expiry now ttl"]
  show "nonce_inv (snd (register_at now p n ttl c))"
    using pr(1) acc(1) by (simp add: register_at_def Let_def)
  show "(fst (register_at now p n ttl c), live_map (snd (register_at now p n ttl c))) =
         spec_register (max_live_global c) (max_live_per_peer c) now p n ttl (live_map c)"
    using acc(2) by (auto simp add: register_at_def spec_register_def spec_decision_def Let_def key
        cnt pr(2-4))
qed

lemma card_peer_mono:
  "finite (dom L) \<Longrightarrow> card {m. unexpired now L (p, m) \<noteq> None} \<le> card {m. L (p, m) \<noteq> None}"
  "finite (dom L) \<Longrightarrow> card (dom (unexpired now L)) \<le> card (dom L)"
proof -
  assume fin: "finite (dom L)"
  have "{m. L (p, m) \<noteq> None} \<subseteq> snd ` dom L" by force
  then have "finite {m. L (p, m) \<noteq> None}" using fin by (meson finite_imageI finite_subset)
  then show "card {m. unexpired now L (p, m) \<noteq> None} \<le> card {m. L (p, m) \<noteq> None}"
    by (rule card_mono) (auto simp: unexpired_def split: option.splits)
  show "card (dom (unexpired now L)) \<le> card (dom L)"
    using fin by (rule card_mono) (auto simp: unexpired_def split: option.splits)
qed

lemma register_within_limits:
  assumes inv: "nonce_inv c" and lim: "within_limits c"
  shows "within_limits (snd (register_at now p n ttl c))"
proof -
  let ?c = "snd (prune_expired_at now c)"
  have pr: "nonce_inv ?c" "live_map ?c = unexpired now (live_map c)"
      "max_live_global ?c = max_live_global c" "max_live_per_peer ?c = max_live_per_peer c"
    using prune_ok [OF inv, of now] by auto
  have "live_total ?c \<le> live_total c" "length (nonces_of ?c q) \<le> length (nonces_of c q)" for q
    using card_peer_mono(1) [OF nonce_inv_counts(3) [OF inv], of now q]
      card_peer_mono(2) [OF nonce_inv_counts(3) [OF inv], of now]
    by (simp_all add: nonce_inv_counts(1,2) [OF pr(1)] nonce_inv_counts(1,2) [OF inv] pr(2))
  then have le: "live_total ?c \<le> max_live_global c" "length (nonces_of ?c q) \<le> max_live_per_peer c" for q
    using lim by (auto simp: within_limits_def intro: order_trans)
  show ?thesis
    using le register_accept_ok(3) [OF pr(1) _ refl, of p n "nonce_expiry now ttl"]
    by (auto simp: register_at_def Let_def within_limits_def pr(3,4) not_le Suc_le_eq)
qed

section \<open>The interface the request path relies on\<close>

text \<open>What any replay guard must promise, and what follows for a sequence of registrations: an
  accepted pair is answered with \<open>replay\<close> until its expiry, whatever is registered in between.\<close>

locale replay_guard =
  fixes ok :: "'s \<Rightarrow> bool"
    and register :: "nat \<Rightarrow> 'p \<Rightarrow> 'n \<Rightarrow> nat \<Rightarrow> 's \<Rightarrow> 'd \<times> 's"
    and live :: "'s \<Rightarrow> 'p \<times> 'n \<Rightarrow> nat option"
    and expiry :: "nat \<Rightarrow> nat \<Rightarrow> nat"
    and accepted :: 'd
    and replay :: 'd
  assumes ok_register: "ok s \<Longrightarrow> ok (snd (register now p n ttl s))"
    and live_replayed:
      "ok s \<Longrightarrow> live s (p, n) = Some t \<Longrightarrow> now < t \<Longrightarrow> fst (register now p n ttl s) = replay"
    and live_kept:
      "ok s \<Longrightarrow> live s k = Some t \<Longrightarrow> now < t \<Longrightarrow> live (snd (register now p n ttl s)) k = Some t"
    and accepted_live:
      "ok s \<Longrightarrow> fst (register now p n ttl s) = accepted \<Longrightarrow>
         live (snd (register now p n ttl s)) (p, n) = Some (expiry now ttl)"
begin

text \<open>The state after a list of registrations \<open>(now, peer, nonce, ttl)\<close>.\<close>

definition after :: "(nat \<times> 'p \<times> 'n \<times> nat) list \<Rightarrow> 's \<Rightarrow> 's" where
  "after rs s = fold (\<lambda>(now, p, n, ttl) s. snd (register now p n ttl s)) rs s"

lemma after_ok: "ok s \<Longrightarrow> ok (after rs s)"
  by (induction rs arbitrary: s) (auto simp: after_def ok_register)

lemma after_live:
  assumes "ok s" "live s k = Some t" "\<forall>r\<in>set rs. fst r < t"
  shows "live (after rs s) k = Some t"
  using assms
proof (induction rs arbitrary: s)
  case (Cons r rs)
  obtain now p n ttl where r: "r = (now, p, n, ttl)" by (cases r) auto
  then show ?case
    using Cons.IH [of "snd (register now p n ttl s)"] Cons.prems
    by (simp add: after_def live_kept ok_register)
qed (simp add: after_def)

lemma accepted_then_replay:
  assumes "ok s" "fst (register now p n ttl s) = accepted"
    and "\<forall>r\<in>set rs. fst r < expiry now ttl" "later < expiry now ttl"
  shows "fst (register later p n ttl' (after rs (snd (register now p n ttl s)))) = replay"
  using assms by (intro live_replayed [of _ _ _ "expiry now ttl"] after_ok after_live)
    (simp_all add: ok_register accepted_live)

end

interpretation nonces: replay_guard nonce_inv register_at live_map nonce_expiry NonceAccepted NonceReplay
proof (unfold_locales, goal_cases)
  case (1 s now p n ttl)
  then show ?case by (rule register_refines(1))
next
  case (2 s p n t now ttl)
  then show ?case
    using register_refines(2) [of s now p n ttl]
    by (simp add: spec_register_def spec_decision_def unexpired_def Let_def split: if_splits)
next
  case (3 s k t now p n ttl)
  then show ?case
    using register_refines(2) [of s now p n ttl]
    by (auto simp: spec_register_def spec_decision_def unexpired_def Let_def split: if_splits)
next
  case (4 s now p n ttl)
  then show ?case
    using register_refines(2) [of s now p n ttl]
    by (simp add: spec_register_def Let_def)
qed

section \<open>Histories\<close>

lemma run_registrations_state: "snd (run_registrations rs c) = nonces.after (map reg_tuple rs) c"
  by (induction rs arbitrary: c) (simp_all add: nonces.after_def reg_tuple_def Let_def)

lemma run_registrations_append:
  "run_registrations (xs @ ys) c =
     (fst (run_registrations xs c) @ fst (run_registrations ys (snd (run_registrations xs c))),
      snd (run_registrations ys (snd (run_registrations xs c))))"
  by (induction xs arbitrary: c) (simp_all add: Let_def)

lemma length_run_registrations [simp]: "length (fst (run_registrations rs c)) = length rs"
  by (induction rs arbitrary: c) (simp_all add: Let_def)

lemma with_limits_inv: "nonce_inv (with_limits g k) \<and> within_limits (with_limits g k)"
  by (auto simp: nonce_inv_def with_limits_def live_map_def nonces_of_def within_limits_def)

lemma run_registrations_inv:
  "nonce_inv c \<and> within_limits c \<Longrightarrow>
     nonce_inv (snd (run_registrations rs c)) \<and> within_limits (snd (run_registrations rs c))
     \<and> max_live_global (snd (run_registrations rs c)) = max_live_global c
     \<and> max_live_per_peer (snd (run_registrations rs c)) = max_live_per_peer c"
  by (induction rs arbitrary: c)
    (simp_all add: Let_def register_refines(1) register_within_limits)

section \<open>Properties\<close>

text \<open>C29. The replay cache refines its specification: on a well-formed cache one registration, with
  its pruning loop, heap and per-peer maps, decides and updates exactly as the abstract map from
  (peer, nonce) to expiry does, and the cache stays well-formed.\<close>

theorem register_refinement:
  assumes "nonce_inv c"
  shows "nonce_inv (snd (register_at now p n ttl c))
    \<and> (fst (register_at now p n ttl c), live_map (snd (register_at now p n ttl c)))
      = spec_register (max_live_global c) (max_live_per_peer c) now p n ttl (live_map c)"
  using register_refines [OF assms] by blast

theorem register_refinement_witness:
  "nonce_inv (with_limits 2 1)
   \<and> fst (register_at 5 ''p'' ''n'' 10 (with_limits 2 1)) = NonceAccepted
   \<and> live_map (snd (register_at 5 ''p'' ''n'' 10 (with_limits 2 1))) (''p'', ''n'') = Some 15"
  using register_refinement [of "with_limits 2 1" 5 "''p''" "''n''" 10] with_limits_inv [of 2 1]
  by (simp add: spec_register_def spec_decision_def with_limits_def live_map_def nonces_of_def
      unexpired_def nonce_expiry_def instant_checked_add_def i64_max_def Let_def)

text \<open>C30. No nonce is accepted twice while it is live: in any history of registrations on a new
  cache, once a nonce of a peer is accepted, every later registration of it that comes before its
  expiry is answered with Replay, however many other nonces are registered in between and whatever
  the limits are.\<close>

theorem accepted_nonce_replays:
  assumes "fst (run_registrations (earlier @ r # between @ [again]) (with_limits g k))
             ! length earlier = NonceAccepted"
    and "reg_peer again = reg_peer r" "reg_nonce again = reg_nonce r"
    and "\<forall>q\<in>set (between @ [again]). reg_at q < nonce_expiry (reg_at r) (reg_ttl r)"
  shows "last (fst (run_registrations (earlier @ r # between @ [again]) (with_limits g k)))
           = NonceReplay"
proof -
  let ?s = "snd (run_registrations earlier (with_limits g k))"
  let ?reg = "\<lambda>q c. register_at (reg_at q) (reg_peer q) (reg_nonce q) (reg_ttl q) c"
  have ok: "nonce_inv ?s" using run_registrations_inv [OF with_limits_inv] by blast
  have acc: "fst (?reg r ?s) = NonceAccepted"
    using assms(1) by (simp add: run_registrations_append nth_append Let_def)
  have last: "last (fst (run_registrations (earlier @ r # between @ [again]) (with_limits g k))) =
      fst (?reg again (snd (run_registrations between (snd (?reg r ?s)))))"
    by (simp add: run_registrations_append Let_def)
  show ?thesis
    unfolding last run_registrations_state [of between] assms(2,3)
    using assms(4)
    by (intro nonces.accepted_then_replay [OF ok acc]) (auto simp: reg_tuple_def)
qed

theorem accepted_nonce_replays_witness:
  "last (fst (run_registrations ([] @ example_registration 1 ''a'' # [example_registration 2 ''b'']
     @ [example_registration 9 ''a'']) (with_limits 5 2))) = NonceReplay"
  by (rule accepted_nonce_replays)
    (code_simp | simp add: example_registration_def nonce_expiry_def instant_checked_add_def
      i64_max_def)+

text \<open>C31. The cache is bounded: after any history of registrations the heap holds exactly the live
  nonces, so its length is \<open>live_len\<close>, and neither the total nor any peer's share exceeds the
  configured limits.\<close>

theorem nonce_cache_bounded:
  "length (expirations (snd (run_registrations rs (with_limits g k))))
      = live_len (snd (run_registrations rs (with_limits g k)))
   \<and> live_len (snd (run_registrations rs (with_limits g k))) \<le> g
   \<and> length (nonces_of (snd (run_registrations rs (with_limits g k))) p) \<le> k"
proof -
  let ?c = "snd (run_registrations rs (with_limits g k))"
  have "nonce_inv ?c" "within_limits ?c" "max_live_global ?c = g" "max_live_per_peer ?c = k"
    using run_registrations_inv [OF with_limits_inv, of rs g k] by (auto simp: with_limits_def)
  then show ?thesis by (simp add: nonce_inv_def within_limits_def live_len_def)
qed

end
