(* ===== verification/Config_Validation.thy ===== *)
theory Config_Validation
  imports Prelude
begin

text \<open>
  The field validators of \<open>ocfleet-config/src/validation.rs\<close>, shared by agent and controller:
  identifier alphabets, role checks, endpoint canonicalisation and positivity.
\<close>

datatype validation_error =
    InvalidSafeString (vs_field: string) (vs_min: nat) (vs_max: nat) (vs_pattern: string)
  | InvalidServiceName
  | EmptyPath (ve_field: string)
  | InvalidEndpointId (vi_field: string)
  | InvalidControllerRole
  | NonPositiveNumber (vn_field: string)

primrec validation_error_text :: "validation_error \<Rightarrow> string" where
  "validation_error_text (InvalidSafeString field mn mx pattern) =
     field @ '' must be '' @ show_nat mn @ ''-'' @ show_nat mx @
     '' characters and contain only '' @ pattern"
| "validation_error_text InvalidServiceName = ''service_name contains unsupported characters''"
| "validation_error_text (EmptyPath field) = field @ '' must not be empty''"
| "validation_error_text (InvalidEndpointId field) =
     field @ '' must be non-empty and contain no ASCII whitespace''"
| "validation_error_text InvalidControllerRole = ''controller role must be viewer''"
| "validation_error_text (NonPositiveNumber field) = field @ '' must be greater than zero''"

definition safe_char :: "char \<Rightarrow> bool" where
  "safe_char b \<longleftrightarrow> is_ascii_alphanumeric b \<or> b \<in> {CHR ''.'', CHR ''_'', CHR ''-''}"

definition validate_safe :: "string \<Rightarrow> string \<Rightarrow> nat \<Rightarrow> nat \<Rightarrow> validation_error + unit" where
  "validate_safe value field mn mx =
     (let ok_len = (mn \<le> length value \<and> length value \<le> mx);
          ok_chars = list_all safe_char value
      in if ok_len \<and> ok_chars then Inr ()
         else Inl (InvalidSafeString field mn mx ''[a-zA-Z0-9._-]''))"

definition validate_node_id :: "string \<Rightarrow> validation_error + unit" where
  "validate_node_id value = validate_safe value ''node_id'' 1 64"

definition validate_region :: "string \<Rightarrow> validation_error + unit" where
  "validate_region value = validate_safe value ''region'' 1 32"

definition validate_role :: "string \<Rightarrow> validation_error + unit" where
  "validate_role value =
     (if value = ''ocserv'' then Inr () else Inl (InvalidSafeString ''role'' 6 6 ''ocserv''))"

definition validate_service_name :: "string \<Rightarrow> validation_error + unit" where
  "validate_service_name value =
     (if value = [] \<or> 128 < length value then Inl InvalidServiceName
      else if list_all (\<lambda>b. safe_char b \<or> b = CHR ''@'') value then Inr ()
      else Inl InvalidServiceName)"

definition validate_non_empty_path :: "string \<Rightarrow> string \<Rightarrow> validation_error + unit" where
  "validate_non_empty_path path field = (if path = [] then Inl (EmptyPath field) else Inr ())"

definition is_ascii_whitespace :: "char \<Rightarrow> bool" where
  "is_ascii_whitespace b \<longleftrightarrow> byte b \<in> {9, 10, 12, 13, 32}"

definition canonicalize_endpoint_id :: "ext \<Rightarrow> string \<Rightarrow> string \<Rightarrow> validation_error + string" where
  "canonicalize_endpoint_id X value field =
     (if value = [] \<or> list_ex is_ascii_whitespace value then Inl (InvalidEndpointId field)
      else ok_or (endpoint_id_from_str X value) (InvalidEndpointId field))"

definition canonicalize_controller_endpoint_id :: "ext \<Rightarrow> string \<Rightarrow> validation_error + string" where
  "canonicalize_controller_endpoint_id X value =
     canonicalize_endpoint_id X value ''controller endpoint_id''"

definition canonicalize_peer_endpoint_id :: "ext \<Rightarrow> string \<Rightarrow> validation_error + string" where
  "canonicalize_peer_endpoint_id X value = canonicalize_endpoint_id X value ''peer endpoint_id''"

definition canonicalize_path_probe_endpoint_id :: "ext \<Rightarrow> string \<Rightarrow> validation_error + string" where
  "canonicalize_path_probe_endpoint_id X value =
     canonicalize_endpoint_id X value ''path probe endpoint_id''"

definition canonicalize_node_endpoint_id :: "ext \<Rightarrow> string \<Rightarrow> validation_error + string" where
  "canonicalize_node_endpoint_id X value = canonicalize_endpoint_id X value ''node endpoint_id''"

definition validate_controller_endpoint_id :: "ext \<Rightarrow> string \<Rightarrow> validation_error + unit" where
  "validate_controller_endpoint_id X value =
     rbind (canonicalize_controller_endpoint_id X value) (\<lambda>_. Inr ())"

definition validate_peer_endpoint_id :: "ext \<Rightarrow> string \<Rightarrow> validation_error + unit" where
  "validate_peer_endpoint_id X value = rbind (canonicalize_peer_endpoint_id X value) (\<lambda>_. Inr ())"

definition validate_path_probe_endpoint_id :: "ext \<Rightarrow> string \<Rightarrow> validation_error + unit" where
  "validate_path_probe_endpoint_id X value =
     rbind (canonicalize_path_probe_endpoint_id X value) (\<lambda>_. Inr ())"

definition validate_controller_role :: "string \<Rightarrow> validation_error + unit" where
  "validate_controller_role value =
     (if value = ''viewer'' then Inr () else Inl InvalidControllerRole)"

definition validate_positive_i64 :: "int \<Rightarrow> string \<Rightarrow> validation_error + unit" where
  "validate_positive_i64 value field =
     (if value > 0 then Inr () else Inl (NonPositiveNumber field))"

definition validate_positive_u64 :: "nat \<Rightarrow> string \<Rightarrow> validation_error + unit" where
  "validate_positive_u64 value field =
     (if value > 0 then Inr () else Inl (NonPositiveNumber field))"

definition validate_positive_usize :: "nat \<Rightarrow> string \<Rightarrow> validation_error + unit" where
  "validate_positive_usize value field =
     (if value > 0 then Inr () else Inl (NonPositiveNumber field))"

text \<open>The canonical endpoint text, if the value is an endpoint identity at all.\<close>

definition canonical_endpoint :: "ext \<Rightarrow> string \<Rightarrow> string option" where
  "canonical_endpoint X value =
     (if value = [] \<or> list_ex is_ascii_whitespace value then None
      else endpoint_id_from_str X value)"

section \<open>Laws\<close>

lemma validate_safe_ok [simp]:
  "validate_safe v f mn mx = Inr u \<longleftrightarrow> mn \<le> length v \<and> length v \<le> mx \<and> list_all safe_char v"
  by (simp add: validate_safe_def Let_def)

lemma validate_role_ok [simp]: "validate_role v = Inr u \<longleftrightarrow> v = ''ocserv''"
  by (simp add: validate_role_def)

lemma validate_non_empty_path_ok [simp]: "validate_non_empty_path p f = Inr u \<longleftrightarrow> p \<noteq> []"
  by (simp add: validate_non_empty_path_def)

lemma validate_controller_role_ok [simp]: "validate_controller_role v = Inr u \<longleftrightarrow> v = ''viewer''"
  by (simp add: validate_controller_role_def)

lemma validate_positive_ok [simp]:
  "validate_positive_i64 i f = Inr u \<longleftrightarrow> 0 < i"
  "validate_positive_u64 n f = Inr u \<longleftrightarrow> 0 < n"
  "validate_positive_usize n f = Inr u \<longleftrightarrow> 0 < n"
  by (simp_all add: validate_positive_i64_def validate_positive_u64_def validate_positive_usize_def)

lemma canonicalize_endpoint_id_ok:
  "canonicalize_endpoint_id X v f = Inr c \<longleftrightarrow> canonical_endpoint X v = Some c"
  by (simp add: canonicalize_endpoint_id_def canonical_endpoint_def)

lemma canonicalize_ok [simp]:
  "canonicalize_controller_endpoint_id X v = Inr c \<longleftrightarrow> canonical_endpoint X v = Some c"
  "canonicalize_peer_endpoint_id X v = Inr c \<longleftrightarrow> canonical_endpoint X v = Some c"
  "canonicalize_path_probe_endpoint_id X v = Inr c \<longleftrightarrow> canonical_endpoint X v = Some c"
  "canonicalize_node_endpoint_id X v = Inr c \<longleftrightarrow> canonical_endpoint X v = Some c"
  by (simp_all add: canonicalize_controller_endpoint_id_def canonicalize_peer_endpoint_id_def
      canonicalize_path_probe_endpoint_id_def canonicalize_node_endpoint_id_def
      canonicalize_endpoint_id_ok)

lemma validate_endpoint_id_ok [simp]:
  "validate_controller_endpoint_id X v = Inr u \<longleftrightarrow> canonical_endpoint X v \<noteq> None"
  "validate_peer_endpoint_id X v = Inr u \<longleftrightarrow> canonical_endpoint X v \<noteq> None"
  "validate_path_probe_endpoint_id X v = Inr u \<longleftrightarrow> canonical_endpoint X v \<noteq> None"
  by (auto simp: validate_controller_endpoint_id_def validate_peer_endpoint_id_def
      validate_path_probe_endpoint_id_def rbind_Inr_iff)

end
