(* ===== verification/Agent_Config.thy ===== *)
theory Agent_Config
  imports Config_Validation
begin

text \<open>
  The agent's configuration (\<open>ocfleet-config/src/agent.rs\<close>): its sections as records and
  \<open>validate_agent_config\<close> with the checks in the order of the source. Reading the file (ownership,
  permissions) and TOML parsing are outside the model; paths are their bytes. The cargo feature
  \<open>controlled-writes\<close> is a parameter.
\<close>

section \<open>Sections\<close>

datatype config_error = ConfigInvalid string

record node_config =
  nc_id :: string
  nc_region :: string
  nc_role :: string

record iroh_config =
  ic_secret_key_path :: string
  ic_alpn :: string

record controller_config =
  cc_endpoint_id :: string
  cc_role :: string

record peer_config =
  pc_endpoint_id :: string
  pc_enabled :: bool

record path_probe_config =
  pp_controller_endpoint_id :: string
  pp_target_endpoint_id :: string
  pp_enabled :: bool

record security_config =
  allowed_clock_skew_seconds :: int
  default_deadline_ms :: nat
  max_deadline_ms :: nat
  max_rpc_timeout_ms :: nat
  max_handshake_duration_ms :: nat
  max_connection_idle_ms :: nat
  max_request_bytes :: nat
  max_response_bytes :: nat
  max_handshake_tasks_global :: nat
  max_connections_global :: nat
  max_connections_per_controller :: nat
  max_streams_global :: nat
  max_streams_per_controller :: nat
  max_live_nonces_global :: nat
  max_live_nonces_per_controller :: nat
  sec_controllers :: "controller_config list"
  sec_peers :: "peer_config list"
  sec_path_probes :: "path_probe_config list"

record audit_config =
  audit_path :: string
  audit_queue_capacity :: nat
  spool_path :: "string option"
  metrics_path :: "string option"
  spool_max_events :: nat
  rejected_peer_log_burst :: nat
  rejected_peer_log_refill_per_sec :: nat
  rejected_peer_log_max_buckets :: nat
  rejected_peer_log_bucket_ttl_seconds :: nat
  rejected_peer_log_aggregate_interval_seconds :: nat

datatype ocserv_provider_kind = ProviderDisabled | ProviderSnapshot | ProviderCollectorSnapshot
datatype config_fingerprint_mode = HmacSha256 | LegacySha256

record ocserv_certificate_config =
  oc_name :: string
  oc_cert_path :: string

record ocserv_fingerprint_config =
  fp_name :: string
  fp_config_path :: string
  fp_mode :: config_fingerprint_mode
  fp_key_id :: "string option"
  fp_key_path :: "string option"
  fp_previous_key_id :: "string option"
  fp_previous_key_path :: "string option"

record ocserv_readonly_config =
  or_enabled :: bool
  or_provider :: ocserv_provider_kind
  or_snapshot_path :: "string option"
  or_config_fingerprint :: "ocserv_fingerprint_config option"
  or_certificates :: "ocserv_certificate_config list"

record write_policy =
  wp_enabled :: bool
  wp_local_identity :: "string option"
  wp_emergency_only :: bool

record controlled_writes_config =
  cw_enabled :: bool
  cw_ocserv_reload :: write_policy
  cw_ocserv_restart :: write_policy
  cw_ocserv_config_apply :: write_policy
  cw_ocserv_config_rollback :: write_policy
  cw_ocserv_session_disconnect :: write_policy

record agent_config =
  ac_node :: node_config
  ac_iroh :: iroh_config
  ac_security :: security_config
  ac_audit :: audit_config
  ac_ocserv_readonly :: ocserv_readonly_config
  ac_controlled_writes :: controlled_writes_config
  ac_has_ocserv :: bool
  ac_has_logs :: bool

text \<open>\<open>Default\<close> of the optional sections and the serde defaults of \<open>[security]\<close> and \<open>[audit]\<close>.\<close>

definition ocserv_readonly_default :: ocserv_readonly_config where
  "ocserv_readonly_default = \<lparr>or_enabled = False, or_provider = ProviderDisabled,
     or_snapshot_path = None, or_config_fingerprint = None, or_certificates = []\<rparr>"

definition write_policy_default :: write_policy where
  "write_policy_default = \<lparr>wp_enabled = False, wp_local_identity = None, wp_emergency_only = False\<rparr>"

definition controlled_writes_default :: controlled_writes_config where
  "controlled_writes_default = \<lparr>cw_enabled = False, cw_ocserv_reload = write_policy_default,
     cw_ocserv_restart = write_policy_default, cw_ocserv_config_apply = write_policy_default,
     cw_ocserv_config_rollback = write_policy_default,
     cw_ocserv_session_disconnect = write_policy_default\<rparr>"

definition security_default :: security_config where
  "security_default = \<lparr>allowed_clock_skew_seconds = 60, default_deadline_ms = 5000,
     max_deadline_ms = 10000, max_rpc_timeout_ms = 5000, max_handshake_duration_ms = 5000,
     max_connection_idle_ms = 5000, max_request_bytes = 65536, max_response_bytes = 2097152,
     max_handshake_tasks_global = 256, max_connections_global = 256,
     max_connections_per_controller = 32, max_streams_global = 1024,
     max_streams_per_controller = 128, max_live_nonces_global = 100000,
     max_live_nonces_per_controller = 10000, sec_controllers = [], sec_peers = [],
     sec_path_probes = []\<rparr>"

definition audit_default :: "string \<Rightarrow> audit_config" where
  "audit_default path = \<lparr>audit_path = path, audit_queue_capacity = 1024, spool_path = None,
     metrics_path = None, spool_max_events = 10000, rejected_peer_log_burst = 10,
     rejected_peer_log_refill_per_sec = 1, rejected_peer_log_max_buckets = 4096,
     rejected_peer_log_bucket_ttl_seconds = 3600,
     rejected_peer_log_aggregate_interval_seconds = 60\<rparr>"

text \<open>\<open>OcservReadonlyConfig::deserialize\<close> after field extraction: an enabled section must name its
  provider.\<close>

definition ocserv_readonly_deserialize ::
    "bool \<Rightarrow> ocserv_provider_kind option \<Rightarrow> string option \<Rightarrow> ocserv_fingerprint_config option \<Rightarrow>
     ocserv_certificate_config list \<Rightarrow> string + ocserv_readonly_config" where
  "ocserv_readonly_deserialize enabled provider snapshot_path fingerprint certificates =
     (if enabled \<and> provider = None then Inl ''missing field `provider`''
      else Inr \<lparr>or_enabled = enabled,
        or_provider = (case provider of None \<Rightarrow> ProviderDisabled | Some p \<Rightarrow> p),
        or_snapshot_path = snapshot_path, or_config_fingerprint = fingerprint,
        or_certificates = certificates\<rparr>)"

section \<open>Validation\<close>

definition invalid_field :: "validation_error + 'a \<Rightarrow> config_error + 'a" where
  "invalid_field r = map_err (\<lambda>e. ConfigInvalid (validation_error_text e)) r"

definition validate_absolute_path :: "string \<Rightarrow> string \<Rightarrow> config_error + unit" where
  "validate_absolute_path path field =
     rbind (invalid_field (validate_non_empty_path path field))
       (\<lambda>_. ensure (starts_with ''/'' path) (ConfigInvalid (field @ '' must be an absolute path'')))"

definition validate_ocserv_logical_name :: "string \<Rightarrow> string \<Rightarrow> config_error + unit" where
  "validate_ocserv_logical_name value field =
     (if (value \<noteq> [] \<and> length value \<le> 64) \<and> list_all safe_char value then Inr ()
      else Inl (ConfigInvalid
        (field @ '' must be 1-64 characters and contain only [a-zA-Z0-9._-]'')))"

definition validate_safe_local_identity :: "string \<Rightarrow> string \<Rightarrow> config_error + unit" where
  "validate_safe_local_identity value field =
     (let trimmed = trim value in
      if trimmed = [] \<or> 128 < length trimmed \<or> trimmed \<noteq> value
      then Inl (ConfigInvalid
        (''controlled_writes.'' @ field @ ''.local_identity must be 1-128 bytes''))
      else if \<not> list_all (\<lambda>b. safe_char b \<or> b \<in> {CHR ''@'', CHR '':''}) trimmed
      then Inl (ConfigInvalid
        (''controlled_writes.'' @ field @ ''.local_identity contains unsupported characters''))
      else Inr ())"

definition validate_controlled_write_policy :: "string \<Rightarrow> write_policy \<Rightarrow> config_error + unit" where
  "validate_controlled_write_policy field policy =
     (case wp_local_identity policy of
        None \<Rightarrow> Inr ()
      | Some identity \<Rightarrow> validate_safe_local_identity identity field)"

definition validate_controlled_writes_config ::
    "bool \<Rightarrow> controlled_writes_config \<Rightarrow> config_error + unit" where
  "validate_controlled_writes_config feature config =
     (let has_operation_enabled = (wp_enabled (cw_ocserv_reload config)
            \<or> wp_enabled (cw_ocserv_restart config) \<or> wp_enabled (cw_ocserv_config_apply config)
            \<or> wp_enabled (cw_ocserv_config_rollback config)
            \<or> wp_enabled (cw_ocserv_session_disconnect config))
      in all_ok
       [validate_controlled_write_policy ''ocserv_reload'' (cw_ocserv_reload config),
        validate_controlled_write_policy ''ocserv_restart'' (cw_ocserv_restart config),
        validate_controlled_write_policy ''ocserv_config_apply'' (cw_ocserv_config_apply config),
        validate_controlled_write_policy ''ocserv_config_rollback''
          (cw_ocserv_config_rollback config),
        validate_controlled_write_policy ''ocserv_session_disconnect''
          (cw_ocserv_session_disconnect config),
        ensure (\<not> (has_operation_enabled \<and> \<not> cw_enabled config))
          (ConfigInvalid ''controlled_writes.enabled must be true before any operation policy can be enabled''),
        ensure (\<not> (\<not> feature \<and> (cw_enabled config \<or> has_operation_enabled)))
          (ConfigInvalid ''controlled writes are disabled at compile time''),
        ensure (\<not> (feature \<and> wp_enabled (cw_ocserv_restart config)
            \<and> \<not> wp_emergency_only (cw_ocserv_restart config)))
          (ConfigInvalid ''controlled_writes.ocserv_restart requires emergency_only=true''),
        ensure (\<not> (feature \<and> wp_enabled (cw_ocserv_session_disconnect config)))
          (ConfigInvalid ''controlled_writes.ocserv_session_disconnect is unavailable without a safe selector'')])"

definition validate_fingerprint_config :: "ocserv_fingerprint_config \<Rightarrow> config_error + unit" where
  "validate_fingerprint_config fp =
     all_ok
      [validate_ocserv_logical_name (fp_name fp) ''ocserv_readonly.config_fingerprint.name'',
       validate_absolute_path (fp_config_path fp) ''ocserv_readonly.config_fingerprint.config_path'',
       (case fp_mode fp of
          LegacySha256 \<Rightarrow>
            ensure (fp_key_id fp = None \<and> fp_key_path fp = None \<and> fp_previous_key_id fp = None
                \<and> fp_previous_key_path fp = None)
              (ConfigInvalid ''legacy config fingerprint mode cannot configure HMAC keys'')
        | HmacSha256 \<Rightarrow>
            rbind (ok_or (fp_key_id fp) (ConfigInvalid ''HMAC config fingerprint requires key_id''))
            (\<lambda>key_id. rbind (validate_ocserv_logical_name key_id
                ''ocserv_readonly.config_fingerprint.key_id'')
            (\<lambda>_. rbind (ok_or (fp_key_path fp)
                (ConfigInvalid ''HMAC config fingerprint requires key_path''))
            (\<lambda>key_path. rbind (validate_absolute_path key_path
                ''ocserv_readonly.config_fingerprint.key_path'')
            (\<lambda>_. rbind (ensure ((fp_previous_key_id fp = None) = (fp_previous_key_path fp = None))
                (ConfigInvalid ''previous HMAC key_id and key_path must be configured together''))
            (\<lambda>_. rbind (case fp_previous_key_id fp of
                  None \<Rightarrow> Inr ()
                | Some pid \<Rightarrow>
                    rbind (validate_ocserv_logical_name pid
                        ''ocserv_readonly.config_fingerprint.previous_key_id'')
                      (\<lambda>_. ensure (Some pid \<noteq> fp_key_id fp)
                        (ConfigInvalid ''current and previous HMAC key IDs must differ'')))
            (\<lambda>_. case fp_previous_key_path fp of
                  None \<Rightarrow> Inr ()
                | Some path \<Rightarrow> validate_absolute_path path
                    ''ocserv_readonly.config_fingerprint.previous_key_path'')))))))]"

definition validate_ocserv_readonly_config :: "ocserv_readonly_config \<Rightarrow> config_error + unit" where
  "validate_ocserv_readonly_config config =
     all_ok
      [ensure (\<not> (or_enabled config \<and> or_provider config = ProviderDisabled))
         (ConfigInvalid ''ocserv_readonly.provider must not be disabled when enabled=true''),
       (if or_enabled config
           \<and> or_provider config \<in> {ProviderSnapshot, ProviderCollectorSnapshot}
        then (case or_snapshot_path config of
            None \<Rightarrow> Inl (ConfigInvalid ''ocserv_readonly.snapshot_path is required for snapshot-based provider'')
          | Some p \<Rightarrow> validate_absolute_path p ''ocserv_readonly.snapshot_path'')
        else Inr ()),
       (case or_snapshot_path config of
            None \<Rightarrow> Inr ()
          | Some p \<Rightarrow> validate_absolute_path p ''ocserv_readonly.snapshot_path''),
       ensure (length (or_certificates config) \<le> 8)
         (ConfigInvalid ''ocserv_readonly.certificates must contain at most 8 entries''),
       each_ok (\<lambda>c. rbind (validate_ocserv_logical_name (oc_name c)
                        ''ocserv_readonly.certificates.name'')
           (\<lambda>_. validate_absolute_path (oc_cert_path c) ''ocserv_readonly.certificates.cert_path''))
         (or_certificates config),
       (case or_config_fingerprint config of
            None \<Rightarrow> Inr ()
          | Some fp \<Rightarrow> validate_fingerprint_config fp)]"

text \<open>The three loops over \<open>[security]\<close>: the canonical controller identities, the canonical
  identities of enabled peers, and the path-probe authorizations checked against both.\<close>

fun check_controllers :: "ext \<Rightarrow> controller_config list \<Rightarrow> string set \<Rightarrow> config_error + string set" where
  "check_controllers X [] ids = Inr ids"
| "check_controllers X (c # cs) ids =
     rbind (invalid_field (validate_controller_endpoint_id X (cc_endpoint_id c)))
     (\<lambda>_. rbind (invalid_field (validate_controller_role (cc_role c)))
     (\<lambda>_. rbind (invalid_field (canonicalize_controller_endpoint_id X (cc_endpoint_id c)))
     (\<lambda>e. check_controllers X cs (insert e ids))))"

fun check_peers :: "ext \<Rightarrow> string set \<Rightarrow> peer_config list \<Rightarrow> string set \<Rightarrow> string set \<Rightarrow>
    config_error + string set" where
  "check_peers X controllers [] seen enabled = Inr enabled"
| "check_peers X controllers (p # ps) seen enabled =
     rbind (invalid_field (validate_peer_endpoint_id X (pc_endpoint_id p)))
     (\<lambda>_. rbind (invalid_field (canonicalize_peer_endpoint_id X (pc_endpoint_id p)))
     (\<lambda>e. rbind (ensure (e \<notin> seen) (ConfigInvalid (''duplicate peer endpoint_id: '' @ e)))
     (\<lambda>_. rbind (ensure (e \<notin> controllers)
          (ConfigInvalid (''endpoint_id cannot be both controller and peer: '' @ e)))
     (\<lambda>_. check_peers X controllers ps (insert e seen)
            (if pc_enabled p then insert e enabled else enabled)))))"

fun check_path_probes :: "ext \<Rightarrow> string set \<Rightarrow> string set \<Rightarrow> path_probe_config list \<Rightarrow>
    (string \<times> string) set \<Rightarrow> config_error + unit" where
  "check_path_probes X controllers enabled_peers [] pairs = Inr ()"
| "check_path_probes X controllers enabled_peers (q # qs) pairs =
     rbind (invalid_field (validate_path_probe_endpoint_id X (pp_controller_endpoint_id q)))
     (\<lambda>_. rbind (invalid_field (validate_path_probe_endpoint_id X (pp_target_endpoint_id q)))
     (\<lambda>_. rbind (invalid_field (canonicalize_path_probe_endpoint_id X (pp_controller_endpoint_id q)))
     (\<lambda>c. rbind (invalid_field (canonicalize_path_probe_endpoint_id X (pp_target_endpoint_id q)))
     (\<lambda>t. rbind (ensure (c \<in> controllers) (ConfigInvalid
         (''path probe controller_endpoint_id must exist in security.controllers: '' @ c)))
     (\<lambda>_. rbind (ensure (t \<notin> controllers) (ConfigInvalid
         (''path probe target_endpoint_id must not exist in security.controllers: '' @ t)))
     (\<lambda>_. rbind (ensure (t \<in> enabled_peers) (ConfigInvalid
         (''path probe target_endpoint_id must exist as an enabled peer in security.peers: '' @ t)))
     (\<lambda>_. rbind (ensure ((c, t) \<notin> pairs) (ConfigInvalid
         (''duplicate path probe authorization entry: controller_endpoint_id='' @ c @
          '' target_endpoint_id='' @ t)))
     (\<lambda>_. check_path_probes X controllers enabled_peers qs (insert (c, t) pairs)))))))))"

definition validate_security_limits :: "security_config \<Rightarrow> config_error + unit" where
  "validate_security_limits s = all_ok
     [invalid_field (validate_positive_i64 (allowed_clock_skew_seconds s) ''allowed_clock_skew_seconds''),
      invalid_field (validate_positive_u64 (default_deadline_ms s) ''default_deadline_ms''),
      invalid_field (validate_positive_u64 (max_rpc_timeout_ms s) ''max_rpc_timeout_ms''),
      invalid_field (validate_positive_u64 (max_handshake_duration_ms s) ''max_handshake_duration_ms''),
      invalid_field (validate_positive_u64 (max_connection_idle_ms s) ''max_connection_idle_ms''),
      ensure (\<not> max_deadline_ms s < default_deadline_ms s)
        (ConfigInvalid ''max_deadline_ms must be >= default_deadline_ms''),
      invalid_field (validate_positive_usize (max_request_bytes s) ''max_request_bytes''),
      invalid_field (validate_positive_usize (max_response_bytes s) ''max_response_bytes''),
      ensure (\<not> max_response_bytes s < 512) (ConfigInvalid ''max_response_bytes must be >= 512''),
      invalid_field (validate_positive_usize (max_handshake_tasks_global s) ''max_handshake_tasks_global''),
      invalid_field (validate_positive_usize (max_connections_global s) ''max_connections_global''),
      invalid_field (validate_positive_usize (max_connections_per_controller s)
        ''max_connections_per_controller''),
      ensure (\<not> max_connections_global s < max_connections_per_controller s)
        (ConfigInvalid ''max_connections_per_controller must be <= max_connections_global''),
      invalid_field (validate_positive_usize (max_streams_global s) ''max_streams_global''),
      invalid_field (validate_positive_usize (max_streams_per_controller s) ''max_streams_per_controller''),
      ensure (\<not> max_streams_global s < max_streams_per_controller s)
        (ConfigInvalid ''max_streams_per_controller must be <= max_streams_global''),
      invalid_field (validate_positive_usize (max_live_nonces_global s) ''max_live_nonces_global''),
      invalid_field (validate_positive_usize (max_live_nonces_per_controller s)
        ''max_live_nonces_per_controller''),
      ensure (\<not> max_live_nonces_global s < max_live_nonces_per_controller s)
        (ConfigInvalid ''max_live_nonces_per_controller must be <= max_live_nonces_global'')]"

definition validate_audit_limits :: "audit_config \<Rightarrow> config_error + unit" where
  "validate_audit_limits a = all_ok
     [invalid_field (validate_positive_usize (audit_queue_capacity a) ''audit_queue_capacity''),
      (case spool_path a of None \<Rightarrow> Inr ()
        | Some p \<Rightarrow> invalid_field (validate_non_empty_path p ''audit.spool_path'')),
      (case metrics_path a of None \<Rightarrow> Inr ()
        | Some p \<Rightarrow> invalid_field (validate_non_empty_path p ''audit.metrics_path'')),
      invalid_field (validate_positive_usize (spool_max_events a) ''audit.spool_max_events''),
      invalid_field (validate_positive_usize (rejected_peer_log_burst a) ''rejected_peer_log_burst''),
      invalid_field (validate_positive_usize (rejected_peer_log_refill_per_sec a)
        ''rejected_peer_log_refill_per_sec''),
      invalid_field (validate_positive_usize (rejected_peer_log_max_buckets a)
        ''rejected_peer_log_max_buckets''),
      invalid_field (validate_positive_u64 (rejected_peer_log_bucket_ttl_seconds a)
        ''rejected_peer_log_bucket_ttl_seconds''),
      invalid_field (validate_positive_u64 (rejected_peer_log_aggregate_interval_seconds a)
        ''rejected_peer_log_aggregate_interval_seconds''),
      ensure (\<not> rejected_peer_log_bucket_ttl_seconds a
               < rejected_peer_log_aggregate_interval_seconds a)
        (ConfigInvalid ''rejected_peer_log_bucket_ttl_seconds must be >= rejected_peer_log_aggregate_interval_seconds'')]"

definition validate_agent_config :: "ext \<Rightarrow> bool \<Rightarrow> agent_config \<Rightarrow> config_error + unit" where
  "validate_agent_config X feature config =
     (let sec = ac_security config in
      rbind (all_ok
        [invalid_field (validate_node_id (nc_id (ac_node config))),
         invalid_field (validate_region (nc_region (ac_node config))),
         invalid_field (validate_role (nc_role (ac_node config))),
         invalid_field (validate_non_empty_path (ic_secret_key_path (ac_iroh config))
           ''iroh.secret_key_path''),
         invalid_field (validate_non_empty_path (audit_path (ac_audit config)) ''audit.path''),
         ensure (\<not> ac_has_ocserv config)
           (ConfigInvalid ''[ocserv] is not part of the Phase 1 read-only MVP''),
         ensure (\<not> ac_has_logs config)
           (ConfigInvalid ''[logs] is not part of the Phase 1 read-only MVP''),
         validate_ocserv_readonly_config (ac_ocserv_readonly config),
         validate_controlled_writes_config feature (ac_controlled_writes config)])
      (\<lambda>_. rbind (check_controllers X (sec_controllers sec) {})
      (\<lambda>controllers. rbind (check_peers X controllers (sec_peers sec) {} {})
      (\<lambda>enabled_peers. rbind (check_path_probes X controllers enabled_peers (sec_path_probes sec) {})
      (\<lambda>_. rbind (validate_security_limits sec)
      (\<lambda>_. validate_audit_limits (ac_audit config)))))))"

text \<open>The declarative reading of the identity checks: which canonical identities are controllers,
  which are enabled peers, and when the three lists are consistent.\<close>

definition canonical_ids :: "ext \<Rightarrow> ('a \<Rightarrow> string) \<Rightarrow> 'a list \<Rightarrow> string set" where
  "canonical_ids X f xs = {c. \<exists>x\<in>set xs. canonical_endpoint X (f x) = Some c}"

definition controller_ids :: "ext \<Rightarrow> security_config \<Rightarrow> string set" where
  "controller_ids X s = canonical_ids X cc_endpoint_id (sec_controllers s)"

definition enabled_peer_ids :: "ext \<Rightarrow> security_config \<Rightarrow> string set" where
  "enabled_peer_ids X s = canonical_ids X pc_endpoint_id (filter pc_enabled (sec_peers s))"

definition path_probe_pair :: "ext \<Rightarrow> path_probe_config \<Rightarrow> (string \<times> string) option" where
  "path_probe_pair X q =
     (case (canonical_endpoint X (pp_controller_endpoint_id q),
            canonical_endpoint X (pp_target_endpoint_id q)) of
        (Some c, Some t) \<Rightarrow> Some (c, t) | _ \<Rightarrow> None)"

definition identities_consistent :: "ext \<Rightarrow> security_config \<Rightarrow> bool" where
  "identities_consistent X s \<longleftrightarrow>
     (\<forall>c\<in>set (sec_controllers s). canonical_endpoint X (cc_endpoint_id c) \<noteq> None \<and> cc_role c = ''viewer'')
   \<and> (\<forall>p\<in>set (sec_peers s). canonical_endpoint X (pc_endpoint_id p) \<noteq> None)
   \<and> distinct (map (\<lambda>p. canonical_endpoint X (pc_endpoint_id p)) (sec_peers s))
   \<and> canonical_ids X pc_endpoint_id (sec_peers s) \<inter> controller_ids X s = {}
   \<and> (\<forall>q\<in>set (sec_path_probes s). \<exists>c t. path_probe_pair X q = Some (c, t)
        \<and> c \<in> controller_ids X s \<and> t \<in> enabled_peer_ids X s)
   \<and> distinct (map (path_probe_pair X) (sec_path_probes s))"

text \<open>An accepted configuration with one controller, one peer and a path probe.\<close>

definition example_agent_config :: agent_config where
  "example_agent_config = \<lparr>
     ac_node = \<lparr>nc_id = ''n1'', nc_region = ''eu'', nc_role = ''ocserv''\<rparr>,
     ac_iroh = \<lparr>ic_secret_key_path = ''/k'', ic_alpn = ''a''\<rparr>,
     ac_security = security_default \<lparr>
       sec_controllers := [\<lparr>cc_endpoint_id = ''c1'', cc_role = ''viewer''\<rparr>],
       sec_peers := [\<lparr>pc_endpoint_id = ''p1'', pc_enabled = True\<rparr>],
       sec_path_probes := [\<lparr>pp_controller_endpoint_id = ''c1'', pp_target_endpoint_id = ''p1'',
         pp_enabled = True\<rparr>]\<rparr>,
     ac_audit = audit_default ''/a'',
     ac_ocserv_readonly = ocserv_readonly_default,
     ac_controlled_writes = controlled_writes_default,
     ac_has_ocserv = False, ac_has_logs = False\<rparr>"

section \<open>Laws\<close>

lemma invalid_field_ok [simp]: "invalid_field r = Inr a \<longleftrightarrow> r = Inr a"
  by (simp add: invalid_field_def)

lemma validate_absolute_path_ok [simp]:
  "validate_absolute_path p f = Inr u \<longleftrightarrow> starts_with ''/'' p"
  by (auto simp: validate_absolute_path_def rbind_Inr_iff starts_with_def)

lemma canonical_ids_simps [simp]:
  "canonical_ids X f [] = {}"
  "canonical_ids X f (x # xs) =
     (case canonical_endpoint X (f x) of None \<Rightarrow> canonical_ids X f xs
      | Some c \<Rightarrow> insert c (canonical_ids X f xs))"
  by (auto simp: canonical_ids_def split: option.splits)

lemma in_canonical_ids: "c \<in> canonical_ids X f xs \<longleftrightarrow> Some c \<in> (\<lambda>x. canonical_endpoint X (f x)) ` set xs"
  by (force simp: canonical_ids_def)

lemma check_controllers_ok:
  "check_controllers X cs ids = Inr ids' \<longleftrightarrow>
     (\<forall>c\<in>set cs. canonical_endpoint X (cc_endpoint_id c) \<noteq> None \<and> cc_role c = ''viewer'')
     \<and> ids' = ids \<union> canonical_ids X cc_endpoint_id cs"
  by (induction cs arbitrary: ids) (auto simp: rbind_Inr_iff)

lemma check_peers_ok:
  "check_peers X cs ps seen en = Inr en' \<longleftrightarrow>
     (\<forall>p\<in>set ps. canonical_endpoint X (pc_endpoint_id p) \<noteq> None)
     \<and> distinct (map (\<lambda>p. canonical_endpoint X (pc_endpoint_id p)) ps)
     \<and> canonical_ids X pc_endpoint_id ps \<inter> (seen \<union> cs) = {}
     \<and> en' = en \<union> canonical_ids X pc_endpoint_id (filter pc_enabled ps)"
proof (induction ps arbitrary: seen en)
  case (Cons p ps)
  have "check_peers X cs (p # ps) seen en = Inr en' \<longleftrightarrow>
      (\<exists>e. canonical_endpoint X (pc_endpoint_id p) = Some e \<and> e \<notin> seen \<and> e \<notin> cs
        \<and> check_peers X cs ps (insert e seen) (if pc_enabled p then insert e en else en) = Inr en')"
    by (auto simp: rbind_Inr_iff)
  then show ?case
    unfolding Cons.IH
    by (cases "canonical_endpoint X (pc_endpoint_id p)") (auto simp flip: in_canonical_ids)
qed auto

lemma path_probe_pair_Some:
  "path_probe_pair X q = Some (c, t) \<longleftrightarrow>
     canonical_endpoint X (pp_controller_endpoint_id q) = Some c
     \<and> canonical_endpoint X (pp_target_endpoint_id q) = Some t"
  by (auto simp: path_probe_pair_def split: option.splits)

lemma check_path_probes_ok:
  "check_path_probes X cs en qs pairs = Inr () \<longleftrightarrow>
     (\<forall>q\<in>set qs. \<exists>c t. path_probe_pair X q = Some (c, t) \<and> c \<in> cs \<and> t \<notin> cs \<and> t \<in> en
        \<and> (c, t) \<notin> pairs)
     \<and> distinct (map (path_probe_pair X) qs)"
proof (induction qs arbitrary: pairs)
  case (Cons q qs)
  have "check_path_probes X cs en (q # qs) pairs = Inr () \<longleftrightarrow>
      (\<exists>c t. path_probe_pair X q = Some (c, t) \<and> c \<in> cs \<and> t \<notin> cs \<and> t \<in> en \<and> (c, t) \<notin> pairs
        \<and> check_path_probes X cs en qs (insert (c, t) pairs) = Inr ())"
    by (auto simp: rbind_Inr_iff path_probe_pair_Some)
  then show ?case
    unfolding Cons.IH by (fastforce simp: image_iff)
qed simp

lemma validate_agent_config_ok:
  "validate_agent_config X feature cfg = Inr () \<longleftrightarrow>
     validate_node_id (nc_id (ac_node cfg)) = Inr () \<and> validate_region (nc_region (ac_node cfg)) = Inr ()
     \<and> nc_role (ac_node cfg) = ''ocserv'' \<and> ic_secret_key_path (ac_iroh cfg) \<noteq> []
     \<and> audit_path (ac_audit cfg) \<noteq> [] \<and> \<not> ac_has_ocserv cfg \<and> \<not> ac_has_logs cfg
     \<and> validate_ocserv_readonly_config (ac_ocserv_readonly cfg) = Inr ()
     \<and> validate_controlled_writes_config feature (ac_controlled_writes cfg) = Inr ()
     \<and> identities_consistent X (ac_security cfg)
     \<and> validate_security_limits (ac_security cfg) = Inr ()
     \<and> validate_audit_limits (ac_audit cfg) = Inr ()"
proof -
  have disjoint: "t \<notin> controller_ids X s"
    if "canonical_ids X pc_endpoint_id (sec_peers s) \<inter> controller_ids X s = {}"
      "t \<in> enabled_peer_ids X s" for s t
    using that by (auto simp: enabled_peer_ids_def canonical_ids_def)
  have "check_path_probes X (controller_ids X s) (enabled_peer_ids X s) (sec_path_probes s) {} = Inr ()
      \<longleftrightarrow> (\<forall>q\<in>set (sec_path_probes s). \<exists>c t. path_probe_pair X q = Some (c, t)
            \<and> c \<in> controller_ids X s \<and> t \<in> enabled_peer_ids X s)
          \<and> distinct (map (path_probe_pair X) (sec_path_probes s))"
    if "canonical_ids X pc_endpoint_id (sec_peers s) \<inter> controller_ids X s = {}" for s
    using disjoint [OF that] unfolding check_path_probes_ok by auto
  then show ?thesis
    by (auto simp add: validate_agent_config_def Let_def rbind_Inr_iff all_ok_iff
        check_controllers_ok check_peers_ok identities_consistent_def
        simp flip: controller_ids_def enabled_peer_ids_def)
qed

lemma validate_security_limits_ok:
  "validate_security_limits s = Inr () \<Longrightarrow>
     0 < allowed_clock_skew_seconds s \<and> 0 < default_deadline_ms s
     \<and> default_deadline_ms s \<le> max_deadline_ms s \<and> 0 < max_rpc_timeout_ms s
     \<and> 0 < max_request_bytes s \<and> 512 \<le> max_response_bytes s
     \<and> 0 < max_connections_per_controller s
     \<and> max_connections_per_controller s \<le> max_connections_global s
     \<and> 0 < max_streams_per_controller s \<and> max_streams_per_controller s \<le> max_streams_global s
     \<and> 0 < max_live_nonces_per_controller s
     \<and> max_live_nonces_per_controller s \<le> max_live_nonces_global s"
  by (simp add: validate_security_limits_def all_ok_iff)

lemma validate_controlled_writes_ok:
  "validate_controlled_writes_config feature c = Inr () \<Longrightarrow>
     \<not> wp_enabled (cw_ocserv_session_disconnect c)
     \<and> (wp_enabled (cw_ocserv_restart c) \<longrightarrow> wp_emergency_only (cw_ocserv_restart c))
     \<and> (wp_enabled (cw_ocserv_reload c) \<or> wp_enabled (cw_ocserv_restart c)
         \<or> wp_enabled (cw_ocserv_config_apply c) \<or> wp_enabled (cw_ocserv_config_rollback c)
         \<longrightarrow> cw_enabled c)
     \<and> (cw_enabled c \<longrightarrow> feature)"
  by (cases feature) (auto simp: validate_controlled_writes_config_def all_ok_iff Let_def)

section \<open>Properties\<close>

text \<open>C33. A configuration the agent accepts is consistent: every controller, peer and path-probe
  identity is an endpoint identity, peers are pairwise distinct and disjoint from controllers, each
  path probe joins a listed controller to an enabled peer and none is listed twice; per-controller
  limits are positive and within the global ones; session disconnect is never enabled, restart only
  as an emergency operation, and no write policy is on in a build without the feature.\<close>

theorem accepted_config_consistent:
  assumes "validate_agent_config X feature cfg = Inr ()"
  shows "identities_consistent X (ac_security cfg)
     \<and> (0 < max_connections_per_controller (ac_security cfg)
       \<and> max_connections_per_controller (ac_security cfg) \<le> max_connections_global (ac_security cfg)
       \<and> 0 < max_streams_per_controller (ac_security cfg)
       \<and> max_streams_per_controller (ac_security cfg) \<le> max_streams_global (ac_security cfg)
       \<and> 0 < max_live_nonces_per_controller (ac_security cfg)
       \<and> max_live_nonces_per_controller (ac_security cfg) \<le> max_live_nonces_global (ac_security cfg)
       \<and> 512 \<le> max_response_bytes (ac_security cfg))
     \<and> (\<not> wp_enabled (cw_ocserv_session_disconnect (ac_controlled_writes cfg)))
     \<and> (wp_enabled (cw_ocserv_restart (ac_controlled_writes cfg)) \<longrightarrow>
         wp_emergency_only (cw_ocserv_restart (ac_controlled_writes cfg)))
     \<and> (wp_enabled (cw_ocserv_reload (ac_controlled_writes cfg))
         \<or> wp_enabled (cw_ocserv_restart (ac_controlled_writes cfg))
         \<or> wp_enabled (cw_ocserv_config_apply (ac_controlled_writes cfg))
         \<or> wp_enabled (cw_ocserv_config_rollback (ac_controlled_writes cfg))
         \<or> cw_enabled (ac_controlled_writes cfg) \<longrightarrow> feature)"
  using assms validate_security_limits_ok validate_controlled_writes_ok
  unfolding validate_agent_config_ok by blast

theorem accepted_config_consistent_witness:
  "validate_agent_config example_ext False example_agent_config = Inr ()
   \<and> identities_consistent example_ext (ac_security example_agent_config)"
proof
  show *: "validate_agent_config example_ext False example_agent_config = Inr ()"
    by code_simp
  show "identities_consistent example_ext (ac_security example_agent_config)"
    using accepted_config_consistent [OF *] by blast
qed

end
