(* ===== verification/Audit_Limiter.thy ===== *)
theory Audit_Limiter
  imports Agent_Config "HOL-Library.AList"
begin

text \<open>
  The limiter for audit records of rejected peers (\<open>ocfleet-agent/src/audit_limiter.rs\<close>): one token
  bucket per (endpoint, resource, error code), a shared overflow bucket once the table is full, and a
  count of suppressed records that the next written record carries. Instants are nanoseconds of the
  monotonic clock; \<open>saturating_duration_since\<close> is subtraction on natural numbers.
\<close>

datatype limit_decision = LimitWrite (lw_suppressed: nat) (lw_key: string) | LimitSuppress

datatype limit_key = LimitKey (lk_endpoint: string) (lk_resource: string) (lk_error_code: string)

definition limit_key_new :: "string option \<Rightarrow> string \<Rightarrow> string \<Rightarrow> limit_key" where
  "limit_key_new remote resource error_code =
     LimitKey (case remote of None \<Rightarrow> ''unknown'' | Some r \<Rightarrow> r) resource error_code"

definition limit_key_label :: "limit_key \<Rightarrow> string" where
  "limit_key_label k = lk_endpoint k @ '':'' @ lk_resource k @ '':'' @ lk_error_code k"

record bucket =
  bk_tokens :: nat
  bk_suppressed :: nat
  bk_last_refill :: nat
  bk_last_seen :: nat
  bk_last_write :: "nat option"

definition bucket_new :: "nat \<Rightarrow> nat \<Rightarrow> bucket" where
  "bucket_new burst now = \<lparr>bk_tokens = burst, bk_suppressed = 0, bk_last_refill = now,
     bk_last_seen = now, bk_last_write = None\<rparr>"

definition bucket_refill :: "nat \<Rightarrow> nat \<Rightarrow> nat \<Rightarrow> bucket \<Rightarrow> bucket" where
  "bucket_refill burst refill_per_sec now b =
     (let elapsed_secs = (now - bk_last_refill b) div 1000000000 in
      if elapsed_secs = 0 then b
      else let refill = u64_sat_mul elapsed_secs refill_per_sec in
        b \<lparr>bk_tokens := min (u64_sat_add (bk_tokens b) refill) burst, bk_last_refill := now\<rparr>)"

definition check_bucket ::
    "nat \<Rightarrow> nat \<Rightarrow> nat \<Rightarrow> string \<Rightarrow> nat \<Rightarrow> bucket \<Rightarrow> limit_decision \<times> bucket" where
  "check_bucket burst refill_per_sec now limit_key aggregate_interval b0 =
     (let b = (bucket_refill burst refill_per_sec now b0) \<lparr>bk_last_seen := now\<rparr> in
      if bk_tokens b > 0 then
        (if bk_suppressed b > 0
            \<and> (case bk_last_write b of None \<Rightarrow> False
               | Some last_write \<Rightarrow> now - last_write < aggregate_interval)
         then (LimitSuppress, b \<lparr>bk_suppressed := u64_sat_add (bk_suppressed b) 1\<rparr>)
         else (LimitWrite (bk_suppressed b) limit_key,
               b \<lparr>bk_tokens := bk_tokens b - 1, bk_suppressed := 0, bk_last_write := Some now\<rparr>))
      else (LimitSuppress, b \<lparr>bk_suppressed := u64_sat_add (bk_suppressed b) 1\<rparr>))"

record audit_limiter =
  al_burst :: nat
  al_refill_per_sec :: nat
  al_max_buckets :: nat
  al_bucket_ttl :: nat
  al_aggregate_interval :: nat
  al_buckets :: "(limit_key \<times> bucket) list"
  al_overflow :: "bucket option"

definition audit_limiter_new :: "audit_config \<Rightarrow> audit_limiter" where
  "audit_limiter_new config = \<lparr>al_burst = rejected_peer_log_burst config,
     al_refill_per_sec = rejected_peer_log_refill_per_sec config,
     al_max_buckets = rejected_peer_log_max_buckets config,
     al_bucket_ttl = rejected_peer_log_bucket_ttl_seconds config * 1000000000,
     al_aggregate_interval = rejected_peer_log_aggregate_interval_seconds config * 1000000000,
     al_buckets = [], al_overflow = None\<rparr>"

definition prune_stale :: "nat \<Rightarrow> audit_limiter \<Rightarrow> audit_limiter" where
  "prune_stale now l =
     l \<lparr>al_buckets := filter (\<lambda>kb. now - bk_last_seen (snd kb) \<le> al_bucket_ttl l) (al_buckets l),
        al_overflow := (case al_overflow l of
            None \<Rightarrow> None
          | Some b \<Rightarrow> if now - bk_last_seen b > al_bucket_ttl l then None else Some b)\<rparr>"

definition limiter_check ::
    "nat \<Rightarrow> string option \<Rightarrow> string \<Rightarrow> string \<Rightarrow> audit_limiter \<Rightarrow> limit_decision \<times> audit_limiter" where
  "limiter_check now remote resource error_code l0 =
     (let l = prune_stale now l0; key = limit_key_new remote resource error_code in
      if map_of (al_buckets l) key \<noteq> None \<or> length (al_buckets l) < al_max_buckets l
      then let b = (case map_of (al_buckets l) key of
                  None \<Rightarrow> bucket_new (al_burst l) now | Some b \<Rightarrow> b);
               r = check_bucket (al_burst l) (al_refill_per_sec l) now (limit_key_label key)
                     (al_aggregate_interval l) b
           in (fst r, l \<lparr>al_buckets := AList.update key (snd r) (al_buckets l)\<rparr>)
      else let b = (case al_overflow l of None \<Rightarrow> bucket_new (al_burst l) now | Some b \<Rightarrow> b);
               r = check_bucket (al_burst l) (al_refill_per_sec l) now ''overflow''
                     (al_aggregate_interval l) b
           in (fst r, l \<lparr>al_overflow := Some (snd r)\<rparr>))"

text \<open>Well-formedness: at most \<open>max_buckets\<close> keyed buckets with distinct keys, none above the burst.\<close>

definition limiter_inv :: "audit_limiter \<Rightarrow> bool" where
  "limiter_inv l \<longleftrightarrow> distinct (map fst (al_buckets l)) \<and> length (al_buckets l) \<le> al_max_buckets l
     \<and> (\<forall>kb\<in>set (al_buckets l). bk_tokens (snd kb) \<le> al_burst l)
     \<and> (\<forall>b. al_overflow l = Some b \<longrightarrow> bk_tokens b \<le> al_burst l)"

text \<open>A run of checks at the given instants on one bucket, and on the whole limiter.\<close>

fun run_bucket :: "nat \<Rightarrow> nat \<Rightarrow> string \<Rightarrow> nat \<Rightarrow> nat list \<Rightarrow> bucket \<Rightarrow> limit_decision list \<times> bucket" where
  "run_bucket burst refill key interval [] b = ([], b)"
| "run_bucket burst refill key interval (t # ts) b =
     (let r = check_bucket burst refill t key interval b;
          rest = run_bucket burst refill key interval ts (snd r)
      in (fst r # fst rest, snd rest))"

fun run_limiter :: "(nat \<times> string option \<times> string \<times> string) list \<Rightarrow> audit_limiter \<Rightarrow> audit_limiter" where
  "run_limiter [] l = l"
| "run_limiter ((t, remote, resource, code) # cs) l =
     run_limiter cs (snd (limiter_check t remote resource code l))"

definition is_write :: "limit_decision \<Rightarrow> bool" where
  "is_write d \<longleftrightarrow> d \<noteq> LimitSuppress"

primrec reported :: "limit_decision \<Rightarrow> nat" where
  "reported (LimitWrite n k) = n"
| "reported LimitSuppress = 0"

section \<open>Laws\<close>

lemma refill_bounds:
  "bk_tokens (bucket_refill burst r now b) \<le>
     bk_tokens b + r * ((bk_last_refill (bucket_refill burst r now b) - bk_last_refill b) div 1000000000)
   \<and> bk_last_refill b \<le> bk_last_refill (bucket_refill burst r now b)
   \<and> bk_last_refill (bucket_refill burst r now b) \<le> max now (bk_last_refill b)"
  by (auto simp: bucket_refill_def Let_def u64_sat_add_def u64_sat_mul_def mult.commute)

lemma check_bucket_bounds:
  assumes "r = check_bucket burst refill now key interval b"
  shows "(if is_write (fst r) then 1 else 0) + bk_tokens (snd r) \<le>
      bk_tokens b + refill * ((bk_last_refill (snd r) - bk_last_refill b) div 1000000000)
    \<and> bk_last_refill b \<le> bk_last_refill (snd r) \<and> bk_last_refill (snd r) \<le> max now (bk_last_refill b)"
  using refill_bounds [of burst refill now b]
  by (auto simp: assms check_bucket_def Let_def is_write_def split: option.splits)

lemma check_bucket_tokens:
  "bk_tokens b \<le> burst \<Longrightarrow> bk_tokens (snd (check_bucket burst refill now key interval b)) \<le> burst"
  by (auto simp: check_bucket_def bucket_refill_def Let_def split: option.splits)

lemma div_add_le: "a div c + b div c \<le> (a + b) div c" for a b c :: nat
  by (metis div_add1_eq le_add1)

lemma run_bucket_bounds:
  "length (filter is_write (fst (run_bucket burst refill key interval ts b)))
     + bk_tokens (snd (run_bucket burst refill key interval ts b))
   \<le> bk_tokens b + refill *
       ((bk_last_refill (snd (run_bucket burst refill key interval ts b)) - bk_last_refill b) div 1000000000)
   \<and> bk_last_refill b \<le> bk_last_refill (snd (run_bucket burst refill key interval ts b))
   \<and> (bk_last_refill b \<le> T \<and> (\<forall>t\<in>set ts. t \<le> T) \<longrightarrow>
       bk_last_refill (snd (run_bucket burst refill key interval ts b)) \<le> T)"
proof (induction ts arbitrary: b)
  case (Cons t ts)
  let ?r = "check_bucket burst refill t key interval b"
  let ?e = "snd (run_bucket burst refill key interval ts (snd ?r))"
  let ?G = "1000000000 :: nat"
  have step: "(if is_write (fst ?r) then 1 else 0) + bk_tokens (snd ?r) \<le>
      bk_tokens b + refill * ((bk_last_refill (snd ?r) - bk_last_refill b) div ?G)"
    "bk_last_refill b \<le> bk_last_refill (snd ?r)" "bk_last_refill (snd ?r) \<le> max t (bk_last_refill b)"
    using check_bucket_bounds [of ?r burst refill t key interval b, OF refl] by auto
  have ih: "length (filter is_write (fst (run_bucket burst refill key interval ts (snd ?r)))) + bk_tokens ?e
      \<le> bk_tokens (snd ?r) + refill * ((bk_last_refill ?e - bk_last_refill (snd ?r)) div ?G)"
    "bk_last_refill (snd ?r) \<le> bk_last_refill ?e"
    using Cons.IH [of "snd ?r"] by auto
  have "(bk_last_refill (snd ?r) - bk_last_refill b) div ?G + (bk_last_refill ?e - bk_last_refill (snd ?r)) div ?G
      \<le> (bk_last_refill ?e - bk_last_refill b) div ?G"
    using div_add_le [of "bk_last_refill (snd ?r) - bk_last_refill b" ?G "bk_last_refill ?e - bk_last_refill (snd ?r)"]
      step(2) ih(2) by simp
  then have "refill * ((bk_last_refill (snd ?r) - bk_last_refill b) div ?G)
      + refill * ((bk_last_refill ?e - bk_last_refill (snd ?r)) div ?G)
      \<le> refill * ((bk_last_refill ?e - bk_last_refill b) div ?G)"
    by (metis add_mult_distrib2 mult_le_mono2)
  with step ih Cons.IH [of "snd ?r"] show ?case
    by (auto simp: Let_def)
qed simp

lemma run_bucket_conserves:
  assumes "bk_suppressed b + length ts \<le> u64_max"
  shows "sum_list (map reported (fst (run_bucket burst refill key interval ts b)))
      + bk_suppressed (snd (run_bucket burst refill key interval ts b))
    = bk_suppressed b + length (filter (\<lambda>d. \<not> is_write d) (fst (run_bucket burst refill key interval ts b)))"
  using assms
proof (induction ts arbitrary: b)
  case (Cons t ts)
  let ?r = "check_bucket burst refill t key interval b"
  have "reported (fst ?r) + bk_suppressed (snd ?r) = bk_suppressed b + (if is_write (fst ?r) then 0 else 1)"
    using Cons.prems
    by (auto simp: check_bucket_def bucket_refill_def Let_def is_write_def u64_sat_add_def
        split: option.splits)
  moreover from this have "bk_suppressed (snd ?r) + length ts \<le> u64_max"
    using Cons.prems by (auto split: if_splits)
  ultimately show ?case
    using Cons.IH [of "snd ?r"] by (auto simp: Let_def)
qed simp

lemma limiter_new_inv: "limiter_inv (audit_limiter_new cfg)"
  by (simp add: limiter_inv_def audit_limiter_new_def)

lemma length_alist_update_le:
  "length (AList.update k v al) \<le> (if map_of al k = None then Suc (length al) else length al)"
  by (induction al) auto

lemma alist_update_snd: "kb \<in> set (AList.update k v al) \<Longrightarrow> kb \<in> set al \<or> snd kb = v"
  by (induction al) (auto split: if_splits)

lemma prune_stale_inv: "limiter_inv l \<Longrightarrow> limiter_inv (prune_stale now l)"
  by (auto simp: limiter_inv_def prune_stale_def distinct_map_filter le_trans [OF length_filter_le]
      split: option.splits if_splits)

lemma prune_stale_frame [simp]:
  "al_burst (prune_stale now l) = al_burst l"
  "al_max_buckets (prune_stale now l) = al_max_buckets l"
  by (simp_all add: prune_stale_def)

lemma update_bucket_inv:
  assumes "limiter_inv l" "bk_tokens b \<le> al_burst l"
    and "map_of (al_buckets l) k \<noteq> None \<or> length (al_buckets l) < al_max_buckets l"
  shows "limiter_inv (l \<lparr>al_buckets := AList.update k b (al_buckets l)\<rparr>)"
proof -
  have "length (AList.update k b (al_buckets l)) \<le> al_max_buckets l"
    using length_alist_update_le [of k b "al_buckets l"] assms(1,3)
    by (cases "map_of (al_buckets l) k = None") (auto simp: limiter_inv_def)
  then show ?thesis
    using assms(1,2) by (auto simp: limiter_inv_def distinct_update dest: alist_update_snd)
qed

lemma limiter_check_inv:
  assumes "limiter_inv l"
  shows "limiter_inv (snd (limiter_check now remote resource code l))"
proof -
  let ?l = "prune_stale now l"
  let ?k = "limit_key_new remote resource code"
  let ?b = "\<lambda>x. case x of None \<Rightarrow> bucket_new (al_burst ?l) now | Some b \<Rightarrow> b"
  have inv: "limiter_inv ?l" by (rule prune_stale_inv [OF assms])
  have tok: "bk_tokens (?b (map_of (al_buckets ?l) ?k)) \<le> al_burst ?l"
      "bk_tokens (?b (al_overflow ?l)) \<le> al_burst ?l"
    using inv by (fastforce simp: limiter_inv_def bucket_new_def dest: map_of_SomeD split: option.split)+
  show ?thesis
    using update_bucket_inv [OF inv check_bucket_tokens [OF tok(1)]] check_bucket_tokens [OF tok(2)] inv
    by (simp add: limiter_check_def Let_def) (simp add: limiter_inv_def)
qed

lemma run_limiter_inv: "limiter_inv l \<Longrightarrow> limiter_inv (run_limiter cs l)"
  by (induction cs l rule: run_limiter.induct) (simp_all add: limiter_check_inv)

lemma limiter_check_frame [simp]:
  "al_max_buckets (snd (limiter_check now remote resource code l)) = al_max_buckets l"
  "al_burst (snd (limiter_check now remote resource code l)) = al_burst l"
  by (auto simp: limiter_check_def Let_def)

lemma run_limiter_frame [simp]:
  "al_max_buckets (run_limiter cs l) = al_max_buckets l" "al_burst (run_limiter cs l) = al_burst l"
  by (induction cs l rule: run_limiter.induct) simp_all

section \<open>Properties\<close>






end
