(* ===== verification/Protocol.thy ===== *)
theory Protocol
  imports Prelude
begin

text \<open>
  The wire protocol shared by agent and controller (\<open>ocfleet-protocol\<close>): constants, the RPC
  envelope, the method catalogue, error codes, length-prefixed frames, request metadata checks and
  the enrollment vocabulary.
\<close>

section \<open>Constants and envelope (\<open>constants.rs\<close>, \<open>rpc.rs\<close>, \<open>error.rs\<close>)\<close>

definition PROTOCOL_VERSION :: nat where "PROTOCOL_VERSION = 1"
definition DEFAULT_MAX_REQUEST_BYTES :: nat where "DEFAULT_MAX_REQUEST_BYTES = 65536"
definition DEFAULT_MAX_RESPONSE_BYTES :: nat where "DEFAULT_MAX_RESPONSE_BYTES = 2097152"
definition DEFAULT_CLOCK_SKEW_SECONDS :: int where "DEFAULT_CLOCK_SKEW_SECONDS = 60"
definition DEFAULT_DEADLINE_MS :: nat where "DEFAULT_DEADLINE_MS = 5000"
definition DEFAULT_MAX_DEADLINE_MS :: nat where "DEFAULT_MAX_DEADLINE_MS = 10000"
definition DEFAULT_MAX_RPC_TIMEOUT_MS :: nat where "DEFAULT_MAX_RPC_TIMEOUT_MS = 5000"

datatype error_code =
    FrameTooLarge | FrameReadFailed | InvalidJson | InvalidVersion | InvalidRequestId
  | InvalidTimestamp | RequestExpired | ClockSkewExceeded | InvalidNonce | ReplayedNonce
  | InvalidDeadline | ParamsInvalid | UnsupportedAuthScheme | ResponseTooLarge | InvalidResponse
  | EndpointNotAllowed | EndpointMismatch | NodeNotFound | NodeDisabled | MethodNotFound
  | MethodNotAllowed | ConnectFailed | RpcTimeout | AuditWriteFailed | ResourceExhausted
  | SqliteError | SqliteBusyTimeout | SchemaMigrationFailed | SchemaVersionUnsupported
  | ConfigLoadFailed | SecretKeyLoadFailed | SecretKeyPermissionInvalid | OcservReadonlyDisabled
  | OcservProviderUnavailable | OcservProviderInvalidData | OcservProviderUnsafeSource
  | OcservOutputBoundExceeded | OcservUnsupportedField | InternalError

text \<open>The serde name of a code (\<open>SCREAMING_SNAKE_CASE\<close>), which \<open>error_code_name\<close> and
  \<open>response_error_code\<close> of the agent report.\<close>

primrec error_code_name :: "error_code \<Rightarrow> string" where
  "error_code_name FrameTooLarge = ''FRAME_TOO_LARGE''"
| "error_code_name FrameReadFailed = ''FRAME_READ_FAILED''"
| "error_code_name InvalidJson = ''INVALID_JSON''"
| "error_code_name InvalidVersion = ''INVALID_VERSION''"
| "error_code_name InvalidRequestId = ''INVALID_REQUEST_ID''"
| "error_code_name InvalidTimestamp = ''INVALID_TIMESTAMP''"
| "error_code_name RequestExpired = ''REQUEST_EXPIRED''"
| "error_code_name ClockSkewExceeded = ''CLOCK_SKEW_EXCEEDED''"
| "error_code_name InvalidNonce = ''INVALID_NONCE''"
| "error_code_name ReplayedNonce = ''REPLAYED_NONCE''"
| "error_code_name InvalidDeadline = ''INVALID_DEADLINE''"
| "error_code_name ParamsInvalid = ''PARAMS_INVALID''"
| "error_code_name UnsupportedAuthScheme = ''UNSUPPORTED_AUTH_SCHEME''"
| "error_code_name ResponseTooLarge = ''RESPONSE_TOO_LARGE''"
| "error_code_name InvalidResponse = ''INVALID_RESPONSE''"
| "error_code_name EndpointNotAllowed = ''ENDPOINT_NOT_ALLOWED''"
| "error_code_name EndpointMismatch = ''ENDPOINT_MISMATCH''"
| "error_code_name NodeNotFound = ''NODE_NOT_FOUND''"
| "error_code_name NodeDisabled = ''NODE_DISABLED''"
| "error_code_name MethodNotFound = ''METHOD_NOT_FOUND''"
| "error_code_name MethodNotAllowed = ''METHOD_NOT_ALLOWED''"
| "error_code_name ConnectFailed = ''CONNECT_FAILED''"
| "error_code_name RpcTimeout = ''RPC_TIMEOUT''"
| "error_code_name AuditWriteFailed = ''AUDIT_WRITE_FAILED''"
| "error_code_name ResourceExhausted = ''RESOURCE_EXHAUSTED''"
| "error_code_name SqliteError = ''SQLITE_ERROR''"
| "error_code_name SqliteBusyTimeout = ''SQLITE_BUSY_TIMEOUT''"
| "error_code_name SchemaMigrationFailed = ''SCHEMA_MIGRATION_FAILED''"
| "error_code_name SchemaVersionUnsupported = ''SCHEMA_VERSION_UNSUPPORTED''"
| "error_code_name ConfigLoadFailed = ''CONFIG_LOAD_FAILED''"
| "error_code_name SecretKeyLoadFailed = ''SECRET_KEY_LOAD_FAILED''"
| "error_code_name SecretKeyPermissionInvalid = ''SECRET_KEY_PERMISSION_INVALID''"
| "error_code_name OcservReadonlyDisabled = ''OCSERV_READONLY_DISABLED''"
| "error_code_name OcservProviderUnavailable = ''OCSERV_PROVIDER_UNAVAILABLE''"
| "error_code_name OcservProviderInvalidData = ''OCSERV_PROVIDER_INVALID_DATA''"
| "error_code_name OcservProviderUnsafeSource = ''OCSERV_PROVIDER_UNSAFE_SOURCE''"
| "error_code_name OcservOutputBoundExceeded = ''OCSERV_OUTPUT_BOUND_EXCEEDED''"
| "error_code_name OcservUnsupportedField = ''OCSERV_UNSUPPORTED_FIELD''"
| "error_code_name InternalError = ''INTERNAL_ERROR''"

record rpc_error =
  err_code :: error_code
  err_message :: string
  err_details :: json

definition rpc_error_new :: "error_code \<Rightarrow> string \<Rightarrow> rpc_error" where
  "rpc_error_new code message = \<lparr>err_code = code, err_message = message, err_details = jobj []\<rparr>"

record rpc_request =
  rq_version :: nat
  rq_request_id :: string
  rq_method :: string
  rq_params :: json
  rq_issued_at :: string
  rq_nonce :: string
  rq_deadline_ms :: nat
  rq_actor :: "string option"
  rq_auth :: "json option"

record rpc_response =
  rs_version :: nat
  rs_request_id :: "string option"
  rs_ok :: bool
  rs_result :: "json option"
  rs_error :: "rpc_error option"
  rs_started_at :: string
  rs_finished_at :: string
  rs_duration_ms :: nat

section \<open>Methods (\<open>method.rs\<close>)\<close>

datatype method_status = Allowed | KnownButNotAllowed | UnknownMethod

definition NODE_PING :: string where "NODE_PING = ''node.ping''"
definition NODE_INFO :: string where "NODE_INFO = ''node.info''"
definition NODE_CAPABILITIES :: string where "NODE_CAPABILITIES = ''node.capabilities''"
definition PROBE_CONTROLLER_PING :: string where "PROBE_CONTROLLER_PING = ''probe.controller.ping''"
definition PROBE_PEER_ECHO :: string where "PROBE_PEER_ECHO = ''probe.peer.echo''"
definition PROBE_PATH_ECHO :: string where "PROBE_PATH_ECHO = ''probe.path.echo''"
definition OCSERV_SERVICE_SUMMARY :: string where "OCSERV_SERVICE_SUMMARY = ''ocserv.service.summary''"
definition OCSERV_VERSION :: string where "OCSERV_VERSION = ''ocserv.version''"
definition OCSERV_SESSIONS_SUMMARY :: string where "OCSERV_SESSIONS_SUMMARY = ''ocserv.sessions.summary''"
definition OCSERV_CERT_EXPIRY :: string where "OCSERV_CERT_EXPIRY = ''ocserv.cert.expiry''"
definition OCSERV_CONFIG_FINGERPRINT :: string where
  "OCSERV_CONFIG_FINGERPRINT = ''ocserv.config.fingerprint''"
definition OCSERV_RELOAD :: string where "OCSERV_RELOAD = ''ocserv.reload''"
definition OCSERV_RESTART :: string where "OCSERV_RESTART = ''ocserv.restart''"
definition OCSERV_CONFIG_APPLY :: string where "OCSERV_CONFIG_APPLY = ''ocserv.config.apply''"
definition OCSERV_CONFIG_ROLLBACK :: string where "OCSERV_CONFIG_ROLLBACK = ''ocserv.config.rollback''"
definition OCSERV_SESSION_DISCONNECT :: string where
  "OCSERV_SESSION_DISCONNECT = ''ocserv.session.disconnect''"

lemmas method_name_defs =
  NODE_PING_def NODE_INFO_def NODE_CAPABILITIES_def PROBE_CONTROLLER_PING_def PROBE_PEER_ECHO_def
  PROBE_PATH_ECHO_def OCSERV_SERVICE_SUMMARY_def OCSERV_VERSION_def OCSERV_SESSIONS_SUMMARY_def
  OCSERV_CERT_EXPIRY_def OCSERV_CONFIG_FINGERPRINT_def OCSERV_RELOAD_def OCSERV_RESTART_def
  OCSERV_CONFIG_APPLY_def OCSERV_CONFIG_ROLLBACK_def OCSERV_SESSION_DISCONNECT_def

definition classify_phase_one_method :: "string \<Rightarrow> method_status" where
  "classify_phase_one_method method =
     (if method \<in> {NODE_PING, NODE_INFO, NODE_CAPABILITIES, PROBE_CONTROLLER_PING,
          OCSERV_SERVICE_SUMMARY, OCSERV_VERSION, OCSERV_SESSIONS_SUMMARY, OCSERV_CERT_EXPIRY,
          OCSERV_CONFIG_FINGERPRINT} then Allowed
      else if method \<in> {''ocserv.service.status'', ''ocserv.status'', OCSERV_RELOAD, OCSERV_RESTART,
          OCSERV_CONFIG_APPLY, OCSERV_CONFIG_ROLLBACK, OCSERV_SESSION_DISCONNECT,
          ''ocserv.users.list'', ''ocserv.users.get'', ''ocserv.logs.recent'',
          ''ocserv.cert.status'', ''ocserv.config.summary''} then KnownButNotAllowed
      else UnknownMethod)"

section \<open>Frames (\<open>frame.rs\<close>)\<close>

datatype frame_error =
    FrameTooLargeErr (frame_length: nat) (frame_max: nat)
  | FrameTooShort
  | FrameLengthMismatch (frame_declared: nat) (frame_actual: nat)

definition u32_to_be_bytes :: "nat \<Rightarrow> string" where
  "u32_to_be_bytes n =
     map char_of [n div 16777216 mod 256, n div 65536 mod 256, n div 256 mod 256, n mod 256]"

definition u32_from_be_bytes :: "string \<Rightarrow> nat" where
  "u32_from_be_bytes bs = foldl (\<lambda>acc c. acc * 256 + byte c) 0 bs"

definition encode_frame :: "string \<Rightarrow> nat \<Rightarrow> frame_error + string" where
  "encode_frame payload max_payload_bytes =
     (if max_payload_bytes < length payload
      then Inl (FrameTooLargeErr (length payload) max_payload_bytes)
      else Inr (u32_to_be_bytes (length payload mod 4294967296) @ payload))"

definition decode_frame :: "string \<Rightarrow> nat \<Rightarrow> frame_error + string" where
  "decode_frame frame max_payload_bytes =
     (if length frame < 4 then Inl FrameTooShort
      else let declared = u32_from_be_bytes (take 4 frame) in
        if max_payload_bytes < declared then Inl (FrameTooLargeErr declared max_payload_bytes)
        else let actual = length frame - 4 in
          if declared \<noteq> actual then Inl (FrameLengthMismatch declared actual)
          else Inr (drop 4 frame))"

section \<open>Request metadata (\<open>metadata.rs\<close>)\<close>

definition validate_request_id :: "ext \<Rightarrow> string \<Rightarrow> rpc_error + unit" where
  "validate_request_id X value =
     ensure (uuid_ok X value) (rpc_error_new InvalidRequestId ''request_id must be a UUID'')"

definition validate_deadline_ms :: "nat \<Rightarrow> nat \<Rightarrow> rpc_error + unit" where
  "validate_deadline_ms deadline_ms max_deadline_ms =
     (if deadline_ms = 0 \<or> max_deadline_ms < deadline_ms
      then Inl (rpc_error_new InvalidDeadline
        ''deadline_ms must be greater than zero and no larger than max_deadline_ms'')
      else Inr ())"

definition execution_timeout_ms :: "nat \<Rightarrow> nat \<Rightarrow> nat" where
  "execution_timeout_ms deadline_ms max_rpc_timeout_ms = min deadline_ms max_rpc_timeout_ms"

definition validate_nonce :: "ext \<Rightarrow> string \<Rightarrow> rpc_error + unit" where
  "validate_nonce X value =
     (case base64url_decode X value of
        None \<Rightarrow> Inl (rpc_error_new InvalidNonce ''nonce must be base64url without padding'')
      | Some bytes \<Rightarrow>
          ensure (length bytes = 16) (rpc_error_new InvalidNonce ''nonce must decode to 16 bytes''))"

definition validate_issued_at ::
    "ext \<Rightarrow> string \<Rightarrow> int \<Rightarrow> int \<Rightarrow> nat \<Rightarrow> rpc_error fault + unit" where
  "validate_issued_at X issued_at now allowed_clock_skew_seconds deadline_ms =
     (case parse_rfc3339 X issued_at of
        None \<Rightarrow> Inl (Fail (rpc_error_new InvalidTimestamp ''issued_at must be RFC3339 UTC''))
      | Some parsed \<Rightarrow>
          let skew = (if parsed > now then parsed - now else now - parsed) in
          if skew > ns_of_secs allowed_clock_skew_seconds
          then Inl (Fail (rpc_error_new ClockSkewExceeded
                 ''issued_at is outside the allowed clock skew window''))
          else (case odt_add X parsed (ns_of_ms (u64_as_i64 deadline_ms)) of
              None \<Rightarrow> Inl Panic
            | Some deadline \<Rightarrow>
                if now > deadline
                then Inl (Fail (rpc_error_new RequestExpired ''request deadline has expired''))
                else Inr ()))"

section \<open>Enrollment vocabulary (\<open>enrollment.rs\<close>)\<close>

datatype token_status = TokActive | TokExpired | TokRevoked
datatype join_status = JoinPending | JoinApproved | JoinRejected | JoinExpired
datatype endpoint_status = EpActive | EpRotated | EpRevoked | EpQuarantined

primrec token_status_as_str :: "token_status \<Rightarrow> string" where
  "token_status_as_str TokActive = ''active''"
| "token_status_as_str TokExpired = ''expired''"
| "token_status_as_str TokRevoked = ''revoked''"

definition token_status_from_str :: "string \<Rightarrow> string + token_status" where
  "token_status_from_str value =
     (if value = ''active'' then Inr TokActive
      else if value = ''expired'' then Inr TokExpired
      else if value = ''revoked'' then Inr TokRevoked
      else Inl (''unknown enrollment token status: '' @ value))"

primrec join_status_as_str :: "join_status \<Rightarrow> string" where
  "join_status_as_str JoinPending = ''pending''"
| "join_status_as_str JoinApproved = ''approved''"
| "join_status_as_str JoinRejected = ''rejected''"
| "join_status_as_str JoinExpired = ''expired''"

definition join_status_from_str :: "string \<Rightarrow> string + join_status" where
  "join_status_from_str value =
     (if value = ''pending'' then Inr JoinPending
      else if value = ''approved'' then Inr JoinApproved
      else if value = ''rejected'' then Inr JoinRejected
      else if value = ''expired'' then Inr JoinExpired
      else Inl (''unknown join request status: '' @ value))"

primrec endpoint_status_as_str :: "endpoint_status \<Rightarrow> string" where
  "endpoint_status_as_str EpActive = ''active''"
| "endpoint_status_as_str EpRotated = ''rotated''"
| "endpoint_status_as_str EpRevoked = ''revoked''"
| "endpoint_status_as_str EpQuarantined = ''quarantined''"

definition endpoint_status_from_str :: "string \<Rightarrow> string + endpoint_status" where
  "endpoint_status_from_str value =
     (if value = ''active'' then Inr EpActive
      else if value = ''rotated'' then Inr EpRotated
      else if value = ''revoked'' then Inr EpRevoked
      else if value = ''quarantined'' then Inr EpQuarantined
      else Inl (''unknown endpoint status: '' @ value))"

record trust_bundle =
  tb_endpoint_id :: string
  tb_generation :: nat
  tb_status :: endpoint_status
  tb_trusted_controllers :: "string list"
  tb_trusted_peers :: "string list"
  tb_authorized_path_probes :: "(string \<times> string) list"

datatype agent_enrollment_state =
    EnrollmentPending (es_request_id: string) (es_token_id: string)
  | EnrollmentActive (es_trust_bundle: trust_bundle)

section \<open>Laws\<close>

lemma byte_char_of [simp]: "byte (char_of n) = n mod 256"
  by (simp add: byte_def)

lemma byte_less [simp]: "byte c < 256"
  by (simp add: byte_def)

lemma byte_le [simp]: "byte c \<le> 255"
  using byte_less [of c] by linarith

lemma char_of_byte [simp]: "char_of (byte c) = c"
  by (simp add: byte_def)

lemma length_u32_to_be_bytes [simp]: "length (u32_to_be_bytes n) = 4"
  by (simp add: u32_to_be_bytes_def)

lemma u32_to_be_bytes_nested:
  "u32_to_be_bytes n =
     map char_of [n div 256 div 256 div 256 mod 256, n div 256 div 256 mod 256, n div 256 mod 256,
       n mod 256]"
  by (simp add: u32_to_be_bytes_def div_mult2_eq [symmetric])

lemma base256_digit: "b < 256 \<Longrightarrow> (x * 256 + b) mod 256 = b \<and> (x * 256 + b) div 256 = x" for b x :: nat
  by simp

lemma u32_be_roundtrip: "n < 4294967296 \<Longrightarrow> u32_from_be_bytes (u32_to_be_bytes n) = n"
proof -
  assume "n < 4294967296"
  then have "n div 256 div 256 div 256 < 256"
    by (simp add: div_mult2_eq [symmetric] less_mult_imp_div_less)
  then show ?thesis
    by (simp only: u32_from_be_bytes_def u32_to_be_bytes_nested foldl.simps list.map byte_char_of
        mod_mod_trivial mod_less mult_zero_left add_0 div_mult_mod_eq)
qed

lemma base256_bound:
  "a \<le> 255 \<Longrightarrow> b \<le> 255 \<Longrightarrow> c \<le> 255 \<Longrightarrow> d \<le> 255 \<Longrightarrow> ((a * 256 + b) * 256 + c) * 256 + d < 4294967296"
  for a b c d :: nat
  by (simp add: algebra_simps)

lemma u32_from_be_bytes_4:
  assumes "length bs = 4"
  shows "u32_from_be_bytes bs < 4294967296 \<and> u32_to_be_bytes (u32_from_be_bytes bs) = bs"
proof -
  from assms obtain a b c d where bs: "bs = [a, b, c, d]"
    by (auto simp: numeral_eq_Suc length_Suc_conv)
  have "((byte a * 256 + byte b) * 256 + byte c) * 256 + byte d < 4294967296"
    by (rule base256_bound) simp_all
  then show ?thesis
    by (simp only: bs u32_from_be_bytes_def u32_to_be_bytes_nested foldl.simps mult_zero_left add_0
        base256_digit byte_less list.map char_of_byte mod_less simp_thms)
qed

lemma encode_frame_Inr_iff:
  "encode_frame p m = Inr f \<longleftrightarrow> length p \<le> m \<and> f = u32_to_be_bytes (length p mod 4294967296) @ p"
  by (auto simp: encode_frame_def not_less)

lemma decode_frame_Inr_iff:
  "decode_frame f m = Inr p \<longleftrightarrow>
     (\<exists>h. f = h @ p \<and> length h = 4 \<and> u32_from_be_bytes h = length p \<and> length p \<le> m)"
proof
  assume *: "decode_frame f m = Inr p"
  then have "4 \<le> length f" "u32_from_be_bytes (take 4 f) = length f - 4" "length f - 4 \<le> m"
      "p = drop 4 f"
    by (auto simp: decode_frame_def Let_def split: if_splits)
  then show "\<exists>h. f = h @ p \<and> length h = 4 \<and> u32_from_be_bytes h = length p \<and> length p \<le> m"
    by (intro exI [of _ "take 4 f"]) simp
qed (auto simp: decode_frame_def Let_def)

section \<open>Properties\<close>

text \<open>C34. Framing is a bijection between payloads and frames: under any limit that fits the 32-bit
  length prefix, a byte string decodes to a payload exactly when that payload encodes to it, so
  encoding then decoding returns the payload, and no two byte strings decode to the same payload.\<close>

theorem frame_bijection:
  assumes "max_bytes \<le> u32_max"
  shows "decode_frame frame max_bytes = Inr payload \<longleftrightarrow> encode_frame payload max_bytes = Inr frame"
proof -
  have "length payload mod 4294967296 = length payload" if "length payload \<le> max_bytes"
    using that assms by (simp add: u32_max_def)
  then show ?thesis
    by (auto simp: decode_frame_Inr_iff encode_frame_Inr_iff u32_be_roundtrip)
      (metis u32_from_be_bytes_4)
qed

theorem frame_bijection_witness:
  "decode_frame [CHR 0x00, CHR 0x00, CHR 0x00, CHR 0x02, CHR ''h'', CHR ''i''] DEFAULT_MAX_REQUEST_BYTES
     = Inr ''hi'' \<and> DEFAULT_MAX_REQUEST_BYTES \<le> u32_max"
proof
  show *: "DEFAULT_MAX_REQUEST_BYTES \<le> u32_max"
    by (simp add: DEFAULT_MAX_REQUEST_BYTES_def u32_max_def)
  show "decode_frame [CHR 0x00, CHR 0x00, CHR 0x00, CHR 0x02, CHR ''h'', CHR ''i'']
      DEFAULT_MAX_REQUEST_BYTES = Inr ''hi''"
    unfolding frame_bijection [OF *]
    by code_simp
qed

end
