(* ===== verification/Authz.thy ===== *)
theory Authz
  imports Protocol Agent_Config
begin

text \<open>
  Who may call what (\<open>ocfleet-agent/src/authz.rs\<close>): the authorization sets built from the security
  configuration, the classification of a caller, the per-class method table and the path-probe
  decision. An \<open>EndpointId\<close> is represented by its canonical text.
\<close>

datatype caller_class = CallerController | CallerPeer | CallerDisabledPeer | CallerUnknown

datatype path_probe_decision =
    ProbeAllowed | ProbeDisabled | ProbeMissing | ProbeTargetIsController | ProbeSelfTarget

record agent_authorization =
  az_controllers :: "string set"
  az_enabled_peers :: "string set"
  az_disabled_peers :: "string set"
  az_enabled_path_probes :: "(string \<times> string) set"
  az_disabled_path_probes :: "(string \<times> string) set"

definition parse_endpoint_id :: "ext \<Rightarrow> string \<Rightarrow> string + string" where
  "parse_endpoint_id X value = ok_or (endpoint_id_from_str X value) ''invalid endpoint id''"

definition with_context :: "string \<Rightarrow> string + 'a \<Rightarrow> string + 'a" where
  "with_context ctx r = map_err (\<lambda>_. ctx) r"

fun authz_controllers :: "ext \<Rightarrow> controller_config list \<Rightarrow> string + string set" where
  "authz_controllers X [] = Inr {}"
| "authz_controllers X (c # cs) =
     rbind (with_context (''invalid allowed controller endpoint id: '' @ cc_endpoint_id c)
              (parse_endpoint_id X (cc_endpoint_id c)))
     (\<lambda>e. rbind (authz_controllers X cs) (\<lambda>es. Inr (insert e es)))"

fun authz_peers :: "ext \<Rightarrow> peer_config list \<Rightarrow> string set \<Rightarrow> string set \<Rightarrow> string + (string set \<times> string set)" where
  "authz_peers X [] enabled disabled = Inr (enabled, disabled)"
| "authz_peers X (p # ps) enabled disabled =
     rbind (with_context (''invalid allowed peer endpoint id: '' @ pc_endpoint_id p)
              (parse_endpoint_id X (pc_endpoint_id p)))
     (\<lambda>e. if pc_enabled p then authz_peers X ps (insert e enabled) disabled
           else authz_peers X ps enabled (insert e disabled))"

fun authz_path_probes :: "ext \<Rightarrow> path_probe_config list \<Rightarrow> (string \<times> string) set \<Rightarrow>
    (string \<times> string) set \<Rightarrow> string + ((string \<times> string) set \<times> (string \<times> string) set)" where
  "authz_path_probes X [] enabled disabled = Inr (enabled, disabled)"
| "authz_path_probes X (q # qs) enabled disabled =
     rbind (with_context
         (''invalid path probe controller endpoint id: '' @ pp_controller_endpoint_id q)
         (parse_endpoint_id X (pp_controller_endpoint_id q)))
     (\<lambda>c. rbind (with_context
         (''invalid path probe target endpoint id: '' @ pp_target_endpoint_id q)
         (parse_endpoint_id X (pp_target_endpoint_id q)))
     (\<lambda>t. if pp_enabled q then authz_path_probes X qs (insert (c, t) enabled) disabled
           else authz_path_probes X qs enabled (insert (c, t) disabled)))"

definition from_security_config :: "ext \<Rightarrow> security_config \<Rightarrow> string + agent_authorization" where
  "from_security_config X config =
     rbind (authz_controllers X (sec_controllers config))
     (\<lambda>controllers. rbind (authz_peers X (sec_peers config) {} {})
     (\<lambda>peers. rbind (authz_path_probes X (sec_path_probes config) {} {})
     (\<lambda>probes. Inr \<lparr>az_controllers = controllers, az_enabled_peers = fst peers,
        az_disabled_peers = snd peers, az_enabled_path_probes = fst probes,
        az_disabled_path_probes = snd probes\<rparr>)))"

definition authz_classify :: "agent_authorization \<Rightarrow> string \<Rightarrow> caller_class" where
  "authz_classify az e =
     (if e \<in> az_controllers az then CallerController
      else if e \<in> az_enabled_peers az then CallerPeer
      else if e \<in> az_disabled_peers az then CallerDisabledPeer
      else CallerUnknown)"

definition is_connection_admitted :: "agent_authorization \<Rightarrow> string \<Rightarrow> bool" where
  "is_connection_admitted az e \<longleftrightarrow> authz_classify az e \<in> {CallerController, CallerPeer}"

definition method_allowed :: "caller_class \<Rightarrow> string \<Rightarrow> bool" where
  "method_allowed caller method \<longleftrightarrow>
     (case caller of
        CallerController \<Rightarrow> method \<in> {NODE_PING, NODE_INFO, NODE_CAPABILITIES, PROBE_CONTROLLER_PING,
          PROBE_PATH_ECHO, OCSERV_SERVICE_SUMMARY, OCSERV_VERSION, OCSERV_SESSIONS_SUMMARY,
          OCSERV_CERT_EXPIRY, OCSERV_CONFIG_FINGERPRINT}
      | CallerPeer \<Rightarrow> method = PROBE_PEER_ECHO
      | CallerDisabledPeer \<Rightarrow> False
      | CallerUnknown \<Rightarrow> False)"

definition path_probe_decision_of ::
    "agent_authorization \<Rightarrow> string \<Rightarrow> string \<Rightarrow> string \<Rightarrow> path_probe_decision" where
  "path_probe_decision_of az controller target source =
     (if target = source then ProbeSelfTarget
      else if target \<in> az_controllers az then ProbeTargetIsController
      else if target \<notin> az_enabled_peers az then ProbeMissing
      else if (controller, target) \<in> az_enabled_path_probes az then ProbeAllowed
      else if (controller, target) \<in> az_disabled_path_probes az then ProbeDisabled
      else ProbeMissing)"

section \<open>Laws\<close>

lemma parse_endpoint_id_ok [simp]:
  "parse_endpoint_id X v = Inr e \<longleftrightarrow> endpoint_id_from_str X v = Some e"
  by (simp add: parse_endpoint_id_def)

lemma with_context_ok [simp]: "with_context ctx r = Inr a \<longleftrightarrow> r = Inr a"
  by (simp add: with_context_def)

lemma canonical_endpoint_parses: "canonical_endpoint X v = Some c \<Longrightarrow> endpoint_id_from_str X v = Some c"
  by (simp add: canonical_endpoint_def split: if_splits)

lemma parse_canonical [simp]: "canonical_endpoint X v = Some c \<Longrightarrow> parse_endpoint_id X v = Inr c"
  by (simp add: canonical_endpoint_parses)

lemma with_context_Inr [simp]: "with_context ctx (Inr a) = Inr a"
  by simp

lemma authz_controllers_ok:
  assumes "\<forall>c\<in>set cs. canonical_endpoint X (cc_endpoint_id c) \<noteq> None"
  shows "authz_controllers X cs = Inr (canonical_ids X cc_endpoint_id cs)"
  using assms by (induction cs) auto

lemma authz_peers_ok:
  assumes "\<forall>p\<in>set ps. canonical_endpoint X (pc_endpoint_id p) \<noteq> None"
  shows "authz_peers X ps en dis = Inr (en \<union> canonical_ids X pc_endpoint_id (filter pc_enabled ps),
    dis \<union> canonical_ids X pc_endpoint_id (filter (\<lambda>p. \<not> pc_enabled p) ps))"
  using assms by (induction ps arbitrary: en dis) auto

lemma authz_path_probes_ok:
  assumes "\<forall>q\<in>set qs. path_probe_pair X q \<noteq> None"
  shows "authz_path_probes X qs en dis =
    Inr (en \<union> {ct. \<exists>q\<in>set qs. pp_enabled q \<and> path_probe_pair X q = Some ct},
         dis \<union> {ct. \<exists>q\<in>set qs. \<not> pp_enabled q \<and> path_probe_pair X q = Some ct})"
  using assms
proof (induction qs arbitrary: en dis)
  case (Cons q qs)
  then obtain c t where ct: "path_probe_pair X q = Some (c, t)" by (auto simp del: split_paired_Ex)
  then have "endpoint_id_from_str X (pp_controller_endpoint_id q) = Some c"
      "endpoint_id_from_str X (pp_target_endpoint_id q) = Some t"
    by (simp_all add: path_probe_pair_Some canonical_endpoint_parses)
  with Cons ct show ?case by (auto simp: parse_endpoint_id_def with_context_def)
qed simp

text \<open>On a consistent configuration the authorization is the declarative reading of it.\<close>

lemma from_consistent_config:
  assumes "identities_consistent X s"
  shows "from_security_config X s = Inr \<lparr>az_controllers = controller_ids X s,
     az_enabled_peers = enabled_peer_ids X s,
     az_disabled_peers = canonical_ids X pc_endpoint_id (filter (\<lambda>p. \<not> pc_enabled p) (sec_peers s)),
     az_enabled_path_probes =
       {ct. \<exists>q\<in>set (sec_path_probes s). pp_enabled q \<and> path_probe_pair X q = Some ct},
     az_disabled_path_probes =
       {ct. \<exists>q\<in>set (sec_path_probes s). \<not> pp_enabled q \<and> path_probe_pair X q = Some ct}\<rparr>"
proof -
  have "\<forall>q\<in>set (sec_path_probes s). path_probe_pair X q \<noteq> None"
    using assms by (fastforce simp: identities_consistent_def)
  then show ?thesis
    using assms
    by (simp add: from_security_config_def identities_consistent_def authz_controllers_ok
        authz_peers_ok authz_path_probes_ok controller_ids_def enabled_peer_ids_def)
qed

section \<open>Properties\<close>



end
