(* ===== verification/Capabilities.thy ===== *)
theory Capabilities
  imports Protocol Agent_Config
begin

text \<open>
  Capability negotiation: the closed method catalogue and \<open>NodeCapabilitiesResponse\<close> with its
  validation (\<open>ocfleet-protocol/src/capabilities.rs\<close>), and the agent's fixed response
  (\<open>ocfleet-agent/src/capabilities.rs\<close>). The agent version and the cargo feature are parameters.
\<close>

definition MAX_CAPABILITY_METHODS :: nat where "MAX_CAPABILITY_METHODS = 32"
definition MAX_CAPABILITY_PROVIDER_SCHEMAS :: nat where "MAX_CAPABILITY_PROVIDER_SCHEMAS = 8"
definition MAX_CAPABILITY_FEATURE_FLAGS :: nat where "MAX_CAPABILITY_FEATURE_FLAGS = 16"
definition MAX_CAPABILITY_AGENT_VERSION_BYTES :: nat where "MAX_CAPABILITY_AGENT_VERSION_BYTES = 64"
definition MAX_CAPABILITIES_RESPONSE_BYTES :: nat where "MAX_CAPABILITIES_RESPONSE_BYTES = 16384"

datatype fixed_rpc_method =
    NodePing | NodeInfo | NodeCapabilities | ProbeControllerPing | ProbePeerEcho | ProbePathEcho
  | OcservServiceSummary | OcservVersion | OcservSessionsSummary | OcservCertExpiry
  | OcservConfigFingerprint

primrec fixed_method_as_str :: "fixed_rpc_method \<Rightarrow> string" where
  "fixed_method_as_str NodePing = ''node.ping''"
| "fixed_method_as_str NodeInfo = ''node.info''"
| "fixed_method_as_str NodeCapabilities = ''node.capabilities''"
| "fixed_method_as_str ProbeControllerPing = ''probe.controller.ping''"
| "fixed_method_as_str ProbePeerEcho = ''probe.peer.echo''"
| "fixed_method_as_str ProbePathEcho = ''probe.path.echo''"
| "fixed_method_as_str OcservServiceSummary = ''ocserv.service.summary''"
| "fixed_method_as_str OcservVersion = ''ocserv.version''"
| "fixed_method_as_str OcservSessionsSummary = ''ocserv.sessions.summary''"
| "fixed_method_as_str OcservCertExpiry = ''ocserv.cert.expiry''"
| "fixed_method_as_str OcservConfigFingerprint = ''ocserv.config.fingerprint''"

definition READONLY_FIXED_METHOD_CATALOG :: "fixed_rpc_method list" where
  "READONLY_FIXED_METHOD_CATALOG =
     [NodePing, NodeInfo, NodeCapabilities, ProbeControllerPing, ProbePeerEcho, ProbePathEcho,
      OcservServiceSummary, OcservVersion, OcservSessionsSummary, OcservCertExpiry,
      OcservConfigFingerprint]"

text \<open>The derived orders follow the declaration order.\<close>

primrec method_rank :: "fixed_rpc_method \<Rightarrow> nat" where
  "method_rank NodePing = 0"
| "method_rank NodeInfo = 1"
| "method_rank NodeCapabilities = 2"
| "method_rank ProbeControllerPing = 3"
| "method_rank ProbePeerEcho = 4"
| "method_rank ProbePathEcho = 5"
| "method_rank OcservServiceSummary = 6"
| "method_rank OcservVersion = 7"
| "method_rank OcservSessionsSummary = 8"
| "method_rank OcservCertExpiry = 9"
| "method_rank OcservConfigFingerprint = 10"

lemma method_rank_inj: "method_rank a = method_rank b \<Longrightarrow> a = b"
  by (cases a; cases b) auto

instantiation fixed_rpc_method :: linorder
begin

definition less_eq_fixed_rpc_method :: "fixed_rpc_method \<Rightarrow> fixed_rpc_method \<Rightarrow> bool" where
  "less_eq_fixed_rpc_method a b \<longleftrightarrow> method_rank a \<le> method_rank b"

definition less_fixed_rpc_method :: "fixed_rpc_method \<Rightarrow> fixed_rpc_method \<Rightarrow> bool" where
  "less_fixed_rpc_method a b \<longleftrightarrow> method_rank a < method_rank b"

instance
  by standard
    (auto simp: less_eq_fixed_rpc_method_def less_fixed_rpc_method_def intro: method_rank_inj)

end

datatype provider_schema_id = OcservSnapshot

lemma provider_schema_id_eq: "a = b" for a b :: provider_schema_id
  by (cases a; cases b) simp

instantiation provider_schema_id :: linorder
begin

definition less_eq_provider_schema_id :: "provider_schema_id \<Rightarrow> provider_schema_id \<Rightarrow> bool" where
  "less_eq_provider_schema_id a b \<longleftrightarrow> True"

definition less_provider_schema_id :: "provider_schema_id \<Rightarrow> provider_schema_id \<Rightarrow> bool" where
  "less_provider_schema_id a b \<longleftrightarrow> False"

instance
  by standard (auto simp: less_eq_provider_schema_id_def less_provider_schema_id_def
      intro: provider_schema_id_eq)

end

record provider_schema =
  ps_provider :: provider_schema_id
  ps_min_version :: nat
  ps_max_version :: nat

datatype agent_feature_flag =
    CapabilityNegotiation | HmacConfigFingerprint | LocalSnapshotV2 | OcservReadonly

primrec feature_rank :: "agent_feature_flag \<Rightarrow> nat" where
  "feature_rank CapabilityNegotiation = 0"
| "feature_rank HmacConfigFingerprint = 1"
| "feature_rank LocalSnapshotV2 = 2"
| "feature_rank OcservReadonly = 3"

lemma feature_rank_inj: "feature_rank a = feature_rank b \<Longrightarrow> a = b"
  by (cases a; cases b) auto

instantiation agent_feature_flag :: linorder
begin

definition less_eq_agent_feature_flag :: "agent_feature_flag \<Rightarrow> agent_feature_flag \<Rightarrow> bool" where
  "less_eq_agent_feature_flag a b \<longleftrightarrow> feature_rank a \<le> feature_rank b"

definition less_agent_feature_flag :: "agent_feature_flag \<Rightarrow> agent_feature_flag \<Rightarrow> bool" where
  "less_agent_feature_flag a b \<longleftrightarrow> feature_rank a < feature_rank b"

instance
  by standard
    (auto simp: less_eq_agent_feature_flag_def less_agent_feature_flag_def intro: feature_rank_inj)

end

record controlled_writes_capability =
  cwc_compiled :: bool
  cwc_locally_enabled :: bool

record node_capabilities =
  cap_protocol_min :: nat
  cap_protocol_max :: nat
  cap_agent_version :: string
  cap_supported_methods :: "fixed_rpc_method list"
  cap_provider_schemas :: "provider_schema list"
  cap_feature_flags :: "agent_feature_flag list"
  cap_controlled_writes :: controlled_writes_capability

datatype capabilities_error =
    CapInvalidField string
  | IncompatibleProtocol (ip_controller: nat) (ip_min: nat) (ip_max: nat)
  | CapabilityMethodMissing

text \<open>The serde encoding of the response as a JSON value; \<open>json_len\<close> measures it.\<close>

primrec feature_as_str :: "agent_feature_flag \<Rightarrow> string" where
  "feature_as_str CapabilityNegotiation = ''capability_negotiation''"
| "feature_as_str HmacConfigFingerprint = ''hmac_config_fingerprint''"
| "feature_as_str LocalSnapshotV2 = ''local_snapshot_v2''"
| "feature_as_str OcservReadonly = ''ocserv_readonly''"

definition capabilities_json :: "node_capabilities \<Rightarrow> json" where
  "capabilities_json c = JObj
     [(''protocol_min'', JInt (int (cap_protocol_min c))),
      (''protocol_max'', JInt (int (cap_protocol_max c))),
      (''agent_version'', JStr (cap_agent_version c)),
      (''supported_methods'', JArr (map (\<lambda>m. JStr (fixed_method_as_str m)) (cap_supported_methods c))),
      (''provider_schemas'', JArr (map (\<lambda>p. JObj
         [(''provider'', JStr ''ocserv_snapshot''),
          (''min_version'', JInt (int (ps_min_version p))),
          (''max_version'', JInt (int (ps_max_version p)))]) (cap_provider_schemas c))),
      (''feature_flags'', JArr (map (\<lambda>f. JStr (feature_as_str f)) (cap_feature_flags c))),
      (''controlled_writes'', JObj
         [(''compiled'', JBool (cwc_compiled (cap_controlled_writes c))),
          (''locally_enabled'', JBool (cwc_locally_enabled (cap_controlled_writes c)))])]"

fun strictly_ascending :: "'a::linorder list \<Rightarrow> bool" where
  "strictly_ascending (a # b # rest) \<longleftrightarrow> a < b \<and> strictly_ascending (b # rest)"
| "strictly_ascending _ \<longleftrightarrow> True"

definition validate_sorted_unique ::
    "'a::linorder list \<Rightarrow> nat \<Rightarrow> nat \<Rightarrow> string \<Rightarrow> capabilities_error + unit" where
  "validate_sorted_unique values mn mx field =
     (if length values < mn \<or> mx < length values then Inl (CapInvalidField field)
      else if \<not> strictly_ascending values then Inl (CapInvalidField field)
      else Inr ())"

definition valid_agent_version :: "string \<Rightarrow> bool" where
  "valid_agent_version value \<longleftrightarrow> value \<noteq> [] \<and> length value \<le> MAX_CAPABILITY_AGENT_VERSION_BYTES
     \<and> list_all (\<lambda>b. is_ascii_alphanumeric b \<or> b \<in> {CHR ''.'', CHR ''-'', CHR ''+'', CHR ''_''}) value"

text \<open>The loop over the provider schemas.\<close>

fun validate_provider_schemas ::
    "provider_schema_id option \<Rightarrow> provider_schema list \<Rightarrow> capabilities_error + unit" where
  "validate_provider_schemas previous [] = Inr ()"
| "validate_provider_schemas previous (s # ss) =
     (if ps_min_version s = 0 \<or> ps_max_version s < ps_min_version s \<or> 65535 < ps_max_version s
         \<or> (case previous of None \<Rightarrow> False | Some v \<Rightarrow> v \<ge> ps_provider s)
      then Inl (CapInvalidField ''provider_schemas'')
      else validate_provider_schemas (Some (ps_provider s)) ss)"

definition capabilities_validate :: "ext \<Rightarrow> node_capabilities \<Rightarrow> capabilities_error + unit" where
  "capabilities_validate X c = all_ok
     [ensure (\<not> (cap_protocol_min c = 0 \<or> cap_protocol_max c < cap_protocol_min c
          \<or> 65535 < cap_protocol_max c)) (CapInvalidField ''protocol_range''),
      ensure (valid_agent_version (cap_agent_version c)) (CapInvalidField ''agent_version''),
      validate_sorted_unique (cap_supported_methods c) 1 MAX_CAPABILITY_METHODS ''supported_methods'',
      validate_sorted_unique (cap_feature_flags c) 1 MAX_CAPABILITY_FEATURE_FLAGS ''feature_flags'',
      ensure (\<not> (cap_provider_schemas c = []
          \<or> MAX_CAPABILITY_PROVIDER_SCHEMAS < length (cap_provider_schemas c)))
        (CapInvalidField ''provider_schemas''),
      validate_provider_schemas None (cap_provider_schemas c),
      ensure (\<not> (cwc_locally_enabled (cap_controlled_writes c)
          \<and> \<not> cwc_compiled (cap_controlled_writes c))) (CapInvalidField ''controlled_writes''),
      ensure (\<not> MAX_CAPABILITIES_RESPONSE_BYTES < json_len X (capabilities_json c))
        (CapInvalidField ''response_size'')]"

definition ensure_controller_compatible ::
    "ext \<Rightarrow> nat \<Rightarrow> node_capabilities \<Rightarrow> capabilities_error + unit" where
  "ensure_controller_compatible X controller_protocol c =
     rbind (capabilities_validate X c)
     (\<lambda>_. if controller_protocol < cap_protocol_min c \<or> cap_protocol_max c < controller_protocol
           then Inl (IncompatibleProtocol controller_protocol (cap_protocol_min c) (cap_protocol_max c))
           else if NodeCapabilities \<notin> set (cap_supported_methods c) then Inl CapabilityMethodMissing
           else Inr ())"

definition SCHEMA_MAJOR_VERSION_V2 :: nat where "SCHEMA_MAJOR_VERSION_V2 = 2"

text \<open>\<open>collect_node_capabilities\<close>; \<open>None\<close> is the panic of \<open>expect\<close>.\<close>

definition static_capabilities :: "string \<Rightarrow> bool \<Rightarrow> agent_config \<Rightarrow> node_capabilities" where
  "static_capabilities agent_version controlled_writes_compiled config = \<lparr>
     cap_protocol_min = PROTOCOL_VERSION, cap_protocol_max = PROTOCOL_VERSION,
     cap_agent_version = agent_version,
     cap_supported_methods = READONLY_FIXED_METHOD_CATALOG,
     cap_provider_schemas = [\<lparr>ps_provider = OcservSnapshot, ps_min_version = SCHEMA_MAJOR_VERSION_V2,
       ps_max_version = SCHEMA_MAJOR_VERSION_V2\<rparr>],
     cap_feature_flags = [CapabilityNegotiation, HmacConfigFingerprint, LocalSnapshotV2, OcservReadonly],
     cap_controlled_writes = \<lparr>cwc_compiled = controlled_writes_compiled,
       cwc_locally_enabled = (controlled_writes_compiled \<and> cw_enabled (ac_controlled_writes config))\<rparr>\<rparr>"

definition collect_node_capabilities ::
    "ext \<Rightarrow> string \<Rightarrow> bool \<Rightarrow> agent_config \<Rightarrow> node_capabilities option" where
  "collect_node_capabilities X agent_version controlled_writes_compiled config =
     (let response = static_capabilities agent_version controlled_writes_compiled config in
      case capabilities_validate X response of Inl _ \<Rightarrow> None | Inr _ \<Rightarrow> Some response)"

text \<open>Documented behaviour of \<open>serde_json::to_vec\<close>: compact JSON, in which a string byte takes at
  most six characters, a number at most its decimal digits and a sign, and punctuation one character
  each. \<open>compact_bound\<close> is the bound this gives for a value.\<close>

fun compact_bound :: "json \<Rightarrow> nat" and compact_bound_list :: "json list \<Rightarrow> nat"
  and compact_bound_fields :: "(string \<times> json) list \<Rightarrow> nat" where
  "compact_bound JNull = 4"
| "compact_bound (JBool b) = 5"
| "compact_bound (JInt i) = 1 + length (show_int i)"
| "compact_bound (JStr s) = 2 + 6 * length s"
| "compact_bound (JArr vs) = 2 + compact_bound_list vs"
| "compact_bound (JObj kvs) = 2 + compact_bound_fields kvs"
| "compact_bound_list [] = 0"
| "compact_bound_list (v # vs) = 1 + compact_bound v + compact_bound_list vs"
| "compact_bound_fields [] = 0"
| "compact_bound_fields (kv # kvs) =
     4 + 6 * length (fst kv) + compact_bound (snd kv) + compact_bound_fields kvs"

definition json_compact :: "ext \<Rightarrow> bool" where
  "json_compact X \<longleftrightarrow> (\<forall>v. json_len X v \<le> compact_bound v)"

section \<open>Properties\<close>

lemma static_capabilities_size:
  assumes "valid_agent_version v"
  shows "compact_bound (capabilities_json (static_capabilities v feature cfg)) \<le> MAX_CAPABILITIES_RESPONSE_BYTES"
proof -
  have "length v \<le> 64"
    using assms by (simp add: valid_agent_version_def MAX_CAPABILITY_AGENT_VERSION_BYTES_def)
  then show ?thesis
    by (simp add: capabilities_json_def static_capabilities_def READONLY_FIXED_METHOD_CATALOG_def
        PROTOCOL_VERSION_def SCHEMA_MAJOR_VERSION_V2_def MAX_CAPABILITIES_RESPONSE_BYTES_def
        show_int_def show_nat.simps)
qed

text \<open>C35. The agent's capability response is always valid: for any valid version text and any
  configuration, \<open>collect_node_capabilities\<close> does not panic, its response passes the controller's own
  validation, and a controller speaking this protocol version finds it compatible.\<close>

theorem capabilities_never_panic:
  assumes "valid_agent_version v" "json_compact X"
  shows "collect_node_capabilities X v feature cfg = Some (static_capabilities v feature cfg)
    \<and> ensure_controller_compatible X PROTOCOL_VERSION (static_capabilities v feature cfg) = Inr ()"
proof -
  have "json_len X (capabilities_json (static_capabilities v feature cfg)) \<le> MAX_CAPABILITIES_RESPONSE_BYTES"
    using static_capabilities_size [OF assms(1)] assms(2) unfolding json_compact_def
    by (meson order_trans)
  then have valid: "capabilities_validate X (static_capabilities v feature cfg) = Inr ()"
    using assms(1)
    by (simp add: capabilities_validate_def all_ok_iff static_capabilities_def PROTOCOL_VERSION_def
        validate_sorted_unique_def READONLY_FIXED_METHOD_CATALOG_def MAX_CAPABILITY_METHODS_def
        MAX_CAPABILITY_FEATURE_FLAGS_def MAX_CAPABILITY_PROVIDER_SCHEMAS_def
        SCHEMA_MAJOR_VERSION_V2_def less_fixed_rpc_method_def less_agent_feature_flag_def not_less)
  then show ?thesis
    by (simp add: collect_node_capabilities_def ensure_controller_compatible_def Let_def)
      (simp add: static_capabilities_def PROTOCOL_VERSION_def READONLY_FIXED_METHOD_CATALOG_def)
qed

theorem capabilities_never_panic_witness:
  "collect_node_capabilities (example_ext \<lparr>json_len := compact_bound\<rparr>) ''0.3.0'' False example_agent_config
     = Some (static_capabilities ''0.3.0'' False example_agent_config)"
proof -
  have "valid_agent_version ''0.3.0''" by code_simp
  moreover have "json_compact (example_ext \<lparr>json_len := compact_bound\<rparr>)"
    by (simp add: json_compact_def)
  ultimately show ?thesis using capabilities_never_panic by blast
qed


end
