(* ===== verification/Agent_Server.thy ===== *)
theory Agent_Server
  imports Nonce_Cache Audit_Limiter Authz Capabilities
begin

text \<open>
  The agent's request path (\<open>ocfleet-agent/src/server.rs\<close>): metadata checks, replay registration,
  authorization, dispatch, the audited response and the stream handler that composes them.

  What a request reads from outside the process is the record \<open>request_env\<close>: the clock readings, the
  result of the ocserv provider and of the outbound peer echo, the outcome of the execution timeout,
  the bytes \<open>serde_json\<close> produces or accepts, whether a mutex is poisoned, and whether the audit
  writer accepts the event. The nonce cache, the metrics counters and the audit log are the state.
\<close>

section \<open>State and environment\<close>

record agent_metrics =
  am_rpc_succeeded :: nat
  am_rpc_failed :: nat
  am_rpc_duration_ms_sum :: nat
  am_rpc_duration_count :: nat
  am_rpc_code :: "string \<Rightarrow> nat"
  am_handshake_rejected :: nat
  am_nonce_replay_rejected :: nat
  am_nonce_resource_rejected :: nat

record audit_event =
  ev_event_id :: string
  ev_ts :: string
  ev_event :: string
  ev_request_id :: "string option"
  ev_root_request_id :: "string option"
  ev_peer_request_id :: "string option"
  ev_path_target_endpoint_id :: "string option"
  ev_remote_endpoint_id :: "string option"
  ev_method :: "string option"
  ev_params_hash :: "string option"
  ev_nonce_hash :: "string option"
  ev_allowed :: "bool option"
  ev_ok :: "bool option"
  ev_error_code :: "string option"
  ev_duration_ms :: "nat option"
  ev_response_bytes :: "nat option"
  ev_stage :: "string option"
  ev_reason :: "string option"
  ev_result_class :: "string option"
  ev_suppressed_count :: "nat option"
  ev_limit_key :: "string option"
  ev_resource :: "string option"

record agent_state =
  ag_config :: agent_config
  ag_nonce_cache :: nonce_cache
  ag_authz :: agent_authorization
  ag_endpoint_id :: string
  ag_has_outbound_endpoint :: bool
  ag_metrics :: agent_metrics
  ag_audit_limiter :: audit_limiter
  ag_audit_log :: "audit_event list"

record peer_echo_output =
  pe_request_id :: string
  pe_result :: json

record peer_echo_error =
  pee_code :: error_code
  pee_message :: string
  pee_details :: json
  pee_request_id :: "string option"

record request_env =
  en_now_utc :: int
  en_now_instant :: nat
  en_now_text :: string
  en_nonce_lock_poisoned :: bool
  en_limiter_lock_poisoned :: bool
  en_agent_version :: string
  en_controlled_writes_compiled :: bool
  en_ocserv :: "string \<Rightarrow> (error_code \<times> string) + json"
  en_peer_echo :: "string \<Rightarrow> peer_echo_error + peer_echo_output"
  en_timed_out :: bool
  en_started_text :: string
  en_finished_text :: string
  en_duration_ms :: nat
  en_encode :: "rpc_response \<Rightarrow> string + string"
  en_parse_json :: "string \<Rightarrow> string + json"
  en_decode_request :: "json \<Rightarrow> string + rpc_request"
  en_io_error :: string
  en_frame_timed_out :: bool
  en_event_id :: string
  en_elapsed_ms :: nat
  en_hash_json :: "json \<Rightarrow> string"
  en_hash_string :: "string \<Rightarrow> string"
  en_audit_write_ok :: bool

section \<open>Metrics (\<open>metrics.rs\<close>)\<close>

text \<open>\<open>AtomicU64::fetch_add\<close> wraps around.\<close>

definition fetch_add :: "nat \<Rightarrow> nat \<Rightarrow> nat" where
  "fetch_add v n = (v + n) mod 18446744073709551616"

definition rpc_code_class :: "error_code option \<Rightarrow> string" where
  "rpc_code_class error =
     (case error of
        None \<Rightarrow> ''success''
      | Some code \<Rightarrow>
          if code \<in> {FrameTooLarge, FrameReadFailed, InvalidJson, InvalidVersion, InvalidRequestId,
              InvalidTimestamp, RequestExpired, ClockSkewExceeded, InvalidNonce, ReplayedNonce,
              InvalidDeadline, ParamsInvalid, UnsupportedAuthScheme, ResponseTooLarge,
              InvalidResponse, MethodNotFound} then ''validation''
          else if code \<in> {EndpointNotAllowed, EndpointMismatch, NodeNotFound, NodeDisabled,
              MethodNotAllowed} then ''authorization''
          else if code \<in> {ResourceExhausted, SqliteBusyTimeout} then ''resource''
          else if code = RpcTimeout then ''timeout''
          else if code \<in> {ConnectFailed, SqliteError, SchemaMigrationFailed, SchemaVersionUnsupported,
              ConfigLoadFailed, SecretKeyLoadFailed, SecretKeyPermissionInvalid,
              OcservReadonlyDisabled, OcservProviderUnavailable, OcservProviderInvalidData,
              OcservProviderUnsafeSource, OcservOutputBoundExceeded, OcservUnsupportedField}
            then ''dependency''
          else ''internal'')"

definition record_rpc :: "error_code option \<Rightarrow> nat \<Rightarrow> agent_metrics \<Rightarrow> agent_metrics" where
  "record_rpc error duration_ms m =
     (let m1 = (if error = None then m \<lparr>am_rpc_succeeded := fetch_add (am_rpc_succeeded m) 1\<rparr>
                else m \<lparr>am_rpc_failed := fetch_add (am_rpc_failed m) 1\<rparr>);
          cls = rpc_code_class error
      in m1 \<lparr>am_rpc_code := (am_rpc_code m1)(cls := fetch_add (am_rpc_code m1 cls) 1),
             am_rpc_duration_ms_sum := fetch_add (am_rpc_duration_ms_sum m1) duration_ms,
             am_rpc_duration_count := fetch_add (am_rpc_duration_count m1) 1\<rparr>)"

definition nonce_rejected :: "bool \<Rightarrow> agent_metrics \<Rightarrow> agent_metrics" where
  "nonce_rejected resource_exhausted m =
     (if resource_exhausted
      then m \<lparr>am_nonce_resource_rejected := fetch_add (am_nonce_resource_rejected m) 1\<rparr>
      else m \<lparr>am_nonce_replay_rejected := fetch_add (am_nonce_replay_rejected m) 1\<rparr>)"

section \<open>Metadata checks\<close>

record dispatch_error =
  de_request_id :: "string option"
  de_code :: error_code
  de_message :: string
  de_details :: json

definition dispatch_error_new ::
    "string option \<Rightarrow> error_code \<Rightarrow> string \<Rightarrow> json \<Rightarrow> dispatch_error" where
  "dispatch_error_new request_id code message details =
     \<lparr>de_request_id = request_id, de_code = code, de_message = message, de_details = details\<rparr>"

definition valid_request_id :: "string \<Rightarrow> bool" where
  "valid_request_id value \<longleftrightarrow> length value = 36
     \<and> list_all (\<lambda>(index, b). if index \<in> {8, 13, 18, 23} then b = CHR ''-'' else is_ascii_hexdigit b)
         (zip [0..<36] value)"

definition agent_validate_nonce :: "ext \<Rightarrow> string \<Rightarrow> string + unit" where
  "agent_validate_nonce X nonce =
     (case base64url_decode X nonce of
        None \<Rightarrow> Inl ''nonce must be base64url without padding''
      | Some bytes \<Rightarrow>
          if length bytes \<noteq> 16 then Inl ''nonce must decode to exactly 16 bytes'' else Inr ())"

text \<open>\<open>OffsetDateTime - Duration\<close> is the addition of the negated duration.\<close>

definition agent_validate_issued_at ::
    "ext \<Rightarrow> int \<Rightarrow> string \<Rightarrow> nat \<Rightarrow> int \<Rightarrow> (error_code \<times> string \<times> json) fault + unit" where
  "agent_validate_issued_at X now issued_at deadline_ms allowed_skew =
     (if \<not> ends_with ''Z'' issued_at
      then Inl (Fail (InvalidTimestamp, ''issued_at must be RFC3339 UTC'', jobj []))
      else (case parse_rfc3339 X issued_at of
          None \<Rightarrow> Inl (Fail (InvalidTimestamp, rfc3339_error X issued_at,
            jobj [(''issued_at'', JStr issued_at)]))
        | Some issued \<Rightarrow>
            (case odt_add X now (ns_of_secs allowed_skew) of
               None \<Rightarrow> Inl Panic
             | Some latest \<Rightarrow>
                 if issued > latest
                 then Inl (Fail (ClockSkewExceeded, ''issued_at is too far in the future'',
                   jobj [(''allowed_clock_skew_seconds'', JInt allowed_skew)]))
                 else (case odt_add X issued (ns_of_ms (u64_as_i64 deadline_ms)) of
                     None \<Rightarrow> Inl Panic
                   | Some expires \<Rightarrow>
                       if now > expires
                       then Inl (Fail (RequestExpired, ''request deadline has expired'',
                         jobj [(''deadline_ms'', JInt (int deadline_ms))]))
                       else (case odt_add X now (- ns_of_secs allowed_skew) of
                           None \<Rightarrow> Inl Panic
                         | Some earliest \<Rightarrow>
                             if issued < earliest
                             then Inl (Fail (ClockSkewExceeded, ''issued_at is too far in the past'',
                               jobj [(''allowed_clock_skew_seconds'', JInt allowed_skew)]))
                             else Inr ())))))"

definition params_are_empty :: "json \<Rightarrow> bool" where
  "params_are_empty params \<longleftrightarrow> params = JNull \<or> params = JObj []"

text \<open>The time to live of a nonce, in nanoseconds.\<close>

definition nonce_ttl :: "nat \<Rightarrow> int \<Rightarrow> nat" where
  "nonce_ttl deadline_ms skew_seconds =
     (let skew_ms = u64_sat_mul (nat skew_seconds) 1000
      in u64_sat_add deadline_ms skew_ms * 1000000)"

definition nonce_limit_scope_name :: "nonce_limit_scope \<Rightarrow> string" where
  "nonce_limit_scope_name scope =
     (case scope of ScopeGlobal \<Rightarrow> ''global'' | ScopePerPeer \<Rightarrow> ''per_peer'')"

section \<open>Authorization of a request\<close>

definition caller_debug :: "caller_class \<Rightarrow> string" where
  "caller_debug c = (case c of CallerController \<Rightarrow> ''Controller'' | CallerPeer \<Rightarrow> ''Peer''
     | CallerDisabledPeer \<Rightarrow> ''DisabledPeer'' | CallerUnknown \<Rightarrow> ''Unknown'')"

definition method_details :: "string \<Rightarrow> json" where
  "method_details method = jobj [(''method'', JStr method)]"

definition known_but_not_allowed :: "string \<Rightarrow> string \<Rightarrow> dispatch_error" where
  "known_but_not_allowed request_id method =
     dispatch_error_new (Some request_id) MethodNotAllowed
       (''method is known but not allowed in phase 1: '' @ method) (method_details method)"

definition method_not_allowed_for_caller :: "string \<Rightarrow> string \<Rightarrow> caller_class \<Rightarrow> dispatch_error" where
  "method_not_allowed_for_caller request_id method caller =
     dispatch_error_new (Some request_id) MethodNotAllowed
       (''method is not allowed for '' @ caller_debug caller @ '': '' @ method) (method_details method)"

definition method_not_found :: "string \<Rightarrow> string \<Rightarrow> dispatch_error" where
  "method_not_found request_id method =
     dispatch_error_new (Some request_id) MethodNotFound (''method not found: '' @ method)
       (method_details method)"

definition authorize_controller_method :: "string \<Rightarrow> string \<Rightarrow> dispatch_error + unit" where
  "authorize_controller_method method request_id =
     (case classify_phase_one_method method of
        KnownButNotAllowed \<Rightarrow> Inl (known_but_not_allowed request_id method)
      | UnknownMethod \<Rightarrow>
          if starts_with ''ocserv.'' method then Inl (known_but_not_allowed request_id method)
          else Inl (method_not_found request_id method)
      | Allowed \<Rightarrow> Inr ())"

definition authorize_peer_method :: "string \<Rightarrow> string \<Rightarrow> dispatch_error + unit" where
  "authorize_peer_method method request_id =
     (case classify_phase_one_method method of
        Allowed \<Rightarrow> Inl (method_not_allowed_for_caller request_id method CallerPeer)
      | KnownButNotAllowed \<Rightarrow> Inl (method_not_allowed_for_caller request_id method CallerPeer)
      | UnknownMethod \<Rightarrow>
          if method = PROBE_PATH_ECHO
          then Inl (method_not_allowed_for_caller request_id method CallerPeer)
          else if starts_with ''ocserv.'' method
          then Inl (method_not_allowed_for_caller request_id method CallerPeer)
          else Inl (method_not_found request_id method))"

text \<open>The last arm is \<open>unreachable!()\<close> in the source; it cannot be reached because the first test has
  already rejected those classes, and is a panic here.\<close>

definition authorize_request_method ::
    "caller_class \<Rightarrow> string \<Rightarrow> string \<Rightarrow> dispatch_error fault + unit" where
  "authorize_request_method caller method request_id =
     (if caller \<in> {CallerDisabledPeer, CallerUnknown}
      then Inl (Fail (dispatch_error_new (Some request_id) EndpointNotAllowed
             ''remote endpoint is not authorized'' (method_details method)))
      else if method_allowed caller method then Inr ()
      else (case caller of
          CallerController \<Rightarrow>
            if method = PROBE_PEER_ECHO
            then Inl (Fail (method_not_allowed_for_caller request_id method caller))
            else map_err Fail (authorize_controller_method method request_id)
        | CallerPeer \<Rightarrow> map_err Fail (authorize_peer_method method request_id)
        | CallerDisabledPeer \<Rightarrow> Inl Panic
        | CallerUnknown \<Rightarrow> Inl Panic))"

definition classify_request_caller :: "ext \<Rightarrow> agent_state \<Rightarrow> string \<Rightarrow> caller_class" where
  "classify_request_caller X st remote =
     (case parse_endpoint_id X remote of
        Inl _ \<Rightarrow> CallerUnknown | Inr e \<Rightarrow> authz_classify (ag_authz st) e)"

definition validate_path_echo_params :: "ext \<Rightarrow> json \<Rightarrow> string \<Rightarrow> dispatch_error + string" where
  "validate_path_echo_params X params request_id =
     (case params of
        JObj object \<Rightarrow>
          if length object \<noteq> 1 \<or> map_of object ''target_agent_endpoint_id'' = None
          then Inl (dispatch_error_new (Some request_id) ParamsInvalid
            ''probe.path.echo params must contain only target_agent_endpoint_id'' (jobj []))
          else (case map_of object ''target_agent_endpoint_id'' of
              Some (JStr target) \<Rightarrow>
                (case parse_endpoint_id X target of
                   Inl err \<Rightarrow> Inl (dispatch_error_new (Some request_id) ParamsInvalid
                     (''invalid target_agent_endpoint_id: '' @ err) (jobj []))
                 | Inr e \<Rightarrow> Inr e)
            | _ \<Rightarrow> Inl (dispatch_error_new (Some request_id) ParamsInvalid
                ''target_agent_endpoint_id must be a string'' (jobj [])))
      | _ \<Rightarrow> Inl (dispatch_error_new (Some request_id) ParamsInvalid
          ''probe.path.echo params must be an object with target_agent_endpoint_id'' (jobj [])))"

definition target_details :: "string \<Rightarrow> json" where
  "target_details target = jobj [(''target_agent_endpoint_id'', JStr target)]"

definition authorize_path_probe_target ::
    "ext \<Rightarrow> agent_state \<Rightarrow> string \<Rightarrow> string \<Rightarrow> string \<Rightarrow> dispatch_error + unit" where
  "authorize_path_probe_target X st remote target request_id =
     rbind (map_err (\<lambda>err. dispatch_error_new (Some request_id) EndpointNotAllowed
              (''invalid controller EndpointID: '' @ err) (jobj [])) (parse_endpoint_id X remote))
     (\<lambda>controller. rbind (map_err (\<lambda>err. dispatch_error_new (Some request_id) InternalError
              (''invalid source agent EndpointID: '' @ err) (jobj []))
              (parse_endpoint_id X (ag_endpoint_id st)))
     (\<lambda>source. case path_probe_decision_of (ag_authz st) controller target source of
          ProbeAllowed \<Rightarrow> Inr ()
        | ProbeSelfTarget \<Rightarrow> Inl (dispatch_error_new (Some request_id) ParamsInvalid
            ''probe.path.echo target must not be the source agent'' (target_details target))
        | ProbeTargetIsController \<Rightarrow> Inl (dispatch_error_new (Some request_id) EndpointNotAllowed
            ''probe.path.echo target must not be a controller EndpointID'' (target_details target))
        | ProbeDisabled \<Rightarrow> Inl (dispatch_error_new (Some request_id) EndpointNotAllowed
            ''probe.path.echo authorization is disabled'' (target_details target))
        | ProbeMissing \<Rightarrow> Inl (dispatch_error_new (Some request_id) EndpointNotAllowed
            ''probe.path.echo authorization is missing'' (target_details target))))"

section \<open>Dispatch\<close>

definition node_info_json :: "agent_state \<Rightarrow> request_env \<Rightarrow> json" where
  "node_info_json st env = jobj
     [(''node_id'', JStr (nc_id (ac_node (ag_config st)))),
      (''region'', JStr (nc_region (ac_node (ag_config st)))),
      (''role'', JStr (nc_role (ac_node (ag_config st)))),
      (''agent_version'', JStr (en_agent_version env)),
      (''current_time_utc'', JStr (en_now_text env)),
      (''agent_endpoint_id'', JStr (ag_endpoint_id st))]"

definition is_ocserv_readonly_method :: "string \<Rightarrow> bool" where
  "is_ocserv_readonly_method method \<longleftrightarrow> method \<in> {OCSERV_SERVICE_SUMMARY, OCSERV_VERSION,
     OCSERV_SESSIONS_SUMMARY, OCSERV_CERT_EXPIRY, OCSERV_CONFIG_FINGERPRINT}"

text \<open>\<open>provider_from_config\<close> picks the disabled provider unless the section is enabled with another
  kind; the disabled provider answers every method with the same error.\<close>

definition ocserv_provider_result ::
    "ocserv_readonly_config \<Rightarrow> request_env \<Rightarrow> string \<Rightarrow> (error_code \<times> string) + json" where
  "ocserv_provider_result config env method =
     (if \<not> or_enabled config \<or> or_provider config = ProviderDisabled
      then Inl (OcservReadonlyDisabled, ''ocserv readonly provider is disabled'')
      else en_ocserv env method)"

definition ocserv_provider_error :: "string \<Rightarrow> error_code \<times> string \<Rightarrow> dispatch_error" where
  "ocserv_provider_error request_id err =
     dispatch_error_new (Some request_id) (fst err) (snd err)
       (jobj [(''result_class'', JStr ''low_sensitive_summary'')])"

definition dispatch_ocserv_readonly ::
    "agent_state \<Rightarrow> request_env \<Rightarrow> string \<Rightarrow> string \<Rightarrow> dispatch_error + json" where
  "dispatch_ocserv_readonly st env method request_id =
     map_err (ocserv_provider_error request_id)
       (ocserv_provider_result (ac_ocserv_readonly (ag_config st)) env method)"

definition normalize_peer_echo_result :: "json \<Rightarrow> string \<Rightarrow> dispatch_error + json" where
  "normalize_peer_echo_result result request_id =
     (case result of
        JObj object \<Rightarrow>
          if Option.bind (map_of object ''probe'') as_str \<noteq> Some ''peer.echo''
             \<or> Option.bind (map_of object ''message'') as_str \<noteq> Some ''pong''
          then Inl (dispatch_error_new (Some request_id) InvalidResponse
            ''peer echo result did not contain expected fixed response'' (jobj []))
          else Inr (jobj [(''probe'', JStr ''peer.echo''), (''message'', JStr ''pong'')])
      | _ \<Rightarrow> Inl (dispatch_error_new (Some request_id) InvalidResponse
          ''peer echo result must be an object'' (jobj [])))"

definition dispatch_path_echo ::
    "ext \<Rightarrow> agent_state \<Rightarrow> request_env \<Rightarrow> string \<Rightarrow> string \<Rightarrow> dispatch_error + json" where
  "dispatch_path_echo X st env request_id target =
     rbind (map_err (\<lambda>err. dispatch_error_new (Some request_id) InternalError
              (''invalid source agent EndpointID: '' @ err) (jobj []))
              (parse_endpoint_id X (ag_endpoint_id st)))
     (\<lambda>source.
        if \<not> ag_has_outbound_endpoint st
        then Inl (dispatch_error_new (Some request_id) InternalError
          ''source agent outbound endpoint is unavailable'' (jobj []))
        else (case en_peer_echo env target of
            Inr output \<Rightarrow>
              rbind (normalize_peer_echo_result (pe_result output) request_id)
              (\<lambda>target_result. Inr (jobj
                 [(''probe'', JStr ''path.echo''), (''ok'', JBool True),
                  (''source_agent_endpoint_id'', JStr source),
                  (''target_agent_endpoint_id'', JStr target),
                  (''root_request_id'', JStr request_id),
                  (''peer_request_id'', JStr (pe_request_id output)),
                  (''target_result'', target_result),
                  (''time_utc'', JStr (en_now_text env))]))
          | Inl err \<Rightarrow>
              if pee_code err = AuditWriteFailed
              then Inl (dispatch_error_new (Some request_id) (pee_code err) (pee_message err)
                     (pee_details err))
              else Inr (jobj
                 [(''probe'', JStr ''path.echo''), (''ok'', JBool False),
                  (''source_agent_endpoint_id'', JStr source),
                  (''target_agent_endpoint_id'', JStr target),
                  (''root_request_id'', JStr request_id),
                  (''peer_request_id'', jopt JStr (pee_request_id err)),
                  (''target_result'', jobj
                     [(''ok'', JBool False), (''error_code'', JStr (error_code_name (pee_code err))),
                      (''stage'', JStr ''target_peer_echo''),
                      (''reason'', JStr ''target peer echo failed'')]),
                  (''time_utc'', JStr (en_now_text env))])))"

definition dispatch_allowed_method ::
    "ext \<Rightarrow> agent_state \<Rightarrow> request_env \<Rightarrow> string \<Rightarrow> string \<Rightarrow> string \<Rightarrow> string option \<Rightarrow>
     dispatch_error fault + json" where
  "dispatch_allowed_method X st env remote method request_id path_probe =
     (if method = NODE_PING then Inr (jobj
        [(''message'', JStr ''pong''), (''node_id'', JStr (nc_id (ac_node (ag_config st)))),
         (''agent_version'', JStr (en_agent_version env)), (''time_utc'', JStr (en_now_text env))])
      else if method = PROBE_CONTROLLER_PING then Inr (jobj
        [(''message'', JStr ''pong''), (''probe'', JStr ''controller.ping''),
         (''node_id'', JStr (nc_id (ac_node (ag_config st)))),
         (''agent_version'', JStr (en_agent_version env)),
         (''agent_endpoint_id'', JStr (ag_endpoint_id st)), (''time_utc'', JStr (en_now_text env))])
      else if method = PROBE_PEER_ECHO then Inr (jobj
        [(''message'', JStr ''pong''), (''probe'', JStr ''peer.echo''),
         (''source_agent_endpoint_id'', JStr remote),
         (''target_agent_endpoint_id'', JStr (ag_endpoint_id st)),
         (''target_node_id'', JStr (nc_id (ac_node (ag_config st)))),
         (''agent_version'', JStr (en_agent_version env)), (''time_utc'', JStr (en_now_text env))])
      else if method = PROBE_PATH_ECHO then
        (case path_probe of
           None \<Rightarrow> Inl (Fail (dispatch_error_new (Some request_id) InternalError
             ''missing validated path probe params'' (jobj [])))
         | Some target \<Rightarrow> map_err Fail (dispatch_path_echo X st env request_id target))
      else if method = NODE_INFO then Inr (node_info_json st env)
      else if method = NODE_CAPABILITIES then
        (case collect_node_capabilities X (en_agent_version env)
             (en_controlled_writes_compiled env) (ag_config st) of
           None \<Rightarrow> Inl Panic
         | Some caps \<Rightarrow> Inr (capabilities_json caps))
      else if is_ocserv_readonly_method method
      then map_err Fail (dispatch_ocserv_readonly st env method request_id)
      else Inl (Fail (method_not_found request_id method)))"

section \<open>The request pipeline\<close>

text \<open>The checks before the replay cache, in source order; they read but do not change the state.\<close>

definition check_request_metadata ::
    "ext \<Rightarrow> agent_state \<Rightarrow> request_env \<Rightarrow> rpc_request \<Rightarrow> dispatch_error fault + unit" where
  "check_request_metadata X st env request =
     (let sec = ac_security (ag_config st);
          request_id = rq_request_id request;
          request_id_for_error = (if valid_request_id request_id then Some request_id else None)
      in if rq_version request \<noteq> PROTOCOL_VERSION
         then Inl (Fail (dispatch_error_new request_id_for_error InvalidVersion
           (''unsupported protocol version: '' @ show_nat (rq_version request))
           (jobj [(''expected'', JInt (int PROTOCOL_VERSION)),
                  (''actual'', JInt (int (rq_version request)))])))
         else if \<not> valid_request_id request_id
         then Inl (Fail (dispatch_error_new None InvalidRequestId ''request_id must be a UUID'' (jobj [])))
         else if rq_auth request \<noteq> None
         then Inl (Fail (dispatch_error_new (Some request_id) UnsupportedAuthScheme
           ''auth must be null for phase 1'' (jobj [])))
         else if rq_deadline_ms request = 0 \<or> max_deadline_ms sec < rq_deadline_ms request
         then Inl (Fail (dispatch_error_new (Some request_id) InvalidDeadline
           ''deadline_ms must be positive and no larger than max_deadline_ms''
           (jobj [(''deadline_ms'', JInt (int (rq_deadline_ms request))),
                  (''max_deadline_ms'', JInt (int (max_deadline_ms sec)))])))
         else rbind (map_err (\<lambda>message. Fail (dispatch_error_new (Some request_id) InvalidNonce
                 message (jobj []))) (agent_validate_nonce X (rq_nonce request)))
         (\<lambda>_. map_err (\<lambda>f. case f of
                 Panic \<Rightarrow> Panic
               | Fail (code, message, details) \<Rightarrow>
                   Fail (dispatch_error_new (Some request_id) code message details))
               (agent_validate_issued_at X (en_now_utc env) (rq_issued_at request)
                 (rq_deadline_ms request) (allowed_clock_skew_seconds sec))))"

text \<open>Everything after an accepted nonce.\<close>

definition authorize_and_dispatch ::
    "ext \<Rightarrow> agent_state \<Rightarrow> request_env \<Rightarrow> string \<Rightarrow> rpc_request \<Rightarrow> dispatch_error fault + (string \<times> json)" where
  "authorize_and_dispatch X st env remote request =
     (let request_id = rq_request_id request;
          caller = classify_request_caller X st remote
      in rbind (authorize_request_method caller (rq_method request) request_id)
      (\<lambda>_. rbind
         (if rq_method request = PROBE_PATH_ECHO
          then rbind (map_err Fail (validate_path_echo_params X (rq_params request) request_id))
            (\<lambda>target. rbind (map_err Fail (authorize_path_probe_target X st remote target request_id))
            (\<lambda>_. Inr (Some target)))
          else if \<not> params_are_empty (rq_params request)
          then Inl (Fail (dispatch_error_new (Some request_id) ParamsInvalid
            ''this fixed rpc method accepts only null or empty object params'' (jobj [])))
          else Inr None)
      (\<lambda>path_probe.
         let timeout = min (rq_deadline_ms request)
               (max_rpc_timeout_ms (ac_security (ag_config st)))
         in if en_timed_out env
            then Inl (Fail (dispatch_error_new (Some request_id) RpcTimeout
              ''rpc execution exceeded timeout'' (jobj [(''timeout_ms'', JInt (int timeout))])))
            else rbind (dispatch_allowed_method X st env remote (rq_method request) request_id path_probe)
              (\<lambda>value. Inr (request_id, value)))))"

definition validate_and_dispatch_request ::
    "ext \<Rightarrow> request_env \<Rightarrow> string \<Rightarrow> rpc_request \<Rightarrow> agent_state \<Rightarrow>
     (dispatch_error fault + (string \<times> json)) \<times> agent_state" where
  "validate_and_dispatch_request X env remote request st =
     (case check_request_metadata X st env request of
        Inl e \<Rightarrow> (Inl e, st)
      | Inr _ \<Rightarrow>
          let request_id = rq_request_id request;
              ttl = nonce_ttl (rq_deadline_ms request)
                      (allowed_clock_skew_seconds (ac_security (ag_config st)))
          in if en_nonce_lock_poisoned env
             then (Inl (Fail (dispatch_error_new (Some request_id) InternalError
                     ''nonce cache lock poisoned'' (jobj []))), st)
             else
               let reg = register_at (en_now_instant env) remote (rq_nonce request) ttl
                           (ag_nonce_cache st);
                   st' = st \<lparr>ag_nonce_cache := snd reg\<rparr>
               in (case fst reg of
                   NonceReplay \<Rightarrow>
                     (Inl (Fail (dispatch_error_new (Some request_id) ReplayedNonce
                        ''nonce was already used by this remote endpoint'' (jobj []))),
                      st' \<lparr>ag_metrics := nonce_rejected False (ag_metrics st')\<rparr>)
                 | NonceExhausted scope limit \<Rightarrow>
                     (Inl (Fail (dispatch_error_new (Some request_id) ResourceExhausted
                        ''nonce cache limit exceeded''
                        (jobj [(''resource'', JStr ''nonce_cache''),
                               (''scope'', JStr (nonce_limit_scope_name scope)),
                               (''limit'', JInt (int limit))]))),
                      st' \<lparr>ag_metrics := nonce_rejected True (ag_metrics st')\<rparr>)
                 | NonceAccepted \<Rightarrow> (authorize_and_dispatch X st' env remote request, st')))"

section \<open>Responses and the stream handler\<close>

definition error_response ::
    "string \<Rightarrow> string option \<Rightarrow> error_code \<Rightarrow> string \<Rightarrow> json \<Rightarrow> rpc_response" where
  "error_response now request_id code message details =
     \<lparr>rs_version = PROTOCOL_VERSION, rs_request_id = request_id, rs_ok = False, rs_result = None,
      rs_error = Some \<lparr>err_code = code, err_message = message, err_details = details\<rparr>,
      rs_started_at = now, rs_finished_at = now, rs_duration_ms = 0\<rparr>"

definition ok_response :: "string \<Rightarrow> string \<Rightarrow> json \<Rightarrow> rpc_response" where
  "ok_response now request_id result =
     \<lparr>rs_version = PROTOCOL_VERSION, rs_request_id = Some request_id, rs_ok = True,
      rs_result = Some result, rs_error = None, rs_started_at = now, rs_finished_at = now,
      rs_duration_ms = 0\<rparr>"

definition with_response_timing :: "request_env \<Rightarrow> rpc_response \<Rightarrow> rpc_response" where
  "with_response_timing env response =
     response \<lparr>rs_started_at := en_started_text env, rs_finished_at := en_finished_text env,
       rs_duration_ms := en_duration_ms env\<rparr>"

text \<open>\<open>None\<close> when the request task panics.\<close>

definition handle_request ::
    "ext \<Rightarrow> request_env \<Rightarrow> string \<Rightarrow> rpc_request \<Rightarrow> agent_state \<Rightarrow> rpc_response option \<times> agent_state" where
  "handle_request X env remote request st =
     (let r = validate_and_dispatch_request X env remote request st in
      (case fst r of
         Inr (request_id, result) \<Rightarrow>
           Some (with_response_timing env (ok_response (en_now_text env) request_id result))
       | Inl (Fail err) \<Rightarrow>
           Some (with_response_timing env (error_response (en_now_text env) (de_request_id err)
             (de_code err) (de_message err) (de_details err)))
       | Inl Panic \<Rightarrow> None,
       snd r))"

definition read_frame :: "request_env \<Rightarrow> string \<Rightarrow> nat \<Rightarrow> (error_code \<times> string) + string" where
  "read_frame env input max_bytes =
     (if length input < 4 then Inl (FrameReadFailed, en_io_error env)
      else let declared = u32_from_be_bytes (take 4 input) in
        if max_bytes < declared
        then Inl (FrameTooLarge, ''frame too large: '' @ show_nat declared @ '' > '' @ show_nat max_bytes)
        else if length (drop 4 input) < declared then Inl (FrameReadFailed, en_io_error env)
        else Inr (take declared (drop 4 input)))"

definition read_frame_with_timeout ::
    "request_env \<Rightarrow> string \<Rightarrow> nat \<Rightarrow> nat \<Rightarrow> (error_code \<times> string) + string" where
  "read_frame_with_timeout env input max_bytes timeout_ms =
     (if en_frame_timed_out env
      then Inl (RpcTimeout, ''frame read timed out after '' @ show_nat timeout_ms @ '' ms'')
      else read_frame env input max_bytes)"

definition serialize_response :: "request_env \<Rightarrow> rpc_response \<Rightarrow> nat \<Rightarrow> (error_code \<times> string) + string" where
  "serialize_response env response max_bytes =
     (case en_encode env response of
        Inl err \<Rightarrow> Inl (InvalidResponse, err)
      | Inr payload \<Rightarrow>
          if max_bytes < length payload
          then Inl (ResponseTooLarge, ''response too large: '' @ show_nat (length payload) @ '' > '' @
                 show_nat max_bytes)
          else Inr payload)"

definition audit_event_new :: "request_env \<Rightarrow> string \<Rightarrow> audit_event" where
  "audit_event_new env event = \<lparr>ev_event_id = en_event_id env, ev_ts = en_now_text env,
     ev_event = event, ev_request_id = None, ev_root_request_id = None, ev_peer_request_id = None,
     ev_path_target_endpoint_id = None, ev_remote_endpoint_id = None, ev_method = None,
     ev_params_hash = None, ev_nonce_hash = None, ev_allowed = None, ev_ok = None,
     ev_error_code = None, ev_duration_ms = None, ev_response_bytes = None, ev_stage = None,
     ev_reason = None, ev_result_class = None, ev_suppressed_count = None, ev_limit_key = None,
     ev_resource = None\<rparr>"

definition base_audit_event :: "request_env \<Rightarrow> string \<Rightarrow> string \<Rightarrow> audit_event" where
  "base_audit_event env remote stage = (audit_event_new env ''rpc_request'')
     \<lparr>ev_remote_endpoint_id := Some remote, ev_stage := Some stage,
      ev_duration_ms := Some (min (en_elapsed_ms env) u64_max)\<rparr>"

definition response_error_code :: "rpc_response \<Rightarrow> string option" where
  "response_error_code response = map_option (\<lambda>e. error_code_name (err_code e)) (rs_error response)"

definition sync_audit_event_with_response :: "rpc_response \<Rightarrow> nat \<Rightarrow> audit_event \<Rightarrow> audit_event" where
  "sync_audit_event_with_response response response_bytes event =
     event \<lparr>ev_ok := Some (rs_ok response), ev_allowed := Some (rs_ok response),
       ev_error_code := response_error_code response, ev_response_bytes := Some response_bytes\<rparr>"

definition sync_path_audit_fields ::
    "ext \<Rightarrow> string \<Rightarrow> json \<Rightarrow> rpc_response \<Rightarrow> audit_event \<Rightarrow> audit_event" where
  "sync_path_audit_fields X method params response event0 =
     (if method \<noteq> PROBE_PATH_ECHO then event0
      else
        let endpoint_field = (\<lambda>v. Option.bind (Option.bind (jget ''target_agent_endpoint_id'' v) as_str)
              (endpoint_id_from_str X));
            event1 = event0 \<lparr>ev_root_request_id := ev_request_id event0\<rparr>;
            event2 = (case endpoint_field params of None \<Rightarrow> event1
              | Some t \<Rightarrow> event1 \<lparr>ev_path_target_endpoint_id := Some t\<rparr>)
        in (case rs_result response of
            Some (JObj object) \<Rightarrow>
              let event3 = (case Option.bind (map_of object ''root_request_id'') as_str of
                      None \<Rightarrow> event2 | Some r \<Rightarrow> event2 \<lparr>ev_root_request_id := Some r\<rparr>);
                  event4 = (case Option.bind (map_of object ''peer_request_id'') as_str of
                      None \<Rightarrow> event3 | Some r \<Rightarrow> event3 \<lparr>ev_peer_request_id := Some r\<rparr>)
              in (case endpoint_field (JObj object) of None \<Rightarrow> event4
                  | Some t \<Rightarrow> event4 \<lparr>ev_path_target_endpoint_id := Some t\<rparr>)
          | _ \<Rightarrow> event2))"

text \<open>What the stream task does in the end: write a response, stop with a server error, or panic.\<close>

datatype stream_result =
    Responded (responded: rpc_response)
  | StreamError error_code string
  | StreamPanicked

definition write_response :: "request_env \<Rightarrow> rpc_response \<Rightarrow> nat \<Rightarrow> stream_result" where
  "write_response env response max_bytes =
     (case serialize_response env response max_bytes of
        Inl (code, message) \<Rightarrow> StreamError code message
      | Inr _ \<Rightarrow> Responded response)"

definition audit_and_write ::
    "request_env \<Rightarrow> rpc_response \<Rightarrow> string \<Rightarrow> audit_event \<Rightarrow> nat \<Rightarrow> agent_state \<Rightarrow>
     stream_result \<times> agent_state" where
  "audit_and_write env response payload event0 max_bytes st =
     (let event = sync_audit_event_with_response response (length payload) event0;
          duration = (case ev_duration_ms event of None \<Rightarrow> rs_duration_ms response | Some d \<Rightarrow> d);
          st1 = st \<lparr>ag_metrics := record_rpc (map_option err_code (rs_error response)) duration
                     (ag_metrics st)\<rparr>
      in if en_audit_write_ok env
         then (Responded response, st1 \<lparr>ag_audit_log := ag_audit_log st1 @ [event]\<rparr>)
         else (write_response env (error_response (en_now_text env) (rs_request_id response)
                  AuditWriteFailed ''failed to write agent audit event'' (jobj [])) max_bytes, st1))"

definition audit_then_write_response ::
    "request_env \<Rightarrow> rpc_response \<Rightarrow> audit_event \<Rightarrow> nat \<Rightarrow> agent_state \<Rightarrow> stream_result \<times> agent_state" where
  "audit_then_write_response env response event max_bytes st =
     (case serialize_response env response max_bytes of
        Inr payload \<Rightarrow> audit_and_write env response payload event max_bytes st
      | Inl (code, message) \<Rightarrow>
          if code = ResponseTooLarge
          then let response' = error_response (en_now_text env) (rs_request_id response)
                     ResponseTooLarge message
                     (jobj [(''max_response_bytes'', JInt (int max_bytes))])
               in (case serialize_response env response' max_bytes of
                   Inl (code', message') \<Rightarrow> (StreamError code' message', st)
                 | Inr payload \<Rightarrow> audit_and_write env response' payload event max_bytes st)
          else (StreamError code message, st))"

definition handle_bi_stream ::
    "ext \<Rightarrow> request_env \<Rightarrow> string \<Rightarrow> string \<Rightarrow> agent_state \<Rightarrow> stream_result \<times> agent_state" where
  "handle_bi_stream X env remote input st =
     (let sec = ac_security (ag_config st);
          max_req = max_request_bytes sec;
          max_resp = max_response_bytes sec;
          reject = (\<lambda>stage response reason edit.
            audit_then_write_response env response
              (edit ((base_audit_event env remote stage) \<lparr>ev_allowed := Some False, ev_ok := Some False,
                 ev_error_code := response_error_code response, ev_reason := Some reason\<rparr>))
              max_resp st)
      in case read_frame_with_timeout env input max_req (max_rpc_timeout_ms sec) of
        Inl (code, message) \<Rightarrow>
          reject ''read_frame'' (error_response (en_now_text env) None code message
            (jobj [(''max_request_bytes'', JInt (int max_req))])) message id
      | Inr payload \<Rightarrow>
          let payload_details = jobj [(''payload_length'', JInt (int (length payload)))];
              reason = (\<lambda>err. ''payload_length='' @ show_nat (length payload) @ ''; '' @ err)
          in case en_parse_json env payload of
            Inl err \<Rightarrow>
              reject ''decode_json'' (error_response (en_now_text env) None InvalidJson err
                payload_details) (reason err) id
          | Inr value \<Rightarrow>
              let request_id = (case Option.bind (jget ''request_id'' value) as_str of
                    None \<Rightarrow> None | Some r \<Rightarrow> if valid_request_id r then Some r else None)
              in case en_decode_request env value of
                Inl err \<Rightarrow>
                  reject ''decode_request'' (error_response (en_now_text env) request_id InvalidJson
                    err payload_details) (reason err)
                    (\<lambda>ev. ev \<lparr>ev_request_id := request_id,
                       ev_method := Option.bind (jget ''method'' value) as_str,
                       ev_params_hash := map_option (en_hash_json env) (jget ''params'' value),
                       ev_nonce_hash := map_option (en_hash_string env)
                          (Option.bind (jget ''nonce'' value) as_str)\<rparr>)
              | Inr request \<Rightarrow>
                  (case handle_request X env remote request st of
                     (None, st') \<Rightarrow> (StreamPanicked, st')
                   | (Some response, st') \<Rightarrow>
                       let ev1 = (base_audit_event env remote ''dispatch'')
                             \<lparr>ev_request_id := rs_request_id response,
                              ev_method := Some (rq_method request),
                              ev_params_hash := Some (en_hash_json env (rq_params request)),
                              ev_nonce_hash := Some (en_hash_string env (rq_nonce request)),
                              ev_allowed := Some (rs_ok response), ev_ok := Some (rs_ok response),
                              ev_error_code := response_error_code response\<rparr>;
                           ev2 = (if is_ocserv_readonly_method (rq_method request)
                             then ev1 \<lparr>ev_result_class := Some ''low_sensitive_summary''\<rparr> else ev1);
                           ev3 = sync_path_audit_fields X (rq_method request) (rq_params request)
                             response ev2
                       in audit_then_write_response env response ev3 max_resp st'))"

section \<open>Connection admission and limited audit events\<close>

definition write_limited_audit_event ::
    "request_env \<Rightarrow> string option \<Rightarrow> string \<Rightarrow> string \<Rightarrow> (nat \<Rightarrow> string \<Rightarrow> audit_event) \<Rightarrow>
     agent_state \<Rightarrow> agent_state" where
  "write_limited_audit_event env remote resource code event_builder st =
     (if en_limiter_lock_poisoned env then st
      else
        let r = limiter_check (en_now_instant env) remote resource code (ag_audit_limiter st);
            st' = st \<lparr>ag_audit_limiter := snd r\<rparr>
        in (case fst r of
            LimitWrite suppressed_count limit_key \<Rightarrow>
              if en_audit_write_ok env
              then st' \<lparr>ag_audit_log := ag_audit_log st' @ [event_builder suppressed_count limit_key]\<rparr>
              else st'
          | LimitSuppress \<Rightarrow> st'))"

definition rejection_event ::
    "request_env \<Rightarrow> string \<Rightarrow> string option \<Rightarrow> string \<Rightarrow> string \<Rightarrow> string \<Rightarrow> string \<Rightarrow> nat \<Rightarrow> string \<Rightarrow>
     audit_event" where
  "rejection_event env event_name remote stage code reason resource suppressed_count limit_key =
     (audit_event_new env event_name) \<lparr>ev_remote_endpoint_id := remote, ev_stage := Some stage,
        ev_allowed := Some False, ev_ok := Some False, ev_error_code := Some code,
        ev_reason := Some reason, ev_resource := Some resource,
        ev_suppressed_count := Some suppressed_count, ev_limit_key := Some limit_key\<rparr>"

definition audit_limited_rejection ::
    "request_env \<Rightarrow> string option \<Rightarrow> string \<Rightarrow> string \<Rightarrow> string \<Rightarrow> string \<Rightarrow> string \<Rightarrow>
     agent_state \<Rightarrow> agent_state" where
  "audit_limited_rejection env remote resource stage code reason event_name st =
     write_limited_audit_event env remote resource code
       (rejection_event env event_name remote stage code reason resource) st"

definition audit_resource_rejection ::
    "request_env \<Rightarrow> string option \<Rightarrow> string \<Rightarrow> string \<Rightarrow> string \<Rightarrow> agent_state \<Rightarrow> agent_state" where
  "audit_resource_rejection env remote resource stage reason st =
     audit_limited_rejection env remote resource stage ''RESOURCE_EXHAUSTED'' reason
       ''resource_rejected'' st"

definition audit_timeout_rejection ::
    "request_env \<Rightarrow> string option \<Rightarrow> string \<Rightarrow> string \<Rightarrow> string \<Rightarrow> agent_state \<Rightarrow> agent_state" where
  "audit_timeout_rejection env remote resource stage reason st =
     audit_limited_rejection env remote resource stage (error_code_name RpcTimeout) reason
       ''rpc_rejected'' st"

datatype handshake_outcome = HandshakeAccept | HandshakeReject (hr_code: nat) (hr_reason: string)

text \<open>\<open>AllowlistHook::after_handshake\<close> for a connection with remote identity \<open>remote\<close>; \<open>alpn\<close> is the
  lossily decoded ALPN.\<close>

definition after_handshake ::
    "request_env \<Rightarrow> bool \<Rightarrow> string \<Rightarrow> string \<Rightarrow> agent_state \<Rightarrow> handshake_outcome \<times> agent_state" where
  "after_handshake env server_side remote alpn st =
     (if \<not> server_side then (HandshakeAccept, st)
      else if is_connection_admitted (ag_authz st) remote then (HandshakeAccept, st)
      else
        let st1 = st \<lparr>ag_metrics := (ag_metrics st)
              \<lparr>am_handshake_rejected := fetch_add (am_handshake_rejected (ag_metrics st)) 1\<rparr>\<rparr>;
            reason = (case authz_classify (ag_authz st) remote of
                CallerDisabledPeer \<Rightarrow> ''disabled peer not allowed for ALPN '' @ alpn
              | CallerUnknown \<Rightarrow> ''endpoint not allowed for ALPN '' @ alpn
              | _ \<Rightarrow> ''endpoint not admitted for ALPN '' @ alpn)
        in (HandshakeReject 403 reason,
            write_limited_audit_event env (Some remote) ''connection'' ''ENDPOINT_NOT_ALLOWED''
              (rejection_event env ''rpc_rejected'' (Some remote) ''connection_admission''
                 ''ENDPOINT_NOT_ALLOWED'' reason ''connection'') st1))"

section \<open>Histories and examples\<close>

fun run_requests :: "ext \<Rightarrow> (request_env \<times> string \<times> rpc_request) list \<Rightarrow> agent_state \<Rightarrow> agent_state" where
  "run_requests X [] st = st"
| "run_requests X ((env, remote, rq) # rest) st =
     run_requests X rest (snd (validate_and_dispatch_request X env remote rq st))"

text \<open>A response is audited: the event is in the log, or the response reports the failed audit.\<close>

definition audited :: "request_env \<Rightarrow> string \<Rightarrow> rpc_response \<Rightarrow> agent_state \<Rightarrow> agent_state \<Rightarrow> bool" where
  "audited env remote r st st' \<longleftrightarrow>
     (if en_audit_write_ok env
      then \<exists>ev. ag_audit_log st' = ag_audit_log st @ [ev] \<and> ev_ok ev = Some (rs_ok r)
        \<and> ev_error_code ev = response_error_code r \<and> ev_remote_endpoint_id ev = Some remote
      else ag_audit_log st' = ag_audit_log st \<and> \<not> rs_ok r
        \<and> response_error_code r = Some ''AUDIT_WRITE_FAILED'')"

text \<open>The code a request that is not authorized is rejected with.\<close>

definition rejection_code :: "caller_class \<Rightarrow> string \<Rightarrow> error_code" where
  "rejection_code caller method =
     (if caller \<in> {CallerDisabledPeer, CallerUnknown} then EndpointNotAllowed
      else if classify_phase_one_method method \<noteq> UnknownMethod \<or> starts_with ''ocserv.'' method
        \<or> method \<in> {PROBE_PEER_ECHO, PROBE_PATH_ECHO} then MethodNotAllowed
      else MethodNotFound)"

definition example_request :: rpc_request where
  "example_request = \<lparr>rq_version = 1, rq_request_id = ''00000000-0000-4000-8000-000000000000'',
     rq_method = ''node.ping'', rq_params = JNull, rq_issued_at = ''123456789Z'',
     rq_nonce = ''0123456789abcdef'', rq_deadline_ms = 5000, rq_actor = None, rq_auth = None\<rparr>"

definition example_env :: "int \<Rightarrow> nat \<Rightarrow> request_env" where
  "example_env now instant = \<lparr>en_now_utc = ns_of_secs now, en_now_instant = instant, en_now_text = ''now'',
     en_nonce_lock_poisoned = False, en_limiter_lock_poisoned = False, en_agent_version = ''0.3.0'',
     en_controlled_writes_compiled = False, en_ocserv = (\<lambda>_. Inr JNull),
     en_peer_echo = (\<lambda>_. Inr \<lparr>pe_request_id = ''p'', pe_result = JNull\<rparr>), en_timed_out = False,
     en_started_text = ''s'', en_finished_text = ''f'', en_duration_ms = 0,
     en_encode = (\<lambda>_. Inr ''{}''), en_parse_json = (\<lambda>_. Inr JNull),
     en_decode_request = (\<lambda>_. Inr example_request), en_io_error = ''io'',
     en_frame_timed_out = False, en_event_id = ''e'', en_elapsed_ms = 0,
     en_hash_json = (\<lambda>_. ''h''), en_hash_string = (\<lambda>_. ''h''), en_audit_write_ok = True\<rparr>"

definition example_agent_state :: agent_state where
  "example_agent_state = \<lparr>ag_config = example_agent_config, ag_nonce_cache = with_limits 10 5,
     ag_authz = \<lparr>az_controllers = {''c1''}, az_enabled_peers = {''p1''}, az_disabled_peers = {},
       az_enabled_path_probes = {(''c1'', ''p1'')}, az_disabled_path_probes = {}\<rparr>,
     ag_endpoint_id = ''self'', ag_has_outbound_endpoint = True,
     ag_metrics = \<lparr>am_rpc_succeeded = 0, am_rpc_failed = 0, am_rpc_duration_ms_sum = 0,
       am_rpc_duration_count = 0, am_rpc_code = (\<lambda>_. 0), am_handshake_rejected = 0, am_nonce_replay_rejected = 0,
       am_nonce_resource_rejected = 0\<rparr>,
     ag_audit_limiter = audit_limiter_new (ac_audit example_agent_config), ag_audit_log = []\<rparr>"

definition example_input :: string where
  "example_input = u32_to_be_bytes 2 @ ''{}''"

section \<open>Laws\<close>

lemma authorize_request_method_ok:
  "authorize_request_method caller method rid = Inr () \<longleftrightarrow> method_allowed caller method"
proof -
  have "\<not> classify_phase_one_method method = Allowed"
    if "\<not> method_allowed CallerController method"
    using that by (auto simp: method_allowed_def classify_phase_one_method_def split: if_splits)
  then show ?thesis
    by (cases caller) (auto simp: authorize_request_method_def authorize_controller_method_def
        authorize_peer_method_def method_allowed_def split: method_status.splits)
qed

lemma authorize_never_panics: "authorize_request_method caller method rid \<noteq> Inl Panic"
  by (cases caller) (auto simp: authorize_request_method_def map_err_Inl_iff)

text \<open>What passing the metadata checks establishes.\<close>

lemma check_request_metadata_ok:
  assumes "check_request_metadata X st env rq = Inr ()" and exact: "odt_add_exact X"
  shows "rq_version rq = PROTOCOL_VERSION \<and> valid_request_id (rq_request_id rq) \<and> rq_auth rq = None
    \<and> 0 < rq_deadline_ms rq \<and> rq_deadline_ms rq \<le> max_deadline_ms (ac_security (ag_config st))
    \<and> (\<exists>bytes. base64url_decode X (rq_nonce rq) = Some bytes \<and> length bytes = 16)
    \<and> (\<exists>issued. parse_rfc3339 X (rq_issued_at rq) = Some issued
        \<and> issued \<le> en_now_utc env + ns_of_secs (allowed_clock_skew_seconds (ac_security (ag_config st)))
        \<and> en_now_utc env \<le> issued + ns_of_ms (u64_as_i64 (rq_deadline_ms rq))
        \<and> en_now_utc env - ns_of_secs (allowed_clock_skew_seconds (ac_security (ag_config st))) \<le> issued)"
proof -
  have add: "r = t + d" if "odt_add X t d = Some r" for t d r
    using exact that by (auto simp: odt_add_exact_def)
  show ?thesis
    using assms(1)
    by (auto simp: check_request_metadata_def agent_validate_nonce_def agent_validate_issued_at_def
        Let_def rbind_Inr_iff dest!: add split: if_splits option.splits)
qed

lemma authorize_path_probe_target_ok:
  "authorize_path_probe_target X st remote t rid = Inr () \<longleftrightarrow>
     (\<exists>c s. parse_endpoint_id X remote = Inr c \<and> parse_endpoint_id X (ag_endpoint_id st) = Inr s
        \<and> path_probe_decision_of (ag_authz st) c t s = ProbeAllowed)"
proof -
  have "(case d of ProbeAllowed \<Rightarrow> Inr () | ProbeDisabled \<Rightarrow> Inl a | ProbeMissing \<Rightarrow> Inl b
      | ProbeTargetIsController \<Rightarrow> Inl c | ProbeSelfTarget \<Rightarrow> Inl e) = Inr () \<longleftrightarrow> d = ProbeAllowed"
    for d and a b c e :: dispatch_error
    by (cases d) simp_all
  then show ?thesis
    by (simp add: authorize_path_probe_target_def rbind_Inr_iff)
qed

lemma authorize_and_dispatch_ok:
  assumes "authorize_and_dispatch X st env remote rq = Inr (rid, v)"
  shows "rid = rq_request_id rq \<and> method_allowed (classify_request_caller X st remote) (rq_method rq)
    \<and> (if rq_method rq = PROBE_PATH_ECHO
        then \<exists>c t s. parse_endpoint_id X remote = Inr c \<and> parse_endpoint_id X (ag_endpoint_id st) = Inr s
          \<and> validate_path_echo_params X (rq_params rq) (rq_request_id rq) = Inr t
          \<and> path_probe_decision_of (ag_authz st) c t s = ProbeAllowed
        else params_are_empty (rq_params rq))"
  using assms
  by (auto simp: authorize_and_dispatch_def Let_def rbind_Inr_iff authorize_request_method_ok
      authorize_path_probe_target_ok split: if_splits)

lemma method_allowed_catalog:
  "method_allowed caller method \<Longrightarrow> method \<in> fixed_method_as_str ` set READONLY_FIXED_METHOD_CATALOG"
  by (cases caller) (auto simp: method_allowed_def method_name_defs READONLY_FIXED_METHOD_CATALOG_def)

lemma validate_and_dispatch_frame [simp]:
  "ag_config (snd (validate_and_dispatch_request X env remote rq st)) = ag_config st"
  "ag_authz (snd (validate_and_dispatch_request X env remote rq st)) = ag_authz st"
  "ag_endpoint_id (snd (validate_and_dispatch_request X env remote rq st)) = ag_endpoint_id st"
  "ag_audit_log (snd (validate_and_dispatch_request X env remote rq st)) = ag_audit_log st"
  by (auto simp: validate_and_dispatch_request_def Let_def split: sum.splits nonce_decision.splits)


lemma validate_and_dispatch_ok:
  assumes "validate_and_dispatch_request X env remote rq st = (Inr (rid, v), st')"
  shows "check_request_metadata X st env rq = Inr ()
    \<and> fst (register_at (en_now_instant env) remote (rq_nonce rq)
        (nonce_ttl (rq_deadline_ms rq) (allowed_clock_skew_seconds (ac_security (ag_config st))))
        (ag_nonce_cache st)) = NonceAccepted
    \<and> st' = st \<lparr>ag_nonce_cache := snd (register_at (en_now_instant env) remote (rq_nonce rq)
        (nonce_ttl (rq_deadline_ms rq) (allowed_clock_skew_seconds (ac_security (ag_config st))))
        (ag_nonce_cache st))\<rparr>
    \<and> authorize_and_dispatch X st' env remote rq = Inr (rid, v)"
  using assms
  by (auto simp: validate_and_dispatch_request_def Let_def split: sum.splits nonce_decision.splits
      if_splits)

text \<open>The nonce cache only moves by registrations.\<close>

lemma validate_and_dispatch_cache:
  "ag_nonce_cache (snd (validate_and_dispatch_request X env remote rq st)) = ag_nonce_cache st
   \<or> ag_nonce_cache (snd (validate_and_dispatch_request X env remote rq st))
      = snd (register_at (en_now_instant env) remote (rq_nonce rq)
        (nonce_ttl (rq_deadline_ms rq) (allowed_clock_skew_seconds (ac_security (ag_config st))))
        (ag_nonce_cache st))"
  by (auto simp: validate_and_dispatch_request_def Let_def split: sum.splits nonce_decision.splits)

lemma validate_and_dispatch_replay:
  assumes "check_request_metadata X st env rq = Inr ()" "\<not> en_nonce_lock_poisoned env"
    and "fst (register_at (en_now_instant env) remote (rq_nonce rq)
        (nonce_ttl (rq_deadline_ms rq) (allowed_clock_skew_seconds (ac_security (ag_config st))))
        (ag_nonce_cache st)) = NonceReplay"
  shows "fst (validate_and_dispatch_request X env remote rq st) =
    Inl (Fail (dispatch_error_new (Some (rq_request_id rq)) ReplayedNonce
                        ''nonce was already used by this remote endpoint'' (jobj [])))"
  using assms by (simp add: validate_and_dispatch_request_def Let_def)

lemma run_requests_config [simp]: "ag_config (run_requests X rs st) = ag_config st"
  by (induction X rs st rule: run_requests.induct) simp_all

lemma run_requests_live:
  assumes "nonce_inv (ag_nonce_cache st)" "live_map (ag_nonce_cache st) k = Some t"
    and "\<forall>r\<in>set rs. en_now_instant (fst r) < t"
  shows "nonce_inv (ag_nonce_cache (run_requests X rs st))
    \<and> live_map (ag_nonce_cache (run_requests X rs st)) k = Some t"
  using assms
proof (induction X rs st rule: run_requests.induct)
  case (2 X env remote rq rest st)
  let ?st = "snd (validate_and_dispatch_request X env remote rq st)"
  have "nonce_inv (ag_nonce_cache ?st) \<and> live_map (ag_nonce_cache ?st) k = Some t"
    using validate_and_dispatch_cache [of X env remote rq st] "2.prems"
    by (auto simp: nonces.ok_register nonces.live_kept)
  with 2 show ?case by simp
qed simp

lemma nonce_ttl_exact:
  assumes "0 \<le> skew" "int deadline + skew * 1000 \<le> int u64_max"
  shows "int (nonce_ttl deadline skew) = ns_of_ms (int deadline) + ns_of_secs skew"
proof -
  have "nat skew * 1000 \<le> u64_max" "deadline + nat skew * 1000 \<le> u64_max"
    using assms by (auto simp: nat_le_iff)
  then show ?thesis
    using assms(1)
    by (simp add: nonce_ttl_def u64_sat_mul_def u64_sat_add_def Let_def ns_of_ms_def ns_of_secs_def)
qed

lemma handle_request_frame [simp]:
  "ag_audit_log (snd (handle_request X env remote rq st)) = ag_audit_log st"
  "ag_config (snd (handle_request X env remote rq st)) = ag_config st"
  by (simp_all add: handle_request_def Let_def)

lemma error_response_fields [simp]:
  "rs_ok (error_response now rid code msg d) = False"
  "rs_error (error_response now rid code msg d) = Some \<lparr>err_code = code, err_message = msg, err_details = d\<rparr>"
  by (simp_all add: error_response_def)

lemma sync_path_audit_fields_frame [simp]:
  "ev_remote_endpoint_id (sync_path_audit_fields X m p r ev) = ev_remote_endpoint_id ev"
  "ev_method (sync_path_audit_fields X m p r ev) = ev_method ev"
  by (auto simp: sync_path_audit_fields_def Let_def split: option.splits json.splits)

lemma audit_and_write_audited:
  assumes "audit_and_write env response payload ev max_bytes st = (Responded r, st')"
    and "ev_remote_endpoint_id ev = Some remote"
  shows "audited env remote r st st' \<and> (rs_ok r \<longrightarrow> r = response)"
  using assms
  by (auto simp: audit_and_write_def Let_def audited_def sync_audit_event_with_response_def
      write_response_def response_error_code_def split: if_splits sum.splits prod.splits)

lemma audit_then_write_audited:
  assumes "audit_then_write_response env response ev max_bytes st = (Responded r, st')"
    and "ev_remote_endpoint_id ev = Some remote"
  shows "audited env remote r st st' \<and> (rs_ok r \<longrightarrow> r = response)"
proof -
  obtain response' payload where
    *: "audit_and_write env response' payload ev max_bytes st = (Responded r, st')"
      "response' = response \<or> \<not> rs_ok response'"
    using assms(1)
    by (auto simp: audit_then_write_response_def Let_def split: if_splits sum.splits prod.splits)
  show ?thesis
    using audit_and_write_audited [OF *(1) assms(2)] *(2) by blast
qed

lemma base_audit_event_remote [simp]:
  "ev_remote_endpoint_id (base_audit_event env remote stage) = Some remote"
  by (simp add: base_audit_event_def)

text \<open>The handler ends in \<open>audit_then_write_response\<close> on every path that responds.\<close>

lemma handle_bi_stream_cases:
  assumes "handle_bi_stream X env remote input st = (Responded r, st')"
  obtains (rejected) response ev where
      "audit_then_write_response env response ev (max_response_bytes (ac_security (ag_config st))) st
        = (Responded r, st')" "ev_remote_endpoint_id ev = Some remote" "\<not> rs_ok response"
  | (handled) rq response ev st1 where
      "handle_request X env remote rq st = (Some response, st1)"
      "audit_then_write_response env response ev (max_response_bytes (ac_security (ag_config st))) st1
        = (Responded r, st')" "ev_remote_endpoint_id ev = Some remote" "ev_method ev = Some (rq_method rq)"
proof (cases "read_frame_with_timeout env input (max_request_bytes (ac_security (ag_config st)))
    (max_rpc_timeout_ms (ac_security (ag_config st)))")
  case (Inl e)
  obtain code message where "e = (code, message)" by (cases e)
  with Inl show ?thesis
    using assms by (intro rejected) (auto simp: handle_bi_stream_def Let_def)
next
  case (Inr payload)
  note frame = Inr
  show ?thesis
  proof (cases "en_parse_json env payload")
    case (Inl e)
    then show ?thesis
      using assms frame by (intro rejected) (auto simp: handle_bi_stream_def Let_def)
  next
    case (Inr v)
    note parsed = Inr
    show ?thesis
    proof (cases "en_decode_request env v")
      case (Inl e)
      then show ?thesis
        using assms frame parsed by (intro rejected) (auto simp: handle_bi_stream_def Let_def)
    next
      case (Inr rq)
      obtain response st1 where "handle_request X env remote rq st = (response, st1)"
        by (cases "handle_request X env remote rq st")
      with Inr show ?thesis
        using assms frame parsed
        by (cases response)
          (auto simp: handle_bi_stream_def Let_def intro: handled)
    qed
  qed
qed


lemma validate_and_dispatch_authorized:
  assumes "validate_and_dispatch_request X env remote rq st = (Inr (rid, v), st')"
  shows "rid = rq_request_id rq \<and> method_allowed (classify_request_caller X st remote) (rq_method rq)
    \<and> (if rq_method rq = PROBE_PATH_ECHO
        then \<exists>c t s. parse_endpoint_id X remote = Inr c \<and> parse_endpoint_id X (ag_endpoint_id st) = Inr s
          \<and> validate_path_echo_params X (rq_params rq) (rq_request_id rq) = Inr t
          \<and> path_probe_decision_of (ag_authz st) c t s = ProbeAllowed
        else params_are_empty (rq_params rq))"
proof -
  have "ag_authz st' = ag_authz st" "ag_endpoint_id st' = ag_endpoint_id st"
    using validate_and_dispatch_frame [of X env remote rq st] assms by simp_all
  then show ?thesis
    using validate_and_dispatch_ok [OF assms] authorize_and_dispatch_ok [of X st' env remote rq rid v]
    unfolding classify_request_caller_def by metis
qed

lemma handle_request_ok:
  assumes "handle_request X env remote rq st = (Some r, st')" "rs_ok r"
  obtains rid v where "validate_and_dispatch_request X env remote rq st = (Inr (rid, v), st')"
  using assms
  by (cases "validate_and_dispatch_request X env remote rq st")
    (auto simp: handle_request_def Let_def with_response_timing_def split: sum.splits fault.splits)



lemma unauthorized_rejected:
  assumes "\<not> method_allowed (classify_request_caller X st remote) (rq_method rq)"
  shows "\<exists>e. authorize_and_dispatch X st env remote rq = Inl (Fail e)
    \<and> de_request_id e = Some (rq_request_id rq)
    \<and> de_code e = rejection_code (classify_request_caller X st remote) (rq_method rq)"
proof -
  have allowed: "classify_phase_one_method (rq_method rq) \<noteq> Allowed"
    if "classify_request_caller X st remote = CallerController"
    using assms that by (auto simp: method_allowed_def classify_phase_one_method_def split: if_splits)
  have echo: "classify_phase_one_method PROBE_PEER_ECHO = UnknownMethod"
      "classify_phase_one_method PROBE_PATH_ECHO = UnknownMethod"
    by (simp_all add: classify_phase_one_method_def method_name_defs)
  have path: "rq_method rq \<noteq> PROBE_PATH_ECHO" if "classify_request_caller X st remote = CallerController"
    using assms that by (auto simp: method_allowed_def)
  have peer: "rq_method rq \<noteq> PROBE_PEER_ECHO" if "classify_request_caller X st remote = CallerPeer"
    using assms that by (auto simp: method_allowed_def)
  show ?thesis
    using assms allowed echo path peer
    by (cases "classify_request_caller X st remote")
      (auto simp: authorize_and_dispatch_def Let_def authorize_request_method_def rejection_code_def
        authorize_controller_method_def authorize_peer_method_def dispatch_error_new_def
        known_but_not_allowed_def method_not_allowed_for_caller_def method_not_found_def
        split: method_status.splits)
qed

section \<open>Properties\<close>










end
