(* ===== verification/Input_Validation.thy ===== *)
theory Input_Validation
  imports Config_Validation
begin

text \<open>
  Operator input checks of the controller (\<open>ocfleet-cli/src/input_validation.rs\<close>): bounded printable
  text, host names, endpoint identities and label objects, and the choice of the audit actor. Errors
  are the \<open>String\<close> messages of the source.
\<close>

section \<open>Text\<close>

definition MAX_ACTOR_LEN :: nat where "MAX_ACTOR_LEN = 128"
definition MAX_REASON_LEN :: nat where "MAX_REASON_LEN = 256"
definition MAX_DESCRIPTION_LEN :: nat where "MAX_DESCRIPTION_LEN = 256"
definition MAX_AGENT_VERSION_LEN :: nat where "MAX_AGENT_VERSION_LEN = 64"
definition MAX_AGENT_PUBLIC_KEY_LEN :: nat where "MAX_AGENT_PUBLIC_KEY_LEN = 256"
definition MAX_FINGERPRINT_LEN :: nat where "MAX_FINGERPRINT_LEN = 128"
definition MAX_HOSTNAME_LEN :: nat where "MAX_HOSTNAME_LEN = 253"
definition MAX_SELECTOR_LEN :: nat where "MAX_SELECTOR_LEN = 128"
definition MAX_LABEL_ENTRIES :: nat where "MAX_LABEL_ENTRIES = 32"
definition MAX_LABEL_KEY_LEN :: nat where "MAX_LABEL_KEY_LEN = 64"
definition MAX_LABEL_VALUE_LEN :: nat where "MAX_LABEL_VALUE_LEN = 128"
definition MAX_METADATA_VALUE_LEN :: nat where "MAX_METADATA_VALUE_LEN = 64"

definition printable_byte :: "char \<Rightarrow> bool" where
  "printable_byte b \<longleftrightarrow> b = CHR '' '' \<or> (is_ascii_graphic b \<and> byte b \<noteq> 127)"

definition validate_printable_text :: "string \<Rightarrow> string \<Rightarrow> nat \<Rightarrow> string + unit" where
  "validate_printable_text value field max_len =
     (let trimmed = trim value in
      if trimmed = [] then Inl (field @ '' must not be empty'')
      else if length trimmed > max_len
        then Inl (field @ '' must be at most '' @ show_nat max_len @ '' bytes'')
      else if \<not> list_all printable_byte trimmed
        then Inl (field @ '' must contain only printable ASCII'')
      else Inr ())"

definition validate_no_ascii_whitespace :: "string \<Rightarrow> string \<Rightarrow> string + unit" where
  "validate_no_ascii_whitespace value field =
     (if list_ex is_ascii_whitespace value
      then Inl (field @ '' must not contain ASCII whitespace'') else Inr ())"

definition validate_actor :: "string \<Rightarrow> string + unit" where
  "validate_actor value = validate_printable_text value ''actor'' MAX_ACTOR_LEN"

definition normalize_actor :: "string \<Rightarrow> string + string" where
  "normalize_actor value = rbind (validate_actor value) (\<lambda>_. Inr (trim value))"

definition validate_reason :: "string \<Rightarrow> string + unit" where
  "validate_reason value = validate_printable_text value ''reason'' MAX_REASON_LEN"

definition validate_description :: "string \<Rightarrow> string + unit" where
  "validate_description value = validate_printable_text value ''description'' MAX_DESCRIPTION_LEN"

definition validate_agent_version :: "string \<Rightarrow> string + unit" where
  "validate_agent_version value =
     validate_printable_text value ''agent_version'' MAX_AGENT_VERSION_LEN"

definition validate_agent_public_key :: "string \<Rightarrow> string + unit" where
  "validate_agent_public_key value =
     rbind (validate_printable_text value ''agent_public_key'' MAX_AGENT_PUBLIC_KEY_LEN)
       (\<lambda>_. validate_no_ascii_whitespace (trim value) ''agent_public_key'')"

definition validate_agent_fingerprint :: "string \<Rightarrow> string + unit" where
  "validate_agent_fingerprint value =
     rbind (validate_printable_text value ''fingerprint'' MAX_FINGERPRINT_LEN)
       (\<lambda>_. validate_no_ascii_whitespace (trim value) ''fingerprint'')"

definition validate_selector :: "string \<Rightarrow> string + unit" where
  "validate_selector value = validate_printable_text value ''selector'' MAX_SELECTOR_LEN"

section \<open>Host names and endpoint identities\<close>

text \<open>A text between single quotes, as the messages write it.\<close>

definition quoted :: "string \<Rightarrow> string" where
  "quoted s = CHR 0x27 # s @ [CHR 0x27]"

definition validate_hostname_label :: "string \<Rightarrow> string + unit" where
  "validate_hostname_label label =
     (if label = [] \<or> length label > 63 then Inl ''hostname labels must be 1-63 characters''
      else if hd label = CHR ''-'' \<or> last label = CHR ''-''
        then Inl (''hostname labels must not start or end with '' @ quoted ''-'')
      else if \<not> list_all (\<lambda>b. is_ascii_alphanumeric b \<or> b = CHR ''-'') label
        then Inl (''hostname labels may contain only ASCII letters, digits, and '' @ quoted ''-'')
      else Inr ())"

definition validate_hostname :: "string \<Rightarrow> string + unit" where
  "validate_hostname value =
     rbind (validate_printable_text value ''hostname'' MAX_HOSTNAME_LEN) (\<lambda>_.
       let hostname = trim value in
       if starts_with ''.'' hostname \<or> ends_with ''.'' hostname
       then Inl (''hostname must not start or end with '' @ quoted ''.'')
       else each_ok validate_hostname_label (split_on (\<lambda>c. c = CHR ''.'') hostname))"

definition validate_endpoint_id :: "ext \<Rightarrow> string \<Rightarrow> string + string" where
  "validate_endpoint_id X value =
     (let endpoint_id = trim value in
      if endpoint_id = [] then Inl ''endpoint_id must not be empty''
      else ok_or (endpoint_id_from_str X endpoint_id)
             ''endpoint_id must be a canonical iroh EndpointID'')"

section \<open>Labels and metadata\<close>

definition validate_label_key :: "string \<Rightarrow> string \<Rightarrow> string + unit" where
  "validate_label_key value field =
     (if value = [] \<or> length value > MAX_LABEL_KEY_LEN
      then Inl (field @ '' keys must be 1-'' @ show_nat MAX_LABEL_KEY_LEN @ '' characters'')
      else if \<not> list_all (\<lambda>b. is_ascii_alphanumeric b \<or> b \<in> set ''._-'') value
      then Inl (field @ '' keys may contain only ASCII letters, digits, '' @ quoted ''.'' @ '', ''
              @ quoted ''_'' @ '', and '' @ quoted ''-'')
      else Inr ())"

definition validate_label_entry :: "string \<Rightarrow> string \<times> json \<Rightarrow> string + unit" where
  "validate_label_entry field entry =
     rbind (validate_label_key (fst entry) field) (\<lambda>_.
       case snd entry of
         JStr txt \<Rightarrow> validate_printable_text txt field MAX_LABEL_VALUE_LEN
       | JArr _ \<Rightarrow> Inl (field @ '' values must be scalar'')
       | JObj _ \<Rightarrow> Inl (field @ '' values must be scalar'')
       | _ \<Rightarrow> Inr ())"

definition validate_label_json :: "json \<Rightarrow> string \<Rightarrow> string + unit" where
  "validate_label_json value field =
     (case value of
        JObj entries \<Rightarrow>
          if length entries > MAX_LABEL_ENTRIES
          then Inl (field @ '' must contain at most '' @ show_nat MAX_LABEL_ENTRIES @ '' entries'')
          else each_ok (validate_label_entry field) entries
      | _ \<Rightarrow> Inl (field @ '' must be a JSON object''))"

definition validate_metadata_value :: "string \<Rightarrow> string \<Rightarrow> string + unit" where
  "validate_metadata_value value field =
     rbind (validate_printable_text value field MAX_METADATA_VALUE_LEN) (\<lambda>_.
       if list_all (\<lambda>b. is_ascii_alphanumeric b \<or> b \<in> set ''._-@'') value then Inr ()
       else Inl (field @ '' may contain only ASCII letters, digits, '' @ quoted ''.'' @ '', ''
               @ quoted ''_'' @ '', '' @ quoted ''-'' @ '', and '' @ quoted ''@''))"

section \<open>The audit actor\<close>

text \<open>\<open>std::env::var\<close>: the value, or why there is none.\<close>

datatype env_var = EnvValue string | EnvNotPresent | EnvNotUnicode

definition local_user_actor :: "env_var \<Rightarrow> string" where
  "local_user_actor user =
     (case user of
        EnvValue actor \<Rightarrow> (case normalize_actor actor of Inr a \<Rightarrow> a | Inl _ \<Rightarrow> ''local-cli'')
      | _ \<Rightarrow> ''local-cli'')"

definition resolve_process_actor :: "string option \<Rightarrow> env_var \<Rightarrow> env_var \<Rightarrow> string + string" where
  "resolve_process_actor explicit_actor ocfleet_actor user =
     (case explicit_actor of
        Some actor \<Rightarrow> map_err (\<lambda>err. ''--actor '' @ err) (normalize_actor actor)
      | None \<Rightarrow> (case ocfleet_actor of
            EnvValue actor \<Rightarrow> map_err (\<lambda>err. ''OCFLEET_ACTOR '' @ err) (normalize_actor actor)
          | EnvNotUnicode \<Rightarrow> Inl ''OCFLEET_ACTOR must be valid UTF-8''
          | EnvNotPresent \<Rightarrow> Inr (local_user_actor user)))"

text \<open>The process-wide actor cell: \<open>configure_process_actor\<close> returns the new cell content.\<close>

definition configure_process_actor ::
    "string option \<Rightarrow> env_var \<Rightarrow> env_var \<Rightarrow> string option \<Rightarrow> (string + string) \<times> string option" where
  "configure_process_actor explicit_actor ocfleet_actor user cell =
     (case resolve_process_actor explicit_actor ocfleet_actor user of
        Inl e \<Rightarrow> (Inl e, cell)
      | Inr actor \<Rightarrow> (Inr actor, Some actor))"

definition local_actor :: "string option \<Rightarrow> env_var \<Rightarrow> string" where
  "local_actor cell user = (case cell of Some actor \<Rightarrow> actor | None \<Rightarrow> local_user_actor user)"

section \<open>Laws\<close>

lemma validate_printable_text_ok:
  "validate_printable_text v f n = Inr u \<longleftrightarrow>
     trim v \<noteq> [] \<and> length (trim v) \<le> n \<and> list_all printable_byte (trim v)"
  by (auto simp: validate_printable_text_def Let_def)

lemma validate_endpoint_id_Inr:
  "validate_endpoint_id X v = Inr e \<longleftrightarrow> trim v \<noteq> [] \<and> endpoint_id_from_str X (trim v) = Some e"
  by (auto simp: validate_endpoint_id_def Let_def)

end
