(* ===== verification/Stored_Json.thy ===== *)
theory Stored_Json
  imports Protocol Input_Validation
begin

text \<open>
  What the controller allows into its database (\<open>ocfleet-cli/src/store.rs\<close>): the store's error type,
  the standard library's IP address parser, and the low-sensitivity check of every stored JSON
  document and audit text. The check is a traversal with a running entry counter; its specification
  is stated on the document.
\<close>

section \<open>Store errors\<close>

text \<open>\<open>StoreError\<close>. An opaque \<open>rusqlite::Error\<close> is either a violated constraint of the schema, named
  by table and column, a column that does not decode, an argument that does not encode, or a name that is no
  parameter.\<close>

datatype sqlite_error = ConstraintViolation string | FromSqlConversionFailure nat string | ToSqlConversionFailure
  | InvalidParameterName string

datatype store_error =
    SeSqlite sqlite_error
  | SeIo string
  | SeUnsafePermissions
  | SeUnsupportedFutureSchema int int
  | SeSchemaUpgradeRequired int int
  | SeReadOnlySnapshotWalActive
  | SeMigrationBackup string
  | SeDatabaseIntegrityCheckFailed string string
  | SeNodeNotFound string
  | SeNodeAlreadyExists string
  | SeObservabilityJobNotFound string
  | SeObservabilityRunNotFound string
  | SeSchedulerClaimLost string
  | SeObservabilityRunNotRunning string
  | SeEnrollmentRejected string
  | SeEnrollmentTokenNotFound string
  | SeEnrollmentTokenConflict string string
  | SeInvalidEnrollmentTokenTransition string string string
  | SeJoinRequestNotFound string
  | SeEnrollmentRequestConflict string string
  | SeRetentionOperationConflict string string
  | SeHealthEvaluationConflict string string
  | SeAlertEvaluationConflict string string
  | SeAlertMutationConflict string string
  | SeInvalidJoinRequestStatus string string string
  | SeInvalidEnrollmentBinding string string
  | SeEndpointNotFound string
  | SeEndpointAlreadyExists string
  | SeInvalidEndpointTransition string string string
  | SeEndpointBindingMismatch string string
  | SeAmbiguousActiveEndpointBinding string
  | SeEndpointGenerationExhausted string
  | SeEndpointLineageInvalid string
  | SeInvalidInput string

section \<open>IP addresses (\<open>core::net\<close>)\<close>

text \<open>The parser of the standard library: a reader consumes a prefix and returns the rest, \<open>None\<close> when
  it does not apply. \<open>IpAddr::from_str\<close> and \<open>SocketAddr::from_str\<close> ask for the whole text. Only
  success matters to the callers, so the readers return no address.\<close>

definition hex_value :: "char \<Rightarrow> nat option" where
  "hex_value c =
     (if is_ascii_digit c then Some (byte c - 48)
      else if 97 \<le> byte c \<and> byte c \<le> 102 then Some (byte c - 87)
      else if 65 \<le> byte c \<and> byte c \<le> 70 then Some (byte c - 55)
      else None)"

definition digit_value :: "nat \<Rightarrow> char \<Rightarrow> nat option" where
  "digit_value radix c = (case hex_value c of Some d \<Rightarrow> if d < radix then Some d else None | None \<Rightarrow> None)"

definition is_radix_digit :: "nat \<Rightarrow> char \<Rightarrow> bool" where
  "is_radix_digit radix c \<longleftrightarrow> digit_value radix c \<noteq> None"

definition digits_value :: "nat \<Rightarrow> string \<Rightarrow> nat" where
  "digits_value radix ds = foldl (\<lambda>a c. a * radix + the (digit_value radix c)) 0 ds"

definition read_number :: "nat \<Rightarrow> nat option \<Rightarrow> bool \<Rightarrow> nat \<Rightarrow> string \<Rightarrow> string option" where
  "read_number radix max_digits allow_zero_prefix max_value s =
     (let ds = takeWhile (is_radix_digit radix) s in
      if ds = [] then None
      else if (case max_digits of Some n \<Rightarrow> length ds > n | None \<Rightarrow> False) then None
      else if \<not> allow_zero_prefix \<and> hd ds = CHR ''0'' \<and> length ds > 1 then None
      else if digits_value radix ds > max_value then None
      else Some (drop (length ds) s))"

definition read_given_char :: "char \<Rightarrow> string \<Rightarrow> string option" where
  "read_given_char c s = (case s of [] \<Rightarrow> None | d # rest \<Rightarrow> if d = c then Some rest else None)"

definition read_separator :: "char \<Rightarrow> nat \<Rightarrow> (string \<Rightarrow> string option) \<Rightarrow> string \<Rightarrow> string option" where
  "read_separator sep index inner s =
     (if index > 0 then Option.bind (read_given_char sep s) inner else inner s)"

definition read_octet :: "nat \<Rightarrow> string \<Rightarrow> string option" where
  "read_octet i = read_separator (CHR ''.'') i (read_number 10 (Some 3) False 255)"

definition read_ipv4_addr :: "string \<Rightarrow> string option" where
  "read_ipv4_addr s =
     Option.bind (read_octet 0 s) (\<lambda>s.
     Option.bind (read_octet 1 s) (\<lambda>s.
     Option.bind (read_octet 2 s) (read_octet 3)))"

text \<open>\<open>read_groups\<close> from index \<open>i\<close> of \<open>limit\<close> groups, \<open>n\<close> of them still to read: how many were read,
  whether the last two were an embedded IPv4 address, and the rest.\<close>

fun read_groups :: "nat \<Rightarrow> nat \<Rightarrow> nat \<Rightarrow> string \<Rightarrow> nat \<times> bool \<times> string" where
  "read_groups 0 i limit s = (limit, False, s)"
| "read_groups (Suc n) i limit s =
     (case (if i < limit - 1 then read_separator (CHR '':'') i read_ipv4_addr s else None) of
        Some rest \<Rightarrow> (i + 2, True, rest)
      | None \<Rightarrow>
          (case read_separator (CHR '':'') i (read_number 16 (Some 4) True 65535) s of
             Some rest \<Rightarrow> read_groups n (Suc i) limit rest
           | None \<Rightarrow> (i, False, s)))"

definition read_ipv6_addr :: "string \<Rightarrow> string option" where
  "read_ipv6_addr s =
     (case read_groups 8 0 8 s of (head_size, head_ipv4, rest) \<Rightarrow>
        if head_size = 8 then Some rest
        else if head_ipv4 then None
        else Option.bind (read_given_char (CHR '':'') rest) (\<lambda>rest.
             Option.bind (read_given_char (CHR '':'') rest) (\<lambda>rest.
               let limit = 8 - (head_size + 1) in Some (snd (snd (read_groups limit 0 limit rest))))))"

definition read_ip_addr :: "string \<Rightarrow> string option" where
  "read_ip_addr s = (case read_ipv4_addr s of Some rest \<Rightarrow> Some rest | None \<Rightarrow> read_ipv6_addr s)"

definition read_port :: "string \<Rightarrow> string option" where
  "read_port s = Option.bind (read_given_char (CHR '':'') s) (read_number 10 None True 65535)"

definition read_scope_id :: "string \<Rightarrow> string option" where
  "read_scope_id s = Option.bind (read_given_char (CHR ''%'') s) (read_number 10 None True u32_max)"

definition read_socket_addr :: "string \<Rightarrow> string option" where
  "read_socket_addr s =
     (case Option.bind (read_ipv4_addr s) read_port of
        Some rest \<Rightarrow> Some rest
      | None \<Rightarrow>
          Option.bind (read_given_char (CHR ''['') s) (\<lambda>s.
          Option.bind (read_ipv6_addr s) (\<lambda>s.
            let s = (case read_scope_id s of Some rest \<Rightarrow> rest | None \<Rightarrow> s) in
            Option.bind (read_given_char (CHR '']'') s) read_port)))"

definition parses_ip_addr :: "string \<Rightarrow> bool" where
  "parses_ip_addr s \<longleftrightarrow> read_ip_addr s = Some []"

definition parses_socket_addr :: "string \<Rightarrow> bool" where
  "parses_socket_addr s \<longleftrightarrow> read_socket_addr s = Some []"

section \<open>Forbidden keys and values\<close>

definition forbidden_exact_keys :: "string list" where
  "forbidden_exact_keys =
    [''body'', ''user_name'', ''client_ip'', ''client_address'', ''ip_address'',
     ''assigned_vpn_ip'', ''session_id'', ''session_token'', ''certificate_san'',
     ''certificate_pem'', ''private_key'', ''config_content'', ''provider_selector'']"

definition forbidden_key_markers :: "string list" where
  "forbidden_key_markers =
    [''rawbody'', ''username'', ''clientip'', ''sessionid'', ''sessiontoken'', ''privatekey'',
     ''apitoken'', ''apikey'', ''hmackey'', ''authorization'', ''bearertoken'', ''stdout'',
     ''stderr'']"

definition forbidden_key_segments :: "string list" where
  "forbidden_key_segments =
    [''raw'', ''stdout'', ''stderr'', ''username'', ''user'', ''account'', ''password'',
     ''secret'', ''credential'', ''token'', ''cookie'', ''authorization'', ''san'',
     ''subject'', ''issuer'', ''serial'', ''command'', ''shell'', ''script'', ''journal'']"

definition forbidden_value_markers :: "string list" where
  "forbidden_value_markers =
    [''/etc/'', ''/home/'', ''/users/'', ''/run/secrets/'', ''/var/log'', ''systemctl'',
     ''journalctl'', ''occtl'', ''shell.exec'', ''command.run'', ''file.read'', ''username'',
     ''client_ip'', ''session_id'', ''password='', ''password:'', ''secret='', ''secret:'',
     ''token='', ''token:'', ''authorization:'', ''bearer '', ''-----begin certificate-----'',
     ''-----begin private key-----'']"

definition forbidden_stored_key :: "string \<Rightarrow> bool" where
  "forbidden_stored_key k =
     (let key = to_ascii_lowercase k; compact = filter is_ascii_alphanumeric key in
      if key \<in> set [''token_id'', ''hmac_key_id'', ''key_id''] then False
      else key \<in> set forbidden_exact_keys
        \<or> list_ex (\<lambda>marker. str_contains marker compact) forbidden_key_markers
        \<or> list_ex (\<lambda>segment. segment \<in> set forbidden_key_segments)
            (split_on (\<lambda>c. c = CHR ''_'' \<or> c = CHR ''-'') key))"

definition trim_sentence_end :: "string \<Rightarrow> string" where
  "trim_sentence_end s = rev (dropWhile (\<lambda>c. c = CHR ''.'' \<or> c = CHR '':'') (rev s))"

definition part_is_ip :: "string \<Rightarrow> bool" where
  "part_is_ip part \<longleftrightarrow>
     parses_ip_addr part \<or> parses_socket_addr part
     \<or> parses_ip_addr (trim_sentence_end part) \<or> parses_socket_addr (trim_sentence_end part)"

definition contains_ip :: "string \<Rightarrow> bool" where
  "contains_ip value \<longleftrightarrow>
     list_ex part_is_ip
       (split_on (\<lambda>c. \<not> (is_ascii_hexdigit c \<or> c = CHR ''.'' \<or> c = CHR '':'')) value)"

definition forbidden_stored_value :: "string \<Rightarrow> string option \<Rightarrow> bool" where
  "forbidden_stored_value v key_context =
     (let value = to_ascii_lowercase v in
      list_ex (\<lambda>marker. str_contains marker value) forbidden_value_markers
      \<or> contains_ip value
        \<and> \<not> (key_context = Some ''endpoint_host'' \<or> key_context = Some ''host_allow''))"

definition validate_audit_text :: "string \<Rightarrow> string \<Rightarrow> nat \<Rightarrow> store_error + unit" where
  "validate_audit_text value field max_len =
     (if value = [] \<or> length value > max_len
         \<or> list_ex (\<lambda>b. \<not> is_ascii_byte b \<or> is_ascii_control b) value
         \<or> forbidden_stored_value value None
      then Inl (SeInvalidInput (field @ '' is not a bounded low-sensitive value''))
      else Inr ())"

section \<open>The low-sensitivity check\<close>

definition MAX_JSON_BYTES :: nat where "MAX_JSON_BYTES = 16 * 1024"
definition MAX_JSON_DEPTH :: nat where "MAX_JSON_DEPTH = 8"
definition MAX_JSON_ENTRIES :: nat where "MAX_JSON_ENTRIES = 256"
definition MAX_JSON_STRING_BYTES :: nat where "MAX_JSON_STRING_BYTES = 512"

definition unsafe_string :: "string option \<Rightarrow> string \<Rightarrow> bool" where
  "unsafe_string key_context value \<longleftrightarrow>
     length value > MAX_JSON_STRING_BYTES
     \<or> list_ex (\<lambda>b. \<not> is_ascii_byte b \<or> is_ascii_control b) value
     \<or> forbidden_stored_value value key_context"

text \<open>The counter \<open>entries\<close> is threaded through: a successful visit returns its new value.\<close>

fun validate_low_sensitive_json_value ::
      "string \<Rightarrow> nat \<Rightarrow> string option \<Rightarrow> json \<Rightarrow> nat \<Rightarrow> store_error + nat"
  and validate_object_fields :: "string \<Rightarrow> nat \<Rightarrow> (string \<times> json) list \<Rightarrow> nat \<Rightarrow> store_error + nat"
  and validate_array_items ::
      "string \<Rightarrow> nat \<Rightarrow> string option \<Rightarrow> json list \<Rightarrow> nat \<Rightarrow> store_error + nat" where
  "validate_low_sensitive_json_value field depth key_context value entries =
     (if depth > MAX_JSON_DEPTH then Inl (SeInvalidInput (field @ '' exceeds nesting limit''))
      else (case value of
          JObj kvs \<Rightarrow> validate_object_fields field depth kvs entries
        | JArr vs \<Rightarrow> validate_array_items field depth key_context vs entries
        | JStr s \<Rightarrow>
            if unsafe_string key_context s
            then Inl (SeInvalidInput (field @ '' contains an unsafe string'')) else Inr entries
        | _ \<Rightarrow> Inr entries))"
| "validate_object_fields field depth [] entries = Inr entries"
| "validate_object_fields field depth (kv # kvs) entries =
     (if entries + 1 > MAX_JSON_ENTRIES
      then Inl (SeInvalidInput (field @ '' exceeds entry limit''))
      else if length (fst kv) > 64 \<or> forbidden_stored_key (fst kv)
      then Inl (SeInvalidInput (field @ '' contains a forbidden field''))
      else rbind (validate_low_sensitive_json_value field (depth + 1) (Some (fst kv)) (snd kv) (entries + 1))
             (validate_object_fields field depth kvs))"
| "validate_array_items field depth key_context [] entries = Inr entries"
| "validate_array_items field depth key_context (v # vs) entries =
     (if entries + 1 > MAX_JSON_ENTRIES
      then Inl (SeInvalidInput (field @ '' exceeds entry limit''))
      else rbind (validate_low_sensitive_json_value field (depth + 1) key_context v (entries + 1))
             (validate_array_items field depth key_context vs))"

definition validate_low_sensitive_json :: "ext \<Rightarrow> json \<Rightarrow> string \<Rightarrow> store_error + unit" where
  "validate_low_sensitive_json X value field =
     (if json_len X value > MAX_JSON_BYTES
      then Inl (SeInvalidInput (field @ '' exceeds '' @ show_nat MAX_JSON_BYTES @ '' bytes''))
      else rbind (validate_low_sensitive_json_value field 0 None value 0) (\<lambda>_. Inr ()))"

declare validate_low_sensitive_json_value.simps [simp del]

section \<open>What the check accepts\<close>

text \<open>The number of object fields and array items in a document.\<close>

fun json_entries :: "json \<Rightarrow> nat" and fields_entries :: "(string \<times> json) list \<Rightarrow> nat"
  and items_entries :: "json list \<Rightarrow> nat" where
  "json_entries (JObj kvs) = fields_entries kvs"
| "json_entries (JArr vs) = items_entries vs"
| "json_entries JNull = 0"
| "json_entries (JBool b) = 0"
| "json_entries (JInt i) = 0"
| "json_entries (JStr s) = 0"
| "fields_entries [] = 0"
| "fields_entries (kv # kvs) = Suc (json_entries (snd kv) + fields_entries kvs)"
| "items_entries [] = 0"
| "items_entries (v # vs) = Suc (json_entries v + items_entries vs)"

text \<open>\<open>occurs v d c w\<close>: the value \<open>w\<close> occurs in \<open>v\<close> below \<open>d\<close> levels of nesting, and \<open>c\<close> is the key of the
  innermost object around it.\<close>

inductive occurs :: "json \<Rightarrow> nat \<Rightarrow> string option \<Rightarrow> json \<Rightarrow> bool" for v where
  occurs_root: "occurs v 0 None v"
| occurs_field: "occurs v d c (JObj kvs) \<Longrightarrow> (k, w) \<in> set kvs \<Longrightarrow> occurs v (Suc d) (Some k) w"
| occurs_item: "occurs v d c (JArr vs) \<Longrightarrow> w \<in> set vs \<Longrightarrow> occurs v (Suc d) c w"

definition low_sensitive_at :: "nat \<Rightarrow> string option \<Rightarrow> json \<Rightarrow> bool" where
  "low_sensitive_at d c w \<longleftrightarrow> d \<le> MAX_JSON_DEPTH \<and>
     (case w of
        JObj kvs \<Rightarrow> list_all (\<lambda>kv. length (fst kv) \<le> 64 \<and> \<not> forbidden_stored_key (fst kv)) kvs
      | JStr s \<Rightarrow> \<not> unsafe_string c s
      | _ \<Rightarrow> True)"

fun low_sensitive_below :: "nat \<Rightarrow> string option \<Rightarrow> json \<Rightarrow> bool"
  and fields_below :: "nat \<Rightarrow> (string \<times> json) list \<Rightarrow> bool"
  and items_below :: "nat \<Rightarrow> string option \<Rightarrow> json list \<Rightarrow> bool" where
  "low_sensitive_below d c v \<longleftrightarrow> low_sensitive_at d c v \<and>
     (case v of JObj kvs \<Rightarrow> fields_below d kvs | JArr vs \<Rightarrow> items_below d c vs | _ \<Rightarrow> True)"
| "fields_below d [] \<longleftrightarrow> True"
| "fields_below d (kv # kvs) \<longleftrightarrow> low_sensitive_below (Suc d) (Some (fst kv)) (snd kv) \<and> fields_below d kvs"
| "items_below d c [] \<longleftrightarrow> True"
| "items_below d c (v # vs) \<longleftrightarrow> low_sensitive_below (Suc d) c v \<and> items_below d c vs"

declare low_sensitive_below.simps [simp del]

section \<open>Laws\<close>

lemma fields_below_iff: "fields_below d kvs \<longleftrightarrow> (\<forall>(k, v)\<in>set kvs. low_sensitive_below (Suc d) (Some k) v)"
  by (induction kvs) auto

lemma items_below_iff: "items_below d c vs \<longleftrightarrow> (\<forall>v\<in>set vs. low_sensitive_below (Suc d) c v)"
  by (induction vs) auto

lemma validate_value_iff:
  "n \<le> MAX_JSON_ENTRIES \<Longrightarrow> validate_low_sensitive_json_value f d c v n = Inr m \<longleftrightarrow>
     m = n + json_entries v \<and> m \<le> MAX_JSON_ENTRIES \<and> low_sensitive_below d c v"
  "n \<le> MAX_JSON_ENTRIES \<Longrightarrow> validate_object_fields f d kvs n = Inr m \<longleftrightarrow>
     m = n + fields_entries kvs \<and> m \<le> MAX_JSON_ENTRIES \<and> fields_below d kvs
     \<and> list_all (\<lambda>kv. length (fst kv) \<le> 64 \<and> \<not> forbidden_stored_key (fst kv)) kvs"
  "n \<le> MAX_JSON_ENTRIES \<Longrightarrow> validate_array_items f d c vs n = Inr m \<longleftrightarrow>
     m = n + items_entries vs \<and> m \<le> MAX_JSON_ENTRIES \<and> items_below d c vs"
proof (induction f d c v n and f d kvs n and f d c vs n arbitrary: m and m and m
    rule: validate_low_sensitive_json_value_validate_object_fields_validate_array_items.induct)
  case (1 field depth key_context v entries)
  then show ?case
    by (cases v) (auto simp: validate_low_sensitive_json_value.simps low_sensitive_below.simps
        low_sensitive_at_def)
next
  case (3 field depth kv kvs entries)
  then show ?case by (auto simp: rbind_Inr_iff)
next
  case (5 field depth key_context v vs entries)
  then show ?case by (auto simp: rbind_Inr_iff)
qed auto

lemma below_at: "low_sensitive_below d c v \<Longrightarrow> low_sensitive_at d c v"
  by (simp add: low_sensitive_below.simps)

lemma occurs_below:
  "occurs v d c w \<Longrightarrow> low_sensitive_below 0 None v \<Longrightarrow> low_sensitive_below d c w"
  by (induction rule: occurs.induct)
    (auto simp: low_sensitive_below.simps [of _ _ "JObj _"] low_sensitive_below.simps [of _ _ "JArr _"]
       fields_below_iff items_below_iff)

lemma below_if_all:
  "\<forall>d' c' w'. occurs v d' c' w' \<longrightarrow> low_sensitive_at d' c' w' \<Longrightarrow> occurs v d c w \<Longrightarrow> low_sensitive_below d c w"
  "\<forall>d' c' w'. occurs v d' c' w' \<longrightarrow> low_sensitive_at d' c' w' \<Longrightarrow>
     (\<And>k u. (k, u) \<in> set kvs \<Longrightarrow> occurs v (Suc d) (Some k) u) \<Longrightarrow> fields_below d kvs"
  "\<forall>d' c' w'. occurs v d' c' w' \<longrightarrow> low_sensitive_at d' c' w' \<Longrightarrow>
     (\<And>u. u \<in> set vs \<Longrightarrow> occurs v (Suc d) c u) \<Longrightarrow> items_below d c vs"
proof (induction d c w and d kvs and d c vs rule: low_sensitive_below_fields_below_items_below.induct)
  case (1 d c w)
  then show ?case
    by (cases w) (auto simp: low_sensitive_below.simps intro: occurs_field occurs_item)
next
  case (3 d kv kvs)
  then show ?case by (cases kv) auto
qed auto

lemma low_sensitive_below_iff:
  "low_sensitive_below 0 None v \<longleftrightarrow> (\<forall>d c w. occurs v d c w \<longrightarrow> low_sensitive_at d c w)"
  using occurs_below below_at below_if_all(1) [OF _ occurs_root] by blast

lemma validate_low_sensitive_json_iff:
  "validate_low_sensitive_json X v f = Inr () \<longleftrightarrow>
     json_len X v \<le> MAX_JSON_BYTES \<and> json_entries v \<le> MAX_JSON_ENTRIES
     \<and> (\<forall>d c w. occurs v d c w \<longrightarrow> low_sensitive_at d c w)"
  by (auto simp: validate_low_sensitive_json_def rbind_Inr_iff validate_value_iff(1)
      low_sensitive_below_iff [symmetric])

section \<open>Properties\<close>

text \<open>C40. What the controller stores is bounded and low-sensitive: the traversal with its running counter
  accepts a document exactly when its encoding is at most 16 KiB, it has at most 256 fields and items
  in all, nothing is nested deeper than 8 levels, and, wherever they occur, every key is short and not
  a forbidden name and every string is short printable ASCII without a forbidden marker or an IP
  address outside the two host fields.\<close>

theorem stored_json_is_low_sensitive:
  "validate_low_sensitive_json X v f = Inr () \<longleftrightarrow>
     json_len X v \<le> MAX_JSON_BYTES \<and> json_entries v \<le> MAX_JSON_ENTRIES
     \<and> (\<forall>d c w. occurs v d c w \<longrightarrow> low_sensitive_at d c w)"
  by (rule validate_low_sensitive_json_iff)

theorem stored_json_is_low_sensitive_witness:
  "validate_low_sensitive_json example_ext (JObj [(''hosts'', JArr [JStr ''gw-1''])]) ''audit detail'' = Inr ()
   \<and> low_sensitive_at 2 (Some ''hosts'') (JStr ''gw-1'')
   \<and> validate_low_sensitive_json example_ext (JObj [(''hosts'', JArr [JStr ''10.0.0.1''])]) ''audit detail''
       \<noteq> Inr ()"
proof -
  have field: "occurs (JObj [(''hosts'', w)]) (Suc 0) (Some ''hosts'') w" for w
    using occurs_field [OF occurs_root, of "''hosts''" w "[(''hosts'', w)]"] by simp
  have occ: "occurs (JObj [(''hosts'', JArr [JStr s])]) (Suc (Suc 0)) (Some ''hosts'') (JStr s)" for s
    using occurs_item [OF field, of "JStr s" "[JStr s]"] by simp
  have ok: "validate_low_sensitive_json example_ext (JObj [(''hosts'', JArr [JStr ''gw-1''])]) ''audit detail''
      = Inr ()"
    by code_simp
  have "\<not> low_sensitive_at (Suc (Suc 0)) (Some ''hosts'') (JStr ''10.0.0.1'')"
    by code_simp
  then have "validate_low_sensitive_json example_ext (JObj [(''hosts'', JArr [JStr ''10.0.0.1''])]) ''audit detail''
      \<noteq> Inr ()"
    unfolding stored_json_is_low_sensitive using occ by blast
  moreover have "low_sensitive_at (Suc (Suc 0)) (Some ''hosts'') (JStr ''gw-1'')"
    using ok occ unfolding stored_json_is_low_sensitive by blast
  ultimately show ?thesis using ok by (simp add: numeral_2_eq_2)
qed

end
