(* ===== verification/Store_Payloads.thy ===== *)
theory Store_Payloads
  imports Stored_Json
begin

text \<open>
  The closed JSON documents the controller keeps in its tables (\<open>ocfleet-cli/src/storage_payloads.rs\<close>):
  the trust bundle of an endpoint, the labels of an enrollment, and the detail of an audit record.
  Decoding follows the derived \<open>Deserialize\<close> implementations: a struct is read from an object, or from
  an array of its fields in order.
\<close>

section \<open>Decoding\<close>

text \<open>The fields of a struct with \<open>deny_unknown_fields\<close>; \<open>None\<close> when the value is not one.\<close>

definition struct_fields :: "string list \<Rightarrow> json \<Rightarrow> (string \<Rightarrow> json option) option" where
  "struct_fields names v =
     (case v of
        JObj kvs \<Rightarrow> if list_all (\<lambda>kv. fst kv \<in> set names) kvs then Some (map_of kvs) else None
      | JArr vs \<Rightarrow> if length vs = length names then Some (map_of (zip names vs)) else None
      | _ \<Rightarrow> None)"

definition as_u64 :: "json \<Rightarrow> nat option" where
  "as_u64 v = (case v of JInt i \<Rightarrow> if 0 \<le> i \<and> i \<le> int u64_max then Some (nat i) else None | _ \<Rightarrow> None)"

primrec map_opt :: "('a \<Rightarrow> 'b option) \<Rightarrow> 'a list \<Rightarrow> 'b list option" where
  "map_opt f [] = Some []"
| "map_opt f (x # xs) = Option.bind (f x) (\<lambda>y. Option.bind (map_opt f xs) (\<lambda>ys. Some (y # ys)))"

definition as_list :: "(json \<Rightarrow> 'a option) \<Rightarrow> json \<Rightarrow> 'a list option" where
  "as_list f v = (case v of JArr vs \<Rightarrow> map_opt f vs | _ \<Rightarrow> None)"

definition as_str_pair :: "json \<Rightarrow> (string \<times> string) option" where
  "as_str_pair v = (case v of JArr [JStr a, JStr b] \<Rightarrow> Some (a, b) | _ \<Rightarrow> None)"

text \<open>A unit variant is its name, or an object with that single key and \<open>null\<close>.\<close>

definition as_variant :: "json \<Rightarrow> string option" where
  "as_variant v = (case v of JStr s \<Rightarrow> Some s | JObj [(k, JNull)] \<Rightarrow> Some k | _ \<Rightarrow> None)"

definition jstrs :: "string list \<Rightarrow> json" where
  "jstrs xs = JArr (map JStr xs)"

definition jpairs :: "(string \<times> string) list \<Rightarrow> json" where
  "jpairs ps = JArr (map (\<lambda>p. JArr [JStr (fst p), JStr (snd p)]) ps)"

section \<open>Trust bundles\<close>

definition validate_fixed_id :: "string \<Rightarrow> nat \<Rightarrow> string \<Rightarrow> string + unit" where
  "validate_fixed_id value max_len field =
     (if value \<noteq> [] \<and> length value \<le> max_len
         \<and> list_all (\<lambda>b. is_ascii_alphanumeric b \<or> b \<in> set ''._-:'') value
      then Inr ()
      else Inl (field @ '' must be 1-'' @ show_nat max_len @ '' chars and contain only [a-zA-Z0-9._:-]''))"

definition TRUST_BUNDLE_SCHEMA_V1 :: string where
  "TRUST_BUNDLE_SCHEMA_V1 = ''ocfleet.trust.bundle.v1''"

record trust_bundle_payload =
  tp_schema :: string
  tp_endpoint_id :: string
  tp_generation :: nat
  tp_status :: string
  tp_trusted_controllers :: "string list"
  tp_trusted_peers :: "string list"
  tp_authorized_path_probes :: "(string \<times> string) list"

fun validate_unique_ids :: "string \<Rightarrow> string list \<Rightarrow> string list \<Rightarrow> string + unit" where
  "validate_unique_ids field seen [] = Inr ()"
| "validate_unique_ids field seen (v # vs) =
     rbind (validate_fixed_id v 128 field) (\<lambda>_.
       if v \<in> set seen then Inl (''trust bundle '' @ field @ '' entries must be unique'')
       else validate_unique_ids field (v # seen) vs)"

definition validate_trust_id_list :: "string list \<Rightarrow> string \<Rightarrow> string + unit" where
  "validate_trust_id_list values field =
     (if length values > 1024 then Inl (''trust bundle has too many '' @ field @ '' entries'')
      else validate_unique_ids field [] values)"

fun validate_probe_pairs :: "(string \<times> string) list \<Rightarrow> (string \<times> string) list \<Rightarrow> string + unit" where
  "validate_probe_pairs seen [] = Inr ()"
| "validate_probe_pairs seen (p # ps) =
     rbind (validate_fixed_id (fst p) 128 ''authorized path source'') (\<lambda>_.
     rbind (validate_fixed_id (snd p) 128 ''authorized path target'') (\<lambda>_.
       if fst p = snd p then Inl ''authorized path probe requires distinct endpoints''
       else if p \<in> set seen then Inl ''trust bundle authorized path probes must be unique''
       else validate_probe_pairs (p # seen) ps))"

definition validate_trust_payload :: "trust_bundle_payload \<Rightarrow> string + unit" where
  "validate_trust_payload p = all_ok [
     ensure (tp_schema p = TRUST_BUNDLE_SCHEMA_V1) ''trust bundle payload schema is unsupported'',
     validate_fixed_id (tp_endpoint_id p) 128 ''trust bundle endpoint ID'',
     ensure (tp_generation p \<noteq> 0 \<and> tp_generation p \<le> i64_max) ''trust bundle generation is out of range'',
     ensure (tp_status p \<in> set [''active'', ''rotated'', ''revoked'', ''quarantined''])
       ''trust bundle status is unsupported'',
     validate_trust_id_list (tp_trusted_controllers p) ''trusted controller'',
     validate_trust_id_list (tp_trusted_peers p) ''trusted peer'',
     ensure (length (tp_authorized_path_probes p) \<le> 1024)
       ''trust bundle has too many authorized path probes'',
     validate_probe_pairs [] (tp_authorized_path_probes p)]"

definition trust_payload_new :: "string \<Rightarrow> nat \<Rightarrow> string \<Rightarrow> string list \<Rightarrow> string list
    \<Rightarrow> (string \<times> string) list \<Rightarrow> string + trust_bundle_payload" where
  "trust_payload_new endpoint_id generation status controllers peers probes =
     (let payload = \<lparr>tp_schema = TRUST_BUNDLE_SCHEMA_V1, tp_endpoint_id = endpoint_id,
        tp_generation = generation, tp_status = status, tp_trusted_controllers = controllers,
        tp_trusted_peers = peers, tp_authorized_path_probes = probes\<rparr> in
      rbind (validate_trust_payload payload) (\<lambda>_. Inr payload))"

definition trust_payload_fields :: "string list" where
  "trust_payload_fields = [''schema'', ''endpoint_id'', ''generation'', ''status'',
     ''trusted_controllers'', ''trusted_peers'', ''authorized_path_probes'']"

definition trust_payload_decode :: "json \<Rightarrow> trust_bundle_payload option" where
  "trust_payload_decode v =
     Option.bind (struct_fields trust_payload_fields v) (\<lambda>f.
     Option.bind (Option.bind (f ''schema'') as_str) (\<lambda>schema.
     Option.bind (Option.bind (f ''endpoint_id'') as_str) (\<lambda>endpoint_id.
     Option.bind (Option.bind (f ''generation'') as_u64) (\<lambda>generation.
     Option.bind (Option.bind (f ''status'') as_str) (\<lambda>status.
     Option.bind (Option.bind (f ''trusted_controllers'') (as_list as_str)) (\<lambda>controllers.
     Option.bind (Option.bind (f ''trusted_peers'') (as_list as_str)) (\<lambda>peers.
     Option.bind (Option.bind (f ''authorized_path_probes'') (as_list as_str_pair)) (\<lambda>probes.
       Some \<lparr>tp_schema = schema, tp_endpoint_id = endpoint_id, tp_generation = generation,
         tp_status = status, tp_trusted_controllers = controllers, tp_trusted_peers = peers,
         tp_authorized_path_probes = probes\<rparr>))))))))"

definition trust_payload_from_value :: "json \<Rightarrow> string + trust_bundle_payload" where
  "trust_payload_from_value v =
     rbind (ok_or (trust_payload_decode v) ''trust bundle payload is not closed v1 data'') (\<lambda>payload.
     rbind (validate_trust_payload payload) (\<lambda>_. Inr payload))"

definition trust_payload_to_value :: "trust_bundle_payload \<Rightarrow> json" where
  "trust_payload_to_value p = jobj [
     (''schema'', JStr (tp_schema p)),
     (''endpoint_id'', JStr (tp_endpoint_id p)),
     (''generation'', JInt (int (tp_generation p))),
     (''status'', JStr (tp_status p)),
     (''trusted_controllers'', jstrs (tp_trusted_controllers p)),
     (''trusted_peers'', jstrs (tp_trusted_peers p)),
     (''authorized_path_probes'', jpairs (tp_authorized_path_probes p))]"

definition public_bundle :: "trust_bundle_payload \<Rightarrow> json" where
  "public_bundle p = jobj [
     (''endpoint_id'', JStr (tp_endpoint_id p)),
     (''generation'', JInt (int (tp_generation p))),
     (''status'', JStr (tp_status p)),
     (''trusted_controllers'', jstrs (tp_trusted_controllers p)),
     (''trusted_peers'', jstrs (tp_trusted_peers p)),
     (''authorized_path_probes'', jpairs (tp_authorized_path_probes p))]"

text \<open>\<open>from_legacy\<close>: an empty object, or exactly the six legacy fields; those it has must agree with the
  row.\<close>

definition legacy_bundle_fields :: "string list" where
  "legacy_bundle_fields = [''endpoint_id'', ''generation'', ''status'', ''trusted_controllers'',
     ''trusted_peers'', ''authorized_path_probes'']"

text \<open>A field with \<open>serde(default)\<close>: absent is the default; an \<open>Option\<close> also reads \<open>null\<close> as \<open>None\<close>.\<close>

definition default_field :: "'a \<Rightarrow> (json \<Rightarrow> 'a option) \<Rightarrow> json option \<Rightarrow> 'a option" where
  "default_field d dec x = (case x of None \<Rightarrow> Some d | Some v \<Rightarrow> dec v)"

definition as_nullable :: "(json \<Rightarrow> 'a option) \<Rightarrow> json \<Rightarrow> 'a option option" where
  "as_nullable dec v = (case v of JNull \<Rightarrow> Some None | _ \<Rightarrow> map_option Some (dec v))"

definition trust_payload_from_legacy :: "string \<Rightarrow> nat \<Rightarrow> string \<Rightarrow> json \<Rightarrow> string + trust_bundle_payload" where
  "trust_payload_from_legacy endpoint_id generation status v =
     (case v of
        JObj kvs \<Rightarrow>
          if kvs \<noteq> [] \<and> (length kvs \<noteq> 6
               \<or> list_ex (\<lambda>field. map_of kvs field = None) legacy_bundle_fields)
          then Inl ''legacy trust bundle must be empty or complete''
          else (case struct_fields legacy_bundle_fields v of
              None \<Rightarrow> Inl ''trust bundle contains unsupported fields or values''
            | Some f \<Rightarrow>
                (case (default_field None (as_nullable as_str) (f ''endpoint_id''),
                       default_field None (as_nullable as_u64) (f ''generation''),
                       default_field None (as_nullable as_str) (f ''status''),
                       default_field [] (as_list as_str) (f ''trusted_controllers''),
                       default_field [] (as_list as_str) (f ''trusted_peers''),
                       default_field [] (as_list as_str_pair) (f ''authorized_path_probes'')) of
                   (Some e, Some g, Some st, Some cs, Some ps, Some prs) \<Rightarrow>
                     if (e \<noteq> None \<and> e \<noteq> Some endpoint_id) \<or> (g \<noteq> None \<and> g \<noteq> Some generation)
                        \<or> (st \<noteq> None \<and> st \<noteq> Some status)
                     then Inl ''legacy trust bundle is inconsistent with endpoint state''
                     else trust_payload_new endpoint_id generation status cs ps prs
                 | _ \<Rightarrow> Inl ''trust bundle contains unsupported fields or values''))
      | _ \<Rightarrow> Inl ''legacy trust bundle must be an object'')"

definition validate_relationship :: "trust_bundle_payload \<Rightarrow> string \<Rightarrow> nat \<Rightarrow> string \<Rightarrow> string + unit" where
  "validate_relationship p endpoint_id generation status =
     ensure (tp_endpoint_id p = endpoint_id \<and> tp_generation p = generation \<and> tp_status p = status)
       ''trust bundle does not match relational endpoint, generation, or status''"

text \<open>\<open>TrustBundle\<close> of the protocol crate as JSON: written by \<open>trust_bundle_json\<close>, read back by the
  projection check. Its status is an enum and unknown fields are ignored.\<close>

definition trust_bundle_json :: "string \<Rightarrow> nat \<Rightarrow> endpoint_status \<Rightarrow> json" where
  "trust_bundle_json endpoint_id generation status = jobj [
     (''endpoint_id'', JStr endpoint_id),
     (''generation'', JInt (int generation)),
     (''status'', JStr (endpoint_status_as_str status)),
     (''trusted_controllers'', jstrs []),
     (''trusted_peers'', jstrs []),
     (''authorized_path_probes'', jpairs [])]"

definition struct_fields_open :: "string list \<Rightarrow> json \<Rightarrow> (string \<Rightarrow> json option) option" where
  "struct_fields_open names v =
     (case v of JObj kvs \<Rightarrow> Some (map_of kvs) | _ \<Rightarrow> struct_fields names v)"

definition as_endpoint_status :: "json \<Rightarrow> endpoint_status option" where
  "as_endpoint_status v =
     Option.bind (as_variant v) (\<lambda>s. case endpoint_status_from_str s of Inr st \<Rightarrow> Some st | Inl _ \<Rightarrow> None)"

definition trust_bundle_decode :: "json \<Rightarrow> trust_bundle option" where
  "trust_bundle_decode v =
     Option.bind (struct_fields_open legacy_bundle_fields v) (\<lambda>f.
     Option.bind (Option.bind (f ''endpoint_id'') as_str) (\<lambda>endpoint_id.
     Option.bind (Option.bind (f ''generation'') as_u64) (\<lambda>generation.
     Option.bind (Option.bind (f ''status'') as_endpoint_status) (\<lambda>status.
     Option.bind (Option.bind (f ''trusted_controllers'') (as_list as_str)) (\<lambda>controllers.
     Option.bind (Option.bind (f ''trusted_peers'') (as_list as_str)) (\<lambda>peers.
     Option.bind (Option.bind (f ''authorized_path_probes'') (as_list as_str_pair)) (\<lambda>probes.
       Some \<lparr>tb_endpoint_id = endpoint_id, tb_generation = generation, tb_status = status,
         tb_trusted_controllers = controllers, tb_trusted_peers = peers,
         tb_authorized_path_probes = probes\<rparr>)))))))"

definition canonical_trust_bundle ::
    "string \<Rightarrow> nat \<Rightarrow> endpoint_status \<Rightarrow> json \<Rightarrow> store_error + json" where
  "canonical_trust_bundle endpoint_id generation status v =
     rbind (map_err SeInvalidInput
       (case trust_payload_from_value v of
          Inr p \<Rightarrow> Inr p
        | Inl _ \<Rightarrow> trust_payload_from_legacy endpoint_id generation (endpoint_status_as_str status) v))
     (\<lambda>payload. rbind (map_err SeInvalidInput
         (validate_relationship payload endpoint_id generation (endpoint_status_as_str status)))
       (\<lambda>_. Inr (trust_payload_to_value payload)))"

section \<open>Enrollment metadata\<close>

definition ENROLLMENT_METADATA_SCHEMA_V1 :: string where
  "ENROLLMENT_METADATA_SCHEMA_V1 = ''ocfleet.enrollment.metadata.v1''"

datatype metadata_kind = TokenLabels | TokenScope | RequestedLabels | ApprovedLabels

primrec metadata_kind_name :: "metadata_kind \<Rightarrow> string" where
  "metadata_kind_name TokenLabels = ''token_labels''"
| "metadata_kind_name TokenScope = ''token_scope''"
| "metadata_kind_name RequestedLabels = ''requested_labels''"
| "metadata_kind_name ApprovedLabels = ''approved_labels''"

definition metadata_kind_parse :: "string \<Rightarrow> metadata_kind option" where
  "metadata_kind_parse s =
     (if s = ''token_labels'' then Some TokenLabels
      else if s = ''token_scope'' then Some TokenScope
      else if s = ''requested_labels'' then Some RequestedLabels
      else if s = ''approved_labels'' then Some ApprovedLabels
      else None)"

primrec field_name :: "metadata_kind \<Rightarrow> string" where
  "field_name TokenLabels = ''labels''"
| "field_name TokenScope = ''scope''"
| "field_name RequestedLabels = ''requested_labels''"
| "field_name ApprovedLabels = ''approved_labels''"

text \<open>The values are scalars; an object of them is a \<open>BTreeMap\<close>.\<close>

record enrollment_metadata =
  em_schema :: string
  em_kind :: metadata_kind
  em_values :: "(string \<times> json) list"

definition is_scalar :: "json \<Rightarrow> bool" where
  "is_scalar v = (case v of JArr _ \<Rightarrow> False | JObj _ \<Rightarrow> False | _ \<Rightarrow> True)"

definition as_scalars :: "json \<Rightarrow> (string \<times> json) list option" where
  "as_scalars v =
     (case v of JObj kvs \<Rightarrow> if list_all (\<lambda>kv. is_scalar (snd kv)) kvs then Some kvs else None | _ \<Rightarrow> None)"

definition metadata_public_value :: "enrollment_metadata \<Rightarrow> json" where
  "metadata_public_value m = JObj (em_values m)"

definition metadata_to_value :: "enrollment_metadata \<Rightarrow> json" where
  "metadata_to_value m = jobj [
     (''schema'', JStr (em_schema m)),
     (''kind'', JStr (metadata_kind_name (em_kind m))),
     (''values'', JObj (em_values m))]"

text \<open>\<open>StoreError::to_string\<close>; the low-sensitivity check only reports \<open>InvalidInput\<close>.\<close>

definition invalid_input_text :: "store_error \<Rightarrow> string" where
  "invalid_input_text e = (case e of SeInvalidInput m \<Rightarrow> ''invalid input: '' @ m | _ \<Rightarrow> [])"

definition metadata_validate :: "ext \<Rightarrow> metadata_kind \<Rightarrow> enrollment_metadata \<Rightarrow> string + unit" where
  "metadata_validate X expected_kind m = all_ok [
     ensure (em_schema m = ENROLLMENT_METADATA_SCHEMA_V1)
       ''enrollment metadata payload schema is unsupported'',
     ensure (em_kind m = expected_kind) ''enrollment metadata payload kind is inconsistent'',
     validate_label_json (metadata_public_value m) (field_name (em_kind m)),
     map_err invalid_input_text
       (validate_low_sensitive_json X (metadata_to_value m) ''enrollment metadata payload'')]"

definition metadata_new :: "ext \<Rightarrow> metadata_kind \<Rightarrow> json \<Rightarrow> string + enrollment_metadata" where
  "metadata_new X kind v =
     rbind (ok_or (as_scalars v) (field_name kind @ '' must contain scalar values'')) (\<lambda>kvs.
       let m = \<lparr>em_schema = ENROLLMENT_METADATA_SCHEMA_V1, em_kind = kind, em_values = kvs\<rparr> in
       rbind (metadata_validate X kind m) (\<lambda>_. Inr m))"

definition metadata_decode :: "json \<Rightarrow> enrollment_metadata option" where
  "metadata_decode v =
     Option.bind (struct_fields [''schema'', ''kind'', ''values''] v) (\<lambda>f.
     Option.bind (Option.bind (f ''schema'') as_str) (\<lambda>schema.
     Option.bind (Option.bind (Option.bind (f ''kind'') as_variant) metadata_kind_parse) (\<lambda>kind.
     Option.bind (Option.bind (f ''values'') as_scalars) (\<lambda>kvs.
       Some \<lparr>em_schema = schema, em_kind = kind, em_values = kvs\<rparr>))))"

definition metadata_from_value :: "ext \<Rightarrow> metadata_kind \<Rightarrow> json \<Rightarrow> string + enrollment_metadata" where
  "metadata_from_value X expected_kind v =
     rbind (ok_or (metadata_decode v) ''enrollment metadata payload is not closed v1 data'') (\<lambda>m.
     rbind (metadata_validate X expected_kind m) (\<lambda>_. Inr m))"

definition canonical_enrollment_metadata :: "ext \<Rightarrow> metadata_kind \<Rightarrow> json \<Rightarrow> store_error + json" where
  "canonical_enrollment_metadata X kind v =
     rbind (map_err SeInvalidInput
       (case metadata_from_value X kind v of Inr m \<Rightarrow> Inr m | Inl _ \<Rightarrow> metadata_new X kind v))
     (\<lambda>m. Inr (metadata_to_value m))"

section \<open>Audit details\<close>

definition AUDIT_DETAIL_SCHEMA_V1 :: string where
  "AUDIT_DETAIL_SCHEMA_V1 = ''ocfleet.audit.detail.v1''"

text \<open>The controller's \<open>AuditEvent\<close> (\<open>ocfleet-cli/src/audit.rs\<close>).\<close>

record ctl_audit_event =
  ae_ts :: string
  ae_actor :: string
  ae_event :: string
  ae_node_id :: "string option"
  ae_endpoint_id :: "string option"
  ae_method :: "string option"
  ae_request_id :: "string option"
  ae_params_hash :: "string option"
  ae_ok :: "bool option"
  ae_error_code :: "string option"
  ae_duration_ms :: "nat option"
  ae_detail_json :: json

definition ctl_audit_event_new :: "string \<Rightarrow> string \<Rightarrow> string \<Rightarrow> ctl_audit_event" where
  "ctl_audit_event_new now_text actor event =
     \<lparr>ae_ts = now_text, ae_actor = actor, ae_event = event, ae_node_id = None, ae_endpoint_id = None,
      ae_method = None, ae_request_id = None, ae_params_hash = None, ae_ok = None,
      ae_error_code = None, ae_duration_ms = None, ae_detail_json = JObj []\<rparr>"

definition jstr_opt :: "string option \<Rightarrow> json" where
  "jstr_opt x = jopt JStr x"

text \<open>\<open>AuditDetailPayloadV1\<close>: the record under \<open>_audit\<close> next to the flattened fields of the detail. The
  payload is represented by the event and the fields.\<close>

definition audit_record_json :: "ctl_audit_event \<Rightarrow> json" where
  "audit_record_json ev = jobj [
     (''schema'', JStr AUDIT_DETAIL_SCHEMA_V1),
     (''ts'', JStr (ae_ts ev)),
     (''actor'', JStr (ae_actor ev)),
     (''event'', JStr (ae_event ev)),
     (''node_id'', jstr_opt (ae_node_id ev)),
     (''endpoint_id'', jstr_opt (ae_endpoint_id ev)),
     (''method'', jstr_opt (ae_method ev)),
     (''request_id'', jstr_opt (ae_request_id ev)),
     (''params_hash'', jstr_opt (ae_params_hash ev)),
     (''ok'', jopt JBool (ae_ok ev)),
     (''error_code'', jstr_opt (ae_error_code ev)),
     (''duration_ms'', jopt (\<lambda>n. JInt (int n)) (ae_duration_ms ev))]"

definition audit_payload_to_value :: "ctl_audit_event \<Rightarrow> (string \<times> json) list \<Rightarrow> json" where
  "audit_payload_to_value ev kvs = jobj ((''_audit'', audit_record_json ev) # kvs)"

definition known_audit_detail_keys :: "string list" where
  "known_audit_detail_keys =
    [''action'', ''actions_enabled'', ''active_endpoint'', ''actor_type'', ''after'',
     ''after_state'', ''agent_controllers'', ''agent_version'', ''agent_path_probes'',
     ''agent_peers'', ''alert_count'', ''alert_created_or_updated_count'', ''alert_evaluation'',
     ''alert_evaluation_error_code'', ''alert_evaluation_error_message'',
     ''alert_evaluation_ok'', ''alert_evaluated_candidates'', ''alert_events'',
     ''alert_events_upserted'', ''alert_id'', ''alert_open_alerts'', ''alert_silenced_alerts'',
     ''algorithm'', ''assigned_endpoint_id'', ''attempt_id'', ''attempt_no'', ''attempted_at'',
     ''authoritative_policy'', ''batch_count'', ''batch_size'', ''before'', ''before_state'',
     ''bytes_sent'', ''bytes_written'', ''cert_count'', ''cert_critical_days'',
     ''cert_warning_days'', ''checksum'', ''claimed_at'', ''code'', ''computed_at'',
     ''compatible'', ''controlled_writes_compiled'', ''controlled_writes_locally_enabled'',
     ''content_sha256'', ''correlation_id'', ''created_at'', ''created_database'',
     ''created_identity_file'', ''created_or_updated_count'', ''cutoff'', ''dedupe_key'',
     ''degraded_methods'', ''deleted_count'', ''description_present'', ''detail'',
     ''diff_count'', ''diffs'', ''disabled'', ''disabled_node_count'', ''dry_run'', ''due_jobs'',
     ''duration_ms'', ''enabled'', ''enabled_jobs'', ''enabled_node_count'', ''endpoint'',
     ''endpoint_filter'', ''endpoint_host'', ''endpoint_id'', ''endpoint_status'',
     ''endpoint_trust_state'', ''endpoint_url_redacted'', ''entries'', ''error'', ''error_code'',
     ''evaluated_candidates'', ''executed_jobs'', ''expires_at'', ''failed_observation_count'',
     ''failed_observations'', ''feature_flag_count'', ''fence_token'', ''fingerprint_present'',
     ''finished_at'', ''first_seen_at'', ''freshness_seconds'', ''from'', ''generation'',
     ''group_key'', ''groups'', ''health_score'', ''hmac_key_id'', ''hook_id'', ''hook_type'',
     ''host_allow'', ''http_status_class'', ''id'', ''ignored'', ''interval_seconds'',
     ''issuance'', ''jitter_seconds'', ''job'', ''job_count'', ''job_id'', ''jobs'',
     ''join_request'', ''kind'', ''label_count'', ''last_error_code'', ''last_failure_at'',
     ''last_run_at'', ''last_run_job_id'', ''last_seen_at'', ''last_sent_at'',
     ''last_success_at'', ''last_observation'', ''lease_expires_at'', ''limit'',
     ''matched_count'', ''max_age_days'', ''max_attempts'', ''max_concurrency'', ''max_rows'',
     ''max_uses'', ''message'', ''method'', ''name'', ''new_endpoint'', ''new_endpoint_id'',
     ''new_value'', ''newest_candidate'', ''next_attempt_at'', ''next_run_at'',
     ''no_config_generated'', ''no_forwarding'', ''no_probe_executed'', ''no_route_discovery'',
     ''node'', ''node_count'', ''node_filter'', ''node_id'', ''nodes'', ''observation_count'',
     ''observation_id'', ''observations'', ''observed_at'', ''ocserv_snapshot_max'',
     ''ocserv_snapshot_min'', ''ok'', ''old_endpoint'', ''old_value'', ''oldest_candidate'',
     ''open_alerts'', ''owner_id'', ''output_path_hash'', ''params_hash'', ''peer_request_id'',
     ''planned_delete_count'', ''policy_class'', ''previous_endpoint_id'', ''protocol_max'',
     ''protocol_min'', ''provider_schema_count'', ''queue_id'', ''reason'', ''reason_code'',
     ''record_count'', ''records'', ''redaction_mode'', ''region'', ''registered_node_count'',
     ''registry'', ''registry_authorizes_probe'', ''registry_endpoint'',
     ''registry_potential_pair_count'', ''report_checksum'', ''request_id'',
     ''requested_cutoff'', ''requested_endpoint_id_present'', ''requested_label_count'',
     ''required_source_policy'', ''required_target_policy'', ''resolved_at'', ''result'',
     ''result_class'', ''role'', ''rotated_to'', ''root_request_id'', ''row_count'',
     ''rows_deleted'', ''rpc_methods'', ''run'', ''run_count'', ''run_id'', ''run_ids'',
     ''runs'', ''schema'', ''schema_version'', ''scope'', ''scope_count'', ''selector'',
     ''selector_class'', ''sessions'', ''severity'', ''signature_algorithm'',
     ''signature_public_key_fingerprint'', ''signed_at'', ''signed_file'', ''silenced_alerts'',
     ''since'', ''skipped_jobs'', ''skipped_tasks'', ''snapshots'', ''source'',
     ''source_endpoint_id'', ''source_node_id'', ''source_status'', ''stale_window_seconds'',
     ''started_at'', ''state'', ''status'', ''status_counts'', ''summary'', ''summary_json'',
     ''supported_method_count'', ''supported_probe_methods'', ''target_agent_endpoint_id'',
     ''target_count'', ''target_endpoint_id'', ''target_endpoint_status'',
     ''target_endpoint_trust_state'', ''target_id'', ''target_node_id'', ''target_status'',
     ''target_type'', ''tick_seconds'', ''timeout_ms'', ''to'', ''token_id'',
     ''topology_discovery'', ''total'', ''triggered_by'', ''ts'',
     ''unreachable_consecutive_failures'', ''updated_alerts'', ''updated_at'',
     ''upserted_alerts'', ''used_count'', ''valid'']"

definition is_known_audit_detail_key :: "string \<Rightarrow> bool" where
  "is_known_audit_detail_key key \<longleftrightarrow> key \<in> set known_audit_detail_keys"

definition validate_audit_payload_text :: "string \<Rightarrow> nat \<Rightarrow> string \<Rightarrow> string + unit" where
  "validate_audit_payload_text value max_len field =
     ensure (\<not> (value = [] \<or> length value > max_len
        \<or> list_ex (\<lambda>b. \<not> is_ascii_byte b \<or> is_ascii_control b) value))
       (field @ '' is not bounded ASCII text'')"

definition validate_optional_text :: "string option \<times> string \<Rightarrow> string + unit" where
  "validate_optional_text vf =
     (case fst vf of None \<Rightarrow> Inr () | Some value \<Rightarrow> validate_audit_payload_text value 128 (snd vf))"

definition audit_payload_validate :: "ext \<Rightarrow> ctl_audit_event \<Rightarrow> (string \<times> json) list \<Rightarrow> string + unit" where
  "audit_payload_validate X ev kvs = all_ok [
     validate_audit_payload_text (ae_ts ev) 64 ''audit timestamp'',
     ensure (parse_rfc3339 X (ae_ts ev) \<noteq> None) ''audit timestamp must be RFC3339'',
     validate_audit_payload_text (ae_actor ev) 128 ''audit actor'',
     validate_audit_payload_text (ae_event ev) 128 ''audit event'',
     each_ok validate_optional_text [
       (ae_node_id ev, ''audit node ID''), (ae_endpoint_id ev, ''audit endpoint ID''),
       (ae_method ev, ''audit method''), (ae_request_id ev, ''audit request ID''),
       (ae_params_hash ev, ''audit params hash''), (ae_error_code ev, ''audit error code'')],
     ensure (case ae_duration_ms ev of None \<Rightarrow> True | Some n \<Rightarrow> n \<le> i64_max) ''audit duration exceeds i64'',
     ensure (length kvs \<le> 128) ''audit detail has too many top-level fields'',
     (case find (\<lambda>kv. \<not> is_known_audit_detail_key (fst kv)) kvs of
        Some kv \<Rightarrow> Inl (''audit detail contains unknown top-level field '' @ fst kv)
      | None \<Rightarrow> Inr ()),
     map_err invalid_input_text
       (validate_low_sensitive_json X (audit_payload_to_value ev kvs) ''audit detail payload'')]"

definition audit_payload_new :: "ext \<Rightarrow> ctl_audit_event \<Rightarrow> string + json" where
  "audit_payload_new X ev =
     (case ae_detail_json ev of
        JObj kvs \<Rightarrow> rbind (audit_payload_validate X ev kvs) (\<lambda>_. Inr (audit_payload_to_value ev kvs))
      | _ \<Rightarrow> Inl ''audit detail must be a typed object'')"

end
