(* ===== verification/Transactions.thy ===== *)
theory Transactions
  imports Prelude
begin

text \<open>
  Database transactions as state-passing functions, and the verification conditions the store's
  operations are proved with.
\<close>

named_theorems wp \<open>equations for the statements of a transaction\<close>
named_theorems vcg \<open>introduction rules, one per statement\<close>
named_theorems vcg_first \<open>introduction rules for statement patterns, tried before \<open>vcg\<close>\<close>
named_theorems read_only_intros \<open>introduction rules for transactions that only read\<close>

section \<open>Transactions\<close>

text \<open>A transaction reads and writes a state and may fail; a failure discards the writes, which is
  \<open>rusqlite\<close>'s rollback of a dropped \<open>Transaction\<close>. A panic is a failure of its own.\<close>

type_synonym ('s, 'e, 'a) tx = "'s \<Rightarrow> 'e fault + ('a \<times> 's)"

definition treturn :: "'a \<Rightarrow> ('s, 'e, 'a) tx" where
  "treturn a = (\<lambda>s. Inr (a, s))"

definition tfail :: "'e fault \<Rightarrow> ('s, 'e, 'a) tx" where
  "tfail e = (\<lambda>s. Inl e)"

definition tbind :: "('s, 'e, 'a) tx \<Rightarrow> ('a \<Rightarrow> ('s, 'e, 'b) tx) \<Rightarrow> ('s, 'e, 'b) tx" where
  "tbind m f = (\<lambda>s. case m s of Inl e \<Rightarrow> Inl e | Inr r \<Rightarrow> f (fst r) (snd r))"

definition tseq :: "('s, 'e, 'a) tx \<Rightarrow> ('s, 'e, 'b) tx \<Rightarrow> ('s, 'e, 'b) tx" where
  "tseq m k = tbind m (\<lambda>_. k)"

definition tread :: "('s \<Rightarrow> 'a) \<Rightarrow> ('s, 'e, 'a) tx" where
  "tread g = (\<lambda>s. Inr (g s, s))"

definition tmodify :: "('s \<Rightarrow> 's) \<Rightarrow> ('s, 'e, unit) tx" where
  "tmodify g = (\<lambda>s. Inr ((), g s))"

definition ttry :: "'e + 'a \<Rightarrow> ('s, 'e, 'a) tx" where
  "ttry r = (\<lambda>s. case r of Inl e \<Rightarrow> Inl (Fail e) | Inr a \<Rightarrow> Inr (a, s))"

definition tcheck :: "bool \<Rightarrow> 'e \<Rightarrow> ('s, 'e, unit) tx" where
  "tcheck c e = (if c then treturn () else tfail (Fail e))"

definition texpect :: "'a option \<Rightarrow> ('s, 'e, 'a) tx" where
  "texpect x = (case x of Some a \<Rightarrow> treturn a | None \<Rightarrow> tfail Panic)"

definition twhen :: "bool \<Rightarrow> ('s, 'e, unit) tx \<Rightarrow> ('s, 'e, unit) tx" where
  "twhen c m = (if c then m else treturn ())"

text \<open>Commit, or roll back and report.\<close>

definition run_tx :: "('s, 'e, 'a) tx \<Rightarrow> 's \<Rightarrow> ('e fault + 'a) \<times> 's" where
  "run_tx m s = (case m s of Inl e \<Rightarrow> (Inl e, s) | Inr r \<Rightarrow> (Inr (fst r), snd r))"

section \<open>Verification conditions\<close>

text \<open>\<open>outcome p m s Q\<close>: if \<open>m\<close> commits in \<open>s\<close>, its result and final state satisfy \<open>Q\<close>, and \<open>m\<close> panics only
  if \<open>p\<close> allows it. \<open>post\<close> excludes a panic.\<close>

definition outcome :: "bool \<Rightarrow> ('s, 'e, 'a) tx \<Rightarrow> 's \<Rightarrow> ('a \<Rightarrow> 's \<Rightarrow> bool) \<Rightarrow> bool" where
  "outcome p m s Q = (case m s of Inl e \<Rightarrow> e = Panic \<longrightarrow> p | Inr r \<Rightarrow> Q (fst r) (snd r))"

abbreviation post :: "('s, 'e, 'a) tx \<Rightarrow> 's \<Rightarrow> ('a \<Rightarrow> 's \<Rightarrow> bool) \<Rightarrow> bool" where
  "post \<equiv> outcome False"

text \<open>Transactions that neither write nor panic.\<close>

definition read_only :: "('s, 'e, 'a) tx \<Rightarrow> bool" where
  "read_only m \<longleftrightarrow> (\<forall>s. post m s (\<lambda>_ s'. s' = s))"

lemma post_return [wp]: "outcome p (treturn a) s Q \<longleftrightarrow> Q a s"
  by (simp add: outcome_def treturn_def)

lemma post_fail [wp]: "outcome p (tfail e) s Q \<longleftrightarrow> (e = Panic \<longrightarrow> p)"
  by (simp add: outcome_def tfail_def)

lemma post_bind [wp]: "outcome p (tbind m f) s Q \<longleftrightarrow> outcome p m s (\<lambda>a s'. outcome p (f a) s' Q)"
  by (auto simp: outcome_def tbind_def split: sum.splits)

lemma post_seq [wp]: "outcome p (tseq m k) s Q \<longleftrightarrow> outcome p m s (\<lambda>_ s'. outcome p k s' Q)"
  by (simp add: tseq_def post_bind)

lemma post_read [wp]: "outcome p (tread g) s Q \<longleftrightarrow> Q (g s) s"
  by (simp add: outcome_def tread_def)

lemma post_modify [wp]: "outcome p (tmodify g) s Q \<longleftrightarrow> Q () (g s)"
  by (simp add: outcome_def tmodify_def)

lemma post_try [wp]: "outcome p (ttry r) s Q \<longleftrightarrow> (\<forall>a. r = Inr a \<longrightarrow> Q a s)"
  by (auto simp: outcome_def ttry_def split: sum.splits)

lemma post_check [wp]: "outcome p (tcheck c e) s Q \<longleftrightarrow> (c \<longrightarrow> Q () s)"
  by (simp add: tcheck_def post_return post_fail)

lemma post_expect [wp]: "post (texpect x) s Q \<longleftrightarrow> (\<exists>a. x = Some a \<and> Q a s)"
  by (cases x) (simp_all add: texpect_def post_return post_fail)

lemma post_when [wp]: "outcome p (twhen c m) s Q \<longleftrightarrow> (if c then outcome p m s Q else Q () s)"
  by (simp add: twhen_def post_return)

lemma post_mono: "outcome p m s P \<Longrightarrow> (\<And>a s'. P a s' \<Longrightarrow> Q a s') \<Longrightarrow> outcome p m s Q"
  by (auto simp: outcome_def split: sum.splits)

lemma post_run: "outcome p m s Q \<Longrightarrow> run_tx m s = (Inr a, s') \<Longrightarrow> Q a s'"
  by (auto simp: outcome_def run_tx_def split: sum.splits)

lemma post_no_panic: "post m s Q \<Longrightarrow> fst (run_tx m s) \<noteq> Inl Panic"
  by (auto simp: outcome_def run_tx_def split: sum.splits)

text \<open>A failed transaction is rolled back.\<close>

lemma post_snd_run: "outcome p m s Q \<Longrightarrow> snd (run_tx m s) = s \<or> (\<exists>a. Q a (snd (run_tx m s)))"
  by (auto simp: outcome_def run_tx_def split: sum.splits)

lemma post_read_only: "read_only m \<Longrightarrow> (\<And>a. Q a s) \<Longrightarrow> outcome p m s Q"
  by (auto simp: read_only_def outcome_def split: sum.splits)

section \<open>Introduction rules\<close>

lemma vcg_return [vcg]: "Q a s \<Longrightarrow> outcome p (treturn a) s Q"
  by (simp add: wp)

lemma vcg_read [vcg]: "Q (g s) s \<Longrightarrow> outcome p (tread g) s Q"
  by (simp add: wp)

lemma vcg_bind [vcg]: "outcome p m s (\<lambda>a s'. outcome p (f a) s' Q) \<Longrightarrow> outcome p (tbind m f) s Q"
  by (simp add: wp)

lemma vcg_seq [vcg]: "outcome p m s (\<lambda>_ s'. outcome p k s' Q) \<Longrightarrow> outcome p (tseq m k) s Q"
  by (simp add: wp)

lemma vcg_unit [vcg]:
  "Q () (h s) \<Longrightarrow> outcome p (tmodify h) s Q"
  "(c \<Longrightarrow> Q () s) \<Longrightarrow> outcome p (tcheck c e) s Q"
  "(c \<Longrightarrow> outcome p m s Q) \<Longrightarrow> (\<not> c \<Longrightarrow> Q () s) \<Longrightarrow> outcome p (twhen c m) s Q"
  by (simp_all add: wp)

lemma vcg_try [vcg]: "(\<And>a. r = Inr a \<Longrightarrow> Q a s) \<Longrightarrow> outcome p (ttry r) s Q"
  by (simp add: wp)

lemma vcg_expect: "(\<And>a. x = Some a \<Longrightarrow> Q a s) \<Longrightarrow> (x = None \<Longrightarrow> p) \<Longrightarrow> outcome p (texpect x) s Q"
  by (cases x) (simp_all add: texpect_def post_return post_fail)

lemma vcg_fail [vcg]: "outcome p (tfail (Fail e)) s Q"
  by (simp add: wp)

lemma vcg_control [vcg]:
  "(c \<Longrightarrow> outcome p m s Q) \<Longrightarrow> (\<not> c \<Longrightarrow> outcome p n s Q) \<Longrightarrow> outcome p (if c then m else n) s Q"
  "outcome p (f x) s Q \<Longrightarrow> outcome p (Let x f) s Q"
  by simp_all

lemma vcg_option [vcg]:
  "(x = None \<Longrightarrow> outcome p m s Q) \<Longrightarrow> (\<And>a. x = Some a \<Longrightarrow> outcome p (f a) s Q) \<Longrightarrow>
   outcome p (case x of None \<Rightarrow> m | Some a \<Rightarrow> f a) s Q"
  by (cases x) auto

section \<open>Read-only transactions\<close>

lemma read_only_basic [read_only_intros]:
  "read_only (treturn a)" "read_only (tread g)" "read_only (ttry r)" "read_only (tcheck c e)"
  "read_only (tfail (Fail e))"
  by (simp_all add: read_only_def wp)

lemma read_only_bind [read_only_intros]:
  "read_only m \<Longrightarrow> (\<And>a. read_only (f a)) \<Longrightarrow> read_only (tbind m f)"
  unfolding read_only_def post_bind by (blast intro: post_mono)

lemma read_only_seq [read_only_intros]: "read_only m \<Longrightarrow> read_only k \<Longrightarrow> read_only (tseq m k)"
  unfolding tseq_def by (intro read_only_bind)

lemma read_only_when [read_only_intros]: "read_only m \<Longrightarrow> read_only (twhen c m)"
  by (simp add: twhen_def read_only_basic)

lemma read_only_case_option [read_only_intros]:
  "read_only n \<Longrightarrow> (\<And>a. read_only (f a)) \<Longrightarrow> read_only (case x of None \<Rightarrow> n | Some a \<Rightarrow> f a)"
  by (cases x) auto

lemma read_only_if [read_only_intros]: "read_only m \<Longrightarrow> read_only n \<Longrightarrow> read_only (if c then m else n)"
  by simp

lemma read_only_Let [read_only_intros]: "(\<And>a. read_only (f a)) \<Longrightarrow> read_only (Let x f)"
  by simp

end
