(* ===== verification/Store_Core.thy ===== *)
theory Store_Core
  imports Store_Payloads Transactions
begin

text \<open>
  The controller's database (\<open>ocfleet-cli/src/store.rs\<close>, schema in \<open>migrations.rs\<close>): the tables of nodes,
  endpoint trust, enrollment tokens, join requests and audit records, the statements the store runs
  on them, and the audit insertion every transaction ends with.

  A column of JSON text is represented by the document, a status column by the enum its text parses
  to. One reading of each clock serves a whole transaction. \<open>.expect(..)\<close> is a transaction that ends
  in \<open>Panic\<close>.
\<close>

section \<open>Tables\<close>

record node_insert =
  ni_node_id :: string
  ni_endpoint_id :: string
  ni_name :: string
  ni_region :: string
  ni_role :: string

record node_record =
  nd_node_id :: string
  nd_endpoint_id :: string
  nd_name :: string
  nd_region :: string
  nd_role :: string
  nd_enabled :: bool

record node_row =
  nr_node_id :: string
  nr_endpoint_id :: string
  nr_name :: string
  nr_region :: string
  nr_role :: string
  nr_enabled :: bool
  nr_created_at :: string
  nr_updated_at :: string

text \<open>A row of \<open>endpoint_trust\<close> and the \<open>EndpointTrustRecord\<close> read from it have the same fields; the row
  holds the stored payload, the record the public bundle.\<close>

record endpoint_trust =
  et_endpoint_id :: string
  et_node_id :: "string option"
  et_fingerprint :: "string option"
  et_status :: endpoint_status
  et_generation :: nat
  et_previous_endpoint_id :: "string option"
  et_rotated_to :: "string option"
  et_trust_bundle_json :: json
  et_created_at :: string
  et_updated_at :: string

text \<open>Likewise for tokens and join requests, whose label columns hold the stored metadata.\<close>

record enrollment_token =
  tk_token_id :: string
  tk_token_hash :: string
  tk_created_at :: string
  tk_created_by :: string
  tk_expires_at :: string
  tk_max_uses :: nat
  tk_used_count :: nat
  tk_status :: token_status
  tk_description :: "string option"
  tk_labels_json :: json
  tk_scope_json :: json

record join_request =
  jr_request_id :: string
  jr_token_id :: string
  jr_status :: join_status
  jr_agent_public_key :: string
  jr_fingerprint :: string
  jr_requested_endpoint_id :: "string option"
  jr_assigned_endpoint_id :: "string option"
  jr_hostname :: string
  jr_agent_version :: string
  jr_requested_labels_json :: json
  jr_approved_labels_json :: json
  jr_created_at :: string
  jr_approved_at :: "string option"
  jr_approved_by :: "string option"
  jr_rejection_reason :: "string option"
  jr_audit_correlation_id :: string

text \<open>\<open>controller_audit_log\<close> rows are numbered by \<open>AUTOINCREMENT\<close>; the last number used survives deletions.\<close>

record store_db =
  db_nodes :: "node_row list"
  db_trust :: "endpoint_trust list"
  db_tokens :: "enrollment_token list"
  db_joins :: "join_request list"
  db_audit :: "(nat \<times> ctl_audit_event) list"
  db_audit_seq :: nat

definition empty_db :: store_db where
  "empty_db = \<lparr>db_nodes = [], db_trust = [], db_tokens = [], db_joins = [], db_audit = [],
     db_audit_seq = 0\<rparr>"

text \<open>What a transaction reads from outside the database: the clock (as an instant, as RFC3339 text and
  as SQLite's \<open>strftime\<close> text), a fresh UUID, and the BLAKE3 hash of a text in hexadecimal.\<close>

record store_env =
  se_now_utc :: int
  se_now_text :: string
  se_sql_now :: string
  se_new_uuid :: string
  se_blake3_hex :: "string \<Rightarrow> string"

type_synonym 'a stx = "(store_db, store_error, 'a) tx"

section \<open>Statements\<close>

definition query :: "(store_db \<Rightarrow> store_error + 'a) \<Rightarrow> 'a stx" where
  "query q = tbind (tread q) ttry"

definition constraint :: "string \<Rightarrow> store_error" where
  "constraint c = SeSqlite (ConstraintViolation c)"

text \<open>\<open>UPDATE .. SET f WHERE P\<close> on a table, and the number of affected rows.\<close>

definition update_rows :: "('r \<Rightarrow> bool) \<Rightarrow> ('r \<Rightarrow> 'r) \<Rightarrow> 'r list \<Rightarrow> 'r list" where
  "update_rows P f rows = map (\<lambda>r. if P r then f r else r) rows"

definition affected :: "('r \<Rightarrow> bool) \<Rightarrow> 'r list \<Rightarrow> nat" where
  "affected P rows = length (filter P rows)"

definition update_nodes :: "(node_row \<Rightarrow> bool) \<Rightarrow> (node_row \<Rightarrow> node_row) \<Rightarrow> nat stx" where
  "update_nodes P f =
     tbind (tread db_nodes) (\<lambda>rows.
     tseq (tcheck (distinct (map nr_endpoint_id (update_rows P f rows))) (constraint ''nodes.endpoint_id''))
     (tseq (tmodify (\<lambda>db. db\<lparr>db_nodes := update_rows P f rows\<rparr>))
     (treturn (affected P rows))))"

definition delete_nodes :: "(node_row \<Rightarrow> bool) \<Rightarrow> nat stx" where
  "delete_nodes P =
     tbind (tread db_nodes) (\<lambda>rows.
     tseq (tmodify (\<lambda>db. db\<lparr>db_nodes := filter (\<lambda>r. \<not> P r) rows\<rparr>))
     (treturn (affected P rows)))"

definition update_trust :: "(endpoint_trust \<Rightarrow> bool) \<Rightarrow> (endpoint_trust \<Rightarrow> endpoint_trust) \<Rightarrow> nat stx" where
  "update_trust P f =
     tbind (tread db_trust) (\<lambda>rows.
     tseq (tmodify (\<lambda>db. db\<lparr>db_trust := update_rows P f rows\<rparr>))
     (treturn (affected P rows)))"

definition update_tokens ::
    "(enrollment_token \<Rightarrow> bool) \<Rightarrow> (enrollment_token \<Rightarrow> enrollment_token) \<Rightarrow> nat stx" where
  "update_tokens P f =
     tbind (tread db_tokens) (\<lambda>rows.
     tseq (tmodify (\<lambda>db. db\<lparr>db_tokens := update_rows P f rows\<rparr>))
     (treturn (affected P rows)))"

definition update_joins :: "(join_request \<Rightarrow> bool) \<Rightarrow> (join_request \<Rightarrow> join_request) \<Rightarrow> nat stx" where
  "update_joins P f =
     tbind (tread db_joins) (\<lambda>rows.
     tseq (tmodify (\<lambda>db. db\<lparr>db_joins := update_rows P f rows\<rparr>))
     (treturn (affected P rows)))"

definition node_from_row :: "node_row \<Rightarrow> node_record" where
  "node_from_row r = \<lparr>nd_node_id = nr_node_id r, nd_endpoint_id = nr_endpoint_id r,
     nd_name = nr_name r, nd_region = nr_region r, nd_role = nr_role r, nd_enabled = nr_enabled r\<rparr>"

definition conversion_error :: "nat \<Rightarrow> string \<Rightarrow> store_error" where
  "conversion_error column e = SeSqlite (FromSqlConversionFailure column e)"

definition endpoint_trust_from_row :: "endpoint_trust \<Rightarrow> store_error + endpoint_trust" where
  "endpoint_trust_from_row r =
     rbind (map_err (conversion_error 7) (trust_payload_from_value (et_trust_bundle_json r))) (\<lambda>payload.
     rbind (map_err (conversion_error 7) (validate_relationship payload (et_endpoint_id r)
         (et_generation r) (endpoint_status_as_str (et_status r)))) (\<lambda>_.
       Inr (r\<lparr>et_trust_bundle_json := public_bundle payload\<rparr>)))"

definition enrollment_token_from_row :: "ext \<Rightarrow> enrollment_token \<Rightarrow> store_error + enrollment_token" where
  "enrollment_token_from_row X r =
     rbind (map_err (conversion_error 9) (metadata_from_value X TokenLabels (tk_labels_json r))) (\<lambda>labels.
     rbind (map_err (conversion_error 10) (metadata_from_value X TokenScope (tk_scope_json r))) (\<lambda>scope.
       Inr (r\<lparr>tk_labels_json := metadata_public_value labels,
              tk_scope_json := metadata_public_value scope\<rparr>)))"

definition join_request_from_row :: "ext \<Rightarrow> join_request \<Rightarrow> store_error + join_request" where
  "join_request_from_row X r =
     rbind (map_err (conversion_error 9)
         (metadata_from_value X RequestedLabels (jr_requested_labels_json r))) (\<lambda>requested.
     rbind (map_err (conversion_error 10)
         (metadata_from_value X ApprovedLabels (jr_approved_labels_json r))) (\<lambda>approved.
     rbind (ensure (\<not> (jr_status r \<noteq> JoinApproved \<and> em_values approved \<noteq> []))
         (conversion_error 10 ''non-approved enrollment request contains approved labels'')) (\<lambda>_.
       Inr (r\<lparr>jr_requested_labels_json := metadata_public_value requested,
              jr_approved_labels_json := metadata_public_value approved\<rparr>))))"

text \<open>\<open>query_row(..).optional()\<close>\<close>

definition opt_row :: "('r \<Rightarrow> store_error + 'a) \<Rightarrow> 'r option \<Rightarrow> store_error + 'a option" where
  "opt_row f x = (case x of None \<Rightarrow> Inr None | Some r \<Rightarrow> rbind (f r) (\<lambda>a. Inr (Some a)))"

text \<open>\<open>SELECT .. WHERE key = k\<close> on a column with unique values.\<close>

definition lookup :: "('r \<Rightarrow> 'k) \<Rightarrow> 'r list \<Rightarrow> 'k \<Rightarrow> 'r option" where
  "lookup key rows k = find (\<lambda>r. key r = k) rows"

abbreviation find_node :: "node_row list \<Rightarrow> string \<Rightarrow> node_row option" where
  "find_node \<equiv> lookup nr_node_id"

abbreviation find_trust :: "endpoint_trust list \<Rightarrow> string \<Rightarrow> endpoint_trust option" where
  "find_trust \<equiv> lookup et_endpoint_id"

definition get_node_tx :: "string \<Rightarrow> node_record option stx" where
  "get_node_tx node_id = tread (\<lambda>db. map_option node_from_row (find_node (db_nodes db) node_id))"

definition get_node_by_endpoint_tx :: "string \<Rightarrow> node_record option stx" where
  "get_node_by_endpoint_tx endpoint_id =
     tread (\<lambda>db. map_option node_from_row (lookup nr_endpoint_id (db_nodes db) endpoint_id))"

definition get_endpoint_trust_tx :: "string \<Rightarrow> endpoint_trust option stx" where
  "get_endpoint_trust_tx endpoint_id = query (\<lambda>db. opt_row endpoint_trust_from_row (find_trust (db_trust db) endpoint_id))"

definition get_enrollment_token_tx :: "ext \<Rightarrow> string \<Rightarrow> enrollment_token option stx" where
  "get_enrollment_token_tx X token_id =
     query (\<lambda>db. opt_row (enrollment_token_from_row X) (lookup tk_token_id (db_tokens db) token_id))"

definition get_enrollment_token_by_hash_tx :: "ext \<Rightarrow> string \<Rightarrow> enrollment_token option stx" where
  "get_enrollment_token_by_hash_tx X token_hash =
     query (\<lambda>db. opt_row (enrollment_token_from_row X) (lookup tk_token_hash (db_tokens db) token_hash))"

definition get_join_request_tx :: "ext \<Rightarrow> string \<Rightarrow> join_request option stx" where
  "get_join_request_tx X request_id =
     query (\<lambda>db. opt_row (join_request_from_row X) (lookup jr_request_id (db_joins db) request_id))"

text \<open>\<open>ORDER BY endpoint_id LIMIT 2\<close>: enough to tell none, one and several apart.\<close>

definition active_rows_for_node :: "store_db \<Rightarrow> string \<Rightarrow> endpoint_trust list" where
  "active_rows_for_node db node_id =
     filter (\<lambda>r. et_node_id r = Some node_id \<and> et_status r = EpActive) (db_trust db)"

definition get_active_endpoint_trust_for_node_tx :: "string \<Rightarrow> endpoint_trust list stx" where
  "get_active_endpoint_trust_for_node_tx node_id =
     query (\<lambda>db. map_ok endpoint_trust_from_row
       (take 2 (sort_key et_endpoint_id (active_rows_for_node db node_id))))"

definition insert_node_tx :: "store_env \<Rightarrow> node_insert \<Rightarrow> unit stx" where
  "insert_node_tx E node =
     tbind (tread db_nodes) (\<lambda>rows.
     tseq (tcheck (ni_node_id node \<notin> set (map nr_node_id rows)) (constraint ''nodes.node_id''))
     (tseq (tcheck (ni_endpoint_id node \<notin> set (map nr_endpoint_id rows)) (constraint ''nodes.endpoint_id''))
     (tmodify (\<lambda>db. db\<lparr>db_nodes := rows @ [\<lparr>nr_node_id = ni_node_id node,
        nr_endpoint_id = ni_endpoint_id node, nr_name = ni_name node, nr_region = ni_region node,
        nr_role = ni_role node, nr_enabled = True, nr_created_at = se_sql_now E,
        nr_updated_at = se_sql_now E\<rparr>]\<rparr>))))"

definition endpoint_generation_to_i64 :: "string \<Rightarrow> nat \<Rightarrow> store_error + nat" where
  "endpoint_generation_to_i64 endpoint_id generation =
     (if generation \<le> i64_max then Inr generation
      else Inl (SeEndpointGenerationExhausted endpoint_id))"

definition insert_endpoint_trust_tx :: "store_env \<Rightarrow> endpoint_trust \<Rightarrow> unit stx" where
  "insert_endpoint_trust_tx E e =
     tbind (ttry (endpoint_generation_to_i64 (et_endpoint_id e) (et_generation e))) (\<lambda>generation.
     tbind (ttry (canonical_trust_bundle (et_endpoint_id e) (et_generation e) (et_status e)
         (et_trust_bundle_json e))) (\<lambda>bundle.
     tbind (tread db_trust) (\<lambda>rows.
     tseq (tcheck (et_endpoint_id e \<notin> set (map et_endpoint_id rows))
         (constraint ''endpoint_trust.endpoint_id''))
     (tmodify (\<lambda>db. db\<lparr>db_trust := rows @ [e\<lparr>et_generation := generation,
        et_trust_bundle_json := bundle, et_created_at := se_sql_now E,
        et_updated_at := se_sql_now E\<rparr>]\<rparr>)))))"

section \<open>Audit records\<close>

definition validate_optional_audit_text :: "string \<times> string option \<Rightarrow> store_error + unit" where
  "validate_optional_audit_text fv =
     (case snd fv of None \<Rightarrow> Inr () | Some value \<Rightarrow> validate_audit_text value (fst fv) 128)"

text \<open>The checks of \<open>insert_audit_tx\<close>; the result is the stored detail.\<close>

definition audit_detail :: "ext \<Rightarrow> ctl_audit_event \<Rightarrow> store_error + json" where
  "audit_detail X ev =
     rbind (all_ok [
       map_err SeInvalidInput (validate_actor (ae_actor ev)),
       ensure (\<not> (length (ae_ts ev) > 64 \<or> parse_rfc3339 X (ae_ts ev) = None))
         (SeInvalidInput ''audit timestamp must be bounded RFC3339''),
       validate_audit_text (ae_event ev) ''audit event'' 128,
       each_ok validate_optional_audit_text [
         (''audit node_id'', ae_node_id ev), (''audit endpoint_id'', ae_endpoint_id ev),
         (''audit method'', ae_method ev), (''audit request_id'', ae_request_id ev),
         (''audit params_hash'', ae_params_hash ev), (''audit error_code'', ae_error_code ev)],
       validate_low_sensitive_json X (ae_detail_json ev) ''audit detail'',
       ensure (case ae_duration_ms ev of None \<Rightarrow> True | Some n \<Rightarrow> n \<le> i64_max)
         (SeInvalidInput ''audit duration_ms exceeds i64'')])
     (\<lambda>_. map_err SeInvalidInput (audit_payload_new X ev))"

definition insert_audit_tx :: "ext \<Rightarrow> ctl_audit_event \<Rightarrow> unit stx" where
  "insert_audit_tx X ev =
     tbind (ttry (audit_detail X ev)) (\<lambda>detail.
     tmodify (\<lambda>db. db\<lparr>db_audit := db_audit db @ [(Suc (db_audit_seq db), ev\<lparr>ae_detail_json := detail\<rparr>)],
       db_audit_seq := Suc (db_audit_seq db)\<rparr>))"

definition insert_audit :: "ext \<Rightarrow> ctl_audit_event \<Rightarrow> unit stx" where
  "insert_audit X ev = insert_audit_tx X ev"

definition json_detail ::
    "string \<Rightarrow> string \<Rightarrow> json option \<Rightarrow> json option \<Rightarrow> string option \<Rightarrow> json" where
  "json_detail target_type target_id before after reason = jobj [
     (''actor_type'', JStr ''user''),
     (''target_type'', JStr target_type),
     (''target_id'', JStr target_id),
     (''before'', jopt (\<lambda>v. v) before),
     (''after'', jopt (\<lambda>v. v) after),
     (''reason'', jstr_opt reason)]"

definition node_audit_json :: "node_record \<Rightarrow> json" where
  "node_audit_json n = jobj [
     (''node_id'', JStr (nd_node_id n)),
     (''endpoint_id'', JStr (nd_endpoint_id n)),
     (''region'', JStr (nd_region n)),
     (''role'', JStr (nd_role n)),
     (''enabled'', JBool (nd_enabled n))]"

definition endpoint_audit_json :: "endpoint_trust \<Rightarrow> json" where
  "endpoint_audit_json e = jobj [
     (''endpoint_id'', JStr (et_endpoint_id e)),
     (''node_id'', jstr_opt (et_node_id e)),
     (''fingerprint_present'', JBool (et_fingerprint e \<noteq> None)),
     (''status'', JStr (endpoint_status_as_str (et_status e))),
     (''generation'', JInt (int (et_generation e))),
     (''previous_endpoint_id'', jstr_opt (et_previous_endpoint_id e)),
     (''rotated_to'', jstr_opt (et_rotated_to e))]"

section \<open>Reading rows back\<close>

text \<open>Reading a row keeps everything but the bundle.\<close>

definition same_row :: "endpoint_trust \<Rightarrow> endpoint_trust \<Rightarrow> bool" where
  "same_row e r \<longleftrightarrow> (\<exists>b. e = r\<lparr>et_trust_bundle_json := b\<rparr>)"

definition reads_trust :: "store_db \<Rightarrow> string \<Rightarrow> endpoint_trust option \<Rightarrow> bool" where
  "reads_trust db e x \<longleftrightarrow> opt_row endpoint_trust_from_row (find_trust (db_trust db) e) = Inr x"

definition reads_active :: "store_db \<Rightarrow> string \<Rightarrow> endpoint_trust list \<Rightarrow> bool" where
  "reads_active db node_id xs \<longleftrightarrow>
     map_ok endpoint_trust_from_row (take 2 (sort_key et_endpoint_id (active_rows_for_node db node_id))) = Inr xs"

section \<open>Laws\<close>

lemma trust_from_row_same: "endpoint_trust_from_row r = Inr e \<Longrightarrow> same_row e r"
  by (auto simp: endpoint_trust_from_row_def rbind_Inr_iff same_row_def)

lemma same_row_fields:
  assumes "same_row e r"
  shows "et_endpoint_id e = et_endpoint_id r" "et_node_id e = et_node_id r"
    "et_fingerprint e = et_fingerprint r" "et_status e = et_status r"
    "et_generation e = et_generation r" "et_previous_endpoint_id e = et_previous_endpoint_id r"
    "et_rotated_to e = et_rotated_to r"
  using assms by (auto simp: same_row_def)

lemma lookup_Some: "lookup key rows k = Some r \<Longrightarrow> r \<in> set rows \<and> key r = k"
  by (auto simp: lookup_def find_Some_iff)

lemma lookup_key: "lookup key rows k = Some r \<Longrightarrow> key r = k"
  by (drule lookup_Some) simp

lemma lookup_None: "lookup key rows k = None \<longleftrightarrow> k \<notin> key ` set rows"
  by (auto simp: lookup_def find_None_iff)

lemma reads_trust_Some:
  "reads_trust db e (Some t) \<Longrightarrow> \<exists>r. find_trust (db_trust db) e = Some r \<and> same_row t r \<and> endpoint_trust_from_row r = Inr t"
  by (auto simp: reads_trust_def opt_row_def rbind_Inr_iff trust_from_row_same split: option.splits)

lemma reads_trust_None: "reads_trust db e None \<longleftrightarrow> find_trust (db_trust db) e = None"
  by (auto simp: reads_trust_def opt_row_def rbind_Inr_iff split: option.splits)

text \<open>Lookups after a write.\<close>

lemma lookup_update:
  assumes "\<And>r. key (f r) = key r"
  shows "lookup key (update_rows P f rows) k = map_option (\<lambda>r. if P r then f r else r) (lookup key rows k)"
  unfolding lookup_def update_rows_def using assms by (induction rows) auto

lemma lookup_insert:
  "lookup key (rows @ [t]) k = (case lookup key rows k of Some r \<Rightarrow> Some r | None \<Rightarrow> if key t = k then Some t else None)"
  unfolding lookup_def by (induction rows) auto

lemma lookup_delete:
  "lookup key (filter (\<lambda>r. key r \<noteq> m) rows) k = (if k = m then None else lookup key rows k)"
  unfolding lookup_def by (induction rows) (auto simp: find_None_iff)

lemma lookup_distinct: "distinct (map key rows) \<Longrightarrow> r \<in> set rows \<Longrightarrow> lookup key rows (key r) = Some r"
  unfolding lookup_def by (induction rows) auto

section \<open>Tables as maps\<close>

text \<open>A table with a unique key is the finite map from keys to a view of the rows; each statement is an
  update of that map.\<close>

definition table :: "('r \<Rightarrow> 'k) \<Rightarrow> ('r \<Rightarrow> 'v) \<Rightarrow> 'r list \<Rightarrow> ('k \<rightharpoonup> 'v)" where
  "table key view rows = (\<lambda>k. map_option view (lookup key rows k))"

lemma table_Some: "lookup key rows k = Some r \<Longrightarrow> table key view rows k = Some (view r)"
  by (simp add: table_def)

lemma table_None: "lookup key rows k = None \<Longrightarrow> table key view rows k = None"
  by (simp add: table_def)

lemma table_insert:
  "lookup key rows (key t) = None \<Longrightarrow> table key view (rows @ [t]) = (table key view rows)(key t \<mapsto> view t)"
  by (auto simp: fun_eq_iff table_def lookup_insert split: option.split)

lemma table_delete: "table key view (filter (\<lambda>r. key r \<noteq> m) rows) = (table key view rows)(m := None)"
  by (auto simp: fun_eq_iff table_def lookup_delete)

lemma table_update:
  assumes "lookup key rows k = Some r" "P r" "\<And>r. P r \<Longrightarrow> key r = k" "\<And>r. key (f r) = key r"
  shows "table key view (update_rows P f rows) = (table key view rows)(k \<mapsto> view (f r))"
proof
  fix x
  have "\<not> P r'" if "lookup key rows x = Some r'" "x \<noteq> k" for r'
    using that assms(3) [of r'] lookup_key [OF that(1)] by auto
  then show "table key view (update_rows P f rows) x = ((table key view rows)(k \<mapsto> view (f r))) x"
    using assms(1,2) by (cases "x = k"; cases "lookup key rows x") (simp_all add: table_def lookup_update assms(4))
qed

lemma table_ran: "distinct (map key rows) \<Longrightarrow> r \<in> set rows \<Longrightarrow> table key view rows (key r) = Some (view r)"
  by (simp add: table_def lookup_distinct)

lemma distinct_update: "(\<And>r. key (f r) = key r) \<Longrightarrow> map key (update_rows P f rows) = map key rows"
  by (simp add: update_rows_def comp_def)

lemma distinct_insert: "lookup key rows (key t) = None \<Longrightarrow> distinct (map key rows) \<Longrightarrow> distinct (map key (rows @ [t]))"
  by (simp add: lookup_None)

lemma distinct_delete: "distinct (map key rows) \<Longrightarrow> distinct (map key (filter P rows))"
  by (induction rows) auto

text \<open>A statement that affected a row found it.\<close>

lemma affected_row:
  assumes "affected P rows \<noteq> 0" "distinct (map key rows)" "\<And>r. P r \<Longrightarrow> key r = k"
  obtains r where "lookup key rows k = Some r" "P r"
proof -
  from assms(1) obtain r where "r \<in> set rows" "P r" by (auto simp: affected_def filter_empty_conv)
  with assms(3) [OF this(2)] show ?thesis using that lookup_distinct [OF assms(2), of r] by simp
qed

end
