(* ===== verification/Trust_Registry.thy ===== *)
theory Trust_Registry
  imports Store_Core
begin

text \<open>
  The node registry and the endpoint trust lifecycle of the controller (\<open>ocfleet-cli/src/store.rs\<close>):
  adding, enabling, disabling and removing nodes, rotating, revoking and quarantining endpoints, and
  the lineage and binding checks in front of them. Each public method is the body of one transaction;
  \<open>run_tx\<close> commits it or rolls it back.
\<close>

section \<open>Lineage and binding checks\<close>

definition invalid_endpoint_transition :: "endpoint_trust \<Rightarrow> string \<Rightarrow> store_error" where
  "invalid_endpoint_transition e action =
     SeInvalidEndpointTransition (et_endpoint_id e) (endpoint_status_as_str (et_status e)) action"

definition next_endpoint_generation :: "endpoint_trust \<Rightarrow> store_error + nat" where
  "next_endpoint_generation e =
     (if et_generation e \<ge> i64_max then Inl (SeEndpointGenerationExhausted (et_endpoint_id e))
      else Inr (et_generation e + 1))"

definition validate_endpoint_bundle_projection :: "endpoint_trust \<Rightarrow> store_error + unit" where
  "validate_endpoint_bundle_projection e =
     rbind (ok_or (trust_bundle_decode (et_trust_bundle_json e)) (SeEndpointLineageInvalid (et_endpoint_id e)))
     (\<lambda>bundle. ensure (tb_endpoint_id bundle = et_endpoint_id e \<and> tb_generation bundle = et_generation e
          \<and> tb_status bundle = et_status e) (SeEndpointLineageInvalid (et_endpoint_id e)))"

definition validate_unrotated_lineage :: "endpoint_trust \<Rightarrow> unit stx" where
  "validate_unrotated_lineage e =
     tseq (ttry (validate_endpoint_bundle_projection e))
     (tseq (tcheck (et_rotated_to e = None) (SeEndpointLineageInvalid (et_endpoint_id e)))
     (case et_previous_endpoint_id e of
        None \<Rightarrow> treturn ()
      | Some previous_endpoint_id \<Rightarrow>
          tbind (get_endpoint_trust_tx previous_endpoint_id) (\<lambda>found.
          tbind (ttry (ok_or found (SeEndpointLineageInvalid (et_endpoint_id e)))) (\<lambda>previous.
          tseq (ttry (validate_endpoint_bundle_projection previous))
          (tcheck (et_status previous = EpRotated
              \<and> et_rotated_to previous = Some (et_endpoint_id e)
              \<and> et_node_id previous = et_node_id e
              \<and> et_fingerprint previous = et_fingerprint e
              \<and> et_generation previous \<le> et_generation e)
            (SeEndpointLineageInvalid (et_endpoint_id e)))))))"

definition validate_rotation_edge :: "endpoint_trust \<Rightarrow> endpoint_trust \<Rightarrow> unit stx" where
  "validate_rotation_edge old new =
     tseq (ttry (validate_endpoint_bundle_projection old))
     (tseq (ttry (validate_endpoint_bundle_projection new))
     (tseq (tcheck (et_status old = EpRotated
          \<and> et_rotated_to old = Some (et_endpoint_id new)
          \<and> et_previous_endpoint_id new = Some (et_endpoint_id old)
          \<and> et_node_id old = et_node_id new
          \<and> et_fingerprint old = et_fingerprint new
          \<and> et_generation old \<le> et_generation new)
        (SeEndpointLineageInvalid (et_endpoint_id old)))
     (tseq (twhen (et_status new \<noteq> EpRotated) (validate_unrotated_lineage new))
     (case et_previous_endpoint_id old of
        None \<Rightarrow> treturn ()
      | Some previous_endpoint_id \<Rightarrow>
          tbind (get_endpoint_trust_tx previous_endpoint_id) (\<lambda>found.
          tbind (ttry (ok_or found (SeEndpointLineageInvalid (et_endpoint_id old)))) (\<lambda>previous.
          tcheck (et_status previous = EpRotated \<and> et_rotated_to previous = Some (et_endpoint_id old))
            (SeEndpointLineageInvalid (et_endpoint_id old))))))))"

text \<open>Whether the active rows of a node are exactly the endpoint, as its status requires.\<close>

definition single_active :: "endpoint_trust list \<Rightarrow> string \<Rightarrow> bool" where
  "single_active active endpoint_id \<longleftrightarrow> length active = 1 \<and> et_endpoint_id (hd active) = endpoint_id"

definition unclean_binding :: "endpoint_trust list \<Rightarrow> string \<Rightarrow> string \<Rightarrow> string \<Rightarrow> store_error" where
  "unclean_binding active node_id endpoint_id detail =
     (if length active > 1 then SeAmbiguousActiveEndpointBinding node_id
      else SeEndpointBindingMismatch endpoint_id detail)"

definition validate_rotation_binding_tx :: "endpoint_trust \<Rightarrow> node_record option stx" where
  "validate_rotation_binding_tx e =
     (case et_node_id e of
        None \<Rightarrow> tfail (Fail (SeEndpointBindingMismatch (et_endpoint_id e) ''unbound endpoint cannot be rotated''))
      | Some node_id \<Rightarrow>
          tbind (get_node_tx node_id) (\<lambda>found.
          tbind (ttry (ok_or found
              (SeEndpointBindingMismatch (et_endpoint_id e) ''bound node is missing''))) (\<lambda>node.
          tseq (tcheck (nd_endpoint_id node = et_endpoint_id e)
              (SeEndpointBindingMismatch (et_endpoint_id e) ''bound node does not point to the endpoint''))
          (tbind (get_active_endpoint_trust_for_node_tx node_id) (\<lambda>active.
          tseq (tcheck
              (case et_status e of
                 EpActive \<Rightarrow> single_active active (et_endpoint_id e)
               | EpQuarantined \<Rightarrow> active = []
               | EpRevoked \<Rightarrow> False
               | EpRotated \<Rightarrow> False)
              (unclean_binding active node_id (et_endpoint_id e)
                 ''node has an inconsistent active endpoint binding''))
          (treturn (Some node)))))))"

definition validate_legacy_rotation_reconciliation_tx :: "string \<Rightarrow> endpoint_trust \<Rightarrow> unit stx" where
  "validate_legacy_rotation_reconciliation_tx node_id rotated_to =
     tseq (tcheck (et_status rotated_to \<noteq> EpRotated)
         (SeEndpointBindingMismatch (et_endpoint_id rotated_to)
            ''rotated child is not a deterministic current endpoint''))
     (tbind (get_active_endpoint_trust_for_node_tx node_id) (\<lambda>active.
     tcheck
       (case et_status rotated_to of
          EpActive \<Rightarrow> single_active active (et_endpoint_id rotated_to)
        | EpQuarantined \<Rightarrow> active = []
        | EpRevoked \<Rightarrow> active = []
        | EpRotated \<Rightarrow> False)
       (unclean_binding active node_id (et_endpoint_id rotated_to)
          ''legacy rotation does not have one deterministic child'')))"

definition get_exact_bound_node_tx :: "endpoint_trust \<Rightarrow> node_record option stx" where
  "get_exact_bound_node_tx e =
     (case et_node_id e of
        None \<Rightarrow> treturn None
      | Some node_id \<Rightarrow>
          tbind (get_node_tx node_id) (\<lambda>found.
          treturn (case found of
              Some node \<Rightarrow> if nd_endpoint_id node = et_endpoint_id e then Some node else None
            | None \<Rightarrow> None)))"

definition validate_active_node_binding_tx :: "node_record \<Rightarrow> unit stx" where
  "validate_active_node_binding_tx node =
     tbind (get_endpoint_trust_tx (nd_endpoint_id node)) (\<lambda>found.
     tbind (ttry (ok_or found
         (SeEndpointBindingMismatch (nd_endpoint_id node) ''endpoint trust is missing''))) (\<lambda>e.
     tseq (validate_unrotated_lineage e)
     (tseq (tcheck (et_status e = EpActive \<and> et_node_id e = Some (nd_node_id node))
         (SeEndpointBindingMismatch (nd_endpoint_id node)
            ''node does not have an active bidirectional endpoint binding''))
     (tbind (get_active_endpoint_trust_for_node_tx (nd_node_id node)) (\<lambda>active.
     tseq (tcheck (\<not> length active > 1) (SeAmbiguousActiveEndpointBinding (nd_node_id node)))
     (tcheck (single_active active (nd_endpoint_id node))
        (SeEndpointBindingMismatch (nd_endpoint_id node)
           ''node does not have exactly one active endpoint binding'')))))))"

definition transition_endpoint_status_tx ::
    "store_env \<Rightarrow> endpoint_trust \<Rightarrow> endpoint_status \<Rightarrow> endpoint_trust stx" where
  "transition_endpoint_status_tx E before status =
     tseq (validate_unrotated_lineage before)
     (tbind (ttry (next_endpoint_generation before)) (\<lambda>generation.
     tbind (ttry (endpoint_generation_to_i64 (et_endpoint_id before) generation)) (\<lambda>stored_generation.
     tbind (ttry (canonical_trust_bundle (et_endpoint_id before) generation status
         (trust_bundle_json (et_endpoint_id before) generation status))) (\<lambda>bundle.
     tbind (ttry (endpoint_generation_to_i64 (et_endpoint_id before) (et_generation before))) (\<lambda>old_generation.
     tbind (update_trust
         (\<lambda>r. et_endpoint_id r = et_endpoint_id before \<and> et_status r = et_status before
            \<and> et_generation r = old_generation)
         (\<lambda>r. r\<lparr>et_status := status, et_generation := stored_generation,
            et_trust_bundle_json := bundle, et_updated_at := se_sql_now E\<rparr>)) (\<lambda>n.
     tseq (tcheck (n = 1)
         (SeEndpointBindingMismatch (et_endpoint_id before) ''endpoint state changed during transition''))
     (tbind (get_endpoint_trust_tx (et_endpoint_id before)) (\<lambda>found.
     ttry (ok_or found (SeEndpointNotFound (et_endpoint_id before)))))))))))"

section \<open>Nodes\<close>

definition add_node :: "ext \<Rightarrow> store_env \<Rightarrow> node_insert \<Rightarrow> string \<Rightarrow> unit stx" where
  "add_node X E node actor =
     tseq (ttry (map_err SeInvalidInput (validate_actor actor)))
     (tseq (insert_node_tx E node)
     (tseq (insert_endpoint_trust_tx E
         \<lparr>et_endpoint_id = ni_endpoint_id node, et_node_id = Some (ni_node_id node),
          et_fingerprint = None, et_status = EpActive, et_generation = 1,
          et_previous_endpoint_id = None, et_rotated_to = None,
          et_trust_bundle_json = trust_bundle_json (ni_endpoint_id node) 1 EpActive,
          et_created_at = [], et_updated_at = []\<rparr>)
     (tbind (get_node_tx (ni_node_id node)) (\<lambda>found.
     tbind (ttry (ok_or found (SeNodeNotFound (ni_node_id node)))) (\<lambda>after.
     insert_audit_tx X ((ctl_audit_event_new (se_now_text E) actor ''node.add'')
       \<lparr>ae_node_id := Some (nd_node_id after), ae_endpoint_id := Some (nd_endpoint_id after),
        ae_ok := Some True,
        ae_detail_json := json_detail ''node'' (nd_node_id after) None
          (Some (node_audit_json after)) None\<rparr>))))))"

definition set_node_enabled :: "ext \<Rightarrow> store_env \<Rightarrow> string \<Rightarrow> bool \<Rightarrow> string \<Rightarrow> string \<Rightarrow> unit stx" where
  "set_node_enabled X E node_id enabled actor event_name =
     tseq (ttry (map_err SeInvalidInput (validate_actor actor)))
     (tbind (get_node_tx node_id) (\<lambda>found.
     tbind (ttry (ok_or found (SeNodeNotFound node_id))) (\<lambda>before.
     tseq (twhen enabled (validate_active_node_binding_tx before))
     (tbind (update_nodes (\<lambda>r. nr_node_id r = node_id)
         (\<lambda>r. r\<lparr>nr_enabled := enabled, nr_updated_at := se_sql_now E\<rparr>)) (\<lambda>n.
     tseq (tcheck (n \<noteq> 0) (SeNodeNotFound node_id))
     (tbind (get_node_tx node_id) (\<lambda>found_after.
     tbind (ttry (ok_or found_after (SeNodeNotFound node_id))) (\<lambda>after.
     insert_audit_tx X ((ctl_audit_event_new (se_now_text E) actor event_name)
       \<lparr>ae_node_id := Some (nd_node_id after), ae_endpoint_id := Some (nd_endpoint_id after),
        ae_ok := Some True,
        ae_detail_json := json_detail ''node'' (nd_node_id after) (Some (node_audit_json before))
          (Some (node_audit_json after)) None\<rparr>)))))))))"

definition disable_node :: "ext \<Rightarrow> store_env \<Rightarrow> string \<Rightarrow> string \<Rightarrow> unit stx" where
  "disable_node X E node_id actor = set_node_enabled X E node_id False actor ''node.disable''"

definition enable_node :: "ext \<Rightarrow> store_env \<Rightarrow> string \<Rightarrow> string \<Rightarrow> unit stx" where
  "enable_node X E node_id actor = set_node_enabled X E node_id True actor ''node.enable''"

definition node_removal_audit_json ::
    "node_record option \<Rightarrow> endpoint_trust option \<Rightarrow> endpoint_trust option \<Rightarrow> json" where
  "node_removal_audit_json node registry_endpoint active_endpoint = jobj [
     (''node'', jopt node_audit_json node),
     (''registry_endpoint'', jopt endpoint_audit_json registry_endpoint),
     (''active_endpoint'', jopt endpoint_audit_json active_endpoint)]"

text \<open>The active rows to revoke: those bound to the node, and the row of its registry endpoint if that
  is active and not among them.\<close>

definition removal_candidates :: "endpoint_trust option \<Rightarrow> endpoint_trust list \<Rightarrow> endpoint_trust list" where
  "removal_candidates registry active =
     (case registry of
        Some e \<Rightarrow> if et_status e = EpActive \<and> \<not> list_ex (\<lambda>c. et_endpoint_id c = et_endpoint_id e) active
          then active @ [e] else active
      | None \<Rightarrow> active)"

definition revoke_candidate :: "store_env \<Rightarrow> string \<Rightarrow> endpoint_trust option \<Rightarrow> endpoint_trust option stx" where
  "revoke_candidate E node_id active_before =
     (case active_before of
        None \<Rightarrow> treturn None
      | Some active \<Rightarrow>
          tbind (get_node_by_endpoint_tx (et_endpoint_id active)) (\<lambda>other.
          tseq (tcheck (case other of Some n \<Rightarrow> nd_node_id n = node_id | None \<Rightarrow> True)
              (SeEndpointBindingMismatch (et_endpoint_id active)
                 ''active endpoint is the current endpoint of another node''))
          (tbind (transition_endpoint_status_tx E active EpRevoked) (\<lambda>after. treturn (Some after)))))"

definition remove_node :: "ext \<Rightarrow> store_env \<Rightarrow> string \<Rightarrow> string \<Rightarrow> unit stx" where
  "remove_node X E node_id actor =
     tseq (ttry (map_err SeInvalidInput (validate_actor actor)))
     (tbind (get_node_tx node_id) (\<lambda>found.
     tbind (ttry (ok_or found (SeNodeNotFound node_id))) (\<lambda>before.
     tbind (get_endpoint_trust_tx (nd_endpoint_id before)) (\<lambda>registry_before.
     tbind (get_active_endpoint_trust_for_node_tx node_id) (\<lambda>bound.
     let candidates = removal_candidates registry_before bound;
         active_before = (if candidates = [] then None else Some (last candidates)) in
     tseq (tcheck (\<not> length candidates > 1) (SeAmbiguousActiveEndpointBinding node_id))
     (tbind (revoke_candidate E node_id active_before) (\<lambda>active_after.
     let registry_after =
           (case (registry_before, active_after) of
              (Some registry, Some active) \<Rightarrow>
                if et_endpoint_id registry = et_endpoint_id active then Some active else Some registry
            | _ \<Rightarrow> registry_before) in
     tbind (delete_nodes (\<lambda>r. nr_node_id r = node_id)) (\<lambda>n.
     tseq (tcheck (n \<noteq> 0) (SeNodeNotFound node_id))
     (insert_audit_tx X ((ctl_audit_event_new (se_now_text E) actor ''node.remove'')
       \<lparr>ae_node_id := Some (nd_node_id before), ae_endpoint_id := Some (nd_endpoint_id before),
        ae_ok := Some True,
        ae_detail_json := jobj [
          (''actor_type'', JStr ''user''),
          (''target_type'', JStr ''node''),
          (''target_id'', JStr (nd_node_id before)),
          (''before'', node_removal_audit_json (Some before) registry_before active_before),
          (''after'', node_removal_audit_json None registry_after active_after),
          (''reason'', JNull)]\<rparr>))))))))))"

section \<open>Endpoints\<close>

definition audit_endpoint_rotation_tx :: "ext \<Rightarrow> store_env \<Rightarrow> string \<Rightarrow> string \<Rightarrow> string
    \<Rightarrow> node_record option \<Rightarrow> node_record option \<Rightarrow> endpoint_trust \<Rightarrow> endpoint_trust \<Rightarrow> endpoint_trust
    \<Rightarrow> string \<Rightarrow> unit stx" where
  "audit_endpoint_rotation_tx X E actor action old_endpoint_id node_before node_after old_before
       old_after new_after reason =
     insert_audit_tx X ((ctl_audit_event_new (se_now_text E) actor action)
       \<lparr>ae_ok := Some True, ae_node_id := et_node_id old_before,
        ae_endpoint_id := Some old_endpoint_id,
        ae_detail_json := jobj [
          (''actor_type'', JStr ''user''),
          (''target_type'', JStr ''endpoint_rotation''),
          (''target_id'', JStr old_endpoint_id),
          (''new_endpoint_id'', JStr (et_endpoint_id new_after)),
          (''before'', jobj [
             (''node'', jopt node_audit_json node_before),
             (''old_endpoint'', endpoint_audit_json old_before)]),
          (''after'', jobj [
             (''node'', jopt node_audit_json node_after),
             (''old_endpoint'', endpoint_audit_json old_after),
             (''new_endpoint'', endpoint_audit_json new_after)]),
          (''reason'', JStr reason)]\<rparr>)"

definition audit_endpoint_status_tx :: "ext \<Rightarrow> store_env \<Rightarrow> string \<Rightarrow> string \<Rightarrow> string
    \<Rightarrow> node_record option \<Rightarrow> node_record option \<Rightarrow> endpoint_trust \<Rightarrow> endpoint_trust \<Rightarrow> string
    \<Rightarrow> unit stx" where
  "audit_endpoint_status_tx X E actor action endpoint_id node_before node_after endpoint_before
       endpoint_after reason =
     insert_audit_tx X ((ctl_audit_event_new (se_now_text E) actor action)
       \<lparr>ae_ok := Some True, ae_node_id := et_node_id endpoint_before,
        ae_endpoint_id := Some endpoint_id,
        ae_detail_json := jobj [
          (''actor_type'', JStr ''user''),
          (''target_type'', JStr ''endpoint''),
          (''target_id'', JStr endpoint_id),
          (''before'', jobj [
             (''node'', jopt node_audit_json node_before),
             (''endpoint'', endpoint_audit_json endpoint_before)]),
          (''after'', jobj [
             (''node'', jopt node_audit_json node_after),
             (''endpoint'', endpoint_audit_json endpoint_after)]),
          (''reason'', JStr reason)]\<rparr>)"

text \<open>\<open>UPDATE nodes SET endpoint_id = .., enabled = CASE WHEN disable THEN 0 ELSE enabled END\<close> for the node
  that still points to the old endpoint.\<close>

definition repoint_node :: "store_env \<Rightarrow> string \<Rightarrow> string \<Rightarrow> string \<Rightarrow> bool \<Rightarrow> nat stx" where
  "repoint_node E node_id old_endpoint_id new_endpoint_id disable =
     update_nodes (\<lambda>r. nr_node_id r = node_id \<and> nr_endpoint_id r = old_endpoint_id)
       (\<lambda>r. r\<lparr>nr_endpoint_id := new_endpoint_id, nr_enabled := (if disable then False else nr_enabled r),
          nr_updated_at := se_sql_now E\<rparr>)"

text \<open>The two halves of \<open>rotate_endpoint\<close>: a retry on an already rotated row, which may finish a rotation
  that left the registry behind, and a new rotation.\<close>

definition rotate_retry :: "ext \<Rightarrow> store_env \<Rightarrow> string \<Rightarrow> string \<Rightarrow> string \<Rightarrow> string
    \<Rightarrow> endpoint_trust \<Rightarrow> endpoint_trust stx" where
  "rotate_retry X E old_endpoint_id new_endpoint_id actor reason old_before =
     tseq (tcheck (et_rotated_to old_before = Some new_endpoint_id)
         (invalid_endpoint_transition old_before ''rotate to a different endpoint''))
     (tbind (get_endpoint_trust_tx new_endpoint_id) (\<lambda>found_new.
     tbind (ttry (ok_or found_new (SeEndpointLineageInvalid old_endpoint_id))) (\<lambda>new_after.
     tseq (validate_rotation_edge old_before new_after)
     (tbind (ttry (ok_or (et_node_id old_before)
         (SeEndpointBindingMismatch old_endpoint_id ''unbound rotation edge cannot be retried''))) (\<lambda>node_id.
     tbind (get_node_tx node_id) (\<lambda>found_node.
     tbind (ttry (ok_or found_node
         (SeEndpointBindingMismatch old_endpoint_id ''bound node is missing''))) (\<lambda>node_before.
     tseq (validate_legacy_rotation_reconciliation_tx node_id new_after)
     (if nd_endpoint_id node_before = new_endpoint_id then
        tseq (tcheck (\<not> (et_status new_after \<noteq> EpActive \<and> nd_enabled node_before))
            (SeEndpointBindingMismatch new_endpoint_id
               ''inactive rotated endpoint is bound to an enabled node''))
        (treturn new_after)
      else
        tseq (tcheck (nd_endpoint_id node_before = old_endpoint_id)
            (SeEndpointBindingMismatch old_endpoint_id
               ''bound node does not point to the old or rotated endpoint''))
        (tbind (repoint_node E node_id old_endpoint_id new_endpoint_id (et_status new_after \<noteq> EpActive)) (\<lambda>n.
        tseq (tcheck (n = 1)
            (SeEndpointBindingMismatch old_endpoint_id
               ''legacy registry pointer changed during reconciliation''))
        (tbind (tbind (get_node_tx node_id) texpect) (\<lambda>node_after.
        tseq (audit_endpoint_rotation_tx X E actor ''endpoint.rotate.reconcile'' old_endpoint_id
            (Some node_before) (Some node_after) old_before old_before new_after reason)
        (treturn new_after)))))))))))))"

definition rotate_fresh :: "ext \<Rightarrow> store_env \<Rightarrow> string \<Rightarrow> string \<Rightarrow> string \<Rightarrow> string
    \<Rightarrow> endpoint_trust \<Rightarrow> endpoint_trust stx" where
  "rotate_fresh X E old_endpoint_id new_endpoint_id actor reason old_before =
     tseq (tcheck (et_status old_before = EpActive \<or> et_status old_before = EpQuarantined)
         (invalid_endpoint_transition old_before ''rotate''))
     (tbind (get_endpoint_trust_tx new_endpoint_id) (\<lambda>existing.
     tseq (tcheck (existing = None) (SeEndpointAlreadyExists new_endpoint_id))
     (tseq (validate_unrotated_lineage old_before)
     (tbind (validate_rotation_binding_tx old_before) (\<lambda>node_before.
     tbind (ttry (next_endpoint_generation old_before)) (\<lambda>new_generation.
     tbind (ttry (endpoint_generation_to_i64 old_endpoint_id new_generation)) (\<lambda>stored_generation.
     tbind (ttry (canonical_trust_bundle old_endpoint_id new_generation EpRotated
         (trust_bundle_json old_endpoint_id new_generation EpRotated))) (\<lambda>bundle.
     tbind (update_trust (\<lambda>r. et_endpoint_id r = old_endpoint_id)
         (\<lambda>r. r\<lparr>et_status := EpRotated, et_generation := stored_generation,
            et_rotated_to := Some new_endpoint_id, et_trust_bundle_json := bundle,
            et_updated_at := se_sql_now E\<rparr>)) (\<lambda>n.
     tseq (tcheck (n = 1) (SeEndpointNotFound old_endpoint_id))
     (tseq (insert_endpoint_trust_tx E
         \<lparr>et_endpoint_id = new_endpoint_id, et_node_id = et_node_id old_before,
          et_fingerprint = et_fingerprint old_before, et_status = EpActive,
          et_generation = new_generation, et_previous_endpoint_id = Some old_endpoint_id,
          et_rotated_to = None,
          et_trust_bundle_json = trust_bundle_json new_endpoint_id new_generation EpActive,
          et_created_at = [], et_updated_at = []\<rparr>)
     (tbind
        (case node_before of
           Some node \<Rightarrow>
             tbind (repoint_node E (nd_node_id node) old_endpoint_id new_endpoint_id
                 (et_status old_before = EpQuarantined)) (\<lambda>n.
             tseq (tcheck (n = 1)
                 (SeEndpointBindingMismatch old_endpoint_id
                    ''bound node endpoint changed during rotation''))
             (get_node_tx (nd_node_id node)))
         | None \<Rightarrow> treturn None) (\<lambda>node_after.
     tbind (tbind (get_endpoint_trust_tx old_endpoint_id) texpect) (\<lambda>old_after.
     tbind (tbind (get_endpoint_trust_tx new_endpoint_id) texpect) (\<lambda>new_after.
     tseq (audit_endpoint_rotation_tx X E actor ''endpoint.rotate'' old_endpoint_id
         node_before node_after old_before old_after new_after reason)
     (treturn new_after)))))))))))))))"

definition rotate_endpoint ::
    "ext \<Rightarrow> store_env \<Rightarrow> string \<Rightarrow> string \<Rightarrow> string \<Rightarrow> string \<Rightarrow> endpoint_trust stx" where
  "rotate_endpoint X E old_text new_text actor reason =
     tseq (ttry (map_err SeInvalidInput (validate_actor actor)))
     (tseq (ttry (map_err SeInvalidInput (validate_reason reason)))
     (tbind (ttry (map_err SeInvalidInput (validate_endpoint_id X old_text))) (\<lambda>old_endpoint_id.
     tbind (ttry (map_err SeInvalidInput (validate_endpoint_id X new_text))) (\<lambda>new_endpoint_id.
     tseq (tcheck (old_endpoint_id \<noteq> new_endpoint_id)
         (SeInvalidInput ''new endpoint_id must differ from old endpoint_id''))
     (tbind (get_endpoint_trust_tx old_endpoint_id) (\<lambda>found.
     tbind (ttry (ok_or found (SeEndpointNotFound old_endpoint_id))) (\<lambda>old_before.
     tseq (ttry (validate_endpoint_bundle_projection old_before))
     (if et_status old_before = EpRotated
      then rotate_retry X E old_endpoint_id new_endpoint_id actor reason old_before
      else rotate_fresh X E old_endpoint_id new_endpoint_id actor reason old_before))))))))"

fun status_change_allowed :: "endpoint_status \<Rightarrow> endpoint_status \<Rightarrow> bool" where
  "status_change_allowed EpActive EpRevoked = True"
| "status_change_allowed EpActive EpQuarantined = True"
| "status_change_allowed EpQuarantined EpRevoked = True"
| "status_change_allowed _ _ = False"

definition disable_bound_node ::
    "store_env \<Rightarrow> string \<Rightarrow> node_record option \<Rightarrow> node_record option stx" where
  "disable_bound_node E endpoint_id node_before =
     (case node_before of
        Some node \<Rightarrow>
          if nd_enabled node then
            tbind (update_nodes (\<lambda>r. nr_node_id r = nd_node_id node \<and> nr_endpoint_id r = endpoint_id)
                (\<lambda>r. r\<lparr>nr_enabled := False, nr_updated_at := se_sql_now E\<rparr>)) (\<lambda>n.
            tseq (tcheck (n = 1)
                (SeEndpointBindingMismatch endpoint_id ''bound node changed during endpoint status update''))
            (get_node_tx (nd_node_id node)))
          else treturn node_before
      | None \<Rightarrow> treturn node_before)"

definition update_endpoint_status ::
    "ext \<Rightarrow> store_env \<Rightarrow> string \<Rightarrow> endpoint_status \<Rightarrow> string \<Rightarrow> string \<Rightarrow> string \<Rightarrow> endpoint_trust stx" where
  "update_endpoint_status X E endpoint_text status actor reason action =
     tseq (ttry (map_err SeInvalidInput (validate_actor actor)))
     (tseq (ttry (map_err SeInvalidInput (validate_reason reason)))
     (tbind (ttry (map_err SeInvalidInput (validate_endpoint_id X endpoint_text))) (\<lambda>endpoint_id.
     tbind (get_endpoint_trust_tx endpoint_id) (\<lambda>found.
     tbind (ttry (ok_or found (SeEndpointNotFound endpoint_id))) (\<lambda>before.
     tseq (ttry (validate_endpoint_bundle_projection before))
     (if et_status before = status then
        tseq (validate_unrotated_lineage before) (treturn before)
      else
        tseq (tcheck (status_change_allowed (et_status before) status)
            (invalid_endpoint_transition before
              (if starts_with ''endpoint.'' action then drop (length ''endpoint.'') action else action)))
        (tbind (get_exact_bound_node_tx before) (\<lambda>node_before.
        tbind (transition_endpoint_status_tx E before status) (\<lambda>after.
        tbind (disable_bound_node E endpoint_id node_before) (\<lambda>node_after.
        tseq (audit_endpoint_status_tx X E actor action endpoint_id node_before node_after before after reason)
        (treturn after)))))))))))"

definition revoke_endpoint :: "ext \<Rightarrow> store_env \<Rightarrow> string \<Rightarrow> string \<Rightarrow> string \<Rightarrow> endpoint_trust stx" where
  "revoke_endpoint X E endpoint_id actor reason =
     update_endpoint_status X E endpoint_id EpRevoked actor reason ''endpoint.revoke''"

definition quarantine_endpoint :: "ext \<Rightarrow> store_env \<Rightarrow> string \<Rightarrow> string \<Rightarrow> string \<Rightarrow> endpoint_trust stx" where
  "quarantine_endpoint X E endpoint_id actor reason =
     update_endpoint_status X E endpoint_id EpQuarantined actor reason ''endpoint.quarantine''"

definition trust_snapshot :: "string option \<Rightarrow> store_db \<Rightarrow> store_error + endpoint_trust list" where
  "trust_snapshot endpoint_filter db =
     (case endpoint_filter of
        Some endpoint_id \<Rightarrow>
          rbind (opt_row endpoint_trust_from_row (find_trust (db_trust db) endpoint_id)) (\<lambda>found.
            Inr (case found of Some e \<Rightarrow> [e] | None \<Rightarrow> []))
      | None \<Rightarrow> map_ok endpoint_trust_from_row (sort_key et_endpoint_id (db_trust db)))"

end
