(* ===== verification/Enrollment.thy ===== *)
theory Enrollment
  imports Trust_Registry
begin

text \<open>
  Enrollment of agents (\<open>ocfleet-cli/src/store.rs\<close>): issuing and revoking tokens, submitting, rejecting
  and approving join requests, and claiming enrollments approved before approvals bound a node. A
  retry with the same input returns the existing row after its audit provenance has been found.
\<close>

section \<open>Inputs and their validation\<close>

definition MAX_ENROLLMENT_TOKEN_USES :: nat where "MAX_ENROLLMENT_TOKEN_USES = 10000"

record token_insert =
  ti_token_id :: string
  ti_token_hash :: string
  ti_expires_at :: string
  ti_max_uses :: nat
  ti_description :: "string option"
  ti_labels_json :: json
  ti_scope_json :: json

record join_insert =
  ji_request_id :: string
  ji_token_plaintext :: string
  ji_agent_public_key :: string
  ji_fingerprint :: string
  ji_requested_endpoint_id :: "string option"
  ji_hostname :: string
  ji_agent_version :: string
  ji_requested_labels_json :: json

record approval_input =
  ap_request_id :: string
  ap_endpoint_id :: string
  ap_node_id :: string
  ap_region :: string
  ap_role :: string
  ap_reason :: string
  ap_approved_labels_json :: json

record legacy_claim_input =
  lc_request_id :: string
  lc_endpoint_id :: string
  lc_node_id :: string
  lc_region :: string
  lc_role :: string
  lc_reason :: string

definition input_check :: "string + unit \<Rightarrow> unit stx" where
  "input_check r = ttry (map_err SeInvalidInput r)"

definition invalid_enrollment_binding :: "string \<Rightarrow> string \<Rightarrow> store_error" where
  "invalid_enrollment_binding request_id detail = SeInvalidEnrollmentBinding request_id detail"

definition validate_enrollment_request_id :: "ext \<Rightarrow> string \<Rightarrow> store_error + unit" where
  "validate_enrollment_request_id X request_id = all_ok [
     validate_audit_text request_id ''join request_id'' 128,
     ensure (starts_with ''join-'' request_id)
       (SeInvalidInput ''join request_id must use the join-<uuid> format''),
     ensure (uuid_ok X (drop (length ''join-'') request_id))
       (SeInvalidInput ''join request_id must contain a UUID'')]"

definition validate_enrollment_token_id :: "string \<Rightarrow> store_error + unit" where
  "validate_enrollment_token_id token_id = all_ok [
     validate_audit_text token_id ''enrollment token_id'' 128,
     ensure (starts_with ''tok-'' token_id) (SeInvalidInput ''enrollment token_id must start with tok-'')]"

definition validate_enrollment_token_input :: "ext \<Rightarrow> token_insert \<Rightarrow> store_error + unit" where
  "validate_enrollment_token_input X t = all_ok [
     validate_enrollment_token_id (ti_token_id t),
     ensure (length (ti_token_hash t) = 64
         \<and> list_all (\<lambda>b. is_ascii_digit b \<or> (97 \<le> byte b \<and> byte b \<le> 102)) (ti_token_hash t))
       (SeInvalidInput ''enrollment token hash must be lowercase BLAKE3 hex''),
     ensure (parse_rfc3339 X (ti_expires_at t) \<noteq> None)
       (SeInvalidInput ''enrollment token expires_at must be RFC3339''),
     ensure (\<not> (ti_max_uses t = 0 \<or> ti_max_uses t > MAX_ENROLLMENT_TOKEN_USES))
       (SeInvalidInput (''enrollment token max_uses must be 1-'' @ show_nat MAX_ENROLLMENT_TOKEN_USES))]"

definition validate_enrollment_token_plaintext :: "string \<Rightarrow> store_error + unit" where
  "validate_enrollment_token_plaintext token =
     ensure (\<not> (token = [] \<or> length token > 512 \<or> \<not> list_all is_ascii_graphic token))
       (SeInvalidInput ''enrollment token must be 1-512 ASCII non-whitespace characters'')"

definition enrollment_token_matches_create :: "enrollment_token \<Rightarrow> token_insert \<Rightarrow> string \<Rightarrow> bool" where
  "enrollment_token_matches_create existing requested actor \<longleftrightarrow>
     tk_token_id existing = ti_token_id requested
     \<and> tk_token_hash existing = ti_token_hash requested
     \<and> tk_created_by existing = actor
     \<and> tk_expires_at existing = ti_expires_at requested
     \<and> tk_max_uses existing = ti_max_uses requested
     \<and> tk_description existing = ti_description requested
     \<and> tk_labels_json existing = ti_labels_json requested
     \<and> tk_scope_json existing = ti_scope_json requested"

definition join_request_matches_submission ::
    "join_request \<Rightarrow> join_insert \<Rightarrow> string \<Rightarrow> string option \<Rightarrow> bool" where
  "join_request_matches_submission existing requested token_id requested_endpoint_id \<longleftrightarrow>
     jr_request_id existing = ji_request_id requested
     \<and> jr_token_id existing = token_id
     \<and> jr_agent_public_key existing = ji_agent_public_key requested
     \<and> jr_fingerprint existing = ji_fingerprint requested
     \<and> jr_requested_endpoint_id existing = requested_endpoint_id
     \<and> jr_hostname existing = ji_hostname requested
     \<and> jr_agent_version existing = ji_agent_version requested
     \<and> jr_requested_labels_json existing = ji_requested_labels_json requested"

definition enrollment_node_insert ::
    "ext \<Rightarrow> string \<Rightarrow> string \<Rightarrow> string \<Rightarrow> string \<Rightarrow> store_error + node_insert" where
  "enrollment_node_insert X node_id endpoint_text region role =
     rbind (map_err (\<lambda>e. SeInvalidInput (validation_error_text e)) (validate_node_id node_id)) (\<lambda>_.
     rbind (map_err SeInvalidInput (validate_endpoint_id X endpoint_text)) (\<lambda>endpoint_id.
     rbind (map_err (\<lambda>e. SeInvalidInput (validation_error_text e)) (validate_region region)) (\<lambda>_.
     rbind (map_err (\<lambda>e. SeInvalidInput (validation_error_text e)) (validate_role role)) (\<lambda>_.
       Inr \<lparr>ni_node_id = node_id, ni_endpoint_id = endpoint_id, ni_name = node_id,
            ni_region = region, ni_role = role\<rparr>))))"

definition token_is_expired :: "ext \<Rightarrow> store_env \<Rightarrow> string \<Rightarrow> bool" where
  "token_is_expired X E expires_at =
     (case parse_rfc3339 X expires_at of Some t \<Rightarrow> t \<le> se_now_utc E | None \<Rightarrow> True)"

section \<open>Provenance\<close>

text \<open>\<open>SELECT COUNT(*) FROM controller_audit_log WHERE ..\<close>. A comparison with \<open>NULL\<close> is not true;
  \<open>json_extract\<close> of a string is that string.\<close>

definition audit_count_where :: "(ctl_audit_event \<Rightarrow> bool) \<Rightarrow> store_db \<Rightarrow> nat" where
  "audit_count_where P db = length (filter (\<lambda>row. P (snd row)) (db_audit db))"

definition detail_is :: "ctl_audit_event \<Rightarrow> string \<Rightarrow> string \<Rightarrow> bool" where
  "detail_is ev key txt \<longleftrightarrow> jget key (ae_detail_json ev) = Some (JStr txt)"

definition endpoint_trust_count_for_node_tx :: "string \<Rightarrow> nat stx" where
  "endpoint_trust_count_for_node_tx node_id =
     tread (\<lambda>db. length (filter (\<lambda>r. et_node_id r = Some node_id) (db_trust db)))"

definition approved_join_assignment_count_tx :: "string \<Rightarrow> nat stx" where
  "approved_join_assignment_count_tx endpoint_id =
     tread (\<lambda>db. length (filter (\<lambda>r. jr_status r = JoinApproved
       \<and> jr_assigned_endpoint_id r = Some endpoint_id) (db_joins db)))"

definition approved_join_audit_count_tx :: "join_request \<Rightarrow> string \<Rightarrow> string option \<Rightarrow> nat stx" where
  "approved_join_audit_count_tx j endpoint_id node_id =
     tread (audit_count_where (\<lambda>ev. ae_event ev = ''enrollment.approve''
       \<and> ae_request_id ev = Some (jr_request_id j) \<and> ae_endpoint_id ev = Some endpoint_id
       \<and> jr_approved_by j = Some (ae_actor ev) \<and> ae_ok ev = Some True \<and> ae_node_id ev = node_id))"

definition enrollment_claim_audit_count_tx :: "string \<Rightarrow> string \<Rightarrow> string \<Rightarrow> nat stx" where
  "enrollment_claim_audit_count_tx request_id endpoint_id node_id =
     tread (audit_count_where (\<lambda>ev. ae_event ev = ''enrollment.claim''
       \<and> ae_request_id ev = Some request_id \<and> ae_endpoint_id ev = Some endpoint_id
       \<and> ae_node_id ev = Some node_id \<and> ae_ok ev = Some True))"

definition validate_enrollment_token_audit_provenance_tx ::
    "string \<Rightarrow> string \<Rightarrow> string \<Rightarrow> string option \<Rightarrow> unit stx" where
  "validate_enrollment_token_audit_provenance_tx event token_id actor reason =
     tbind (tread (audit_count_where (\<lambda>ev. ae_event ev = event \<and> ae_ok ev = Some True
       \<and> detail_is ev ''target_id'' token_id \<and> ae_actor ev = actor
       \<and> (case reason of None \<Rightarrow> True | Some r \<Rightarrow> detail_is ev ''reason'' r)))) (\<lambda>count.
     tcheck (count = 1)
       (SeEnrollmentTokenConflict token_id ''token audit provenance is missing or ambiguous''))"

definition validate_join_submission_audit_provenance_tx :: "join_request \<Rightarrow> string \<Rightarrow> unit stx" where
  "validate_join_submission_audit_provenance_tx j actor =
     tbind (tread (audit_count_where (\<lambda>ev. ae_event ev = ''enrollment.token.use''
       \<and> ae_request_id ev = Some (jr_request_id j) \<and> ae_ok ev = Some True
       \<and> detail_is ev ''target_id'' (jr_request_id j) \<and> ae_actor ev = actor))) (\<lambda>count.
     tcheck (count = 1) (SeEnrollmentRequestConflict (jr_request_id j)
       ''request submission audit provenance is missing or ambiguous''))"

definition validate_join_rejection_audit_provenance_tx :: "string \<Rightarrow> string \<Rightarrow> string \<Rightarrow> unit stx" where
  "validate_join_rejection_audit_provenance_tx request_id actor reason =
     tbind (tread (audit_count_where (\<lambda>ev. ae_event ev = ''enrollment.reject''
       \<and> ae_request_id ev = Some request_id \<and> ae_ok ev = Some True
       \<and> detail_is ev ''target_id'' request_id \<and> ae_actor ev = actor
       \<and> detail_is ev ''reason'' reason))) (\<lambda>count.
     tcheck (count = 1) (SeEnrollmentRequestConflict request_id
       ''request rejection audit provenance is missing or ambiguous''))"

definition validate_approved_join_provenance_tx :: "ext \<Rightarrow> join_request \<Rightarrow> string \<Rightarrow> unit stx" where
  "validate_approved_join_provenance_tx X j endpoint_id =
     (let reject = invalid_enrollment_binding (jr_request_id j) in
      tseq (tcheck (jr_status j = JoinApproved) (reject ''join request is not approved''))
      (tseq (tcheck (jr_assigned_endpoint_id j = Some endpoint_id)
          (reject ''assigned endpoint does not match''))
      (tseq (tcheck (case jr_requested_endpoint_id j of Some r \<Rightarrow> r = endpoint_id | None \<Rightarrow> True)
          (reject ''assigned endpoint does not match requested endpoint''))
      (tbind (ttry (ok_or (jr_approved_by j) (reject ''approval metadata is incomplete''))) (\<lambda>approved_by.
      tseq (tcheck (is_ok (validate_actor approved_by)
            \<and> (case jr_approved_at j of Some t \<Rightarrow> parse_rfc3339 X t \<noteq> None | None \<Rightarrow> False)
            \<and> jr_rejection_reason j = None)
          (reject ''approval metadata is invalid''))
      (tseq (ttry (map_err (\<lambda>_. reject ''stored fingerprint is invalid'')
          (validate_agent_fingerprint (jr_fingerprint j))))
      (tseq (ttry (map_err (\<lambda>_. reject ''approved labels are invalid'')
          (validate_label_json (jr_approved_labels_json j) ''approved_labels'')))
      (tbind (approved_join_assignment_count_tx endpoint_id) (\<lambda>count.
      tcheck (count = 1) (reject ''approved endpoint assignment is ambiguous''))))))))))"

definition validate_approved_join_audit_provenance_tx ::
    "join_request \<Rightarrow> string \<Rightarrow> string option \<Rightarrow> unit stx" where
  "validate_approved_join_audit_provenance_tx j endpoint_id node_id =
     tbind (approved_join_audit_count_tx j endpoint_id node_id) (\<lambda>count.
     tcheck (count = 1) (invalid_enrollment_binding (jr_request_id j)
       ''approval audit provenance is missing or ambiguous''))"

definition validate_enrollment_claim_audit_provenance_tx ::
    "join_request \<Rightarrow> string \<Rightarrow> string \<Rightarrow> unit stx" where
  "validate_enrollment_claim_audit_provenance_tx j endpoint_id node_id =
     tbind (enrollment_claim_audit_count_tx (jr_request_id j) endpoint_id node_id) (\<lambda>count.
     tcheck (count = 1) (invalid_enrollment_binding (jr_request_id j)
       ''claim retry audit provenance is missing or ambiguous''))"

definition validate_enrollment_endpoint_origin ::
    "join_request \<Rightarrow> endpoint_trust \<Rightarrow> string \<Rightarrow> store_error + unit" where
  "validate_enrollment_endpoint_origin j e request_id =
     (let reject = invalid_enrollment_binding request_id in
      all_ok [
        ensure (et_endpoint_id e = (case jr_assigned_endpoint_id j of Some a \<Rightarrow> a | None \<Rightarrow> [])
            \<and> et_status e = EpActive \<and> et_generation e = 1
            \<and> et_previous_endpoint_id e = None \<and> et_rotated_to e = None)
          (reject ''endpoint trust is not an original active enrollment''),
        ensure (et_fingerprint e = Some (jr_fingerprint j))
          (reject ''endpoint fingerprint does not match join request''),
        map_err (\<lambda>_. reject ''endpoint trust bundle is inconsistent'')
          (validate_endpoint_bundle_projection e),
        ensure (et_trust_bundle_json e = trust_bundle_json (et_endpoint_id e) 1 EpActive)
          (reject ''endpoint trust bundle is not the enrollment bundle'')])"

definition validate_pending_join_for_approval :: "join_request \<Rightarrow> store_error + unit" where
  "validate_pending_join_for_approval j =
     (let reject = invalid_enrollment_binding (jr_request_id j) in
      all_ok [
        ensure (jr_status j = JoinPending \<and> jr_assigned_endpoint_id j = None
            \<and> jr_approved_at j = None \<and> jr_approved_by j = None \<and> jr_rejection_reason j = None
            \<and> jr_approved_labels_json j = JObj [])
          (reject ''pending join request has decision metadata''),
        map_err (\<lambda>_. reject ''stored agent public key is invalid'')
          (validate_agent_public_key (jr_agent_public_key j)),
        map_err (\<lambda>_. reject ''stored fingerprint is invalid'')
          (validate_agent_fingerprint (jr_fingerprint j)),
        map_err (\<lambda>_. reject ''stored hostname is invalid'') (validate_hostname (jr_hostname j)),
        map_err (\<lambda>_. reject ''stored agent version is invalid'')
          (validate_agent_version (jr_agent_version j)),
        map_err (\<lambda>_. reject ''stored requested labels are invalid'')
          (validate_label_json (jr_requested_labels_json j) ''requested_labels''),
        map_err (\<lambda>_. reject ''stored audit correlation is invalid'')
          (validate_audit_text (jr_audit_correlation_id j) ''join correlation_id'' 128)])"

definition validate_exact_enrollment_binding_tx ::
    "ext \<Rightarrow> join_request \<Rightarrow> endpoint_trust \<Rightarrow> node_insert \<Rightarrow> json option \<Rightarrow> string \<Rightarrow> unit stx" where
  "validate_exact_enrollment_binding_tx X j e expected_node expected_labels failure_detail =
     (let fail = invalid_enrollment_binding (jr_request_id j) failure_detail in
      tseq (validate_approved_join_provenance_tx X j (ni_endpoint_id expected_node))
      (tseq (ttry (validate_enrollment_endpoint_origin j e (jr_request_id j)))
      (tseq (tcheck ((case expected_labels of Some l \<Rightarrow> l = jr_approved_labels_json j | None \<Rightarrow> True)
          \<and> et_node_id e = Some (ni_node_id expected_node)) fail)
      (tbind (get_node_tx (ni_node_id expected_node)) (\<lambda>found.
      tbind (ttry (ok_or found fail)) (\<lambda>node.
      tbind (get_node_by_endpoint_tx (ni_endpoint_id expected_node)) (\<lambda>by_endpoint.
      tseq (tcheck (nd_node_id node = ni_node_id expected_node
          \<and> nd_endpoint_id node = ni_endpoint_id expected_node
          \<and> nd_name node = ni_name expected_node
          \<and> nd_region node = ni_region expected_node
          \<and> nd_role node = ni_role expected_node
          \<and> (case by_endpoint of Some b \<Rightarrow> nd_node_id b = ni_node_id expected_node | None \<Rightarrow> False)) fail)
      (tbind (get_active_endpoint_trust_for_node_tx (ni_node_id expected_node)) (\<lambda>active.
      tcheck (single_active active (ni_endpoint_id expected_node)) fail)))))))))"

section \<open>Audit details\<close>

definition object_len :: "json \<Rightarrow> nat" where
  "object_len v = (case v of JObj kvs \<Rightarrow> length kvs | _ \<Rightarrow> 0)"

definition enrollment_join_audit_json :: "join_request \<Rightarrow> json" where
  "enrollment_join_audit_json j = jobj [
     (''request_id'', JStr (jr_request_id j)),
     (''status'', JStr (join_status_as_str (jr_status j))),
     (''requested_endpoint_id_present'', JBool (jr_requested_endpoint_id j \<noteq> None)),
     (''assigned_endpoint_id'', jstr_opt (jr_assigned_endpoint_id j))]"

definition enrollment_token_audit_json :: "enrollment_token \<Rightarrow> json" where
  "enrollment_token_audit_json t = jobj [
     (''token_id'', JStr (tk_token_id t)),
     (''status'', JStr (token_status_as_str (tk_status t))),
     (''expires_at'', JStr (tk_expires_at t)),
     (''max_uses'', JInt (int (tk_max_uses t))),
     (''used_count'', JInt (int (tk_used_count t))),
     (''description_present'', JBool (tk_description t \<noteq> None)),
     (''label_count'', JInt (int (object_len (tk_labels_json t)))),
     (''scope_count'', JInt (int (object_len (tk_scope_json t))))]"

definition enrollment_token_transition_audit_json ::
    "string \<Rightarrow> enrollment_token option \<Rightarrow> enrollment_token option \<Rightarrow> string option \<Rightarrow> json" where
  "enrollment_token_transition_audit_json token_id before after reason = jobj [
     (''actor_type'', JStr ''user''),
     (''target_type'', JStr ''enrollment_token''),
     (''target_id'', JStr token_id),
     (''before'', jopt enrollment_token_audit_json before),
     (''after'', jopt enrollment_token_audit_json after),
     (''reason'', jstr_opt reason)]"

definition enrollment_token_use_audit_json ::
    "enrollment_token \<Rightarrow> enrollment_token \<Rightarrow> join_request \<Rightarrow> json" where
  "enrollment_token_use_audit_json before after j = jobj [
     (''actor_type'', JStr ''user''),
     (''target_type'', JStr ''join_request''),
     (''target_id'', JStr (jr_request_id j)),
     (''before'', jobj [
        (''issuance'', enrollment_token_audit_json before),
        (''join_request'', JNull)]),
     (''after'', jobj [
        (''issuance'', enrollment_token_audit_json after),
        (''join_request'', jobj [
           (''request_id'', JStr (jr_request_id j)),
           (''token_id'', JStr (jr_token_id j)),
           (''status'', JStr (join_status_as_str (jr_status j))),
           (''fingerprint_present'', JBool (jr_fingerprint j \<noteq> [])),
           (''requested_endpoint_id_present'', JBool (jr_requested_endpoint_id j \<noteq> None)),
           (''requested_label_count'', JInt (int (object_len (jr_requested_labels_json j)))),
           (''correlation_id'', JStr (jr_audit_correlation_id j))])]),
     (''reason'', JNull)]"

definition enrollment_request_transition_audit_json ::
    "string \<Rightarrow> join_request \<Rightarrow> join_request \<Rightarrow> string \<Rightarrow> json" where
  "enrollment_request_transition_audit_json request_id before after reason = jobj [
     (''actor_type'', JStr ''user''),
     (''target_type'', JStr ''join_request''),
     (''target_id'', JStr request_id),
     (''before'', enrollment_join_audit_json before),
     (''after'', enrollment_join_audit_json after),
     (''reason'', JStr reason)]"

definition audit_join_rejection_tx ::
    "ext \<Rightarrow> store_env \<Rightarrow> string \<Rightarrow> string option \<Rightarrow> string option \<Rightarrow> string \<Rightarrow> unit stx" where
  "audit_join_rejection_tx X E actor request_id token_id reason =
     insert_audit_tx X ((ctl_audit_event_new (se_now_text E) actor ''enrollment.token.reject'')
       \<lparr>ae_ok := Some False, ae_request_id := request_id,
        ae_error_code := Some ''ENROLLMENT_REJECTED'',
        ae_detail_json := jobj [
          (''actor_type'', JStr ''user''),
          (''action'', JStr ''enrollment.token.reject''),
          (''target_type'', JStr ''enrollment_token''),
          (''target_id'', jstr_opt token_id),
          (''reason'', JStr reason)]\<rparr>)"

definition audit_enrollment_binding_tx :: "ext \<Rightarrow> store_env \<Rightarrow> string \<Rightarrow> string \<Rightarrow> string
    \<Rightarrow> join_request \<Rightarrow> join_request \<Rightarrow> node_record option \<Rightarrow> node_record option
    \<Rightarrow> endpoint_trust option \<Rightarrow> endpoint_trust option \<Rightarrow> string \<Rightarrow> unit stx" where
  "audit_enrollment_binding_tx X E actor action request_id join_before join_after node_before
       node_after endpoint_before endpoint_after reason =
     insert_audit_tx X ((ctl_audit_event_new (se_now_text E) actor action)
       \<lparr>ae_ok := Some True, ae_request_id := Some request_id,
        ae_node_id := map_option nd_node_id (case node_after of Some n \<Rightarrow> Some n | None \<Rightarrow> node_before),
        ae_endpoint_id := map_option et_endpoint_id
          (case endpoint_after of Some e \<Rightarrow> Some e | None \<Rightarrow> endpoint_before),
        ae_detail_json := jobj [
          (''actor_type'', JStr ''user''),
          (''target_type'', JStr ''enrollment_binding''),
          (''target_id'', JStr request_id),
          (''before'', jobj [
             (''join_request'', enrollment_join_audit_json join_before),
             (''node'', jopt node_audit_json node_before),
             (''endpoint'', jopt endpoint_audit_json endpoint_before)]),
          (''after'', jobj [
             (''join_request'', enrollment_join_audit_json join_after),
             (''node'', jopt node_audit_json node_after),
             (''endpoint'', jopt endpoint_audit_json endpoint_after)]),
          (''reason'', JStr reason)]\<rparr>)"

section \<open>Tokens\<close>

definition insert_token_row :: "enrollment_token \<Rightarrow> unit stx" where
  "insert_token_row t =
     tbind (tread db_tokens) (\<lambda>rows.
     tseq (tcheck (tk_token_id t \<notin> set (map tk_token_id rows)) (constraint ''enrollment_tokens.token_id''))
     (tseq (tcheck (tk_token_hash t \<notin> set (map tk_token_hash rows)) (constraint ''enrollment_tokens.token_hash''))
     (tmodify (\<lambda>db. db\<lparr>db_tokens := rows @ [t]\<rparr>))))"

definition create_enrollment_token ::
    "ext \<Rightarrow> store_env \<Rightarrow> token_insert \<Rightarrow> string \<Rightarrow> enrollment_token stx" where
  "create_enrollment_token X E t actor =
     tseq (input_check (validate_actor actor))
     (tseq (ttry (validate_enrollment_token_input X t))
     (tseq (input_check (case ti_description t of Some d \<Rightarrow> validate_description d | None \<Rightarrow> Inr ()))
     (tseq (input_check (validate_label_json (ti_labels_json t) ''labels''))
     (tseq (input_check (validate_label_json (ti_scope_json t) ''scope''))
     (tseq (ttry (validate_low_sensitive_json X (ti_labels_json t) ''enrollment token labels''))
     (tseq (ttry (validate_low_sensitive_json X (ti_scope_json t) ''enrollment token scope''))
     (tbind (ttry (canonical_enrollment_metadata X TokenLabels (ti_labels_json t))) (\<lambda>labels.
     tbind (ttry (canonical_enrollment_metadata X TokenScope (ti_scope_json t))) (\<lambda>scope.
     tbind (get_enrollment_token_tx X (ti_token_id t)) (\<lambda>existing_token.
     case existing_token of
       Some existing \<Rightarrow>
         if enrollment_token_matches_create existing t actor then
           tseq (validate_enrollment_token_audit_provenance_tx ''enrollment.token.create''
               (ti_token_id t) actor None)
           (treturn existing)
         else tfail (Fail (SeEnrollmentTokenConflict (ti_token_id t)
           ''token id already exists with different issuance metadata''))
     | None \<Rightarrow>
         tbind (get_enrollment_token_by_hash_tx X (ti_token_hash t)) (\<lambda>by_hash.
         tseq (tcheck (by_hash = None) (SeEnrollmentTokenConflict (ti_token_id t)
             ''token credential is already assigned to another token id''))
         (tseq (insert_token_row \<lparr>tk_token_id = ti_token_id t, tk_token_hash = ti_token_hash t,
             tk_created_at = se_sql_now E, tk_created_by = actor, tk_expires_at = ti_expires_at t,
             tk_max_uses = ti_max_uses t, tk_used_count = 0, tk_status = TokActive,
             tk_description = ti_description t, tk_labels_json = labels, tk_scope_json = scope\<rparr>)
         (tbind (tbind (get_enrollment_token_tx X (ti_token_id t)) texpect) (\<lambda>after.
         tseq (insert_audit_tx X ((ctl_audit_event_new (se_now_text E) actor ''enrollment.token.create'')
             \<lparr>ae_ok := Some True, ae_detail_json :=
                enrollment_token_transition_audit_json (ti_token_id t) None (Some after) None\<rparr>))
         (treturn after)))))))))))))))"

definition set_token_status :: "string \<Rightarrow> token_status \<Rightarrow> nat stx" where
  "set_token_status token_id status =
     update_tokens (\<lambda>r. tk_token_id r = token_id \<and> tk_status r = TokActive) (\<lambda>r. r\<lparr>tk_status := status\<rparr>)"

definition revoke_enrollment_token ::
    "ext \<Rightarrow> store_env \<Rightarrow> string \<Rightarrow> string \<Rightarrow> string \<Rightarrow> enrollment_token stx" where
  "revoke_enrollment_token X E token_id actor reason =
     tseq (input_check (validate_actor actor))
     (tseq (input_check (validate_reason reason))
     (tseq (ttry (validate_enrollment_token_id token_id))
     (tbind (get_enrollment_token_tx X token_id) (\<lambda>found.
     tbind (ttry (ok_or found (SeEnrollmentTokenNotFound token_id))) (\<lambda>before.
     case tk_status before of
       TokRevoked \<Rightarrow>
         tseq (validate_enrollment_token_audit_provenance_tx ''enrollment.token.revoke'' token_id actor
             (Some reason))
         (treturn before)
     | TokExpired \<Rightarrow>
         tfail (Fail (SeInvalidEnrollmentTokenTransition token_id (token_status_as_str (tk_status before))
           ''revoke''))
     | TokActive \<Rightarrow>
         tseq (tcheck (\<not> token_is_expired X E (tk_expires_at before))
             (SeInvalidEnrollmentTokenTransition token_id (token_status_as_str TokExpired) ''revoke''))
         (tbind (set_token_status token_id TokRevoked) (\<lambda>n.
         tseq (tcheck (n = 1)
             (SeEnrollmentTokenConflict token_id ''token state changed during revocation''))
         (tbind (tbind (get_enrollment_token_tx X token_id) texpect) (\<lambda>after.
         tseq (insert_audit_tx X ((ctl_audit_event_new (se_now_text E) actor ''enrollment.token.revoke'')
             \<lparr>ae_ok := Some True, ae_detail_json :=
                enrollment_token_transition_audit_json token_id (Some before) (Some after) (Some reason)\<rparr>))
         (treturn after))))))))))"

section \<open>Join requests\<close>

definition insert_join_row :: "join_request \<Rightarrow> unit stx" where
  "insert_join_row j =
     tbind (tread db_joins) (\<lambda>rows.
     tbind (tread db_tokens) (\<lambda>tokens.
     tseq (tcheck (jr_request_id j \<notin> set (map jr_request_id rows)) (constraint ''join_requests.request_id''))
     (tseq (tcheck (jr_token_id j \<in> set (map tk_token_id tokens)) (constraint ''join_requests.token_id''))
     (tmodify (\<lambda>db. db\<lparr>db_joins := rows @ [j]\<rparr>)))))"

text \<open>A rejection is committed with its audit record and then reported: the inner sum is the result of
  the committed transaction.\<close>

definition reject_submission :: "ext \<Rightarrow> store_env \<Rightarrow> string \<Rightarrow> string \<Rightarrow> string option \<Rightarrow> string
    \<Rightarrow> (store_error + join_request) stx" where
  "reject_submission X E actor request_id token_id reason =
     tseq (audit_join_rejection_tx X E actor (Some request_id) token_id reason)
     (treturn (Inl (SeEnrollmentRejected reason)))"

definition expire_token_on_submission :: "ext \<Rightarrow> store_env \<Rightarrow> join_insert \<Rightarrow> string \<Rightarrow> enrollment_token
    \<Rightarrow> (store_error + join_request) stx" where
  "expire_token_on_submission X E request actor token =
     tbind (set_token_status (tk_token_id token) TokExpired) (\<lambda>n.
     tseq (tcheck (n = 1)
         (SeEnrollmentTokenConflict (tk_token_id token) ''token state changed during expiry''))
     (tbind (tbind (get_enrollment_token_tx X (tk_token_id token)) texpect) (\<lambda>expired.
     tseq (insert_audit_tx X ((ctl_audit_event_new (se_now_text E) actor ''enrollment.token.expire'')
         \<lparr>ae_ok := Some True, ae_request_id := Some (ji_request_id request),
          ae_detail_json := enrollment_token_transition_audit_json (tk_token_id token) (Some token)
            (Some expired) (Some ''expired'')\<rparr>))
     (reject_submission X E actor (ji_request_id request) (Some (tk_token_id token)) ''expired''))))"

definition accept_submission :: "ext \<Rightarrow> store_env \<Rightarrow> join_insert \<Rightarrow> string \<Rightarrow> enrollment_token
    \<Rightarrow> string option \<Rightarrow> json \<Rightarrow> json \<Rightarrow> (store_error + join_request) stx" where
  "accept_submission X E request actor token requested_endpoint_id requested_labels approved_labels =
     tseq (insert_join_row \<lparr>jr_request_id = ji_request_id request, jr_token_id = tk_token_id token,
         jr_status = JoinPending, jr_agent_public_key = ji_agent_public_key request,
         jr_fingerprint = ji_fingerprint request, jr_requested_endpoint_id = requested_endpoint_id,
         jr_assigned_endpoint_id = None, jr_hostname = ji_hostname request,
         jr_agent_version = ji_agent_version request, jr_requested_labels_json = requested_labels,
         jr_approved_labels_json = approved_labels, jr_created_at = se_sql_now E,
         jr_approved_at = None, jr_approved_by = None, jr_rejection_reason = None,
         jr_audit_correlation_id = ''corr-'' @ se_new_uuid E\<rparr>)
     (tbind (update_tokens
         (\<lambda>r. tk_token_id r = tk_token_id token \<and> tk_status r = TokActive
            \<and> tk_used_count r = tk_used_count token \<and> tk_used_count r < tk_max_uses r)
         (\<lambda>r. r\<lparr>tk_used_count := tk_used_count r + 1\<rparr>)) (\<lambda>n.
     tseq (tcheck (n = 1) (SeEnrollmentTokenConflict (tk_token_id token)
         ''token use count changed during request submission''))
     (tbind (tbind (get_join_request_tx X (ji_request_id request)) texpect) (\<lambda>joined.
     tbind (tbind (get_enrollment_token_tx X (tk_token_id token)) texpect) (\<lambda>token_after.
     tseq (insert_audit_tx X ((ctl_audit_event_new (se_now_text E) actor ''enrollment.token.use'')
         \<lparr>ae_ok := Some True, ae_request_id := Some (ji_request_id request),
          ae_detail_json := enrollment_token_use_audit_json token token_after joined\<rparr>))
     (treturn (Inr joined)))))))"

definition submit_to_token :: "ext \<Rightarrow> store_env \<Rightarrow> join_insert \<Rightarrow> string \<Rightarrow> enrollment_token
    \<Rightarrow> string option \<Rightarrow> json \<Rightarrow> json \<Rightarrow> (store_error + join_request) stx" where
  "submit_to_token X E request actor token requested_endpoint_id requested_labels approved_labels =
     tbind (get_join_request_tx X (ji_request_id request)) (\<lambda>existing_join.
     case existing_join of
       Some existing \<Rightarrow>
         if join_request_matches_submission existing request (tk_token_id token) requested_endpoint_id then
           tseq (validate_join_submission_audit_provenance_tx existing actor) (treturn (Inr existing))
         else tfail (Fail (SeEnrollmentRequestConflict (ji_request_id request)
           ''request id already exists with different enrollment input''))
     | None \<Rightarrow>
         if tk_status token \<noteq> TokActive then
           reject_submission X E actor (ji_request_id request) (Some (tk_token_id token))
             (token_status_as_str (tk_status token))
         else if token_is_expired X E (tk_expires_at token) then
           expire_token_on_submission X E request actor token
         else if tk_used_count token \<ge> tk_max_uses token then
           reject_submission X E actor (ji_request_id request) (Some (tk_token_id token))
             ''max_uses_exhausted''
         else accept_submission X E request actor token requested_endpoint_id requested_labels
           approved_labels)"

definition submit_join_request ::
    "ext \<Rightarrow> store_env \<Rightarrow> join_insert \<Rightarrow> string \<Rightarrow> (store_error + join_request) stx" where
  "submit_join_request X E request actor =
     tseq (input_check (validate_actor actor))
     (tseq (ttry (validate_enrollment_request_id X (ji_request_id request)))
     (tseq (ttry (validate_enrollment_token_plaintext (ji_token_plaintext request)))
     (tseq (input_check (validate_agent_public_key (ji_agent_public_key request)))
     (tseq (input_check (validate_agent_fingerprint (ji_fingerprint request)))
     (tbind (ttry (map_err (\<lambda>err. SeInvalidInput (''requested_endpoint_id: '' @ err))
         (case ji_requested_endpoint_id request of
            None \<Rightarrow> Inr None
          | Some e \<Rightarrow> rbind (validate_endpoint_id X e) (\<lambda>c. Inr (Some c))))) (\<lambda>requested_endpoint_id.
     tseq (input_check (validate_hostname (ji_hostname request)))
     (tseq (input_check (validate_agent_version (ji_agent_version request)))
     (tseq (input_check (validate_label_json (ji_requested_labels_json request) ''requested_labels''))
     (tseq (ttry (validate_low_sensitive_json X (ji_requested_labels_json request)
         ''enrollment requested labels''))
     (tbind (ttry (canonical_enrollment_metadata X RequestedLabels
         (ji_requested_labels_json request))) (\<lambda>requested_labels.
     tbind (ttry (canonical_enrollment_metadata X ApprovedLabels (JObj []))) (\<lambda>approved_labels.
     tbind (get_enrollment_token_by_hash_tx X (se_blake3_hex E (ji_token_plaintext request))) (\<lambda>found.
     case found of
       None \<Rightarrow> reject_submission X E actor (ji_request_id request) None ''unknown_token''
     | Some token \<Rightarrow> submit_to_token X E request actor token requested_endpoint_id requested_labels
         approved_labels)))))))))))))"

definition reject_join_request ::
    "ext \<Rightarrow> store_env \<Rightarrow> string \<Rightarrow> string \<Rightarrow> string \<Rightarrow> join_request stx" where
  "reject_join_request X E request_id actor reason =
     tseq (input_check (validate_actor actor))
     (tseq (input_check (validate_reason reason))
     (tseq (ttry (validate_enrollment_request_id X request_id))
     (tbind (get_join_request_tx X request_id) (\<lambda>found.
     tbind (ttry (ok_or found (SeJoinRequestNotFound request_id))) (\<lambda>before.
     if jr_status before = JoinRejected then
       tseq (tcheck (jr_rejection_reason before = Some reason)
           (SeEnrollmentRequestConflict request_id ''request was already rejected for a different reason''))
       (tseq (validate_join_rejection_audit_provenance_tx request_id actor reason)
       (treturn before))
     else
       tseq (tcheck (jr_status before = JoinPending)
           (SeInvalidJoinRequestStatus request_id (join_status_as_str (jr_status before)) ''pending''))
       (tseq (ttry (validate_pending_join_for_approval before))
       (tbind (update_joins (\<lambda>r. jr_request_id r = request_id \<and> jr_status r = JoinPending)
           (\<lambda>r. r\<lparr>jr_status := JoinRejected, jr_rejection_reason := Some reason\<rparr>)) (\<lambda>n.
       tseq (tcheck (n = 1)
           (SeEnrollmentRequestConflict request_id ''request state changed during rejection''))
       (tbind (tbind (get_join_request_tx X request_id) texpect) (\<lambda>after.
       tseq (insert_audit_tx X ((ctl_audit_event_new (se_now_text E) actor ''enrollment.reject'')
           \<lparr>ae_ok := Some True, ae_request_id := Some request_id,
            ae_detail_json := enrollment_request_transition_audit_json request_id before after reason\<rparr>))
       (treturn after)))))))))))"

section \<open>Approval and legacy claims\<close>

text \<open>An approval of an already approved request: a legacy one asks for a claim, otherwise the retry must
  describe exactly the existing binding.\<close>

definition approve_retry ::
    "ext \<Rightarrow> approval_input \<Rightarrow> node_insert \<Rightarrow> join_request \<Rightarrow> join_request stx" where
  "approve_retry X ap node before =
     tseq (validate_approved_join_provenance_tx X before (ni_endpoint_id node))
     (tbind (get_endpoint_trust_tx (ni_endpoint_id node)) (\<lambda>found.
     tbind (ttry (ok_or found (invalid_enrollment_binding (ap_request_id ap)
         ''approved endpoint trust is missing''))) (\<lambda>e.
     tseq (ttry (validate_enrollment_endpoint_origin before e (ap_request_id ap)))
     (if et_node_id e = None then
        tseq (validate_approved_join_audit_provenance_tx before (ni_endpoint_id node) None)
        (tfail (Fail (invalid_enrollment_binding (ap_request_id ap) ''legacy claim required'')))
      else
        tseq (validate_approved_join_audit_provenance_tx before (ni_endpoint_id node)
            (Some (ni_node_id node)))
        (tseq (validate_exact_enrollment_binding_tx X before e node (Some (ap_approved_labels_json ap))
            ''approval retry does not match the existing binding'')
        (treturn before))))))"

text \<open>Neither the node nor the endpoint may be known already.\<close>

definition check_node_unused :: "string \<Rightarrow> node_insert \<Rightarrow> unit stx" where
  "check_node_unused request_id node =
     tbind (endpoint_trust_count_for_node_tx (ni_node_id node)) (\<lambda>count.
     tcheck (count = 0)
       (invalid_enrollment_binding request_id ''node id has existing endpoint trust history''))"

definition approve_pending ::
    "ext \<Rightarrow> store_env \<Rightarrow> approval_input \<Rightarrow> string \<Rightarrow> node_insert \<Rightarrow> json \<Rightarrow> join_request \<Rightarrow> join_request stx" where
  "approve_pending X E ap actor node approved_labels before =
     tseq (ttry (validate_pending_join_for_approval before))
     (tseq (tcheck (case jr_requested_endpoint_id before of
           Some requested \<Rightarrow> requested = ni_endpoint_id node | None \<Rightarrow> True)
         (invalid_enrollment_binding (ap_request_id ap) ''approved endpoint does not match requested endpoint''))
     (tbind (get_node_tx (ni_node_id node)) (\<lambda>by_id.
     tseq (tcheck (by_id = None) (SeNodeAlreadyExists (ni_node_id node)))
     (tbind (get_node_by_endpoint_tx (ni_endpoint_id node)) (\<lambda>by_endpoint.
     tseq (tcheck (by_endpoint = None) (SeEndpointAlreadyExists (ni_endpoint_id node)))
     (tbind (get_endpoint_trust_tx (ni_endpoint_id node)) (\<lambda>known.
     tseq (tcheck (known = None) (SeEndpointAlreadyExists (ni_endpoint_id node)))
     (tseq (check_node_unused (ap_request_id ap) node)
     (tseq (insert_node_tx E node)
     (tseq (insert_endpoint_trust_tx E
         \<lparr>et_endpoint_id = ni_endpoint_id node, et_node_id = Some (ni_node_id node),
          et_fingerprint = Some (jr_fingerprint before), et_status = EpActive, et_generation = 1,
          et_previous_endpoint_id = None, et_rotated_to = None,
          et_trust_bundle_json = trust_bundle_json (ni_endpoint_id node) 1 EpActive,
          et_created_at = [], et_updated_at = []\<rparr>)
     (tbind (update_joins (\<lambda>r. jr_request_id r = ap_request_id ap \<and> jr_status r = JoinPending)
         (\<lambda>r. r\<lparr>jr_status := JoinApproved, jr_assigned_endpoint_id := Some (ni_endpoint_id node),
            jr_approved_labels_json := approved_labels, jr_approved_at := Some (se_sql_now E),
            jr_approved_by := Some actor\<rparr>)) (\<lambda>n.
     tseq (tcheck (n = 1)
         (invalid_enrollment_binding (ap_request_id ap) ''join request changed during approval''))
     (tbind (tbind (get_join_request_tx X (ap_request_id ap)) texpect) (\<lambda>after.
     tbind (tbind (get_node_tx (ni_node_id node)) texpect) (\<lambda>node_after.
     tbind (tbind (get_endpoint_trust_tx (ni_endpoint_id node)) texpect) (\<lambda>endpoint_after.
     tseq (validate_exact_enrollment_binding_tx X after endpoint_after node
         (Some (ap_approved_labels_json ap)) ''approved binding is inconsistent'')
     (tseq (audit_enrollment_binding_tx X E actor ''enrollment.approve'' (ap_request_id ap) before after
         None (Some node_after) None (Some endpoint_after) (ap_reason ap))
     (treturn after))))))))))))))))))"

definition approve_join_request ::
    "ext \<Rightarrow> store_env \<Rightarrow> approval_input \<Rightarrow> string \<Rightarrow> join_request stx" where
  "approve_join_request X E ap actor =
     tseq (input_check (validate_actor actor))
     (tseq (input_check (validate_reason (ap_reason ap)))
     (tseq (ttry (validate_enrollment_request_id X (ap_request_id ap)))
     (tbind (ttry (enrollment_node_insert X (ap_node_id ap) (ap_endpoint_id ap) (ap_region ap)
         (ap_role ap))) (\<lambda>node.
     tseq (input_check (validate_label_json (ap_approved_labels_json ap) ''approved_labels''))
     (tbind (ttry (canonical_enrollment_metadata X ApprovedLabels (ap_approved_labels_json ap))) (\<lambda>approved_labels.
     tbind (get_join_request_tx X (ap_request_id ap)) (\<lambda>found.
     tbind (ttry (ok_or found (SeJoinRequestNotFound (ap_request_id ap)))) (\<lambda>before.
     if jr_status before = JoinApproved then approve_retry X ap node before
     else
       tseq (tcheck (jr_status before = JoinPending)
           (SeInvalidJoinRequestStatus (ap_request_id ap) (join_status_as_str (jr_status before)) ''pending''))
       (approve_pending X E ap actor node approved_labels before)))))))))"

definition claim_retry :: "ext \<Rightarrow> node_insert \<Rightarrow> join_request \<Rightarrow> endpoint_trust \<Rightarrow> join_request stx" where
  "claim_retry X node j e =
     tseq (validate_enrollment_claim_audit_provenance_tx j (ni_endpoint_id node) (ni_node_id node))
     (tseq (validate_exact_enrollment_binding_tx X j e node None
         ''claim retry does not match the existing binding'')
     (treturn j))"

definition claim_unbound :: "ext \<Rightarrow> store_env \<Rightarrow> legacy_claim_input \<Rightarrow> string \<Rightarrow> node_insert \<Rightarrow> join_request
    \<Rightarrow> endpoint_trust \<Rightarrow> join_request stx" where
  "claim_unbound X E claim actor node j endpoint_before =
     tbind (get_node_tx (ni_node_id node)) (\<lambda>by_id.
     tseq (tcheck (by_id = None) (SeNodeAlreadyExists (ni_node_id node)))
     (tbind (get_node_by_endpoint_tx (ni_endpoint_id node)) (\<lambda>by_endpoint.
     tseq (tcheck (by_endpoint = None) (SeEndpointAlreadyExists (ni_endpoint_id node)))
     (tseq (check_node_unused (lc_request_id claim) node)
     (tseq (insert_node_tx E node)
     (tbind (update_trust
         (\<lambda>r. et_endpoint_id r = ni_endpoint_id node \<and> et_node_id r = None \<and> et_status r = EpActive
            \<and> et_generation r = 1 \<and> et_previous_endpoint_id r = None \<and> et_rotated_to r = None
            \<and> et_fingerprint r = Some (jr_fingerprint j))
         (\<lambda>r. r\<lparr>et_node_id := Some (ni_node_id node), et_updated_at := se_sql_now E\<rparr>)) (\<lambda>n.
     tseq (tcheck (n = 1)
         (invalid_enrollment_binding (lc_request_id claim) ''legacy endpoint trust changed during claim''))
     (tbind (tbind (get_node_tx (ni_node_id node)) texpect) (\<lambda>node_after.
     tbind (tbind (get_endpoint_trust_tx (ni_endpoint_id node)) texpect) (\<lambda>endpoint_after.
     tseq (validate_exact_enrollment_binding_tx X j endpoint_after node None
         ''claimed binding is inconsistent'')
     (tseq (audit_enrollment_binding_tx X E actor ''enrollment.claim'' (lc_request_id claim) j j
         None (Some node_after) (Some endpoint_before) (Some endpoint_after) (lc_reason claim))
     (treturn j))))))))))))"

definition claim_legacy_enrollment ::
    "ext \<Rightarrow> store_env \<Rightarrow> legacy_claim_input \<Rightarrow> string \<Rightarrow> join_request stx" where
  "claim_legacy_enrollment X E claim actor =
     tseq (input_check (validate_actor actor))
     (tseq (input_check (validate_reason (lc_reason claim)))
     (tseq (ttry (validate_enrollment_request_id X (lc_request_id claim)))
     (tbind (ttry (enrollment_node_insert X (lc_node_id claim) (lc_endpoint_id claim)
         (lc_region claim) (lc_role claim))) (\<lambda>node.
     tbind (get_join_request_tx X (lc_request_id claim)) (\<lambda>found.
     tbind (ttry (ok_or found (SeJoinRequestNotFound (lc_request_id claim)))) (\<lambda>j.
     tseq (tcheck (jr_status j = JoinApproved)
         (SeInvalidJoinRequestStatus (lc_request_id claim) (join_status_as_str (jr_status j)) ''approved''))
     (tseq (validate_approved_join_provenance_tx X j (ni_endpoint_id node))
     (tseq (validate_approved_join_audit_provenance_tx j (ni_endpoint_id node) None)
     (tbind (get_endpoint_trust_tx (ni_endpoint_id node)) (\<lambda>found_endpoint.
     tbind (ttry (ok_or found_endpoint (invalid_enrollment_binding (lc_request_id claim)
         ''approved endpoint trust is missing''))) (\<lambda>endpoint_before.
     tseq (ttry (validate_enrollment_endpoint_origin j endpoint_before (lc_request_id claim)))
     (if et_node_id endpoint_before \<noteq> None then claim_retry X node j endpoint_before
      else claim_unbound X E claim actor node j endpoint_before))))))))))))"

end
