(* ===== verification/Fleet_Spec.thy ===== *)
theory Fleet_Spec
  imports Protocol
begin

text \<open>
  The contract of the controller's registry, independent of tables and transactions: a fleet is a map of
  nodes to the endpoint they point to, a map of endpoints to their trust, the enrollment tokens and the
  join requests. \<open>fleet_step\<close> lists the changes an operator can cause. The invariant of a fleet and the
  facts that no step can undo are proved here once; the store is shown to refine these steps.
\<close>

record fleet_trust =
  ft_node :: "string option"
  ft_fingerprint :: "string option"
  ft_status :: endpoint_status
  ft_generation :: nat
  ft_previous :: "string option"
  ft_next :: "string option"

record fleet_token =
  fk_max_uses :: nat
  fk_used :: nat
  fk_status :: token_status

record fleet_join =
  fj_token :: string
  fj_fingerprint :: string
  fj_status :: join_status
  fj_assigned :: "string option"

record fleet =
  fl_nodes :: "string \<rightharpoonup> string \<times> bool"
  fl_trust :: "string \<rightharpoonup> fleet_trust"
  fl_tokens :: "string \<rightharpoonup> fleet_token"
  fl_joins :: "string \<rightharpoonup> fleet_join"

definition empty_fleet :: fleet where
  "empty_fleet = \<lparr>fl_nodes = Map.empty, fl_trust = Map.empty, fl_tokens = Map.empty, fl_joins = Map.empty\<rparr>"

definition enrolled :: "string \<Rightarrow> string option \<Rightarrow> fleet_trust" where
  "enrolled m fp = \<lparr>ft_node = Some m, ft_fingerprint = fp, ft_status = EpActive, ft_generation = 1,
     ft_previous = None, ft_next = None\<rparr>"

definition unpointed :: "(string \<rightharpoonup> string \<times> bool) \<Rightarrow> string \<Rightarrow> bool" where
  "unpointed N e \<longleftrightarrow> (\<forall>m b. N m \<noteq> Some (e, b))"

definition unused_node :: "(string \<rightharpoonup> fleet_trust) \<Rightarrow> string \<Rightarrow> bool" where
  "unused_node T m \<longleftrightarrow> (\<forall>e t. T e = Some t \<longrightarrow> ft_node t \<noteq> Some m)"

text \<open>The active endpoints that removing a node has to revoke: those bound to it and the one it points to.\<close>

definition active_for :: "(string \<rightharpoonup> fleet_trust) \<Rightarrow> string \<Rightarrow> string \<Rightarrow> string set" where
  "active_for T m e = {x. \<exists>t. T x = Some t \<and> ft_status t = EpActive \<and> (ft_node t = Some m \<or> x = e)}"

text \<open>Revoking and quarantining an endpoint switch off the node that points to it.\<close>

definition switch_off :: "(string \<rightharpoonup> string \<times> bool) \<Rightarrow> string option \<Rightarrow> string \<Rightarrow> (string \<rightharpoonup> string \<times> bool)" where
  "switch_off N owner e =
     (case owner of Some m \<Rightarrow> if N m = Some (e, True) then N(m \<mapsto> (e, False)) else N | None \<Rightarrow> N)"

inductive status_change :: "endpoint_status \<Rightarrow> endpoint_status \<Rightarrow> bool" where
  revoke_active: "status_change EpActive EpRevoked"
| quarantine_active: "status_change EpActive EpQuarantined"
| revoke_quarantined: "status_change EpQuarantined EpRevoked"

inductive fleet_step :: "fleet \<Rightarrow> fleet \<Rightarrow> bool" where
  add:
    "fl_nodes s m = None \<Longrightarrow> unpointed (fl_nodes s) e \<Longrightarrow> fl_trust s e = None \<Longrightarrow>
     fleet_step s (s\<lparr>fl_nodes := (fl_nodes s)(m \<mapsto> (e, True)),
       fl_trust := (fl_trust s)(e \<mapsto> enrolled m None)\<rparr>)"
| enable:
    "fl_nodes s m = Some (e, b) \<Longrightarrow> fl_trust s e = Some t \<Longrightarrow> ft_status t = EpActive \<Longrightarrow> ft_node t = Some m \<Longrightarrow>
     fleet_step s (s\<lparr>fl_nodes := (fl_nodes s)(m \<mapsto> (e, True))\<rparr>)"
| disable:
    "fl_nodes s m = Some (e, b) \<Longrightarrow> fleet_step s (s\<lparr>fl_nodes := (fl_nodes s)(m \<mapsto> (e, False))\<rparr>)"
| remove:
    "fl_nodes s m = Some (e, b) \<Longrightarrow>
     active_for (fl_trust s) m e = {} \<Longrightarrow>
     fleet_step s (s\<lparr>fl_nodes := (fl_nodes s)(m := None)\<rparr>)"
| remove_active:
    "fl_nodes s m = Some (e, b) \<Longrightarrow> active_for (fl_trust s) m e = {a} \<Longrightarrow> fl_trust s a = Some t \<Longrightarrow>
     ft_next t = None \<Longrightarrow> unpointed ((fl_nodes s)(m := None)) a \<Longrightarrow>
     fleet_step s (s\<lparr>fl_nodes := (fl_nodes s)(m := None),
       fl_trust := (fl_trust s)(a \<mapsto> t\<lparr>ft_status := EpRevoked, ft_generation := ft_generation t + 1\<rparr>)\<rparr>)"
| restrict:
    "fl_trust s e = Some t \<Longrightarrow> status_change (ft_status t) st \<Longrightarrow> ft_next t = None \<Longrightarrow>
     fleet_step s (s\<lparr>fl_nodes := switch_off (fl_nodes s) (ft_node t) e,
       fl_trust := (fl_trust s)(e \<mapsto> t\<lparr>ft_status := st, ft_generation := ft_generation t + 1\<rparr>)\<rparr>)"
| rotate:
    "fl_trust s old = Some t \<Longrightarrow> ft_status t = EpActive \<or> ft_status t = EpQuarantined \<Longrightarrow> ft_next t = None \<Longrightarrow>
     ft_node t = Some m \<Longrightarrow> fl_nodes s m = Some (old, b) \<Longrightarrow>
     fl_trust s new = None \<Longrightarrow> unpointed (fl_nodes s) new \<Longrightarrow>
     fleet_step s (s\<lparr>fl_nodes := (fl_nodes s)(m \<mapsto> (new, b \<and> ft_status t = EpActive)),
       fl_trust := (fl_trust s)
         (old \<mapsto> t\<lparr>ft_status := EpRotated, ft_generation := ft_generation t + 1, ft_next := Some new\<rparr>,
          new \<mapsto> t\<lparr>ft_status := EpActive, ft_generation := ft_generation t + 1, ft_previous := Some old\<rparr>)\<rparr>)"
| reconcile:
    "fl_trust s old = Some t \<Longrightarrow> ft_status t = EpRotated \<Longrightarrow> ft_next t = Some new \<Longrightarrow> ft_node t = Some m \<Longrightarrow>
     fl_trust s new = Some u \<Longrightarrow> ft_previous u = Some old \<Longrightarrow> ft_node u = Some m \<Longrightarrow> ft_status u \<noteq> EpRotated \<Longrightarrow>
     fl_nodes s m = Some (old, b) \<Longrightarrow> unpointed (fl_nodes s) new \<Longrightarrow>
     fleet_step s (s\<lparr>fl_nodes := (fl_nodes s)(m \<mapsto> (new, b \<and> ft_status u = EpActive))\<rparr>)"
| issue:
    "fl_tokens s k = None \<Longrightarrow> 1 \<le> n \<Longrightarrow> n \<le> 10000 \<Longrightarrow>
     fleet_step s (s\<lparr>fl_tokens := (fl_tokens s)(k \<mapsto> \<lparr>fk_max_uses = n, fk_used = 0, fk_status = TokActive\<rparr>)\<rparr>)"
| close:
    "fl_tokens s k = Some t \<Longrightarrow> fk_status t = TokActive \<Longrightarrow> st \<noteq> TokActive \<Longrightarrow>
     fleet_step s (s\<lparr>fl_tokens := (fl_tokens s)(k \<mapsto> t\<lparr>fk_status := st\<rparr>)\<rparr>)"
| join:
    "fl_tokens s k = Some t \<Longrightarrow> fk_status t = TokActive \<Longrightarrow> fk_used t < fk_max_uses t \<Longrightarrow> fl_joins s r = None \<Longrightarrow>
     fleet_step s (s\<lparr>fl_tokens := (fl_tokens s)(k \<mapsto> t\<lparr>fk_used := fk_used t + 1\<rparr>),
       fl_joins := (fl_joins s)(r \<mapsto> \<lparr>fj_token = k, fj_fingerprint = fp, fj_status = JoinPending, fj_assigned = None\<rparr>)\<rparr>)"
| reject:
    "fl_joins s r = Some j \<Longrightarrow> fj_status j = JoinPending \<Longrightarrow>
     fleet_step s (s\<lparr>fl_joins := (fl_joins s)(r \<mapsto> j\<lparr>fj_status := JoinRejected\<rparr>)\<rparr>)"
| approve:
    "fl_joins s r = Some j \<Longrightarrow> fj_status j = JoinPending \<Longrightarrow>
     fl_nodes s m = None \<Longrightarrow> unpointed (fl_nodes s) e \<Longrightarrow> fl_trust s e = None \<Longrightarrow> unused_node (fl_trust s) m \<Longrightarrow>
     fleet_step s (s\<lparr>fl_nodes := (fl_nodes s)(m \<mapsto> (e, True)),
       fl_trust := (fl_trust s)(e \<mapsto> enrolled m (Some (fj_fingerprint j))),
       fl_joins := (fl_joins s)(r \<mapsto> j\<lparr>fj_status := JoinApproved, fj_assigned := Some e\<rparr>)\<rparr>)"
| claim:
    "fl_joins s r = Some j \<Longrightarrow> fj_status j = JoinApproved \<Longrightarrow> fj_assigned j = Some e \<Longrightarrow>
     fl_trust s e = Some t \<Longrightarrow> ft_node t = None \<Longrightarrow> ft_status t = EpActive \<Longrightarrow> ft_generation t = 1 \<Longrightarrow>
     ft_previous t = None \<Longrightarrow> ft_next t = None \<Longrightarrow> ft_fingerprint t = Some (fj_fingerprint j) \<Longrightarrow>
     fl_nodes s m = None \<Longrightarrow> unpointed (fl_nodes s) e \<Longrightarrow> unused_node (fl_trust s) m \<Longrightarrow>
     fleet_step s (s\<lparr>fl_nodes := (fl_nodes s)(m \<mapsto> (e, True)),
       fl_trust := (fl_trust s)(e \<mapsto> t\<lparr>ft_node := Some m\<rparr>)\<rparr>)"

section \<open>The invariant of a fleet\<close>

text \<open>Nodes and active endpoints point to each other: no two nodes share an endpoint, an active bound
  endpoint is the endpoint of its node, and an enabled node has an active endpoint bound to it.\<close>

definition binding_inv :: "(string \<rightharpoonup> string \<times> bool) \<Rightarrow> (string \<rightharpoonup> fleet_trust) \<Rightarrow> bool" where
  "binding_inv N T \<longleftrightarrow>
     (\<forall>m k e b c. N m = Some (e, b) \<longrightarrow> N k = Some (e, c) \<longrightarrow> m = k)
     \<and> (\<forall>e t m. T e = Some t \<longrightarrow> ft_status t = EpActive \<longrightarrow> ft_node t = Some m \<longrightarrow> (\<exists>b. N m = Some (e, b)))
     \<and> (\<forall>m e. N m = Some (e, True) \<longrightarrow> (\<exists>t. T e = Some t \<and> ft_status t = EpActive \<and> ft_node t = Some m))"

text \<open>The rotation edges: exactly the rotated rows have a successor, which points back and keeps the
  owner and the key, and every predecessor is rotated to its successor.\<close>

definition edge_ok :: "string \<Rightarrow> fleet_trust \<Rightarrow> string \<Rightarrow> fleet_trust \<Rightarrow> bool" where
  "edge_ok e t x u \<longleftrightarrow> ft_status t = EpRotated \<and> ft_next t = Some x \<and> ft_previous u = Some e
     \<and> ft_node t = ft_node u \<and> ft_fingerprint t = ft_fingerprint u \<and> ft_generation t \<le> ft_generation u"

definition lineage_inv :: "(string \<rightharpoonup> fleet_trust) \<Rightarrow> bool" where
  "lineage_inv T \<longleftrightarrow>
     (\<forall>e t. T e = Some t \<longrightarrow> 1 \<le> ft_generation t \<and> (ft_status t = EpRotated \<longleftrightarrow> ft_next t \<noteq> None))
     \<and> (\<forall>e t x. T e = Some t \<longrightarrow> ft_next t = Some x \<longrightarrow> (\<exists>u. T x = Some u \<and> edge_ok e t x u))
     \<and> (\<forall>x u e. T x = Some u \<longrightarrow> ft_previous u = Some e \<longrightarrow> (\<exists>t. T e = Some t \<and> edge_ok e t x u))"

text \<open>A token admits at most its limit of join requests, and its counter is their number.\<close>

definition token_joins :: "(string \<rightharpoonup> fleet_join) \<Rightarrow> string \<Rightarrow> string set" where
  "token_joins J k = {r. \<exists>j. J r = Some j \<and> fj_token j = k}"

definition token_inv :: "(string \<rightharpoonup> fleet_token) \<Rightarrow> (string \<rightharpoonup> fleet_join) \<Rightarrow> bool" where
  "token_inv K J \<longleftrightarrow> finite (dom J)
     \<and> (\<forall>r j. J r = Some j \<longrightarrow> K (fj_token j) \<noteq> None)
     \<and> (\<forall>k t. K k = Some t \<longrightarrow> fk_used t = card (token_joins J k) \<and> fk_used t \<le> fk_max_uses t
          \<and> 1 \<le> fk_max_uses t \<and> fk_max_uses t \<le> 10000)"

text \<open>An approved request has its endpoint in the registry, with the key it was submitted with, and no
  endpoint is assigned to two requests.\<close>

definition join_inv :: "(string \<rightharpoonup> fleet_trust) \<Rightarrow> (string \<rightharpoonup> fleet_join) \<Rightarrow> bool" where
  "join_inv T J \<longleftrightarrow>
     (\<forall>r j. J r = Some j \<longrightarrow> (fj_status j = JoinApproved \<longleftrightarrow> fj_assigned j \<noteq> None))
     \<and> (\<forall>r j e. J r = Some j \<longrightarrow> fj_assigned j = Some e \<longrightarrow>
          (\<exists>t. T e = Some t \<and> ft_fingerprint t = Some (fj_fingerprint j)))
     \<and> (\<forall>r j q i e. J r = Some j \<longrightarrow> J q = Some i \<longrightarrow> fj_assigned j = Some e \<longrightarrow> fj_assigned i = Some e \<longrightarrow> r = q)"

definition fleet_inv :: "fleet \<Rightarrow> bool" where
  "fleet_inv s \<longleftrightarrow> binding_inv (fl_nodes s) (fl_trust s) \<and> lineage_inv (fl_trust s)
     \<and> token_inv (fl_tokens s) (fl_joins s) \<and> join_inv (fl_trust s) (fl_joins s)"

section \<open>Progress\<close>

text \<open>What a sequence of steps can make of an endpoint, a token and a join request. Revoked and rotated
  endpoints, closed tokens and decided requests stay so.\<close>

fun status_reaches :: "endpoint_status \<Rightarrow> endpoint_status \<Rightarrow> bool" where
  "status_reaches EpActive _ = True"
| "status_reaches EpQuarantined st = (st \<noteq> EpActive)"
| "status_reaches EpRotated st = (st = EpRotated)"
| "status_reaches EpRevoked st = (st = EpRevoked)"

definition trust_progress :: "fleet_trust \<Rightarrow> fleet_trust \<Rightarrow> bool" where
  "trust_progress t u \<longleftrightarrow>
     ft_fingerprint u = ft_fingerprint t \<and> ft_previous u = ft_previous t
     \<and> (ft_node t \<noteq> None \<longrightarrow> ft_node u = ft_node t) \<and> (ft_next t \<noteq> None \<longrightarrow> ft_next u = ft_next t)
     \<and> status_reaches (ft_status t) (ft_status u) \<and> ft_generation t \<le> ft_generation u
     \<and> (ft_status t \<noteq> ft_status u \<longrightarrow> ft_generation t < ft_generation u)"

definition token_progress :: "fleet_token \<Rightarrow> fleet_token \<Rightarrow> bool" where
  "token_progress t u \<longleftrightarrow> fk_max_uses u = fk_max_uses t \<and> fk_used t \<le> fk_used u
     \<and> (fk_status t \<noteq> TokActive \<longrightarrow> u = t)"

definition join_progress :: "fleet_join \<Rightarrow> fleet_join \<Rightarrow> bool" where
  "join_progress j i \<longleftrightarrow> fj_token i = fj_token j \<and> fj_fingerprint i = fj_fingerprint j
     \<and> (fj_status j \<noteq> JoinPending \<longrightarrow> i = j)"

definition map_progress :: "('v \<Rightarrow> 'v \<Rightarrow> bool) \<Rightarrow> ('k \<rightharpoonup> 'v) \<Rightarrow> ('k \<rightharpoonup> 'v) \<Rightarrow> bool" where
  "map_progress R m m' \<longleftrightarrow> (\<forall>k v. m k = Some v \<longrightarrow> (\<exists>w. m' k = Some w \<and> R v w))"

definition fleet_progress :: "fleet \<Rightarrow> fleet \<Rightarrow> bool" where
  "fleet_progress s s' \<longleftrightarrow> map_progress trust_progress (fl_trust s) (fl_trust s')
     \<and> map_progress token_progress (fl_tokens s) (fl_tokens s')
     \<and> map_progress join_progress (fl_joins s) (fl_joins s')"

section \<open>Steps keep the binding invariant\<close>

lemma binding_invI:
  assumes "\<And>m k e b c. N m = Some (e, b) \<Longrightarrow> N k = Some (e, c) \<Longrightarrow> m = k"
    "\<And>e t m. T e = Some t \<Longrightarrow> ft_status t = EpActive \<Longrightarrow> ft_node t = Some m \<Longrightarrow> \<exists>b. N m = Some (e, b)"
    "\<And>m e. N m = Some (e, True) \<Longrightarrow> \<exists>t. T e = Some t \<and> ft_status t = EpActive \<and> ft_node t = Some m"
  shows "binding_inv N T"
  using assms unfolding binding_inv_def by blast

lemma binding_invD:
  assumes "binding_inv N T"
  shows "N m = Some (e, b) \<Longrightarrow> N k = Some (e, c) \<Longrightarrow> m = k"
    and "T e = Some t \<Longrightarrow> ft_status t = EpActive \<Longrightarrow> ft_node t = Some m \<Longrightarrow> \<exists>b. N m = Some (e, b)"
    and "N m = Some (e, True) \<Longrightarrow> \<exists>t. T e = Some t \<and> ft_status t = EpActive \<and> ft_node t = Some m"
  using assms unfolding binding_inv_def by blast+

lemma binding_active_pointed:
  "binding_inv N T \<Longrightarrow> T e = Some t \<Longrightarrow> ft_status t = EpActive \<Longrightarrow> ft_node t = Some m \<Longrightarrow> N m = Some (x, b) \<Longrightarrow> x = e"
  using binding_invD(2) by fastforce

lemma binding_enroll:
  assumes inv: "binding_inv N T" and "N m = None" "unpointed N e" "\<And>t. T e = Some t \<Longrightarrow> ft_node t = None"
    "ft_status u = EpActive" "ft_node u = Some m"
  shows "binding_inv (N(m \<mapsto> (e, True))) (T(e \<mapsto> u))"
proof (rule binding_invI)
  fix x t k
  assume "(T(e \<mapsto> u)) x = Some t" "ft_status t = EpActive" "ft_node t = Some k"
  then show "\<exists>b. (N(m \<mapsto> (e, True))) k = Some (x, b)"
    using assms(2-) binding_invD(2) [OF inv, of x t k] by (auto split: if_splits)
next
  fix k x
  assume "(N(m \<mapsto> (e, True))) k = Some (x, True)"
  then show "\<exists>t. (T(e \<mapsto> u)) x = Some t \<and> ft_status t = EpActive \<and> ft_node t = Some k"
    using assms(2-) binding_invD(3) [OF inv, of k x] by (auto simp: unpointed_def split: if_splits)
qed (use assms(2,3) in \<open>auto simp: unpointed_def dest: binding_invD(1) [OF inv] split: if_splits\<close>)

lemma binding_point:
  assumes inv: "binding_inv N T" and "N m = Some (e, b)" "c \<Longrightarrow> \<exists>t. T e = Some t \<and> ft_status t = EpActive \<and> ft_node t = Some m"
  shows "binding_inv (N(m \<mapsto> (e, c))) T"
  using assms(2-)
  by (intro binding_invI) (auto dest: binding_invD [OF inv] binding_active_pointed [OF inv] split: if_splits)

lemma active_for_single:
  assumes "active_for T m e = {a}"
  shows "\<exists>t. T a = Some t \<and> ft_status t = EpActive"
proof -
  have "a \<in> active_for T m e" using assms by simp
  then show ?thesis by (auto simp: active_for_def)
qed

lemma binding_remove:
  assumes inv: "binding_inv N T" and "active_for T m e = {}"
  shows "binding_inv (N(m := None)) T"
  using assms(2) by (intro binding_invI) (auto simp: active_for_def dest: binding_invD [OF inv] split: if_splits)

lemma binding_remove_active:
  assumes inv: "binding_inv N T" and "ft_status u \<noteq> EpActive" "unpointed (N(m := None)) a" "active_for T m e = {a}"
  shows "binding_inv (N(m := None)) (T(a \<mapsto> u))"
proof (rule binding_invI)
  fix x t k
  assume t: "(T(a \<mapsto> u)) x = Some t" "ft_status t = EpActive" "ft_node t = Some k"
  then have x: "x \<noteq> a" "T x = Some t" using assms(2) by (auto split: if_splits)
  then have "k \<noteq> m" using t assms(4) by (auto simp: active_for_def)
  then show "\<exists>b. (N(m := None)) k = Some (x, b)" using x t binding_invD(2) [OF inv, of x t k] by simp
next
  fix k x
  assume "(N(m := None)) k = Some (x, True)"
  then show "\<exists>t. (T(a \<mapsto> u)) x = Some t \<and> ft_status t = EpActive \<and> ft_node t = Some k"
    using assms(3) binding_invD(3) [OF inv, of k x] by (auto simp: unpointed_def split: if_splits)
qed (auto dest: binding_invD(1) [OF inv] split: if_splits)

lemma binding_restrict:
  assumes inv: "binding_inv N T" and "ft_status u \<noteq> EpActive" "\<And>m. N m \<noteq> Some (e, True)"
  shows "binding_inv N (T(e \<mapsto> u))"
  using assms(2-) by (intro binding_invI) (auto dest: binding_invD [OF inv] split: if_splits)

lemma binding_switch_off: "binding_inv N T \<Longrightarrow> binding_inv (switch_off N w e) T"
  by (auto simp: switch_off_def binding_point simp del: fun_upd_apply split: option.splits)

lemma switch_off_off:
  assumes "binding_inv N T" "T e = Some t"
  shows "switch_off N (ft_node t) e m \<noteq> Some (e, True)"
  using binding_invD(3) [OF assms(1), of m e] assms(2) by (auto simp: switch_off_def split: option.splits)

lemma binding_rotate:
  assumes inv: "binding_inv N T" and "T old = Some t" "ft_node t = Some m" "N m = Some (old, b)"
    "unpointed N new" "T new = None" "ft_status u \<noteq> EpActive" "ft_status v = EpActive" "ft_node v = Some m"
  shows "binding_inv (N(m \<mapsto> (new, c))) (T(old \<mapsto> u, new \<mapsto> v))"
proof (rule binding_invI)
  fix e t' k
  assume "(T(old \<mapsto> u, new \<mapsto> v)) e = Some t'" "ft_status t' = EpActive" "ft_node t' = Some k"
  then show "\<exists>b. (N(m \<mapsto> (new, c))) k = Some (e, b)"
    using assms(2-) binding_invD(2) [OF inv, of e t' k] binding_active_pointed [OF inv, of e t' m old b]
    by (auto split: if_splits)
next
  fix k e
  assume "(N(m \<mapsto> (new, c))) k = Some (e, True)"
  then show "\<exists>t. (T(old \<mapsto> u, new \<mapsto> v)) e = Some t \<and> ft_status t = EpActive \<and> ft_node t = Some k"
    using assms(2-) binding_invD(3) [OF inv, of k e] by (auto simp: unpointed_def split: if_splits)
qed (use assms(4,5) in \<open>auto simp: unpointed_def dest: binding_invD(1) [OF inv] split: if_splits\<close>)

lemma binding_reconcile:
  assumes inv: "binding_inv N T" and "N m = Some (old, b)" "unpointed N new"
    "T new = Some u" "ft_node u = Some m" "T old = Some t" "ft_status t \<noteq> EpActive"
    "c \<Longrightarrow> ft_status u = EpActive"
  shows "binding_inv (N(m \<mapsto> (new, c))) T"
proof (rule binding_invI)
  fix e v k
  assume v: "T e = Some v" "ft_status v = EpActive" "ft_node v = Some k"
  then have "k \<noteq> m" using assms(2,6,7) binding_active_pointed [OF inv v] by auto
  with v show "\<exists>b. (N(m \<mapsto> (new, c))) k = Some (e, b)" using binding_invD(2) [OF inv v] by simp
next
  fix k e
  assume "(N(m \<mapsto> (new, c))) k = Some (e, True)"
  then show "\<exists>t. T e = Some t \<and> ft_status t = EpActive \<and> ft_node t = Some k"
    using assms(4,5,8) binding_invD(3) [OF inv, of k e] by (auto split: if_splits)
qed (use assms(3) in \<open>auto simp: unpointed_def dest: binding_invD(1) [OF inv] split: if_splits\<close>)

lemma binding_step: "fleet_step s s' \<Longrightarrow> binding_inv (fl_nodes s) (fl_trust s) \<Longrightarrow> binding_inv (fl_nodes s') (fl_trust s')"
proof (induction rule: fleet_step.induct)
  case (add s m e)
  then show ?case by (auto intro!: binding_enroll simp: enrolled_def simp del: fun_upd_apply)
next
  case (enable s m e b t)
  then show ?case by (simp del: fun_upd_apply add: binding_point)
next
  case (disable s m e b)
  then show ?case by (simp del: fun_upd_apply add: binding_point)
next
  case (remove s m e b)
  then show ?case by (simp del: fun_upd_apply add: binding_remove)
next
  case (remove_active s m e b a t)
  then show ?case by (simp add: binding_remove_active del: fun_upd_apply)
next
  case (restrict s e t st)
  then have "st \<noteq> EpActive" by (auto elim: status_change.cases)
  with restrict show ?case
    by (simp del: fun_upd_apply add: binding_restrict binding_switch_off switch_off_off)
next
  case (rotate s old t m b new)
  then show ?case by (simp del: fun_upd_apply add: binding_rotate)
next
  case (reconcile s old t new m u b)
  then show ?case by (simp del: fun_upd_apply add: binding_reconcile)
next
  case (approve s r j m e)
  then show ?case by (auto intro!: binding_enroll simp: enrolled_def simp del: fun_upd_apply)
next
  case (claim s r j e t m)
  then show ?case by (auto intro!: binding_enroll simp del: fun_upd_apply)
qed (simp_all del: fun_upd_apply)

section \<open>Steps keep the lineage\<close>

lemma lineage_invI:
  assumes "\<And>e t. T e = Some t \<Longrightarrow> 1 \<le> ft_generation t \<and> (ft_status t = EpRotated \<longleftrightarrow> ft_next t \<noteq> None)"
    "\<And>e t x. T e = Some t \<Longrightarrow> ft_next t = Some x \<Longrightarrow> \<exists>u. T x = Some u \<and> edge_ok e t x u"
    "\<And>x u e. T x = Some u \<Longrightarrow> ft_previous u = Some e \<Longrightarrow> \<exists>t. T e = Some t \<and> edge_ok e t x u"
  shows "lineage_inv T"
  using assms unfolding lineage_inv_def by blast

lemma lineage_invD:
  assumes "lineage_inv T"
  shows "T e = Some t \<Longrightarrow> 1 \<le> ft_generation t" "T e = Some t \<Longrightarrow> ft_status t = EpRotated \<longleftrightarrow> ft_next t \<noteq> None"
    and "T e = Some t \<Longrightarrow> ft_next t = Some x \<Longrightarrow> \<exists>u. T x = Some u \<and> edge_ok e t x u"
    and "T x = Some u \<Longrightarrow> ft_previous u = Some e \<Longrightarrow> \<exists>t. T e = Some t \<and> edge_ok e t x u"
  using assms unfolding lineage_inv_def by blast+

lemma lineage_fresh:
  assumes inv: "lineage_inv T" and "T e = None" "ft_next u = None" "ft_previous u = None"
    "ft_status u \<noteq> EpRotated" "1 \<le> ft_generation u"
  shows "lineage_inv (T(e \<mapsto> u))"
proof (rule lineage_invI)
  fix x t y
  assume "(T(e \<mapsto> u)) x = Some t" "ft_next t = Some y"
  then show "\<exists>v. (T(e \<mapsto> u)) y = Some v \<and> edge_ok x t y v"
    using assms(2,3) lineage_invD(3) [OF inv, of x t y] by (auto split: if_splits)
next
  fix x v y
  assume "(T(e \<mapsto> u)) x = Some v" "ft_previous v = Some y"
  then show "\<exists>t. (T(e \<mapsto> u)) y = Some t \<and> edge_ok y t x v"
    using assms(2,4) lineage_invD(4) [OF inv, of x v y] by (auto split: if_splits)
qed (use assms(3,5,6) in \<open>auto dest: lineage_invD(1,2) [OF inv] split: if_splits\<close>)

lemma lineage_touch:
  assumes inv: "lineage_inv T" and "T e = Some t" "ft_next t = None" "ft_next u = None"
    "ft_status u \<noteq> EpRotated" "ft_generation t \<le> ft_generation u"
    "ft_previous u = ft_previous t" "ft_fingerprint u = ft_fingerprint t"
    "ft_previous t = None \<or> ft_node u = ft_node t"
  shows "lineage_inv (T(e \<mapsto> u))"
proof (rule lineage_invI)
  fix x v y
  assume v: "(T(e \<mapsto> u)) x = Some v" "ft_next v = Some y"
  with assms(4) have "x \<noteq> e" by auto
  with v obtain w where w: "T y = Some w" "edge_ok x v y w" using lineage_invD(3) [OF inv, of x v y] by auto
  have "edge_ok x v e u" if "y = e" using w that assms(2,6-9) by (auto simp: edge_ok_def)
  then show "\<exists>w. (T(e \<mapsto> u)) y = Some w \<and> edge_ok x v y w" using w by simp
next
  fix x v y
  assume v: "(T(e \<mapsto> u)) x = Some v" "ft_previous v = Some y"
  show "\<exists>w. (T(e \<mapsto> u)) y = Some w \<and> edge_ok y w x v"
  proof (cases "x = e")
    case True
    then have vu: "v = u" and p: "ft_previous t = Some y" using v assms(7) by auto
    then obtain w where w: "T y = Some w" "edge_ok y w e t" using assms(2) lineage_invD(4) [OF inv] by blast
    then have "y \<noteq> e" using assms(2,3) by (auto simp: edge_ok_def)
    moreover have "edge_ok y w x v" using w(2) p assms(6-9) by (simp add: vu True edge_ok_def)
    ultimately show ?thesis using w(1) by simp
  next
    case False
    then obtain w where w: "T y = Some w" "edge_ok y w x v"
      using v lineage_invD(4) [OF inv, of x v y] by auto
    then have "y \<noteq> e" using assms(2,3) by (auto simp: edge_ok_def)
    then show ?thesis using w by simp
  qed
next
  fix x v
  assume "(T(e \<mapsto> u)) x = Some v"
  then show "1 \<le> ft_generation v \<and> (ft_status v = EpRotated \<longleftrightarrow> ft_next v \<noteq> None)"
    using assms(4-6) lineage_invD(1) [OF inv assms(2)] lineage_invD(1,2) [OF inv, of x v]
    by (cases "x = e") auto
qed

lemma lineage_rotate:
  assumes inv: "lineage_inv T" and "T old = Some t" "ft_next t = None" "T new = None"
    and u: "u = t\<lparr>ft_status := EpRotated, ft_generation := g, ft_next := Some new\<rparr>"
    and v: "v = t\<lparr>ft_status := EpActive, ft_generation := g, ft_previous := Some old\<rparr>"
    and "ft_generation t \<le> g" and ne: "old \<noteq> new"
  shows "lineage_inv (T(old \<mapsto> u, new \<mapsto> v))"
proof (rule lineage_invI)
  fix x w y
  assume w: "(T(old \<mapsto> u, new \<mapsto> v)) x = Some w" "ft_next w = Some y"
  show "\<exists>z. (T(old \<mapsto> u, new \<mapsto> v)) y = Some z \<and> edge_ok x w y z"
  proof (cases "x = old")
    case True
    then show ?thesis using w ne by (auto simp: edge_ok_def u v)
  next
    case False
    then have "T x = Some w" using w assms(3) by (auto simp: v split: if_splits)
    then obtain z where z: "T y = Some z" "edge_ok x w y z" using w lineage_invD(3) [OF inv, of x w y] by auto
    have "edge_ok x w old u" if "y = old" using z that u assms(2,7) by (auto simp: edge_ok_def)
    then show ?thesis using z assms(4) by auto
  qed
next
  fix x w y
  assume w: "(T(old \<mapsto> u, new \<mapsto> v)) x = Some w" "ft_previous w = Some y"
  show "\<exists>z. (T(old \<mapsto> u, new \<mapsto> v)) y = Some z \<and> edge_ok y z x w"
  proof (cases "x = new")
    case True
    then show ?thesis using w ne by (auto simp: edge_ok_def u v)
  next
    case False
    define w0 where "w0 = (if x = old then t else w)"
    have "T x = Some w0" "ft_previous w0 = Some y"
      using w False assms(2) by (cases "x = old"; simp add: w0_def u; fastforce)+
    then obtain z where z: "T y = Some z" "edge_ok y z x w0" using lineage_invD(4) [OF inv] by blast
    have "y \<noteq> old" "y \<noteq> new" using z assms(2-4) by (auto simp: edge_ok_def)
    moreover have "edge_ok y z x w" using z w False assms(7) by (cases "x = old") (auto simp: edge_ok_def w0_def u)
    ultimately show ?thesis using z by simp
  qed
next
  fix x w
  assume "(T(old \<mapsto> u, new \<mapsto> v)) x = Some w"
  then show "1 \<le> ft_generation w \<and> (ft_status w = EpRotated \<longleftrightarrow> ft_next w \<noteq> None)"
    using ne assms(3,7) lineage_invD(1) [OF inv assms(2)] lineage_invD(1,2) [OF inv, of x w]
    by (cases "x = new"; cases "x = old") (auto simp: u v)
qed

lemma lineage_step: "fleet_step s s' \<Longrightarrow> lineage_inv (fl_trust s) \<Longrightarrow> lineage_inv (fl_trust s')"
proof (induction rule: fleet_step.induct)
  case (add s m e)
  then show ?case by (simp add: lineage_fresh enrolled_def del: fun_upd_apply)
next
  case (remove_active s m e b a t)
  have "lineage_inv ((fl_trust s)(a \<mapsto> t\<lparr>ft_status := EpRevoked, ft_generation := ft_generation t + 1\<rparr>))"
    by (rule lineage_touch [OF remove_active.prems remove_active.hyps(3)]) (simp_all add: remove_active.hyps(4))
  then show ?case by (simp del: fun_upd_apply)
next
  case (restrict s e t st)
  then have "st \<noteq> EpRotated" by (auto elim: status_change.cases)
  with restrict have "lineage_inv ((fl_trust s)(e \<mapsto> t\<lparr>ft_status := st, ft_generation := ft_generation t + 1\<rparr>))"
    by (intro lineage_touch [OF restrict.prems restrict.hyps(1)]) simp_all
  then show ?case by (simp del: fun_upd_apply)
next
  case (rotate s old t m b new)
  then have "old \<noteq> new" by auto
  with rotate show ?case by (simp add: lineage_rotate del: fun_upd_apply)
next
  case (approve s r j m e)
  then show ?case by (simp add: lineage_fresh enrolled_def del: fun_upd_apply)
next
  case (claim s r j e t m)
  then have "lineage_inv ((fl_trust s)(e \<mapsto> t\<lparr>ft_node := Some m\<rparr>))"
    by (intro lineage_touch [OF claim.prems claim.hyps(4)]) simp_all
  then show ?case by (simp del: fun_upd_apply)
qed (simp_all del: fun_upd_apply)

section \<open>Steps keep the tokens and requests\<close>

lemma token_joins_simps:
  "J r = None \<Longrightarrow> token_joins (J(r \<mapsto> j)) k = (if fj_token j = k then insert r (token_joins J k) else token_joins J k)"
  "J r = Some i \<Longrightarrow> fj_token j = fj_token i \<Longrightarrow> token_joins (J(r \<mapsto> j)) k = token_joins J k"
  by (auto simp: token_joins_def)

lemma token_joins_finite: "finite (dom J) \<Longrightarrow> finite (token_joins J k)"
  by (rule finite_subset [of _ "dom J"]) (auto simp: token_joins_def)

lemma token_invI:
  assumes "finite (dom J)" "\<And>r j. J r = Some j \<Longrightarrow> K (fj_token j) \<noteq> None"
    "\<And>k t. K k = Some t \<Longrightarrow> fk_used t = card (token_joins J k) \<and> fk_used t \<le> fk_max_uses t
        \<and> 1 \<le> fk_max_uses t \<and> fk_max_uses t \<le> 10000"
  shows "token_inv K J"
  using assms unfolding token_inv_def by blast

lemma token_invD:
  assumes "token_inv K J"
  shows "finite (dom J)" "J r = Some j \<Longrightarrow> K (fj_token j) \<noteq> None"
    "K k = Some t \<Longrightarrow> fk_used t = card (token_joins J k)" "K k = Some t \<Longrightarrow> fk_used t \<le> fk_max_uses t"
    "K k = Some t \<Longrightarrow> 1 \<le> fk_max_uses t" "K k = Some t \<Longrightarrow> fk_max_uses t \<le> 10000"
  using assms unfolding token_inv_def by blast+

lemma token_touch:
  assumes inv: "token_inv K J" and "J r = Some j" "fj_token i = fj_token j"
  shows "token_inv K (J(r \<mapsto> i))"
proof (rule token_invI)
  show "finite (dom (J(r \<mapsto> i)))" using token_invD(1) [OF inv] by simp
next
  fix q l
  assume "(J(r \<mapsto> i)) q = Some l"
  then show "K (fj_token l) \<noteq> None" using assms(2,3) token_invD(2) [OF inv] by (cases "q = r") auto
next
  fix k t
  assume "K k = Some t"
  then show "fk_used t = card (token_joins (J(r \<mapsto> i)) k) \<and> fk_used t \<le> fk_max_uses t
      \<and> 1 \<le> fk_max_uses t \<and> fk_max_uses t \<le> 10000"
    using token_invD(3-6) [OF inv, of k t] using assms(2,3) by (simp add: token_joins_simps(2))
qed

lemma token_issue:
  assumes inv: "token_inv K J" and "K k = None" "1 \<le> n" "n \<le> 10000"
  shows "token_inv (K(k \<mapsto> \<lparr>fk_max_uses = n, fk_used = 0, fk_status = st\<rparr>)) J"
proof -
  have "token_joins J k = {}" using assms(2) token_invD(2) [OF inv] by (fastforce simp: token_joins_def)
  then show ?thesis using assms(3,4) by (intro token_invI) (auto dest: token_invD(2-6) [OF inv] simp: token_invD(1) [OF inv] split: if_splits)
qed

lemma token_close:
  assumes inv: "token_inv K J" and "K k = Some t"
  shows "token_inv (K(k \<mapsto> t\<lparr>fk_status := st\<rparr>)) J"
  using assms(2) by (intro token_invI) (auto dest: token_invD(2-6) [OF inv] simp: token_invD(1) [OF inv] split: if_splits)

lemma token_use:
  assumes inv: "token_inv K J" and "K k = Some t" "fk_used t < fk_max_uses t" "J r = None" "fj_token j = k"
  shows "token_inv (K(k \<mapsto> t\<lparr>fk_used := fk_used t + 1\<rparr>)) (J(r \<mapsto> j))"
proof -
  have "r \<notin> token_joins J k" using assms(4) by (simp add: token_joins_def)
  then have "card (insert r (token_joins J k)) = fk_used t + 1"
    using token_joins_finite [OF token_invD(1) [OF inv]] token_invD(3) [OF inv assms(2)] by simp
  note card = this
  show ?thesis
  proof (rule token_invI)
    fix i l
    assume "(K(k \<mapsto> t\<lparr>fk_used := fk_used t + 1\<rparr>)) i = Some l"
    then show "fk_used l = card (token_joins (J(r \<mapsto> j)) i) \<and> fk_used l \<le> fk_max_uses l
        \<and> 1 \<le> fk_max_uses l \<and> fk_max_uses l \<le> 10000"
      using assms(3) card token_invD(3-6) [OF inv, of i l] token_invD(5,6) [OF inv assms(2)]
      by (cases "i = k") (auto simp: token_joins_simps(1) [where J = J and r = r, OF assms(4)] assms(5))
  qed (use assms(2,5) in \<open>auto simp: token_invD(1) [OF inv] dest: token_invD(2) [OF inv] split: if_splits\<close>)
qed

lemma token_step:
  "fleet_step s s' \<Longrightarrow> token_inv (fl_tokens s) (fl_joins s) \<Longrightarrow> token_inv (fl_tokens s') (fl_joins s')"
proof (induction rule: fleet_step.induct)
  case (issue s k n)
  then show ?case by (simp add: token_issue del: fun_upd_apply)
next
  case (close s k t st)
  then show ?case by (simp add: token_close del: fun_upd_apply)
next
  case (join s k t r fp)
  have "token_inv ((fl_tokens s)(k \<mapsto> t\<lparr>fk_used := fk_used t + 1\<rparr>))
      ((fl_joins s)(r \<mapsto> \<lparr>fj_token = k, fj_fingerprint = fp, fj_status = JoinPending, fj_assigned = None\<rparr>))"
    by (rule token_use [OF join.prems join.hyps(1,3,4)]) simp
  then show ?case by (simp del: fun_upd_apply)
next
  case (reject s r j)
  then show ?case by (simp add: token_touch del: fun_upd_apply)
next
  case (approve s r j m e)
  then show ?case by (simp add: token_touch del: fun_upd_apply)
qed (simp_all del: fun_upd_apply)

lemma join_invI:
  assumes "\<And>r j. J r = Some j \<Longrightarrow> fj_status j = JoinApproved \<longleftrightarrow> fj_assigned j \<noteq> None"
    "\<And>r j e. J r = Some j \<Longrightarrow> fj_assigned j = Some e \<Longrightarrow> \<exists>t. T e = Some t \<and> ft_fingerprint t = Some (fj_fingerprint j)"
    "\<And>r j q i e. J r = Some j \<Longrightarrow> J q = Some i \<Longrightarrow> fj_assigned j = Some e \<Longrightarrow> fj_assigned i = Some e \<Longrightarrow> r = q"
  shows "join_inv T J"
  using assms unfolding join_inv_def by blast

lemma join_invD:
  assumes "join_inv T J"
  shows "J r = Some j \<Longrightarrow> fj_status j = JoinApproved \<longleftrightarrow> fj_assigned j \<noteq> None"
    "J r = Some j \<Longrightarrow> fj_assigned j = Some e \<Longrightarrow> \<exists>t. T e = Some t \<and> ft_fingerprint t = Some (fj_fingerprint j)"
    "J r = Some j \<Longrightarrow> J q = Some i \<Longrightarrow> fj_assigned j = Some e \<Longrightarrow> fj_assigned i = Some e \<Longrightarrow> r = q"
  using assms unfolding join_inv_def by blast+

lemma join_frame:
  assumes "join_inv T J" "\<And>e t. T e = Some t \<Longrightarrow> \<exists>u. T' e = Some u \<and> ft_fingerprint u = ft_fingerprint t"
  shows "join_inv T' J"
  using assms(2) by (intro join_invI) (fastforce dest: join_invD [OF assms(1)])+

lemma join_pending:
  assumes inv: "join_inv T J" and "fj_assigned i = None" "fj_status i \<noteq> JoinApproved"
  shows "join_inv T (J(r \<mapsto> i))"
  using assms(2,3) by (intro join_invI) (auto dest: join_invD [OF inv] split: if_splits)

lemma join_approve:
  assumes inv: "join_inv T J" and "T e = None" "fj_status i = JoinApproved" "fj_assigned i = Some e"
    "ft_fingerprint u = Some (fj_fingerprint i)"
  shows "join_inv (T(e \<mapsto> u)) (J(r \<mapsto> i))"
proof -
  have fresh: "fj_assigned j \<noteq> Some e" if "J q = Some j" for q j
    using assms(2) that join_invD(2) [OF inv, of q j e] by auto
  have frame: "join_inv (T(e \<mapsto> u)) J" by (rule join_frame [OF inv]) (use assms(2) in auto)
  show ?thesis using fresh assms(3-5)
    by (intro join_invI) (auto dest: join_invD [OF frame] split: if_splits)
qed

section \<open>Steps only progress\<close>

lemma trust_progress_refl [simp]: "trust_progress t t"
  by (cases "ft_status t") (auto simp: trust_progress_def)

lemma map_progress_refl [simp]: "(\<And>v. R v v) \<Longrightarrow> map_progress R m m"
  by (simp add: map_progress_def)

lemma map_progress_upd:
  "(\<And>v. R v v) \<Longrightarrow> m k = None \<Longrightarrow> map_progress R m (m(k \<mapsto> w))"
  "(\<And>v. R v v) \<Longrightarrow> m k = Some v \<Longrightarrow> R v w \<Longrightarrow> map_progress R m (m(k \<mapsto> w))"
  by (simp_all add: map_progress_def)

lemma map_progress_trans:
  "(\<And>u v w. R u v \<Longrightarrow> R v w \<Longrightarrow> R u w) \<Longrightarrow> map_progress R a b \<Longrightarrow> map_progress R b c \<Longrightarrow> map_progress R a c"
  unfolding map_progress_def by meson

lemma status_reaches_trans: "status_reaches a b \<Longrightarrow> status_reaches b c \<Longrightarrow> status_reaches a c"
  by (cases a; cases b) auto

lemma progress_refl [simp]: "token_progress k k" "join_progress j j"
  by (auto simp: token_progress_def join_progress_def)

lemma progress_trans:
  "trust_progress t u \<Longrightarrow> trust_progress u v \<Longrightarrow> trust_progress t v"
  "token_progress a b \<Longrightarrow> token_progress b c \<Longrightarrow> token_progress a c"
  "join_progress i j \<Longrightarrow> join_progress j k \<Longrightarrow> join_progress i k"
  by (auto simp: trust_progress_def intro: status_reaches_trans) (auto simp: token_progress_def join_progress_def)

lemma fleet_progress_refl [simp]: "fleet_progress s s"
  by (simp add: fleet_progress_def)

lemma fleet_progress_trans: "fleet_progress a b \<Longrightarrow> fleet_progress b c \<Longrightarrow> fleet_progress a c"
  unfolding fleet_progress_def by (meson map_progress_trans progress_trans)

lemma status_change_reaches: "status_change a b \<Longrightarrow> status_reaches a b \<and> a \<noteq> b"
  by (cases rule: status_change.cases) auto

lemma progress_step: "fleet_step s s' \<Longrightarrow> fleet_progress s s'"
proof (induction rule: fleet_step.induct)
  case (restrict s e t st)
  then have "trust_progress t (t\<lparr>ft_status := st, ft_generation := ft_generation t + 1\<rparr>)"
    using status_change_reaches by (simp add: trust_progress_def)
  with restrict show ?case by (simp add: fleet_progress_def map_progress_upd del: fun_upd_apply)
next
  case (rotate s old t m b new)
  let ?u = "t\<lparr>ft_status := EpRotated, ft_generation := ft_generation t + 1, ft_next := Some new\<rparr>"
  have "trust_progress t ?u" using rotate.hyps(2,3) by (auto simp: trust_progress_def)
  moreover have "old \<noteq> new" using rotate by auto
  ultimately have "map_progress trust_progress (fl_trust s) ((fl_trust s)(old \<mapsto> ?u, new \<mapsto> v))" for v
    using rotate.hyps(1,6) by (auto simp: map_progress_def)
  then show ?case by (simp add: fleet_progress_def del: fun_upd_apply)
next
  case (remove_active s m e b a t)
  have "ft_status t = EpActive" using active_for_single [OF remove_active.hyps(2)] remove_active.hyps(3) by auto
  then have "trust_progress t (t\<lparr>ft_status := EpRevoked, ft_generation := ft_generation t + 1\<rparr>)"
    by (simp add: trust_progress_def)
  with remove_active.hyps(3) show ?case by (simp add: fleet_progress_def map_progress_upd del: fun_upd_apply)
next
  case (claim s r j e t m)
  then have "trust_progress t (t\<lparr>ft_node := Some m\<rparr>)" by (simp add: trust_progress_def)
  with claim show ?case by (simp add: fleet_progress_def map_progress_upd del: fun_upd_apply)
next
  case (close s k t st)
  then show ?case by (simp add: fleet_progress_def map_progress_upd token_progress_def del: fun_upd_apply)
next
  case (join s k t r fp)
  then show ?case by (simp add: fleet_progress_def map_progress_upd token_progress_def del: fun_upd_apply)
next
  case (reject s r j)
  then show ?case by (simp add: fleet_progress_def map_progress_upd join_progress_def del: fun_upd_apply)
next
  case (approve s r j m e)
  then show ?case by (simp add: fleet_progress_def map_progress_upd join_progress_def del: fun_upd_apply)
qed (simp_all add: fleet_progress_def map_progress_upd del: fun_upd_apply)

lemma progress_fingerprint:
  "fleet_step s s' \<Longrightarrow> fl_trust s e = Some t \<Longrightarrow> \<exists>u. fl_trust s' e = Some u \<and> ft_fingerprint u = ft_fingerprint t"
  using progress_step [of s s'] by (fastforce simp: fleet_progress_def map_progress_def trust_progress_def)

lemma join_step: "fleet_step s s' \<Longrightarrow> join_inv (fl_trust s) (fl_joins s) \<Longrightarrow> join_inv (fl_trust s') (fl_joins s')"
proof -
  assume step: "fleet_step s s'" and inv: "join_inv (fl_trust s) (fl_joins s)"
  have frame: "join_inv (fl_trust s') (fl_joins s)" by (rule join_frame [OF inv]) (rule progress_fingerprint [OF step])
  from step show ?thesis
  proof cases
    case (join k t r fp)
    then show ?thesis using inv by (simp add: join_pending del: fun_upd_apply)
  next
    case (reject r j)
    moreover from this have "fj_assigned j = None" using join_invD(1) [OF inv, of r j] by auto
    ultimately show ?thesis using inv by (simp add: join_pending del: fun_upd_apply)
  next
    case (approve r j m e)
    then show ?thesis using inv by (simp add: join_approve enrolled_def del: fun_upd_apply)
  qed (use frame in \<open>simp_all del: fun_upd_apply\<close>)
qed

text \<open>The empty fleet satisfies the invariant and every step keeps it.\<close>

lemma fleet_inv_empty: "fleet_inv empty_fleet"
  by (simp add: fleet_inv_def empty_fleet_def binding_inv_def lineage_inv_def token_inv_def join_inv_def)

lemma fleet_inv_step: "fleet_step s s' \<Longrightarrow> fleet_inv s \<Longrightarrow> fleet_inv s'"
  by (simp add: fleet_inv_def binding_step lineage_step token_step join_step)

end
