(* ===== verification/Store_Logic.thy ===== *)
theory Store_Logic
  imports Enrollment Fleet_Spec
begin

text \<open>
  The reading of the database as a fleet, and one verification rule per statement of the store. A rule
  for a write describes the new table as an update of the map its rows stand for.
\<close>

section \<open>The abstraction\<close>

definition node_view :: "node_row \<Rightarrow> string \<times> bool" where
  "node_view r = (nr_endpoint_id r, nr_enabled r)"

definition trust_view :: "endpoint_trust \<Rightarrow> fleet_trust" where
  "trust_view r = \<lparr>ft_node = et_node_id r, ft_fingerprint = et_fingerprint r, ft_status = et_status r,
     ft_generation = et_generation r, ft_previous = et_previous_endpoint_id r, ft_next = et_rotated_to r\<rparr>"

definition token_view :: "enrollment_token \<Rightarrow> fleet_token" where
  "token_view r = \<lparr>fk_max_uses = tk_max_uses r, fk_used = tk_used_count r, fk_status = tk_status r\<rparr>"

definition join_view :: "join_request \<Rightarrow> fleet_join" where
  "join_view r = \<lparr>fj_token = jr_token_id r, fj_fingerprint = jr_fingerprint r, fj_status = jr_status r,
     fj_assigned = jr_assigned_endpoint_id r\<rparr>"

definition abs_db :: "store_db \<Rightarrow> fleet" where
  "abs_db db = \<lparr>fl_nodes = table nr_node_id node_view (db_nodes db),
     fl_trust = table et_endpoint_id trust_view (db_trust db),
     fl_tokens = table tk_token_id token_view (db_tokens db),
     fl_joins = table jr_request_id join_view (db_joins db)\<rparr>"

text \<open>The uniqueness the schema enforces.\<close>

definition keys_ok :: "store_db \<Rightarrow> bool" where
  "keys_ok db \<longleftrightarrow> distinct (map nr_node_id (db_nodes db)) \<and> distinct (map nr_endpoint_id (db_nodes db))
     \<and> distinct (map et_endpoint_id (db_trust db)) \<and> distinct (map tk_token_id (db_tokens db))
     \<and> distinct (map jr_request_id (db_joins db))"

text \<open>The audit log grows by consecutively numbered records of one actor.\<close>

definition recorded :: "string \<Rightarrow> store_db \<Rightarrow> store_db \<Rightarrow> bool" where
  "recorded actor db db' \<longleftrightarrow> (\<exists>evs. evs \<noteq> [] \<and> db_audit db' = db_audit db @ evs
     \<and> map fst evs = [Suc (db_audit_seq db)..<Suc (db_audit_seq db) + length evs]
     \<and> db_audit_seq db' = db_audit_seq db + length evs \<and> (\<forall>ev\<in>set evs. ae_actor (snd ev) = actor))"

text \<open>What a committed operation does.\<close>

definition commits :: "string \<Rightarrow> store_db \<Rightarrow> store_db \<Rightarrow> bool" where
  "commits actor db db' \<longleftrightarrow> keys_ok db' \<and>
     (db' = db \<or> fleet_step\<^sup>=\<^sup>= (abs_db db) (abs_db db') \<and> recorded actor db db')"

section \<open>Statements\<close>

lemma vcg_query [vcg]: "(\<And>a. q db = Inr a \<Longrightarrow> Q a db) \<Longrightarrow> post (query q) db Q"
  by (simp add: query_def wp)

lemma vcg_input_check [vcg]: "(i = Inr () \<Longrightarrow> Q () db) \<Longrightarrow> post (input_check i) db Q"
  by (simp add: input_check_def wp)

lemma post_get_node: "post (get_node_tx n) db Q \<longleftrightarrow> Q (map_option node_from_row (find_node (db_nodes db) n)) db"
  by (simp add: get_node_tx_def wp)

lemma post_get_trust: "post (get_endpoint_trust_tx e) db Q \<longleftrightarrow> (\<forall>x. reads_trust db e x \<longrightarrow> Q x db)"
  by (simp add: get_endpoint_trust_tx_def query_def wp reads_trust_def)

lemma read_only_query [read_only_intros]: "read_only (query q)"
  unfolding query_def by (intro read_only_intros)

lemma read_only_gets [read_only_intros]:
  "read_only (get_node_tx n)" "read_only (get_node_by_endpoint_tx e)" "read_only (get_endpoint_trust_tx e)"
  "read_only (get_active_endpoint_trust_for_node_tx n)" "read_only (get_enrollment_token_tx X k)"
  "read_only (get_enrollment_token_by_hash_tx X h)" "read_only (get_join_request_tx X q)"
  unfolding get_node_tx_def get_node_by_endpoint_tx_def get_endpoint_trust_tx_def
    get_active_endpoint_trust_for_node_tx_def get_enrollment_token_tx_def
    get_enrollment_token_by_hash_tx_def get_join_request_tx_def
  by (intro read_only_intros)+

lemma read_only_input_check [read_only_intros]: "read_only (input_check i)"
  unfolding input_check_def by (intro read_only_intros)

text \<open>A record read back differs from its row only in the decoded columns.\<close>

definition trust_row_at :: "store_db \<Rightarrow> string \<Rightarrow> endpoint_trust \<Rightarrow> json \<Rightarrow> bool" where
  "trust_row_at db e r b \<longleftrightarrow> find_trust (db_trust db) e = Some r
     \<and> endpoint_trust_from_row r = Inr (r\<lparr>et_trust_bundle_json := b\<rparr>)"

lemma trust_from_row_bundle: "endpoint_trust_from_row r = Inr t \<Longrightarrow> \<exists>b. t = r\<lparr>et_trust_bundle_json := b\<rparr>"
  using trust_from_row_same by (simp add: same_row_def)

lemma reads_trust_cases:
  "reads_trust db e (Some t) \<longleftrightarrow> (\<exists>r b. t = r\<lparr>et_trust_bundle_json := b\<rparr> \<and> trust_row_at db e r b)"
  by (auto simp: reads_trust_def trust_row_at_def opt_row_def rbind_Inr_iff
      dest: trust_from_row_bundle split: option.splits)

lemma vcg_trust_or [vcg_first]:
  "(\<And>r b. trust_row_at db e r b \<Longrightarrow> post (f (r\<lparr>et_trust_bundle_json := b\<rparr>)) db Q) \<Longrightarrow>
   post (tbind (get_endpoint_trust_tx e) (\<lambda>found. tbind (ttry (ok_or found err)) f)) db Q"
  by (auto simp: wp post_get_trust reads_trust_cases)

lemma vcg_trust_last [vcg_first]:
  assumes "\<And>r b. trust_row_at db e r b \<Longrightarrow> Q (r\<lparr>et_trust_bundle_json := b\<rparr>) db"
  shows "post (tbind (get_endpoint_trust_tx e) (\<lambda>found. ttry (ok_or found err))) db Q"
    "table et_endpoint_id trust_view (db_trust db) e \<noteq> None \<Longrightarrow> post (tbind (get_endpoint_trust_tx e) texpect) db Q"
  using assms by (auto simp: wp post_get_trust reads_trust_cases table_def)
    (metis not_None_eq option.distinct(1) reads_trust_None reads_trust_cases)

lemma vcg_trust_none [vcg_first]:
  "(find_trust (db_trust db) e = None \<Longrightarrow> post k db Q) \<Longrightarrow>
   post (tbind (get_endpoint_trust_tx e) (\<lambda>x. tseq (tcheck (x = None) err) k)) db Q"
  by (auto simp: wp post_get_trust reads_trust_None)

lemma vcg_node_or [vcg_first]:
  "(\<And>r. find_node (db_nodes db) n = Some r \<Longrightarrow> post (f (node_from_row r)) db Q) \<Longrightarrow>
   post (tbind (get_node_tx n) (\<lambda>found. tbind (ttry (ok_or found err)) f)) db Q"
  by (auto simp: wp post_get_node)

lemma vcg_node_last [vcg_first]:
  "(\<And>r. find_node (db_nodes db) n = Some r \<Longrightarrow> Q (node_from_row r) db) \<Longrightarrow> table nr_node_id node_view (db_nodes db) n \<noteq> None \<Longrightarrow>
   post (tbind (get_node_tx n) texpect) db Q"
  by (auto simp: wp post_get_node table_def)

lemma vcg_node_none [vcg_first]:
  "(find_node (db_nodes db) n = None \<Longrightarrow> post k db Q) \<Longrightarrow>
   post (tbind (get_node_tx n) (\<lambda>x. tseq (tcheck (x = None) err) k)) db Q"
  "(lookup nr_endpoint_id (db_nodes db) e = None \<Longrightarrow> post k db Q) \<Longrightarrow>
   post (tbind (get_node_by_endpoint_tx e) (\<lambda>x. tseq (tcheck (x = None) err) k)) db Q"
  by (auto simp: wp post_get_node get_node_by_endpoint_tx_def)

lemma vcg_get_node [vcg]:
  "Q (map_option node_from_row (find_node (db_nodes db) n)) db \<Longrightarrow> post (get_node_tx n) db Q"
  "Q (map_option node_from_row (lookup nr_endpoint_id (db_nodes db) e)) db \<Longrightarrow> post (get_node_by_endpoint_tx e) db Q"
  by (simp_all add: wp post_get_node get_node_by_endpoint_tx_def)

lemma vcg_get_trust [vcg]: "(\<And>x. reads_trust db e x \<Longrightarrow> Q x db) \<Longrightarrow> post (get_endpoint_trust_tx e) db Q"
  by (simp add: post_get_trust)

lemma vcg_get_active [vcg]:
  "(\<And>xs. reads_active db n xs \<Longrightarrow> Q xs db) \<Longrightarrow> post (get_active_endpoint_trust_for_node_tx n) db Q"
  by (simp add: get_active_endpoint_trust_for_node_tx_def query_def wp reads_active_def)

lemma vcg_updates [vcg]:
  "(distinct (map nr_endpoint_id (update_rows Pn fn (db_nodes db))) \<Longrightarrow>
      Q (affected Pn (db_nodes db)) (db\<lparr>db_nodes := update_rows Pn fn (db_nodes db)\<rparr>)) \<Longrightarrow>
   post (update_nodes Pn fn) db Q"
  "Q (affected Pn (db_nodes db)) (db\<lparr>db_nodes := filter (\<lambda>r. \<not> Pn r) (db_nodes db)\<rparr>) \<Longrightarrow>
   post (delete_nodes Pn) db Q"
  "Q (affected Pt (db_trust db)) (db\<lparr>db_trust := update_rows Pt ft (db_trust db)\<rparr>) \<Longrightarrow> post (update_trust Pt ft) db Q"
  "Q (affected Pk (db_tokens db)) (db\<lparr>db_tokens := update_rows Pk fk (db_tokens db)\<rparr>) \<Longrightarrow> post (update_tokens Pk fk) db Q"
  "Q (affected Pj (db_joins db)) (db\<lparr>db_joins := update_rows Pj fj (db_joins db)\<rparr>) \<Longrightarrow> post (update_joins Pj fj) db Q"
  by (simp_all add: wp update_nodes_def delete_nodes_def update_trust_def update_tokens_def update_joins_def)

lemma vcg_inserts [vcg]:
  "(find_node (db_nodes db) (ni_node_id n) = None \<Longrightarrow> lookup nr_endpoint_id (db_nodes db) (ni_endpoint_id n) = None \<Longrightarrow>
      Q () (db\<lparr>db_nodes := db_nodes db @ [\<lparr>nr_node_id = ni_node_id n,
        nr_endpoint_id = ni_endpoint_id n, nr_name = ni_name n, nr_region = ni_region n,
        nr_role = ni_role n, nr_enabled = True, nr_created_at = se_sql_now E,
        nr_updated_at = se_sql_now E\<rparr>]\<rparr>)) \<Longrightarrow> post (insert_node_tx E n) db Q"
  "(\<And>b. find_trust (db_trust db) (et_endpoint_id e) = None \<Longrightarrow>
      Q () (db\<lparr>db_trust := db_trust db @ [e\<lparr>et_trust_bundle_json := b, et_created_at := se_sql_now E,
        et_updated_at := se_sql_now E\<rparr>]\<rparr>)) \<Longrightarrow> post (insert_endpoint_trust_tx E e) db Q"
  by (auto simp: wp lookup_None insert_node_tx_def insert_endpoint_trust_tx_def endpoint_generation_to_i64_def)

lemma vcg_audit [vcg]:
  "(\<And>d. Q () (db\<lparr>db_audit := db_audit db @ [(Suc (db_audit_seq db), ev\<lparr>ae_detail_json := d\<rparr>)],
         db_audit_seq := Suc (db_audit_seq db)\<rparr>)) \<Longrightarrow> post (insert_audit_tx X ev) db Q"
  by (simp add: insert_audit_tx_def wp)

lemma commitsI:
  "keys_ok db' \<Longrightarrow> fleet_step (abs_db db) (abs_db db') \<Longrightarrow> recorded actor db db' \<Longrightarrow> commits actor db db'"
  by (simp add: commits_def)

lemma ctl_audit_event_new_actor [simp]: "ae_actor (ctl_audit_event_new ts actor ev) = actor"
  by (simp add: ctl_audit_event_new_def)

lemma unpointed_table: "lookup nr_endpoint_id rows e = None \<Longrightarrow> unpointed (table nr_node_id node_view rows) e"
  by (auto simp: unpointed_def table_def node_view_def lookup_None dest: lookup_Some)

lemma abs_frame [simp]:
  "abs_db (db\<lparr>db_audit := a\<rparr>) = abs_db db" "abs_db (db\<lparr>db_audit_seq := q\<rparr>) = abs_db db"
  "keys_ok (db\<lparr>db_audit := a\<rparr>) = keys_ok db" "keys_ok (db\<lparr>db_audit_seq := q\<rparr>) = keys_ok db"
  by (simp_all add: abs_db_def keys_ok_def)

lemma abs_fields [simp]:
  "fl_nodes (abs_db db) = table nr_node_id node_view (db_nodes db)"
  "fl_trust (abs_db db) = table et_endpoint_id trust_view (db_trust db)"
  "fl_tokens (abs_db db) = table tk_token_id token_view (db_tokens db)"
  "fl_joins (abs_db db) = table jr_request_id join_view (db_joins db)"
  by (simp_all add: abs_db_def)

lemma abs_updates [simp]:
  "abs_db (db\<lparr>db_nodes := ns\<rparr>) = (abs_db db)\<lparr>fl_nodes := table nr_node_id node_view ns\<rparr>"
  "abs_db (db\<lparr>db_trust := ts\<rparr>) = (abs_db db)\<lparr>fl_trust := table et_endpoint_id trust_view ts\<rparr>"
  "abs_db (db\<lparr>db_tokens := ks\<rparr>) = (abs_db db)\<lparr>fl_tokens := table tk_token_id token_view ks\<rparr>"
  "abs_db (db\<lparr>db_joins := js\<rparr>) = (abs_db db)\<lparr>fl_joins := table jr_request_id join_view js\<rparr>"
  by (simp_all add: abs_db_def)

lemma fleet_order [simp]:
  "s\<lparr>fl_trust := ts, fl_nodes := ns\<rparr> = s\<lparr>fl_nodes := ns, fl_trust := ts\<rparr>"
  "s\<lparr>fl_joins := js, fl_nodes := ns\<rparr> = s\<lparr>fl_nodes := ns, fl_joins := js\<rparr>"
  "s\<lparr>fl_joins := js, fl_trust := ts\<rparr> = s\<lparr>fl_trust := ts, fl_joins := js\<rparr>"
  "s\<lparr>fl_joins := js, fl_tokens := ks\<rparr> = s\<lparr>fl_tokens := ks, fl_joins := js\<rparr>"
  by simp_all

lemma views [simp]:
  "node_view r = (nr_endpoint_id r, nr_enabled r)"
  "ft_node (trust_view t) = et_node_id t" "ft_fingerprint (trust_view t) = et_fingerprint t"
  "ft_status (trust_view t) = et_status t" "ft_generation (trust_view t) = et_generation t"
  "ft_previous (trust_view t) = et_previous_endpoint_id t" "ft_next (trust_view t) = et_rotated_to t"
  by (simp_all add: node_view_def trust_view_def)

lemma recorded_audit:
  "db_audit db1 = db_audit db \<Longrightarrow> db_audit_seq db1 = db_audit_seq db \<Longrightarrow> ae_actor ev = actor \<Longrightarrow>
   recorded actor db (db1\<lparr>db_audit := db_audit db1 @ [(Suc (db_audit_seq db1), ev)], db_audit_seq := Suc (db_audit_seq db1)\<rparr>)"
  by (auto simp: recorded_def)

end
