(* ===== verification/Registry_Refinement.thy ===== *)
theory Registry_Refinement
  imports Store_Logic
begin

text \<open>
  Every operation on nodes and endpoints either leaves the database as it was or makes one step of the
  fleet and records it; none of them panics.
\<close>

section \<open>Adding and switching nodes\<close>

lemma add_node_commits:
  assumes "keys_ok db"
  shows "post (add_node X E n actor) db (\<lambda>_. commits actor db)"
  unfolding add_node_def
proof ((rule vcg_first vcg)+, rule commitsI, goal_cases)
  case 1
  then show ?case using assms by (simp add: keys_ok_def lookup_None)
next
  case 2
  then show ?case
    using fleet_step.add [of "abs_db db" "ni_node_id n" "ni_endpoint_id n"]
    by (simp add: table_insert table_None unpointed_table trust_view_def enrolled_def del: fun_upd_apply)
next
  case 3
  then show ?case by (intro recorded_audit) simp_all
qed


lemma commits_audit:
  "keys_ok db1 \<Longrightarrow> fleet_step (abs_db db) (abs_db db1) \<Longrightarrow> db_audit db1 = db_audit db \<Longrightarrow>
   db_audit_seq db1 = db_audit_seq db \<Longrightarrow> ae_actor ev = actor \<Longrightarrow>
   commits actor db (db1\<lparr>db_audit := db_audit db1 @ [(Suc (db_audit_seq db1), ev)], db_audit_seq := Suc (db_audit_seq db1)\<rparr>)"
  by (rule commitsI) (simp_all add: recorded_def)

lemma commits_same: "keys_ok db \<Longrightarrow> commits actor db db"
  by (simp add: commits_def)

lemma vcg_unrotated [vcg]:
  "(et_rotated_to e = None \<Longrightarrow> Q () db) \<Longrightarrow> post (validate_unrotated_lineage e) db Q"
  unfolding validate_unrotated_lineage_def
  by (rule vcg_first vcg | simp)+

lemma vcg_active_binding [vcg]:
  "(\<And>t. find_trust (db_trust db) (nd_endpoint_id nd) = Some t \<Longrightarrow> et_status t = EpActive \<Longrightarrow>
     et_node_id t = Some (nd_node_id nd) \<Longrightarrow> Q () db) \<Longrightarrow> post (validate_active_node_binding_tx nd) db Q"
  unfolding validate_active_node_binding_tx_def
  by (rule vcg_first vcg | simp add: trust_row_at_def)+

lemma node_from_row_fields [simp]:
  "nd_node_id (node_from_row r) = nr_node_id r" "nd_endpoint_id (node_from_row r) = nr_endpoint_id r"
  "nd_enabled (node_from_row r) = nr_enabled r" "nd_name (node_from_row r) = nr_name r"
  "nd_region (node_from_row r) = nr_region r" "nd_role (node_from_row r) = nr_role r"
  by (simp_all add: node_from_row_def)

lemma keys_ok_nodes:
  "keys_ok db \<Longrightarrow> (\<And>r. nr_node_id (f r) = nr_node_id r) \<Longrightarrow>
   distinct (map nr_endpoint_id (update_rows P f (db_nodes db))) \<Longrightarrow> keys_ok (db\<lparr>db_nodes := update_rows P f (db_nodes db)\<rparr>)"
  by (simp add: keys_ok_def distinct_update)

lemma keys_ok_tables:
  assumes "keys_ok db"
  shows "(\<And>r. et_endpoint_id (ft r) = et_endpoint_id r) \<Longrightarrow> keys_ok (db\<lparr>db_trust := update_rows Pt ft (db_trust db)\<rparr>)"
    "(\<And>r. tk_token_id (fk r) = tk_token_id r) \<Longrightarrow> keys_ok (db\<lparr>db_tokens := update_rows Pk fk (db_tokens db)\<rparr>)"
    "(\<And>r. jr_request_id (fj r) = jr_request_id r) \<Longrightarrow> keys_ok (db\<lparr>db_joins := update_rows Pj fj (db_joins db)\<rparr>)"
    "keys_ok (db\<lparr>db_nodes := filter P (db_nodes db)\<rparr>)"
  using assms by (simp_all add: keys_ok_def distinct_update distinct_delete)

lemma vcg_when_enabled [vcg_first]:
  "((c \<Longrightarrow> \<exists>t. find_trust (db_trust db) (nd_endpoint_id nd) = Some t \<and> et_status t = EpActive
     \<and> et_node_id t = Some (nd_node_id nd)) \<Longrightarrow> Q () db) \<Longrightarrow> post (twhen c (validate_active_node_binding_tx nd)) db Q"
  by (rule vcg | blast)+

lemma set_node_enabled_step:
  assumes "find_node (db_nodes db) n = Some r"
    "enabled \<Longrightarrow> \<exists>t. find_trust (db_trust db) (nr_endpoint_id r) = Some t \<and> et_status t = EpActive \<and> et_node_id t = Some n"
  shows "fleet_step (abs_db db) ((abs_db db)\<lparr>fl_nodes := (fl_nodes (abs_db db))(n \<mapsto> (nr_endpoint_id r, enabled))\<rparr>)"
proof (cases enabled)
  case True
  with assms obtain t where "find_trust (db_trust db) (nr_endpoint_id r) = Some t" "et_status t = EpActive" "et_node_id t = Some n"
    by auto
  with True assms(1) show ?thesis
    using fleet_step.enable [of "abs_db db" n "nr_endpoint_id r" "nr_enabled r" "trust_view t"] by (simp add: table_Some del: fun_upd_apply)
next
  case False
  with assms(1) show ?thesis
    using fleet_step.disable [of "abs_db db" n "nr_endpoint_id r" "nr_enabled r"] by (simp add: table_Some del: fun_upd_apply)
qed

lemma set_node_enabled_commits:
  assumes "keys_ok db"
  shows "post (set_node_enabled X E n enabled actor ev) db (\<lambda>_. commits actor db)"
  unfolding set_node_enabled_def
proof ((rule vcg_first vcg)+, rule commits_audit, goal_cases)
  case (1 a r r')
  then show ?case using assms by (simp add: keys_ok_nodes)
next
  case (2 a r r')
  then show ?case
    using set_node_enabled_step [of db n r enabled] lookup_key [of nr_node_id "db_nodes db" n r]
    by (simp add: table_update del: fun_upd_apply)
qed simp_all


text \<open>A status transition rewrites the status, generation and bundle of one row.\<close>

definition restatus :: "store_db \<Rightarrow> string \<Rightarrow> endpoint_status \<Rightarrow> endpoint_trust \<Rightarrow> endpoint_trust list \<Rightarrow> bool" where
  "restatus db e st r rows \<longleftrightarrow> find_trust (db_trust db) e = Some r \<and> map et_endpoint_id rows = map et_endpoint_id (db_trust db)
     \<and> table et_endpoint_id trust_view rows = (table et_endpoint_id trust_view (db_trust db))
         (e \<mapsto> (trust_view r)\<lparr>ft_status := st, ft_generation := et_generation r + 1\<rparr>)"

lemma vcg_transition [vcg]:
  assumes "\<And>r t rows. restatus db (et_endpoint_id before) st r rows \<Longrightarrow> et_status r = et_status before \<Longrightarrow>
      et_rotated_to before = None \<Longrightarrow> Q t (db\<lparr>db_trust := rows\<rparr>)"
    "distinct (map et_endpoint_id (db_trust db))"
  shows "post (transition_endpoint_status_tx E before st) db Q"
  unfolding transition_endpoint_status_tx_def
proof ((rule vcg_first vcg)+, goal_cases)
  case (1 g sg bd og r' b)
  let ?P = "\<lambda>r. et_endpoint_id r = et_endpoint_id before \<and> et_status r = et_status before \<and> et_generation r = og"
  obtain r where r: "find_trust (db_trust db) (et_endpoint_id before) = Some r" "?P r"
    using affected_row [of ?P, OF _ assms(2), of "et_endpoint_id before"] 1(6) by auto
  have og: "og = et_generation before" and sg: "sg = et_generation before + 1"
    using 1(2,3,5) by (auto simp: endpoint_generation_to_i64_def next_endpoint_generation_def split: if_splits)
  let ?f = "\<lambda>r. r\<lparr>et_status := st, et_generation := sg, et_trust_bundle_json := bd, et_updated_at := se_sql_now E\<rparr>"
  have "table et_endpoint_id trust_view (update_rows ?P ?f (db_trust db))
      = (table et_endpoint_id trust_view (db_trust db))(et_endpoint_id before \<mapsto> trust_view (?f r))"
    by (rule table_update [where r = r]) (use r in simp_all)
  then show ?case using 1(1) r
    by (intro assms(1) [where r = r]) (simp_all add: restatus_def distinct_update trust_view_def og sg)
qed

lemma vcg_exact_bound [vcg]:
  "Q (case et_node_id e of None \<Rightarrow> None
      | Some m \<Rightarrow> (case find_node (db_nodes db) m of
            Some r \<Rightarrow> if nr_endpoint_id r = et_endpoint_id e then Some (node_from_row r) else None
          | None \<Rightarrow> None)) db \<Longrightarrow> post (get_exact_bound_node_tx e) db Q"
  by (auto simp: get_exact_bound_node_tx_def wp post_get_node split: option.split)

text \<open>Switching off the bound node.\<close>

lemma vcg_disable_bound [vcg]:
  assumes Q: "\<And>rows x. keys_ok (db\<lparr>db_nodes := rows\<rparr>) \<Longrightarrow>
      table nr_node_id node_view rows = switch_off (table nr_node_id node_view (db_nodes db)) w e \<Longrightarrow>
      Q x (db\<lparr>db_nodes := rows\<rparr>)"
    and keys: "keys_ok db"
    and nb: "nb = (case w of None \<Rightarrow> None
      | Some m \<Rightarrow> (case find_node (db_nodes db) m of
            Some r \<Rightarrow> if nr_endpoint_id r = e then Some (node_from_row r) else None
          | None \<Rightarrow> None))"
  shows "post (disable_bound_node E e nb) db Q"
proof (cases "\<exists>m r. w = Some m \<and> find_node (db_nodes db) m = Some r \<and> nr_endpoint_id r = e \<and> nr_enabled r")
  case True
  then obtain m r where r: "w = Some m" "find_node (db_nodes db) m = Some r" "nr_endpoint_id r = e" "nr_enabled r"
    by auto
  have m: "nr_node_id r = m" by (rule lookup_key [OF r(2)])
  show ?thesis unfolding disable_bound_node_def nb r option.case node_from_row_fields if_True simp_thms
    by (rule vcg_first vcg)+ (rule Q, insert r m,
      simp_all add: keys_ok_nodes keys switch_off_def table_Some table_update)
next
  case False
  have "switch_off (table nr_node_id node_view (db_nodes db)) w e = table nr_node_id node_view (db_nodes db)"
    using False by (auto simp: switch_off_def table_def split: option.splits)
  then have "Q x db" for x using Q [of "db_nodes db" x] keys by simp
  moreover have "nb = None \<or> (\<exists>n. nb = Some n \<and> \<not> nd_enabled n)"
    using False nb by (auto split: option.splits if_splits)
  ultimately show ?thesis by (auto simp: disable_bound_node_def wp)
qed


lemma status_change_allowed_iff: "status_change_allowed a b \<longleftrightarrow> status_change a b"
  by (cases a; cases b) (auto elim: status_change.cases intro: status_change.intros)

lemma keys_ok_trust_rows:
  "keys_ok db \<Longrightarrow> map et_endpoint_id rows = map et_endpoint_id (db_trust db) \<Longrightarrow> keys_ok (db\<lparr>db_trust := rows\<rparr>)"
  by (simp add: keys_ok_def)

lemma vcg_restrict [vcg_first]:
  assumes Q: "\<And>nb after na r rows nrows. restatus db e st r rows \<Longrightarrow> et_status r = et_status before \<Longrightarrow>
      et_rotated_to before = None \<Longrightarrow> keys_ok (db\<lparr>db_trust := rows, db_nodes := nrows\<rparr>) \<Longrightarrow>
      table nr_node_id node_view nrows = switch_off (table nr_node_id node_view (db_nodes db)) (et_node_id before) e \<Longrightarrow>
      post (k nb after na) (db\<lparr>db_trust := rows, db_nodes := nrows\<rparr>) Q"
    and keys: "keys_ok db" and e: "et_endpoint_id before = e"
  shows "post (tbind (get_exact_bound_node_tx before) (\<lambda>nb.
     tbind (transition_endpoint_status_tx E before st) (\<lambda>after.
     tbind (disable_bound_node E e nb) (\<lambda>na. k nb after na)))) db Q"
  by (rule vcg_bind vcg_exact_bound vcg_transition vcg_disable_bound [where w = "et_node_id before"])+
    (insert keys, auto simp: keys_ok_def restatus_def e intro!: Q split: option.split)

lemma update_endpoint_status_commits:
  assumes keys: "keys_ok db"
  shows "post (update_endpoint_status X E e st actor reason action) db (\<lambda>_. commits actor db)"
  unfolding update_endpoint_status_def audit_endpoint_status_tx_def
proof (((rule vcg_first vcg)+; ((rule vcg_first vcg)+)?), goal_cases)
  case 1
  then show ?case by (simp add: commits_same keys)
next
  case (2 a aa ab r b ac nb after na r' rows nrows d)
  show ?case
  proof (rule commits_audit)
    have "r' = r" "et_endpoint_id r = ab" using 2(4,8) lookup_key by (auto simp: trust_row_at_def restatus_def)
    then show "fleet_step (abs_db db) (abs_db (db\<lparr>db_trust := rows, db_nodes := nrows\<rparr>))"
      using 2 fleet_step.restrict [of "abs_db db" ab "trust_view r" st]
      by (simp add: restatus_def trust_row_at_def table_Some status_change_allowed_iff del: fun_upd_apply)
  qed (use 2 in simp_all)
next
  case (3 a aa ab r b ac)
  then show ?case using keys by simp
next
  case (4 a aa ab r b ac)
  then show ?case using lookup_key by (auto simp: trust_row_at_def)
qed


lemma reads_active_few:
  assumes "reads_active db m xs" "length xs \<le> 1"
  shows "list_all2 (\<lambda>r x. endpoint_trust_from_row r = Inr x) (active_rows_for_node db m) xs"
proof -
  let ?ys = "sort_key et_endpoint_id (active_rows_for_node db m)"
  have ys: "list_all2 (\<lambda>r x. endpoint_trust_from_row r = Inr x) (take 2 ?ys) xs"
    using assms(1) by (simp add: reads_active_def map_ok_Inr_iff)
  then have "length (take 2 ?ys) \<le> 1" using assms(2) by (auto dest: list_all2_lengthD)
  then have "length ?ys \<le> 1" by simp
  then have "?ys = active_rows_for_node db m"
    by (cases "active_rows_for_node db m" rule: list.exhaust) (auto simp: le_Suc_eq length_Suc_conv)
  then show ?thesis using ys \<open>length ?ys \<le> 1\<close> by simp
qed

lemma removal_candidates_active:
  assumes keys: "keys_ok db" and "reads_trust db e reg" "reads_active db m act"
    "length (removal_candidates reg act) \<le> 1"
  shows "active_for (table et_endpoint_id trust_view (db_trust db)) m e = et_endpoint_id ` set (removal_candidates reg act)"
    and "c \<in> set (removal_candidates reg act) \<Longrightarrow>
      \<exists>r b. c = r\<lparr>et_trust_bundle_json := b\<rparr> \<and> trust_row_at db (et_endpoint_id c) r b \<and> et_status r = EpActive"
proof -
  let ?A = "active_rows_for_node db m"
  have d: "distinct (map et_endpoint_id (db_trust db))" using keys by (simp add: keys_ok_def)
  have "length act \<le> 1" using assms(4) by (auto simp: removal_candidates_def split: option.splits if_splits)
  note A = reads_active_few [OF assms(3) this]
  have ids: "et_endpoint_id ` set act = et_endpoint_id ` set ?A"
  proof -
    have "map et_endpoint_id act = map et_endpoint_id ?A"
      using A by (induction rule: list_all2_induct) (auto dest!: trust_from_row_bundle)
    then show ?thesis by (metis list.set_map)
  qed
  have af: "active_for (table et_endpoint_id trust_view (db_trust db)) m e = et_endpoint_id ` set ?A
      \<union> (case reg of Some t \<Rightarrow> if et_status t = EpActive then {e} else {} | None \<Rightarrow> {})"
  proof (cases "find_trust (db_trust db) e")
    case None
    then have "reg = None" using assms(2) by (simp add: reads_trust_def opt_row_def)
    then show ?thesis using None
      by (auto simp: active_for_def active_rows_for_node_def table_def image_iff dest: lookup_Some lookup_distinct [OF d])
  next
    case (Some r)
    then obtain b where "reg = Some (r\<lparr>et_trust_bundle_json := b\<rparr>)"
      using assms(2) by (auto simp: reads_trust_def opt_row_def rbind_Inr_iff dest: trust_from_row_bundle)
    then show ?thesis using Some
      by (auto simp: active_for_def active_rows_for_node_def table_def image_iff dest: lookup_Some lookup_distinct [OF d])
  qed
  have reg: "et_endpoint_id t = e \<and> (\<exists>r b. t = r\<lparr>et_trust_bundle_json := b\<rparr> \<and> trust_row_at db e r b)" if "reg = Some t" for t
    using assms(2) that lookup_key by (auto simp: reads_trust_cases trust_row_at_def)
  show "active_for (table et_endpoint_id trust_view (db_trust db)) m e = et_endpoint_id ` set (removal_candidates reg act)"
    unfolding af ids [symmetric] using reg by (auto simp: removal_candidates_def list_ex_iff split: option.splits)
  assume "c \<in> set (removal_candidates reg act)"
  then consider "c \<in> set act" | "reg = Some c" "et_status c = EpActive"
    by (auto simp: removal_candidates_def split: option.splits if_splits)
  then show "\<exists>r b. c = r\<lparr>et_trust_bundle_json := b\<rparr> \<and> trust_row_at db (et_endpoint_id c) r b \<and> et_status r = EpActive"
  proof cases
    case 1
    from A 1 have "\<exists>r\<in>set ?A. endpoint_trust_from_row r = Inr c" by (induction rule: list_all2_induct) auto
    then obtain r where "r \<in> set ?A" "endpoint_trust_from_row r = Inr c" by auto
    then show ?thesis using lookup_distinct [OF d, of r] trust_from_row_bundle [of r c]
      by (auto simp: active_rows_for_node_def trust_row_at_def)
  next
    case 2
    then show ?thesis using reg by (metis endpoint_trust.select_convs(4) endpoint_trust.surjective endpoint_trust.update_convs(8))
  qed
qed


lemma vcg_revoke_candidate:
  assumes Q: "\<And>t rows r. restatus db (et_endpoint_id a) EpRevoked r rows \<Longrightarrow> et_rotated_to a = None \<Longrightarrow>
      unpointed ((table nr_node_id node_view (db_nodes db))(m := None)) (et_endpoint_id a) \<Longrightarrow>
      Q (Some t) (db\<lparr>db_trust := rows\<rparr>)"
    and keys: "keys_ok db"
  shows "post (revoke_candidate E m (Some a)) db Q"
  unfolding revoke_candidate_def option.case
proof ((rule vcg_bind vcg_seq vcg_unit(2) vcg_get_node vcg_transition vcg_return)+, goal_cases)
  case (1 r t rows)
  have "unpointed ((table nr_node_id node_view (db_nodes db))(m := None)) (et_endpoint_id a)"
    unfolding unpointed_def
  proof (intro allI notI)
    fix k b
    assume "((table nr_node_id node_view (db_nodes db))(m := None)) k = Some (et_endpoint_id a, b)"
    then obtain r where r: "find_node (db_nodes db) k = Some r" "nr_endpoint_id r = et_endpoint_id a" "k \<noteq> m"
      by (auto simp: table_def split: if_splits)
    then have "lookup nr_endpoint_id (db_nodes db) (et_endpoint_id a) = Some r"
      using keys lookup_distinct [of nr_endpoint_id "db_nodes db" r] lookup_Some [OF r(1)] by (simp add: keys_ok_def)
    then show False using 1(1) r(3) lookup_key [OF r(1)] by simp
  qed
  then show ?case using 1 by (intro Q)
next
  case 2
  then show ?case using keys by (simp add: keys_ok_def)
qed

lemma vcg_revoke [vcg]:
  assumes "cs = [] \<Longrightarrow> Q None db"
    "\<And>t rows r. cs \<noteq> [] \<Longrightarrow> restatus db (et_endpoint_id (last cs)) EpRevoked r rows \<Longrightarrow> et_rotated_to (last cs) = None \<Longrightarrow>
      unpointed ((table nr_node_id node_view (db_nodes db))(m := None)) (et_endpoint_id (last cs)) \<Longrightarrow>
      Q (Some t) (db\<lparr>db_trust := rows\<rparr>)"
    "keys_ok db"
  shows "post (revoke_candidate E m (if cs = [] then None else Some (last cs))) db Q"
proof (cases "cs = []")
  case True
  then show ?thesis using assms(1) by (simp add: revoke_candidate_def wp)
next
  case False
  then show ?thesis using assms(2,3) by (simp add: vcg_revoke_candidate)
qed

lemma remove_node_commits:
  assumes keys: "keys_ok db"
  shows "post (remove_node X E m actor) db (\<lambda>_. commits actor db)"
  unfolding remove_node_def
proof (((rule vcg_first vcg)+; ((rule vcg_first vcg)+)?), goal_cases)
  case (1 a r x xs d)
  then have "active_for (table et_endpoint_id trust_view (db_trust db)) m (nr_endpoint_id r) = {}"
    using removal_candidates_active(1) [OF keys, of "nr_endpoint_id r" x m xs] by simp
  then have "fleet_step (abs_db db) (abs_db (db\<lparr>db_nodes := filter (\<lambda>r. nr_node_id r \<noteq> m) (db_nodes db)\<rparr>))"
    using 1 fleet_step.remove [of "abs_db db" m "nr_endpoint_id r" "nr_enabled r"]
    by (simp add: table_Some table_delete del: fun_upd_apply)
  then show ?case by (intro commits_audit) (simp_all add: keys_ok_tables keys)
next
  case (2 a r x xs t rows r' d)
  let ?c = "last (removal_candidates x xs)"
  have few: "length (removal_candidates x xs) \<le> 1" using 2(5) by simp
  then have c: "removal_candidates x xs = [?c]" using 2(6) by (cases "removal_candidates x xs") auto
  then have "active_for (table et_endpoint_id trust_view (db_trust db)) m (nr_endpoint_id r) = {et_endpoint_id ?c}"
    using 2(3,4) few removal_candidates_active(1) [OF keys, of "nr_endpoint_id r" x m xs] by (metis list.set(1,2) image_empty image_insert node_from_row_fields(2))
  moreover have "et_rotated_to r' = None"
  proof -
    have "?c \<in> set (removal_candidates x xs)" using 2(6) by simp
    then obtain r0 b where "?c = r0\<lparr>et_trust_bundle_json := b\<rparr>" "trust_row_at db (et_endpoint_id ?c) r0 b"
      using 2(3,4) few removal_candidates_active(2) [OF keys] by (metis node_from_row_fields(2))
    then show ?thesis using 2(7,8) by (auto simp: restatus_def trust_row_at_def)
  qed
  ultimately have "fleet_step (abs_db db) (abs_db (db\<lparr>db_trust := rows, db_nodes := filter (\<lambda>r. nr_node_id r \<noteq> m) (db_nodes db)\<rparr>))"
    using 2(2,7,9) fleet_step.remove_active [of "abs_db db" m "nr_endpoint_id r" "nr_enabled r" "et_endpoint_id ?c" "trust_view r'"]
    by (simp add: table_Some table_delete restatus_def del: fun_upd_apply)
  then show ?case using 2(7) keys by (intro commits_audit) (simp_all add: keys_ok_def distinct_delete restatus_def)
next
  case 3
  show ?case by (rule keys)
qed


lemma vcg_rotation_binding [vcg]:
  "(\<And>m r. et_node_id e = Some m \<Longrightarrow> find_node (db_nodes db) m = Some r \<Longrightarrow> nr_endpoint_id r = et_endpoint_id e \<Longrightarrow>
     Q (Some (node_from_row r)) db) \<Longrightarrow> post (validate_rotation_binding_tx e) db Q"
  unfolding validate_rotation_binding_tx_def
  by (rule vcg_first vcg | simp)+

lemma vcg_rotation_edge [vcg]:
  "(et_status old = EpRotated \<Longrightarrow> et_rotated_to old = Some (et_endpoint_id new) \<Longrightarrow>
    et_previous_endpoint_id new = Some (et_endpoint_id old) \<Longrightarrow> et_node_id old = et_node_id new \<Longrightarrow> Q () db) \<Longrightarrow>
   post (validate_rotation_edge old new) db Q"
  unfolding validate_rotation_edge_def
  by (rule vcg_first vcg | simp)+

lemma vcg_reconciliation [vcg]:
  "(et_status e \<noteq> EpRotated \<Longrightarrow> Q () db) \<Longrightarrow> post (validate_legacy_rotation_reconciliation_tx n e) db Q"
  unfolding validate_legacy_rotation_reconciliation_tx_def
  by (rule vcg_first vcg | simp)+

lemma vcg_repoint [vcg_first]:
  assumes Q: "\<And>nrows r. find_node (db_nodes db) m = Some r \<Longrightarrow> nr_endpoint_id r = old \<Longrightarrow>
      keys_ok (db\<lparr>db_nodes := nrows\<rparr>) \<Longrightarrow> unpointed (table nr_node_id node_view (db_nodes db)) new \<Longrightarrow>
      table nr_node_id node_view nrows = (table nr_node_id node_view (db_nodes db))(m \<mapsto> (new, nr_enabled r \<and> \<not> off)) \<Longrightarrow>
      post k (db\<lparr>db_nodes := nrows\<rparr>) Q"
    and keys: "keys_ok db" and ne: "old \<noteq> new"
  shows "post (tbind (repoint_node E m old new off) (\<lambda>n. tseq (tcheck (n = 1) err) k)) db Q"
  unfolding repoint_node_def
proof ((rule vcg_bind vcg_updates vcg_seq vcg_unit(2))+, goal_cases)
  case 1
  let ?P = "\<lambda>r. nr_node_id r = m \<and> nr_endpoint_id r = old"
  let ?f = "\<lambda>r. r\<lparr>nr_endpoint_id := new, nr_enabled := (if off then False else nr_enabled r), nr_updated_at := se_sql_now E\<rparr>"
  obtain r where r: "find_node (db_nodes db) m = Some r" "?P r"
    using affected_row [of ?P "db_nodes db" nr_node_id m] 1(2) keys by (auto simp: keys_ok_def)
  have "unpointed (table nr_node_id node_view (db_nodes db)) new"
    unfolding unpointed_def
  proof (intro allI notI)
    fix j c
    assume "table nr_node_id node_view (db_nodes db) j = Some (new, c)"
    then obtain q where q: "q \<in> set (db_nodes db)" "nr_endpoint_id q = new"
      by (auto simp: table_def dest: lookup_Some)
    have rin: "r \<in> set (db_nodes db)" using lookup_Some [OF r(1)] by simp
    then have "?f r \<in> set (update_rows ?P ?f (db_nodes db))" "q \<in> set (update_rows ?P ?f (db_nodes db))"
      using q r(2) ne by (force simp: update_rows_def image_iff)+
    then have "?f r = q" using 1(1) q(2) by (auto simp: distinct_map inj_on_def)
    then have "nr_node_id q = nr_node_id r" by auto
    then have "q = r" using q(1) rin keys by (auto simp: keys_ok_def distinct_map inj_on_def)
    then show False using q(2) r(2) ne by simp
  qed
  moreover have "table nr_node_id node_view (update_rows ?P ?f (db_nodes db))
      = (table nr_node_id node_view (db_nodes db))(m \<mapsto> node_view (?f r))"
    by (rule table_update [where r = r]) (use r in auto)
  ultimately show ?case using r 1(1) keys
    by (intro Q [where r = r]) (simp_all add: keys_ok_nodes)
qed

lemma vcg_rotate_rows:
  assumes Q: "\<And>rows. find_trust (db_trust db) new = None \<Longrightarrow> keys_ok (db\<lparr>db_trust := rows\<rparr>) \<Longrightarrow>
      table et_endpoint_id trust_view rows = (table et_endpoint_id trust_view (db_trust db))
        (old \<mapsto> (trust_view r)\<lparr>ft_status := EpRotated, ft_generation := g, ft_next := Some new\<rparr>, new \<mapsto> trust_view t) \<Longrightarrow>
      post k (db\<lparr>db_trust := rows\<rparr>) Q"
    and keys: "keys_ok db" and r: "find_trust (db_trust db) old = Some r" and t: "et_endpoint_id t = new"
  shows "post (tbind (update_trust (\<lambda>r. et_endpoint_id r = old)
         (\<lambda>r. r\<lparr>et_status := EpRotated, et_generation := g,
            et_rotated_to := Some new, et_trust_bundle_json := bd,
            et_updated_at := se_sql_now E\<rparr>)) (\<lambda>n.
     tseq (tcheck (n = 1) err) (tseq (insert_endpoint_trust_tx E t) k))) db Q"
proof ((rule vcg_bind vcg_updates vcg_seq vcg_unit(2) vcg_inserts)+, goal_cases)
  case (1 b)
  let ?P = "\<lambda>r. et_endpoint_id r = old"
  let ?f = "\<lambda>r. r\<lparr>et_status := EpRotated, et_generation := g, et_rotated_to := Some new, et_trust_bundle_json := bd,
            et_updated_at := se_sql_now E\<rparr>"
  let ?rows = "update_rows ?P ?f (db_trust db)"
  let ?t = "t\<lparr>et_trust_bundle_json := b, et_created_at := se_sql_now E, et_updated_at := se_sql_now E\<rparr>"
  have "table et_endpoint_id trust_view ?rows = (table et_endpoint_id trust_view (db_trust db))(old \<mapsto> trust_view (?f r))"
    by (rule table_update [where r = r]) (use r lookup_key [OF r] in auto)
  moreover have new: "find_trust ?rows (et_endpoint_id ?t) = None" using 1(2) by simp
  ultimately have "table et_endpoint_id trust_view (?rows @ [?t])
      = (table et_endpoint_id trust_view (db_trust db))(old \<mapsto> trust_view (?f r), new \<mapsto> trust_view ?t)"
    by (simp add: table_insert t)
  moreover have "trust_view ?t = trust_view t" by (simp add: trust_view_def)
  moreover have "trust_view (?f r) = (trust_view r)\<lparr>ft_status := EpRotated, ft_generation := g, ft_next := Some new\<rparr>"
    by (simp add: trust_view_def)
  moreover have "keys_ok (db\<lparr>db_trust := ?rows @ [?t]\<rparr>)"
    using keys distinct_insert [OF new] by (simp add: keys_ok_def distinct_update)
  moreover have "find_trust (db_trust db) new = None" using new by (simp add: t lookup_update)
  ultimately show ?case using Q [of "?rows @ [?t]"] by simp
qed

lemma rotate_retry_commits:
  assumes keys: "keys_ok db" and r: "trust_row_at db old r b" and ne: "old \<noteq> new"
  shows "post (rotate_retry X E old new actor reason (r\<lparr>et_trust_bundle_json := b\<rparr>)) db (\<lambda>_. commits actor db)"
  unfolding rotate_retry_def audit_endpoint_rotation_tx_def
proof (((rule vcg_first vcg)+; ((rule vcg_first vcg)+)?), goal_cases)
  case 1
  show ?case by (rule commits_same [OF keys])
next
  case (2 u ub m n nrows n' r' d)
  have "fleet_step (abs_db db) (abs_db (db\<lparr>db_nodes := nrows\<rparr>))"
    using 2 r fleet_step.reconcile [of "abs_db db" old "trust_view r" new m "trust_view u" "nr_enabled n'"]
      lookup_key [of et_endpoint_id "db_trust db" old r]
    by (simp add: table_Some trust_row_at_def del: fun_upd_apply)
  then show ?case using 2 by (intro commits_audit) simp_all
qed (simp_all add: keys ne)

lemma rotate_fresh_commits:
  assumes keys: "keys_ok db" and r: "trust_row_at db old r b" and ne: "old \<noteq> new"
  shows "post (rotate_fresh X E old new actor reason (r\<lparr>et_trust_bundle_json := b\<rparr>)) db (\<lambda>_. commits actor db)"
  unfolding rotate_fresh_def audit_endpoint_rotation_tx_def
proof (((rule vcg_rotate_rows [where r = r] vcg_first vcg)+; ((rule vcg_first vcg)+)?), goal_cases)
  case (4 m n a aa ab rows node nrows n' rb ba rc baa d)
  have g: "a = et_generation r + 1" "aa = et_generation r + 1"
    using 4(7,8) by (auto simp: endpoint_generation_to_i64_def next_endpoint_generation_def split: if_splits)
  have "n' = n" "nr_node_id n = m" using 4(5,13,14) lookup_key [OF 4(5)] by auto
  then have "fleet_step (abs_db db) (abs_db (db\<lparr>db_trust := rows, db_nodes := nrows\<rparr>))"
    using 4 r g fleet_step.rotate [of "abs_db db" old "trust_view r" m "nr_enabled n" new]
    by (auto simp add: table_Some table_None trust_row_at_def trust_view_def simp del: fun_upd_apply)
  then show ?case using 4 by (intro commits_audit) simp_all
qed (use keys ne r in \<open>simp_all add: trust_row_at_def\<close>)


lemma rotate_endpoint_commits:
  assumes keys: "keys_ok db"
  shows "post (rotate_endpoint X E old new actor reason) db (\<lambda>_. commits actor db)"
  unfolding rotate_endpoint_def
  by (rule rotate_retry_commits [OF keys] rotate_fresh_commits [OF keys] vcg_first vcg | assumption)+

end
