(* ===== verification/Enrollment_Refinement.thy ===== *)
theory Enrollment_Refinement
  imports Registry_Refinement
begin

text \<open>
  The operations on tokens and join requests refine the steps of the fleet; approval enrolls the node and
  its endpoint in the same transaction.
\<close>

section \<open>Reading tokens and join requests\<close>

lemma token_from_row_fields:
  "enrollment_token_from_row X r = Inr t \<Longrightarrow> \<exists>l s. t = r\<lparr>tk_labels_json := l, tk_scope_json := s\<rparr>"
  by (auto simp: enrollment_token_from_row_def rbind_Inr_iff)

lemma join_from_row_fields:
  "join_request_from_row X r = Inr j \<Longrightarrow> \<exists>l s. j = r\<lparr>jr_requested_labels_json := l, jr_approved_labels_json := s\<rparr>"
  by (auto simp: join_request_from_row_def rbind_Inr_iff)

lemma vcg_token_or [vcg_first]:
  "(\<And>r l s. lookup tk_token_id (db_tokens db) k = Some r \<Longrightarrow> post (f (r\<lparr>tk_labels_json := l, tk_scope_json := s\<rparr>)) db Q) \<Longrightarrow>
   post (tbind (get_enrollment_token_tx X k) (\<lambda>found. tbind (ttry (ok_or found err)) f)) db Q"
  by (auto simp: wp query_def get_enrollment_token_tx_def opt_row_def rbind_Inr_iff dest!: token_from_row_fields split: option.splits)

lemma vcg_token_last [vcg_first]:
  "(\<And>r l s. lookup tk_token_id (db_tokens db) k = Some r \<Longrightarrow> Q (r\<lparr>tk_labels_json := l, tk_scope_json := s\<rparr>) db) \<Longrightarrow>
   table tk_token_id token_view (db_tokens db) k \<noteq> None \<Longrightarrow> post (tbind (get_enrollment_token_tx X k) texpect) db Q"
  by (auto simp: wp table_def query_def get_enrollment_token_tx_def opt_row_def rbind_Inr_iff dest!: token_from_row_fields split: option.splits)

lemma vcg_token_get [vcg]:
  "(lookup tk_token_id (db_tokens db) k = None \<Longrightarrow> Q None db) \<Longrightarrow>
   (\<And>r l s. lookup tk_token_id (db_tokens db) k = Some r \<Longrightarrow> Q (Some (r\<lparr>tk_labels_json := l, tk_scope_json := s\<rparr>)) db) \<Longrightarrow>
   post (get_enrollment_token_tx X k) db Q"
  by (auto simp: wp query_def get_enrollment_token_tx_def opt_row_def rbind_Inr_iff dest!: token_from_row_fields split: option.splits)

lemma vcg_token_hash [vcg]:
  "(lookup tk_token_hash (db_tokens db) h = None \<Longrightarrow> Q None db) \<Longrightarrow>
   (\<And>r l s. lookup tk_token_hash (db_tokens db) h = Some r \<Longrightarrow> Q (Some (r\<lparr>tk_labels_json := l, tk_scope_json := s\<rparr>)) db) \<Longrightarrow>
   post (get_enrollment_token_by_hash_tx X h) db Q"
  by (auto simp: wp query_def get_enrollment_token_by_hash_tx_def opt_row_def rbind_Inr_iff dest!: token_from_row_fields split: option.splits)

lemma vcg_join_or [vcg_first]:
  "(\<And>r l s. lookup jr_request_id (db_joins db) k = Some r \<Longrightarrow>
      post (f (r\<lparr>jr_requested_labels_json := l, jr_approved_labels_json := s\<rparr>)) db Q) \<Longrightarrow>
   post (tbind (get_join_request_tx X k) (\<lambda>found. tbind (ttry (ok_or found err)) f)) db Q"
  by (auto simp: wp query_def get_join_request_tx_def opt_row_def rbind_Inr_iff dest!: join_from_row_fields split: option.splits)

lemma vcg_join_last [vcg_first]:
  "(\<And>r l s. lookup jr_request_id (db_joins db) k = Some r \<Longrightarrow>
      Q (r\<lparr>jr_requested_labels_json := l, jr_approved_labels_json := s\<rparr>) db) \<Longrightarrow>
   table jr_request_id join_view (db_joins db) k \<noteq> None \<Longrightarrow> post (tbind (get_join_request_tx X k) texpect) db Q"
  by (auto simp: wp table_def query_def get_join_request_tx_def opt_row_def rbind_Inr_iff dest!: join_from_row_fields split: option.splits)

lemma vcg_join_get [vcg]:
  "(lookup jr_request_id (db_joins db) k = None \<Longrightarrow> Q None db) \<Longrightarrow>
   (\<And>r l s. lookup jr_request_id (db_joins db) k = Some r \<Longrightarrow>
      Q (Some (r\<lparr>jr_requested_labels_json := l, jr_approved_labels_json := s\<rparr>)) db) \<Longrightarrow>
   post (get_join_request_tx X k) db Q"
  by (auto simp: wp query_def get_join_request_tx_def opt_row_def rbind_Inr_iff dest!: join_from_row_fields split: option.splits)

lemma vcg_token_case [vcg_first]:
  "(lookup tk_token_id (db_tokens db) k = None \<Longrightarrow> post m db Q) \<Longrightarrow>
   (\<And>r l s. lookup tk_token_id (db_tokens db) k = Some r \<Longrightarrow> post (f (r\<lparr>tk_labels_json := l, tk_scope_json := s\<rparr>)) db Q) \<Longrightarrow>
   post (tbind (get_enrollment_token_tx X k) (\<lambda>x. case x of None \<Rightarrow> m | Some t \<Rightarrow> f t)) db Q"
  by (rule vcg_bind vcg_token_get | simp)+

lemma vcg_join_case [vcg_first]:
  "(lookup jr_request_id (db_joins db) k = None \<Longrightarrow> post m db Q) \<Longrightarrow>
   (\<And>r l s. lookup jr_request_id (db_joins db) k = Some r \<Longrightarrow>
      post (f (r\<lparr>jr_requested_labels_json := l, jr_approved_labels_json := s\<rparr>)) db Q) \<Longrightarrow>
   post (tbind (get_join_request_tx X k) (\<lambda>x. case x of None \<Rightarrow> m | Some t \<Rightarrow> f t)) db Q"
  by (rule vcg_bind vcg_join_get | simp)+

lemma vcg_hash_case [vcg_first]:
  "(lookup tk_token_hash (db_tokens db) h = None \<Longrightarrow> post m db Q) \<Longrightarrow>
   (\<And>r l s. lookup tk_token_hash (db_tokens db) h = Some r \<Longrightarrow> post (f (r\<lparr>tk_labels_json := l, tk_scope_json := s\<rparr>)) db Q) \<Longrightarrow>
   post (tbind (get_enrollment_token_by_hash_tx X h) (\<lambda>x. case x of None \<Rightarrow> m | Some t \<Rightarrow> f t)) db Q"
  "post m db Q \<Longrightarrow>
   post (tbind (get_enrollment_token_by_hash_tx X h) (\<lambda>x. tseq (tcheck (x = None) err) m)) db Q"
  by (rule vcg_bind vcg_token_hash vcg_seq vcg_unit | simp)+

lemma read_only_provenance [read_only_intros]:
  "read_only (validate_enrollment_token_audit_provenance_tx ev k actor opt_reason)"
  "read_only (validate_join_submission_audit_provenance_tx j actor)"
  "read_only (validate_join_rejection_audit_provenance_tx r actor reason)"
  "read_only (validate_approved_join_audit_provenance_tx j e n)"
  "read_only (validate_enrollment_claim_audit_provenance_tx j e m)"
  "read_only (validate_approved_join_provenance_tx X j e)"
  unfolding validate_enrollment_token_audit_provenance_tx_def validate_join_submission_audit_provenance_tx_def
    validate_join_rejection_audit_provenance_tx_def validate_approved_join_audit_provenance_tx_def
    validate_enrollment_claim_audit_provenance_tx_def validate_approved_join_provenance_tx_def
    approved_join_audit_count_tx_def enrollment_claim_audit_count_tx_def approved_join_assignment_count_tx_def
  by (intro read_only_intros)+

lemma read_only_binding [read_only_intros]: "read_only (validate_exact_enrollment_binding_tx X j e nd l d)"
  unfolding validate_exact_enrollment_binding_tx_def by (intro read_only_intros)

lemma read_only_retries:
  "read_only (approve_retry X ap nd j)" "read_only (claim_retry X nd j e)"
  unfolding approve_retry_def claim_retry_def by (intro read_only_intros)+

lemmas vcg_provenance [vcg] = read_only_provenance(1-5) [THEN post_read_only] read_only_binding [THEN post_read_only]

lemma vcg_retries [vcg]:
  "(\<And>a. Q a db) \<Longrightarrow> post (approve_retry X ap nd j) db Q" "(\<And>a. Q a db) \<Longrightarrow> post (claim_retry X nd j e) db Q"
  by (rule post_read_only [OF read_only_retries(1)] post_read_only [OF read_only_retries(2)], blast)+

lemma views_enrollment [simp]:
  "fk_max_uses (token_view k) = tk_max_uses k" "fk_used (token_view k) = tk_used_count k"
  "fk_status (token_view k) = tk_status k" "fj_token (join_view j) = jr_token_id j"
  "fj_fingerprint (join_view j) = jr_fingerprint j" "fj_status (join_view j) = jr_status j"
  "fj_assigned (join_view j) = jr_assigned_endpoint_id j"
  by (simp_all add: token_view_def join_view_def)

lemma vcg_insert_token [vcg]:
  assumes "\<And>rows. lookup tk_token_id (db_tokens db) (tk_token_id t) = None \<Longrightarrow> keys_ok (db\<lparr>db_tokens := rows\<rparr>) \<Longrightarrow>
      table tk_token_id token_view rows = (table tk_token_id token_view (db_tokens db))(tk_token_id t \<mapsto> token_view t) \<Longrightarrow>
      Q () (db\<lparr>db_tokens := rows\<rparr>)"
    and "keys_ok db"
  shows "post (insert_token_row t) db Q"
  unfolding insert_token_row_def using assms(2)
  by (auto simp: wp lookup_None table_insert keys_ok_def intro!: assms(1))

lemma vcg_insert_join [vcg]:
  assumes "\<And>rows. lookup jr_request_id (db_joins db) (jr_request_id t) = None \<Longrightarrow> keys_ok (db\<lparr>db_joins := rows\<rparr>) \<Longrightarrow>
      table jr_request_id join_view rows = (table jr_request_id join_view (db_joins db))(jr_request_id t \<mapsto> join_view t) \<Longrightarrow>
      Q () (db\<lparr>db_joins := rows\<rparr>)"
    and "keys_ok db"
  shows "post (insert_join_row t) db Q"
  unfolding insert_join_row_def using assms(2)
  by (auto simp: wp lookup_None table_insert keys_ok_def intro!: assms(1))

lemma vcg_token_update:
  assumes Q: "\<And>rows r. lookup tk_token_id (db_tokens db) k = Some r \<Longrightarrow> P r \<Longrightarrow> keys_ok (db\<lparr>db_tokens := rows\<rparr>) \<Longrightarrow>
      table tk_token_id token_view rows = (table tk_token_id token_view (db_tokens db))(k \<mapsto> token_view (f r)) \<Longrightarrow>
      post m (db\<lparr>db_tokens := rows\<rparr>) Q"
    and keys: "keys_ok db" and P: "\<And>r. P r \<Longrightarrow> tk_token_id r = k" and f: "\<And>r. tk_token_id (f r) = tk_token_id r"
  shows "post (tbind (update_tokens P f) (\<lambda>n. tseq (tcheck (n = 1) err) m)) db Q"
proof ((rule vcg_bind vcg_updates vcg_seq vcg_unit(2))+, goal_cases)
  case 1
  obtain r where r: "lookup tk_token_id (db_tokens db) k = Some r" "P r"
    using affected_row [of P "db_tokens db" tk_token_id k] 1 keys P by (auto simp: keys_ok_def)
  have "table tk_token_id token_view (update_rows P f (db_tokens db)) = (table tk_token_id token_view (db_tokens db))(k \<mapsto> token_view (f r))"
    by (rule table_update [where r = r]) (fact r(1), fact r(2), erule P, rule f)
  then show ?case by (intro Q [OF r]) (simp_all add: keys_ok_tables keys f)
qed

lemma vcg_join_update:
  assumes Q: "\<And>rows r. lookup jr_request_id (db_joins db) k = Some r \<Longrightarrow> P r \<Longrightarrow> keys_ok (db\<lparr>db_joins := rows\<rparr>) \<Longrightarrow>
      table jr_request_id join_view rows = (table jr_request_id join_view (db_joins db))(k \<mapsto> join_view (f r)) \<Longrightarrow>
      post m (db\<lparr>db_joins := rows\<rparr>) Q"
    and keys: "keys_ok db" and P: "\<And>r. P r \<Longrightarrow> jr_request_id r = k" and f: "\<And>r. jr_request_id (f r) = jr_request_id r"
  shows "post (tbind (update_joins P f) (\<lambda>n. tseq (tcheck (n = 1) err) m)) db Q"
proof ((rule vcg_bind vcg_updates vcg_seq vcg_unit(2))+, goal_cases)
  case 1
  obtain r where r: "lookup jr_request_id (db_joins db) k = Some r" "P r"
    using affected_row [of P "db_joins db" jr_request_id k] 1 keys P by (auto simp: keys_ok_def)
  have "table jr_request_id join_view (update_rows P f (db_joins db)) = (table jr_request_id join_view (db_joins db))(k \<mapsto> join_view (f r))"
    by (rule table_update [where r = r]) (fact r(1), fact r(2), erule P, rule f)
  then show ?case by (intro Q [OF r]) (simp_all add: keys_ok_tables keys f)
qed

lemma vcg_status_cases [vcg]:
  "(k = TokActive \<Longrightarrow> post a s Q) \<Longrightarrow> (k = TokExpired \<Longrightarrow> post b s Q) \<Longrightarrow> (k = TokRevoked \<Longrightarrow> post c s Q) \<Longrightarrow>
   post (case k of TokActive \<Rightarrow> a | TokExpired \<Rightarrow> b | TokRevoked \<Rightarrow> c) s Q"
  by (cases k) auto

lemma create_enrollment_token_commits:
  assumes keys: "keys_ok db"
  shows "post (create_enrollment_token X E t actor) db (\<lambda>_. commits actor db)"
  unfolding create_enrollment_token_def
proof (((rule vcg_first vcg)+; ((rule vcg_first vcg)+; ((rule vcg_first vcg)+)?)?), goal_cases)
  case (1 a aa ab ac ad rows r l s d)
  have "1 \<le> ti_max_uses t" "ti_max_uses t \<le> 10000"
    using 1(2) by (auto simp: validate_enrollment_token_input_def all_ok_iff MAX_ENROLLMENT_TOKEN_USES_def)
  then have "fleet_step (abs_db db) (abs_db (db\<lparr>db_tokens := rows\<rparr>))"
    using 1 fleet_step.issue [of "abs_db db" "ti_token_id t" "ti_max_uses t"]
    by (simp add: table_None token_view_def del: fun_upd_apply)
  then show ?case using 1 by (intro commits_audit) simp_all
qed (use keys commits_same in simp_all)

lemma revoke_enrollment_token_commits:
  assumes keys: "keys_ok db"
  shows "post (revoke_enrollment_token X E k actor reason) db (\<lambda>_. commits actor db)"
  unfolding revoke_enrollment_token_def set_token_status_def
proof (((rule vcg_token_update [where k = k] vcg_first vcg)+; ((rule vcg_first vcg)+)?), goal_cases)
  case (1 a r l s rows ra rb la sa d)
  have "fleet_step (abs_db db) (abs_db (db\<lparr>db_tokens := rows\<rparr>))"
    using 1 fleet_step.close [of "abs_db db" k "token_view ra" TokRevoked]
    by (simp add: table_Some token_view_def del: fun_upd_apply)
  then show ?case using 1 by (intro commits_audit) simp_all
qed (use keys commits_same in simp_all)

lemma commits_note:
  "keys_ok db \<Longrightarrow> ae_actor ev = actor \<Longrightarrow>
   commits actor db (db\<lparr>db_audit := db_audit db @ [(Suc (db_audit_seq db), ev)], db_audit_seq := Suc (db_audit_seq db)\<rparr>)"
  by (simp add: commits_def recorded_def)

lemma recorded_trans:
  assumes "recorded actor a b" "recorded actor b c"
  shows "recorded actor a c"
proof -
  obtain es where es: "es \<noteq> []" "db_audit b = db_audit a @ es" "\<forall>ev\<in>set es. ae_actor (snd ev) = actor"
      "map fst es = [Suc (db_audit_seq a)..<Suc (db_audit_seq a) + length es]" "db_audit_seq b = db_audit_seq a + length es"
    using assms(1) by (auto simp: recorded_def)
  obtain fs where fs: "db_audit c = db_audit b @ fs" "\<forall>ev\<in>set fs. ae_actor (snd ev) = actor"
      "map fst fs = [Suc (db_audit_seq b)..<Suc (db_audit_seq b) + length fs]" "db_audit_seq c = db_audit_seq b + length fs"
    using assms(2) by (auto simp: recorded_def)
  have "map fst (es @ fs) = [Suc (db_audit_seq a)..<Suc (db_audit_seq a) + length (es @ fs)]"
    unfolding map_append es(4) fs(3) es(5)
    using upt_add_eq_append [of "Suc (db_audit_seq a)" "Suc (db_audit_seq a) + length es" "length fs"]
    by (simp add: add.assoc del: upt_Suc)
  then show ?thesis unfolding recorded_def using es fs by (intro exI [of _ "es @ fs"]) auto
qed

lemma commits_note_after: "commits actor db db1 \<Longrightarrow> db1 \<noteq> db \<Longrightarrow> ae_actor ev = actor \<Longrightarrow>
   commits actor db (db1\<lparr>db_audit := db_audit db1 @ [(Suc (db_audit_seq db1), ev)], db_audit_seq := Suc (db_audit_seq db1)\<rparr>)"
  using recorded_trans [of actor db db1] recorded_audit [of db1 db1 ev actor] by (auto simp: commits_def)

lemma hash_row: "keys_ok db \<Longrightarrow> lookup tk_token_hash (db_tokens db) h = Some r \<Longrightarrow> lookup tk_token_id (db_tokens db) (tk_token_id r) = Some r"
  by (auto simp: keys_ok_def dest: lookup_Some lookup_distinct)

lemma reject_submission_commits:
  "keys_ok db \<Longrightarrow> post (reject_submission X E actor q k reason) db (\<lambda>_. commits actor db)"
  unfolding reject_submission_def audit_join_rejection_tx_def
  by (rule vcg_first vcg commits_note | assumption | simp)+

lemma expire_token_commits:
  assumes keys: "keys_ok db" and k: "tk_token_id t = k"
  shows "post (expire_token_on_submission X E j actor t) db (\<lambda>_. commits actor db)"
  unfolding expire_token_on_submission_def set_token_status_def reject_submission_def audit_join_rejection_tx_def k
proof ((rule vcg_token_update [where k = k] vcg_first vcg)+, rule commits_note_after, goal_cases)
  case (1 rows r r' l s d)
  have "fleet_step (abs_db db) (abs_db (db\<lparr>db_tokens := rows\<rparr>))"
    using 1 fleet_step.close [of "abs_db db" k "token_view r" TokExpired]
    by (simp add: table_Some token_view_def del: fun_upd_apply)
  then show ?case using 1 by (intro commits_audit) simp_all
next
  case 2
  then show ?case by (auto dest: arg_cong [where f = db_audit_seq])
qed (simp_all add: keys)

lemma accept_submission_commits:
  assumes keys: "keys_ok db" and k: "tk_token_id t = k" and t: "tk_used_count t < tk_max_uses t"
  shows "post (accept_submission X E j actor t e rl al) db (\<lambda>_. commits actor db)"
  unfolding accept_submission_def k
proof ((rule vcg_token_update [where k = k] vcg_first vcg)+, goal_cases)
  case (1 jrows trows r j' l s t' tl ts d)
  have "fleet_step (abs_db db) (abs_db (db\<lparr>db_joins := jrows, db_tokens := trows\<rparr>))"
    using 1 fleet_step.join [of "abs_db db" k "token_view r" "ji_request_id j" "ji_fingerprint j"]
    by (simp add: table_Some table_None token_view_def join_view_def del: fun_upd_apply)
  then show ?case using 1 by (intro commits_audit) simp_all
qed (use keys in simp_all)

lemma submit_join_request_commits:
  assumes keys: "keys_ok db"
  shows "post (submit_join_request X E j actor) db (\<lambda>_. commits actor db)"
  unfolding submit_join_request_def submit_to_token_def
  by (rule vcg_first reject_submission_commits [OF keys] expire_token_commits [OF keys refl]
      accept_submission_commits [OF keys refl] commits_same [OF keys] vcg | simp)+

lemma reject_join_request_commits:
  assumes keys: "keys_ok db"
  shows "post (reject_join_request X E q actor reason) db (\<lambda>_. commits actor db)"
  unfolding reject_join_request_def
proof (((rule vcg_join_update [where k = q] vcg_first vcg)+; ((rule vcg_join_update [where k = q] vcg_first vcg)+)?), goal_cases)
  case 1
  show ?case by (rule commits_same [OF keys])
next
  case (2 a r l s b rows r' j' l' s' d)
  have "fleet_step (abs_db db) (abs_db (db\<lparr>db_joins := rows\<rparr>))"
    using 2 fleet_step.reject [of "abs_db db" q "join_view r'"]
    by (simp add: table_Some join_view_def del: fun_upd_apply)
  then show ?case using 2 by (intro commits_audit) simp_all
qed (simp_all add: keys)

lemma vcg_node_unused [vcg]:
  "(unused_node (table et_endpoint_id trust_view (db_trust db)) (ni_node_id n) \<Longrightarrow> Q () db) \<Longrightarrow> post (check_node_unused q n) db Q"
  unfolding check_node_unused_def endpoint_trust_count_for_node_tx_def
  by (rule vcg)+ (force simp: unused_node_def table_def filter_empty_conv dest: lookup_Some)

lemma vcg_approved [vcg]:
  "(jr_status j = JoinApproved \<Longrightarrow> jr_assigned_endpoint_id j = Some e \<Longrightarrow> Q () db) \<Longrightarrow>
   post (validate_approved_join_provenance_tx X j e) db Q"
  unfolding validate_approved_join_provenance_tx_def approved_join_assignment_count_tx_def
  by (rule vcg | simp)+

lemma vcg_insert_pair [vcg_first]:
  assumes Q: "\<And>nrows trows. find_node (db_nodes db) (ni_node_id n) = None \<Longrightarrow>
      unpointed (table nr_node_id node_view (db_nodes db)) (ni_endpoint_id n) \<Longrightarrow>
      find_trust (db_trust db) (et_endpoint_id t) = None \<Longrightarrow>
      keys_ok (db\<lparr>db_nodes := nrows, db_trust := trows\<rparr>) \<Longrightarrow>
      table nr_node_id node_view nrows = (table nr_node_id node_view (db_nodes db))(ni_node_id n \<mapsto> (ni_endpoint_id n, True)) \<Longrightarrow>
      table et_endpoint_id trust_view trows = (table et_endpoint_id trust_view (db_trust db))(et_endpoint_id t \<mapsto> trust_view t) \<Longrightarrow>
      post k (db\<lparr>db_nodes := nrows, db_trust := trows\<rparr>) Q"
    and keys: "keys_ok db"
  shows "post (tseq (insert_node_tx E n) (tseq (insert_endpoint_trust_tx E t) k)) db Q"
proof ((rule vcg)+, goal_cases)
  case (1 b)
  then show ?case using keys
    by (intro Q) (simp_all add: unpointed_table table_insert trust_view_def keys_ok_def lookup_None)
qed

lemma approve_pending_commits:
  assumes keys: "keys_ok db" and r: "lookup jr_request_id (db_joins db) (ap_request_id ap) = Some r"
  shows "post (approve_pending X E ap actor node labels (r\<lparr>jr_requested_labels_json := l, jr_approved_labels_json := s\<rparr>)) db
    (\<lambda>_. commits actor db)"
  unfolding approve_pending_def audit_enrollment_binding_tx_def
proof ((rule vcg_join_update [where k = "ap_request_id ap"] vcg_first vcg)+, goal_cases)
  case (1 a nrows trows jrows r' j' l' s' n' t' b' c d)
  have "fleet_step (abs_db db) (abs_db (db\<lparr>db_nodes := nrows, db_trust := trows, db_joins := jrows\<rparr>))"
    using 1 r fleet_step.approve [of "abs_db db" "ap_request_id ap" "join_view r" "ni_node_id node" "ni_endpoint_id node"]
    by (simp add: table_Some table_None join_view_def trust_view_def enrolled_def del: fun_upd_apply)
  then show ?case using 1 by (intro commits_audit) simp_all
qed (use keys in simp_all)

lemma approve_join_request_commits:
  assumes keys: "keys_ok db"
  shows "post (approve_join_request X E ap actor) db (\<lambda>_. commits actor db)"
  unfolding approve_join_request_def
  by (rule vcg_first approve_pending_commits [OF keys] commits_same [OF keys] vcg | assumption)+

lemma vcg_node_rows:
  assumes Q: "\<And>nrows. find_node (db_nodes db) (ni_node_id n) = None \<Longrightarrow>
      unpointed (table nr_node_id node_view (db_nodes db)) (ni_endpoint_id n) \<Longrightarrow> keys_ok (db\<lparr>db_nodes := nrows\<rparr>) \<Longrightarrow>
      table nr_node_id node_view nrows = (table nr_node_id node_view (db_nodes db))(ni_node_id n \<mapsto> (ni_endpoint_id n, True)) \<Longrightarrow>
      Q () (db\<lparr>db_nodes := nrows\<rparr>)"
    and keys: "keys_ok db"
  shows "post (insert_node_tx E n) db Q"
proof (rule vcg_inserts, goal_cases)
  case 1
  then show ?case using keys by (intro Q) (simp_all add: unpointed_table table_insert keys_ok_def lookup_None)
qed

lemma vcg_trust_update:
  assumes Q: "\<And>rows r. find_trust (db_trust db) k = Some r \<Longrightarrow> P r \<Longrightarrow> keys_ok (db\<lparr>db_trust := rows\<rparr>) \<Longrightarrow>
      table et_endpoint_id trust_view rows = (table et_endpoint_id trust_view (db_trust db))(k \<mapsto> trust_view (f r)) \<Longrightarrow>
      post m (db\<lparr>db_trust := rows\<rparr>) Q"
    and keys: "keys_ok db" and P: "\<And>r. P r \<Longrightarrow> et_endpoint_id r = k" and f: "\<And>r. et_endpoint_id (f r) = et_endpoint_id r"
  shows "post (tbind (update_trust P f) (\<lambda>n. tseq (tcheck (n = 1) err) m)) db Q"
proof ((rule vcg_bind vcg_updates vcg_seq vcg_unit(2))+, goal_cases)
  case 1
  obtain r where r: "find_trust (db_trust db) k = Some r" "P r"
    using affected_row [of P "db_trust db" et_endpoint_id k] 1 keys P by (auto simp: keys_ok_def)
  have "table et_endpoint_id trust_view (update_rows P f (db_trust db)) = (table et_endpoint_id trust_view (db_trust db))(k \<mapsto> trust_view (f r))"
    by (rule table_update [where r = r]) (fact r(1), fact r(2), erule P, rule f)
  then show ?case by (intro Q [OF r]) (simp_all add: keys_ok_tables keys f)
qed

lemma claim_unbound_commits:
  assumes keys: "keys_ok db" and j: "lookup jr_request_id (db_joins db) q = Some j"
    and "jr_status j = JoinApproved" "jr_assigned_endpoint_id j = Some (ni_endpoint_id node)"
    and j': "jr_fingerprint j' = jr_fingerprint j"
  shows "post (claim_unbound X E claim actor node j' t) db (\<lambda>_. commits actor db)"
  unfolding claim_unbound_def audit_enrollment_binding_tx_def
proof ((rule vcg_node_rows vcg_trust_update [where k = "ni_endpoint_id node"] vcg_first vcg)+, goal_cases)
  case (1 nrows trows r n' t' b' c d)
  have "fleet_step (abs_db db) (abs_db (db\<lparr>db_nodes := nrows, db_trust := trows\<rparr>))"
    using 1 assms(2-) fleet_step.claim [of "abs_db db" q "join_view j" "ni_endpoint_id node" "trust_view r" "ni_node_id node"]
    by (simp add: table_Some table_None trust_view_def del: fun_upd_apply)
  then show ?case using 1 by (intro commits_audit) simp_all
qed (use keys in simp_all)

lemma claim_legacy_enrollment_commits:
  assumes keys: "keys_ok db"
  shows "post (claim_legacy_enrollment X E claim actor) db (\<lambda>_. commits actor db)"
  unfolding claim_legacy_enrollment_def
  by (rule vcg_first claim_unbound_commits [OF keys] commits_same [OF keys] vcg | assumption | simp)+

end
