(* ===== verification/Store_Operations.thy ===== *)
theory Store_Operations
  imports Enrollment_Refinement "HOL-Library.Sublist"
begin

text \<open>
  The store as its callers see it: the calls of \<open>StoreWriter\<close> and \<open>AuditWriter\<close> on the registry
  (\<open>ocfleet-cli/src/backend.rs\<close>), each one transaction, and what any sequence of them does. A sequence of
  calls refines a sequence of fleet steps, so the invariant and the progress of \<open>Fleet_Spec\<close> hold of every
  database the store can produce.
\<close>

section \<open>Calls\<close>

datatype store_call =
    AddNode node_insert string
  | EnableNode string string
  | DisableNode string string
  | RemoveNode string string
  | CreateToken token_insert string
  | RevokeToken string string string
  | SubmitJoin join_insert string
  | RejectJoin string string string
  | ApproveJoin approval_input string
  | ClaimLegacy legacy_claim_input string
  | RotateEndpoint string string string string
  | RevokeEndpoint string string string
  | QuarantineEndpoint string string string
  | AppendAudit ctl_audit_event

fun call_actor :: "store_call \<Rightarrow> string" where
  "call_actor (AddNode _ actor) = actor"
| "call_actor (EnableNode _ actor) = actor"
| "call_actor (DisableNode _ actor) = actor"
| "call_actor (RemoveNode _ actor) = actor"
| "call_actor (CreateToken _ actor) = actor"
| "call_actor (RevokeToken _ actor _) = actor"
| "call_actor (SubmitJoin _ actor) = actor"
| "call_actor (RejectJoin _ actor _) = actor"
| "call_actor (ApproveJoin _ actor) = actor"
| "call_actor (ClaimLegacy _ actor) = actor"
| "call_actor (RotateEndpoint _ _ actor _) = actor"
| "call_actor (RevokeEndpoint _ actor _) = actor"
| "call_actor (QuarantineEndpoint _ actor _) = actor"
| "call_actor (AppendAudit ev) = ae_actor ev"

text \<open>The answer of a call without the record it carries.\<close>

definition forget :: "'a stx \<Rightarrow> unit stx" where
  "forget m = tseq m (treturn ())"

fun call_tx :: "ext \<Rightarrow> store_env \<Rightarrow> store_call \<Rightarrow> unit stx" where
  "call_tx X E (AddNode node actor) = add_node X E node actor"
| "call_tx X E (EnableNode node_id actor) = enable_node X E node_id actor"
| "call_tx X E (DisableNode node_id actor) = disable_node X E node_id actor"
| "call_tx X E (RemoveNode node_id actor) = remove_node X E node_id actor"
| "call_tx X E (CreateToken token actor) = forget (create_enrollment_token X E token actor)"
| "call_tx X E (RevokeToken token_id actor reason) = forget (revoke_enrollment_token X E token_id actor reason)"
| "call_tx X E (SubmitJoin input actor) = forget (submit_join_request X E input actor)"
| "call_tx X E (RejectJoin request_id actor reason) = forget (reject_join_request X E request_id actor reason)"
| "call_tx X E (ApproveJoin input actor) = forget (approve_join_request X E input actor)"
| "call_tx X E (ClaimLegacy input actor) = forget (claim_legacy_enrollment X E input actor)"
| "call_tx X E (RotateEndpoint old new actor reason) = forget (rotate_endpoint X E old new actor reason)"
| "call_tx X E (RevokeEndpoint endpoint_id actor reason) = forget (revoke_endpoint X E endpoint_id actor reason)"
| "call_tx X E (QuarantineEndpoint endpoint_id actor reason) = forget (quarantine_endpoint X E endpoint_id actor reason)"
| "call_tx X E (AppendAudit ev) = insert_audit X ev"

definition exec_call :: "ext \<Rightarrow> store_env \<times> store_call \<Rightarrow> store_db \<Rightarrow> store_db" where
  "exec_call X c db = snd (run_tx (call_tx X (fst c) (snd c)) db)"

abbreviation run_calls :: "ext \<Rightarrow> (store_env \<times> store_call) list \<Rightarrow> store_db \<Rightarrow> store_db" where
  "run_calls X \<equiv> fold (exec_call X)"

section \<open>Refinement of sequences\<close>

locale refining =
  fixes exec :: "'op \<Rightarrow> 'c \<Rightarrow> 'c"
    and ok :: "'c \<Rightarrow> bool"
    and view :: "'c \<Rightarrow> 'a"
    and step :: "'a \<Rightarrow> 'a \<Rightarrow> bool"
  assumes exec_ok: "ok c \<Longrightarrow> ok (exec opn c)"
    and exec_step: "ok c \<Longrightarrow> step\<^sup>=\<^sup>= (view c) (view (exec opn c))"
begin

lemma run_ok: "ok c \<Longrightarrow> ok (fold exec ops c)"
  by (induction ops arbitrary: c) (simp_all add: exec_ok)

lemma run_steps: "ok c \<Longrightarrow> step\<^sup>*\<^sup>* (view c) (view (fold exec ops c))"
proof (induction ops arbitrary: c)
  case (Cons opn ops)
  have "step\<^sup>*\<^sup>* (view c) (view (exec opn c))" using exec_step [OF Cons.prems, of opn] by auto
  also have "step\<^sup>*\<^sup>* (view (exec opn c)) (view (fold exec ops (exec opn c)))"
    using Cons.IH [OF exec_ok [OF Cons.prems]] .
  finally show ?case by simp
qed simp

lemma run_invariant:
  assumes "ok c" "I (view c)" "\<And>a b. step a b \<Longrightarrow> I a \<Longrightarrow> I b"
  shows "I (view (fold exec ops c))"
  using run_steps [OF assms(1), of ops] assms(2,3) by (induction rule: rtranclp_induct) auto

lemma run_monotone:
  assumes "ok c" "\<And>a. R a a" "\<And>a b c. R a b \<Longrightarrow> R b c \<Longrightarrow> R a c" "\<And>a b. step a b \<Longrightarrow> R a b"
  shows "R (view c) (view (fold exec ops c))"
  using run_steps [OF assms(1), of ops] by (induction rule: rtranclp_induct) (auto intro: assms)

end

section \<open>Every call commits a step of the fleet\<close>

lemma post_forget: "post m db (\<lambda>_. Q) \<Longrightarrow> post (forget m) db (\<lambda>_. Q)"
  by (simp add: forget_def wp)

lemma insert_audit_commits:
  "keys_ok db \<Longrightarrow> post (insert_audit X ev) db (\<lambda>_. commits (ae_actor ev) db)"
  unfolding insert_audit_def by (rule vcg) (simp add: commits_def recorded_audit)

lemmas registry_commits = add_node_commits remove_node_commits set_node_enabled_commits insert_audit_commits
  update_endpoint_status_commits [THEN post_forget] rotate_endpoint_commits [THEN post_forget]
  create_enrollment_token_commits [THEN post_forget] revoke_enrollment_token_commits [THEN post_forget]
  submit_join_request_commits [THEN post_forget] reject_join_request_commits [THEN post_forget]
  approve_join_request_commits [THEN post_forget] claim_legacy_enrollment_commits [THEN post_forget]

lemma call_commits: "keys_ok db \<Longrightarrow> post (call_tx X E c) db (\<lambda>_. commits (call_actor c) db)"
  by (cases c) (simp_all add: registry_commits enable_node_def disable_node_def revoke_endpoint_def quarantine_endpoint_def)

lemma commits_refl: "keys_ok db \<Longrightarrow> commits actor db db"
  by (simp add: commits_def)

lemma exec_commits: "keys_ok db \<Longrightarrow> commits (call_actor (snd c)) db (exec_call X c db)"
  unfolding exec_call_def using post_snd_run [OF call_commits, of db X "fst c" "snd c"] commits_refl by fastforce

lemma exec_keys: "keys_ok db \<Longrightarrow> keys_ok (exec_call X c db)"
  using exec_commits [of db c X] by (simp add: commits_def)

lemma exec_refines: "keys_ok db \<Longrightarrow> fleet_step\<^sup>=\<^sup>= (abs_db db) (abs_db (exec_call X c db))"
  using exec_commits [of db c X] by (auto simp: commits_def)

interpretation registry: refining "exec_call X" keys_ok abs_db fleet_step for X
  by unfold_locales (fact exec_keys, fact exec_refines)

lemma empty_db_ok: "keys_ok empty_db" "fleet_inv (abs_db empty_db)"
proof -
  have "abs_db empty_db = empty_fleet"
    by (simp add: abs_db_def empty_db_def empty_fleet_def table_def lookup_def)
  then show "fleet_inv (abs_db empty_db)" by (simp add: fleet_inv_empty)
qed (simp add: keys_ok_def empty_db_def)

lemma run_inv: "keys_ok db \<Longrightarrow> fleet_inv (abs_db db) \<Longrightarrow> fleet_inv (abs_db (run_calls X calls db))"
  by (rule registry.run_invariant) (auto intro: fleet_inv_step)

lemma run_progress: "keys_ok db \<Longrightarrow> fleet_progress (abs_db db) (abs_db (run_calls X calls db))"
  by (rule registry.run_monotone) (auto intro: fleet_progress_trans progress_step)

section \<open>The audit log\<close>

text \<open>The numbers of the log increase and none is above the sequence counter.\<close>

definition log_ok :: "store_db \<Rightarrow> bool" where
  "log_ok db \<longleftrightarrow> sorted_wrt (<) (map fst (db_audit db)) \<and> (\<forall>n\<in>set (map fst (db_audit db)). n \<le> db_audit_seq db)"

lemma sorted_extend:
  fixes s :: nat
  assumes "sorted_wrt (<) N" "\<forall>n\<in>set N. n \<le> s" "sorted_wrt (<) M" "\<forall>n\<in>set M. s < n \<and> n \<le> s'" "s \<le> s'"
  shows "sorted_wrt (<) (N @ M) \<and> (\<forall>n\<in>set (N @ M). n \<le> s')"
  using assms by (fastforce simp: sorted_wrt_append)

lemma recorded_log:
  assumes "recorded actor db db'"
  shows "prefix (db_audit db) (db_audit db')" "log_ok db \<Longrightarrow> log_ok db'"
proof -
  obtain evs where evs: "db_audit db' = db_audit db @ evs" "db_audit_seq db' = db_audit_seq db + length evs"
      "map fst evs = [Suc (db_audit_seq db)..<Suc (db_audit_seq db) + length evs]"
    using assms by (auto simp: recorded_def simp del: upt_Suc)
  then show "prefix (db_audit db) (db_audit db')" by simp
  have "set (map fst evs) = {Suc (db_audit_seq db)..<Suc (db_audit_seq db) + length evs}"
    by (simp only: evs(3) set_upt)
  then have "\<forall>n\<in>set (map fst evs). db_audit_seq db < n \<and> n \<le> db_audit_seq db'"
    using evs(2) by (simp only:) auto
  moreover have "sorted_wrt (<) (map fst evs)" by (simp only: evs(3) sorted_wrt_upt)
  ultimately show "log_ok db'" if "log_ok db"
    using that sorted_extend [of "map fst (db_audit db)" "db_audit_seq db" "map fst evs" "db_audit_seq db'"] evs(2)
    unfolding log_ok_def evs(1) map_append by simp
qed

lemma exec_log:
  assumes "keys_ok db"
  shows "prefix (db_audit db) (db_audit (exec_call X c db)) \<and> (log_ok db \<longrightarrow> log_ok (exec_call X c db))"
  using exec_commits [OF assms, of c X] by (auto simp: commits_def dest: recorded_log)

lemma run_log:
  "keys_ok db \<Longrightarrow> prefix (db_audit db) (db_audit (run_calls X calls db)) \<and> (log_ok db \<longrightarrow> log_ok (run_calls X calls db))"
proof (induction calls arbitrary: db)
  case (Cons c calls)
  show ?case
    using Cons.IH [OF exec_keys [OF Cons.prems], of X c] exec_log [OF Cons.prems, of X c]
    by (auto elim: prefix_order.trans)
qed simp

section \<open>Tokens\<close>

lemma token_joins_rows:
  assumes "keys_ok db"
  shows "card (token_joins (fl_joins (abs_db db)) k) = length (filter (\<lambda>j. jr_token_id j = k) (db_joins db))"
proof -
  have d: "distinct (map jr_request_id (db_joins db))" using assms by (simp add: keys_ok_def)
  have "token_joins (fl_joins (abs_db db)) k = jr_request_id ` set (filter (\<lambda>j. jr_token_id j = k) (db_joins db))"
    using lookup_distinct [OF d] lookup_Some [of jr_request_id "db_joins db"]
    by (force simp: token_joins_def table_def join_view_def image_iff)
  also have "card \<dots> = length (filter (\<lambda>j. jr_token_id j = k) (db_joins db))"
    using d distinct_card [of "filter (\<lambda>j. jr_token_id j = k) (db_joins db)"]
    by (subst card_image) (auto simp: distinct_map intro: inj_on_subset)
  finally show ?thesis .
qed

lemma token_row_bound:
  assumes "keys_ok db" "fleet_inv (abs_db db)" "t \<in> set (db_tokens db)"
  shows "tk_used_count t = length (filter (\<lambda>j. jr_token_id j = tk_token_id t) (db_joins db))
    \<and> tk_used_count t \<le> tk_max_uses t \<and> tk_max_uses t \<le> 10000"
proof -
  have d: "distinct (map tk_token_id (db_tokens db))" using assms by (simp add: keys_ok_def)
  have "fl_tokens (abs_db db) (tk_token_id t) = Some (token_view t)"
    using assms(3) lookup_distinct [OF d] by (simp add: table_def)
  moreover have "token_inv (fl_tokens (abs_db db)) (fl_joins (abs_db db))" using assms(2) by (simp add: fleet_inv_def)
  ultimately have "tk_used_count t = card (token_joins (fl_joins (abs_db db)) (tk_token_id t))
      \<and> tk_used_count t \<le> tk_max_uses t \<and> tk_max_uses t \<le> 10000"
    unfolding token_inv_def by (metis fleet_token.select_convs(1,2) token_view_def)
  then show ?thesis using token_joins_rows [OF assms(1), of "tk_token_id t"] by linarith
qed

section \<open>An example\<close>

definition store_example_env :: store_env where
  "store_example_env = \<lparr>se_now_utc = 0, se_now_text = ''2026-01-01T00:00:00Z'', se_sql_now = ''2026-01-01T00:00:00Z'',
     se_new_uuid = replicate 36 (CHR ''a''), se_blake3_hex = (\<lambda>s. replicate 64 (CHR ''a''))\<rparr>"

definition example_node :: node_insert where
  "example_node = \<lparr>ni_node_id = ''node-1'', ni_endpoint_id = ''ep-1'', ni_name = ''node-1'', ni_region = ''eu'',
     ni_role = ''edge''\<rparr>"

definition example_calls :: "(store_env \<times> store_call) list" where
  "example_calls = [(store_example_env, AddNode example_node ''alice''),
     (store_example_env, RotateEndpoint ''ep-1'' ''ep-2'' ''alice'' ''renewal''),
     (store_example_env, RevokeEndpoint ''ep-2'' ''bob'' ''lost'')]"

definition example_token_row :: enrollment_token where
  "example_token_row = \<lparr>tk_token_id = ''tok-1'', tk_token_hash = replicate 64 (CHR ''a''),
     tk_created_at = ''2026-01-01T00:00:00Z'', tk_created_by = ''alice'', tk_expires_at = ''2027-01-01T00:00:00Z'',
     tk_max_uses = 2, tk_used_count = 0, tk_status = TokActive, tk_description = None,
     tk_labels_json = JObj [], tk_scope_json = JObj []\<rparr>"

definition example_db :: store_db where
  "example_db = empty_db\<lparr>db_tokens := [example_token_row]\<rparr>"

lemma example_db_ok: "keys_ok example_db" "fleet_inv (abs_db example_db)"
proof -
  have none: "table tk_token_id token_view (db_tokens empty_db) = Map.empty"
    by (simp add: empty_db_def table_def lookup_def)
  have "table tk_token_id token_view [example_token_row]
      = [''tok-1'' \<mapsto> \<lparr>fk_max_uses = 2, fk_used = 0, fk_status = TokActive\<rparr>]"
    by (auto simp: fun_eq_iff table_def lookup_def example_token_row_def token_view_def)
  then have "fleet_step (abs_db empty_db) (abs_db example_db)"
    using fleet_step.issue [of "abs_db empty_db" "''tok-1''" 2] none by (simp add: example_db_def)
  then show "fleet_inv (abs_db example_db)" using empty_db_ok(2) by (rule fleet_inv_step)
qed (simp add: example_db_def keys_ok_def empty_db_def)

section \<open>Properties\<close>

text \<open>C11. Every call of the store is atomic, does not panic and refines the contract of the registry: on a
  database with unique keys it either leaves the database unchanged, which every error does, or takes at
  most one step of the fleet and records it in the audit log under the caller's name.\<close>

theorem store_call_refines_fleet:
  assumes "keys_ok db"
  shows "fst (run_tx (call_tx X E c) db) \<noteq> Inl Panic
    \<and> (is_ok (fst (run_tx (call_tx X E c) db)) \<or> exec_call X (E, c) db = db)
    \<and> (exec_call X (E, c) db = db
       \<or> fleet_step\<^sup>=\<^sup>= (abs_db db) (abs_db (exec_call X (E, c) db)) \<and> recorded (call_actor c) db (exec_call X (E, c) db))
    \<and> keys_ok (exec_call X (E, c) db)"
proof (intro conjI)
  show "fst (run_tx (call_tx X E c) db) \<noteq> Inl Panic" using post_no_panic [OF call_commits [OF assms]] .
  show "is_ok (fst (run_tx (call_tx X E c) db)) \<or> exec_call X (E, c) db = db"
    by (auto simp: exec_call_def run_tx_def split: sum.splits)
qed (use exec_commits [OF assms, of "(E, c)" X] in \<open>auto simp: commits_def\<close>)

theorem store_call_refines_fleet_witness:
  "fst (run_tx (call_tx example_ext store_example_env (AddNode example_node ''alice'')) empty_db) \<noteq> Inl Panic"
  using store_call_refines_fleet [OF empty_db_ok(1), of example_ext store_example_env "AddNode example_node ''alice''"] by blast

text \<open>C12. The registry stays consistent under every sequence of calls, from a fresh database or any other
  consistent one: no two nodes share an endpoint, an enabled node has exactly one active endpoint, bound to
  it, rotation edges point both ways and keep the owner and the key, every approved join request has its
  endpoint, and a token's counter is the number of its join requests.\<close>

theorem store_keeps_fleet_invariant:
  assumes "keys_ok db" "fleet_inv (abs_db db)"
  shows "fleet_inv (abs_db (run_calls X calls db))"
  using run_inv [OF assms] .

theorem store_keeps_fleet_invariant_witness:
  "fleet_inv (abs_db (run_calls example_ext example_calls empty_db))"
  using store_keeps_fleet_invariant [OF empty_db_ok] .

text \<open>C13. However many agents race for an enrollment token, it never admits more join requests than its
  limit, which is at most 10000, and its counter is exact: after any sequence of calls the counter of every
  token is the number of join requests that name it.\<close>

theorem token_uses_bounded:
  assumes "keys_ok db" "fleet_inv (abs_db db)" "t \<in> set (db_tokens (run_calls X calls db))"
  shows "tk_used_count t = length (filter (\<lambda>j. jr_token_id j = tk_token_id t) (db_joins (run_calls X calls db)))
    \<and> tk_used_count t \<le> tk_max_uses t \<and> tk_max_uses t \<le> MAX_ENROLLMENT_TOKEN_USES"
  using token_row_bound [OF registry.run_ok [OF assms(1)] run_inv [OF assms(1,2)] assms(3)]
  by (simp add: MAX_ENROLLMENT_TOKEN_USES_def)

theorem token_uses_bounded_witness:
  "tk_used_count example_token_row \<le> MAX_ENROLLMENT_TOKEN_USES"
  using token_uses_bounded [OF example_db_ok, of example_token_row example_ext "[]"]
  by (simp add: example_db_def)

text \<open>C14. The audit log is append-only and totally ordered: no call removes or rewrites a record, and the
  record numbers increase strictly.\<close>

theorem audit_log_append_only:
  assumes "keys_ok db" "log_ok db"
  shows "prefix (db_audit db) (db_audit (run_calls X calls db))
    \<and> sorted_wrt (<) (map fst (db_audit (run_calls X calls db)))"
  using run_log [OF assms(1), of X calls] assms(2) by (simp add: log_ok_def)

theorem audit_log_append_only_witness:
  "prefix (db_audit empty_db) (db_audit (run_calls example_ext example_calls empty_db))"
  using audit_log_append_only [OF empty_db_ok(1), of example_ext example_calls]
  by (simp add: log_ok_def empty_db_def)

end
