(* ===== verification/Dispatch_Gate.thy ===== *)
theory Dispatch_Gate
  imports Store_Operations
begin

text \<open>
  The trust gate every controller RPC passes (\<open>ocfleet-cli/src/controller_rpc.rs\<close>): the binding of an
  endpoint read from the database in one query (\<open>store.rs\<close>), and its classification. On a consistent
  registry the gate is open exactly for the endpoint an enabled node points to.
\<close>

section \<open>The binding and its classification\<close>

record endpoint_dispatch_binding =
  bd_status :: endpoint_status
  bd_trust_node_id :: "string option"
  bd_registry_node_id :: "string option"
  bd_registry_endpoint_id :: "string option"
  bd_registry_enabled :: "bool option"
  bd_active_endpoint_count_for_node :: nat

text \<open>A \<open>LEFT JOIN\<close> with at most one row on each side.\<close>

definition get_endpoint_dispatch_binding ::
    "store_db \<Rightarrow> string \<Rightarrow> string \<Rightarrow> store_error + endpoint_dispatch_binding option" where
  "get_endpoint_dispatch_binding db expected_node_id endpoint_id =
     (let registry = find_node (db_nodes db) expected_node_id in
      Inr (map_option (\<lambda>trust. \<lparr>bd_status = et_status trust, bd_trust_node_id = et_node_id trust,
          bd_registry_node_id = map_option nr_node_id registry,
          bd_registry_endpoint_id = map_option nr_endpoint_id registry,
          bd_registry_enabled = map_option nr_enabled registry,
          bd_active_endpoint_count_for_node = length (active_rows_for_node db expected_node_id)\<rparr>)
        (find_trust (db_trust db) endpoint_id)))"

datatype endpoint_trust_rejection = Missing | Inactive endpoint_status | Unbound | BindingMismatch

primrec rejection_as_str :: "endpoint_trust_rejection \<Rightarrow> string" where
  "rejection_as_str Missing = ''missing''"
| "rejection_as_str (Inactive status) = endpoint_status_as_str status"
| "rejection_as_str Unbound = ''unbound''"
| "rejection_as_str BindingMismatch = ''binding_mismatch''"

primrec rejection_endpoint_status :: "endpoint_trust_rejection \<Rightarrow> endpoint_status option" where
  "rejection_endpoint_status Missing = None"
| "rejection_endpoint_status (Inactive status) = Some status"
| "rejection_endpoint_status Unbound = Some EpActive"
| "rejection_endpoint_status BindingMismatch = Some EpActive"

primrec rejection_trust_state :: "endpoint_trust_rejection \<Rightarrow> string" where
  "rejection_trust_state Missing = ''missing''"
| "rejection_trust_state (Inactive status) = ''inactive''"
| "rejection_trust_state Unbound = ''unbound''"
| "rejection_trust_state BindingMismatch = ''binding_mismatch''"

definition rejection_message :: "endpoint_trust_rejection \<Rightarrow> bool \<Rightarrow> string \<Rightarrow> string \<Rightarrow> string" where
  "rejection_message rejection target node_id endpoint_id =
     (let label = (if target then ''target endpoint'' else ''endpoint'');
          ids = ''node_id='' @ node_id @ '' endpoint_id='' @ endpoint_id in
      case rejection of
        Missing \<Rightarrow> label @ '' trust missing: '' @ ids
      | Inactive status \<Rightarrow> label @ '' not active: '' @ ids @ '' status='' @ endpoint_status_as_str status
      | Unbound \<Rightarrow> label @ '' trust is unbound: '' @ ids
      | BindingMismatch \<Rightarrow> label @ '' trust binding mismatch: '' @ ids)"

definition classify_endpoint_trust ::
    "endpoint_dispatch_binding option \<Rightarrow> string \<Rightarrow> string \<Rightarrow> endpoint_trust_rejection option" where
  "classify_endpoint_trust binding expected_node_id endpoint_id =
     (case binding of
        None \<Rightarrow> Some Missing
      | Some b \<Rightarrow>
          if bd_status b \<noteq> EpActive then Some (Inactive (bd_status b))
          else (case bd_trust_node_id b of
              None \<Rightarrow> Some Unbound
            | Some trust_node_id \<Rightarrow>
                if trust_node_id \<noteq> expected_node_id
                   \<or> bd_registry_node_id b \<noteq> Some expected_node_id
                   \<or> bd_registry_endpoint_id b \<noteq> Some endpoint_id
                   \<or> bd_registry_enabled b \<noteq> Some True
                   \<or> bd_active_endpoint_count_for_node b \<noteq> 1
                then Some BindingMismatch
                else None))"

definition endpoint_trust_rejection_of ::
    "store_db \<Rightarrow> string \<Rightarrow> string \<Rightarrow> store_error + endpoint_trust_rejection option" where
  "endpoint_trust_rejection_of db expected_node_id endpoint_id =
     rbind (get_endpoint_dispatch_binding db expected_node_id endpoint_id) (\<lambda>binding.
       Inr (classify_endpoint_trust binding expected_node_id endpoint_id))"

section \<open>When the gate is open\<close>

text \<open>Everything the gate asks of the database.\<close>

definition dispatchable :: "store_db \<Rightarrow> string \<Rightarrow> string \<Rightarrow> bool" where
  "dispatchable db m e \<longleftrightarrow> (\<exists>n t. find_node (db_nodes db) m = Some n \<and> nr_endpoint_id n = e \<and> nr_enabled n
     \<and> find_trust (db_trust db) e = Some t \<and> et_status t = EpActive \<and> et_node_id t = Some m
     \<and> length (active_rows_for_node db m) = 1)"

lemma gate_open: "endpoint_trust_rejection_of db m e = Inr None \<longleftrightarrow> dispatchable db m e"
  by (auto simp: endpoint_trust_rejection_of_def get_endpoint_dispatch_binding_def classify_endpoint_trust_def
      dispatchable_def Let_def dest: lookup_key split: option.splits if_splits)

lemma gate_total: "\<exists>x. endpoint_trust_rejection_of db m e = Inr x"
  by (simp add: endpoint_trust_rejection_of_def get_endpoint_dispatch_binding_def Let_def)

lemma gate_inactive:
  "find_trust (db_trust db) e = Some t \<Longrightarrow> et_status t \<noteq> EpActive \<Longrightarrow>
   endpoint_trust_rejection_of db m e = Inr (Some (Inactive (et_status t)))"
  by (simp add: endpoint_trust_rejection_of_def get_endpoint_dispatch_binding_def classify_endpoint_trust_def Let_def)

lemma distinct_single:
  assumes "distinct xs" "t \<in> set xs" "\<And>u. u \<in> set xs \<Longrightarrow> u = t"
  shows "xs = [t]"
proof -
  have "set xs = {t}" using assms(2,3) by blast
  then have "length xs = 1" using distinct_card [OF assms(1)] by simp
  then show ?thesis using assms(2) by (cases xs) auto
qed

lemma active_rows_single:
  assumes keys: "keys_ok db" and inv: "fleet_inv (abs_db db)"
    and n: "find_node (db_nodes db) m = Some n" "nr_enabled n"
  shows "\<exists>t. active_rows_for_node db m = [t] \<and> find_trust (db_trust db) (nr_endpoint_id n) = Some t"
proof -
  have d: "distinct (map et_endpoint_id (db_trust db))" using keys by (simp add: keys_ok_def)
  have b: "binding_inv (fl_nodes (abs_db db)) (fl_trust (abs_db db))" using inv by (simp add: fleet_inv_def)
  have N: "fl_nodes (abs_db db) m = Some (nr_endpoint_id n, True)" using n by (simp add: table_Some)
  obtain t where t: "find_trust (db_trust db) (nr_endpoint_id n) = Some t" "et_status t = EpActive" "et_node_id t = Some m"
    using binding_invD(3) [OF b N] by (auto simp: table_def)
  have "u = t" if "u \<in> set (active_rows_for_node db m)" for u
  proof -
    have u: "u \<in> set (db_trust db)" "et_node_id u = Some m" "et_status u = EpActive"
      using that by (auto simp: active_rows_for_node_def)
    have "fl_trust (abs_db db) (et_endpoint_id u) = Some (trust_view u)"
      using lookup_distinct [OF d u(1)] by (simp add: table_Some)
    then have "nr_endpoint_id n = et_endpoint_id u"
      using binding_active_pointed [OF b _ _ _ N] u by simp
    then show ?thesis using t(1) lookup_distinct [OF d u(1)] by simp
  qed
  moreover have "t \<in> set (active_rows_for_node db m)"
    using t lookup_Some [OF t(1)] by (simp add: active_rows_for_node_def)
  moreover have "distinct (active_rows_for_node db m)"
    using d by (simp add: active_rows_for_node_def distinct_map)
  ultimately have "active_rows_for_node db m = [t]"
    by (intro distinct_single)
  with t show ?thesis by blast
qed

lemma enabled_dispatchable:
  assumes keys: "keys_ok db" and inv: "fleet_inv (abs_db db)"
  shows "dispatchable db m e \<longleftrightarrow> (\<exists>n. find_node (db_nodes db) m = Some n \<and> nr_endpoint_id n = e \<and> nr_enabled n)"
proof
  assume "\<exists>n. find_node (db_nodes db) m = Some n \<and> nr_endpoint_id n = e \<and> nr_enabled n"
  then obtain n where n: "find_node (db_nodes db) m = Some n" "nr_endpoint_id n = e" "nr_enabled n" by blast
  obtain t where t: "active_rows_for_node db m = [t]" "find_trust (db_trust db) e = Some t"
    using active_rows_single [OF keys inv n(1,3)] n(2) by blast
  have "t \<in> set (active_rows_for_node db m)" using t(1) by simp
  then have "et_status t = EpActive \<and> et_node_id t = Some m" by (simp add: active_rows_for_node_def)
  with n t show "dispatchable db m e" by (auto simp: dispatchable_def)
qed (auto simp: dispatchable_def)

section \<open>What no call can undo\<close>

lemma terminal_status:
  assumes "keys_ok db" "find_trust (db_trust db) e = Some t" "et_status t = EpRevoked \<or> et_status t = EpRotated"
  shows "\<exists>u. find_trust (db_trust (run_calls X calls db)) e = Some u \<and> et_status u = et_status t"
proof -
  have "map_progress trust_progress (fl_trust (abs_db db)) (fl_trust (abs_db (run_calls X calls db)))"
    using run_progress [OF assms(1), of X calls] by (simp add: fleet_progress_def)
  then obtain u where "find_trust (db_trust (run_calls X calls db)) e = Some u" "trust_progress (trust_view t) (trust_view u)"
    using assms(2) by (auto simp: map_progress_def table_def)
  then show ?thesis using assms(3) by (auto simp: trust_progress_def)
qed

section \<open>Properties\<close>

definition example_revoked_row :: endpoint_trust where
  "example_revoked_row = \<lparr>et_endpoint_id = ''ep-1'', et_node_id = Some ''node-1'', et_fingerprint = None,
     et_status = EpRevoked, et_generation = 2, et_previous_endpoint_id = None, et_rotated_to = None,
     et_trust_bundle_json = JObj [], et_created_at = ''2026-01-01T00:00:00Z'', et_updated_at = ''2026-01-01T00:00:00Z''\<rparr>"

definition example_revoked_db :: store_db where
  "example_revoked_db = empty_db\<lparr>db_trust := [example_revoked_row]\<rparr>"

text \<open>C6. The trust gate agrees with the registry: after any sequence of store calls on a consistent database,
  the gate lets a controller RPC through for a node and an endpoint exactly when the node is registered,
  enabled and points to that endpoint. The gate's separate checks of the trust row, its owner and the number
  of active endpoints never contradict the registry.\<close>

theorem gate_open_iff_enabled:
  assumes "keys_ok db" "fleet_inv (abs_db db)" "db' = run_calls X calls db"
  shows "endpoint_trust_rejection_of db' m e = Inr None \<longleftrightarrow>
    (\<exists>n. find_node (db_nodes db') m = Some n \<and> nr_endpoint_id n = e \<and> nr_enabled n)"
  unfolding gate_open assms(3)
  by (rule enabled_dispatchable [OF registry.run_ok [OF assms(1)] run_inv [OF assms(1,2)]])

theorem gate_open_iff_enabled_witness:
  "endpoint_trust_rejection_of empty_db ''node-1'' ''ep-1'' \<noteq> Inr None"
  using gate_open_iff_enabled [OF empty_db_ok, of empty_db example_ext "[]" "''node-1''" "''ep-1''"]
  by (simp add: empty_db_def lookup_def)

text \<open>C7. Revocation and rotation are final: once an endpoint is revoked or rotated, no sequence of store
  calls, failed or successful, makes the gate accept it again for any node. The gate keeps answering that the
  endpoint is inactive, with its status.\<close>

theorem revoked_endpoint_stays_rejected:
  assumes "keys_ok db" "find_trust (db_trust db) e = Some t" "et_status t = EpRevoked \<or> et_status t = EpRotated"
  shows "endpoint_trust_rejection_of (run_calls X calls db) m e = Inr (Some (Inactive (et_status t)))"
proof -
  obtain u where "find_trust (db_trust (run_calls X calls db)) e = Some u" "et_status u = et_status t"
    using terminal_status [OF assms] by blast
  then show ?thesis using gate_inactive [of "run_calls X calls db" e u m] assms(3) by auto
qed

theorem revoked_endpoint_stays_rejected_witness:
  "endpoint_trust_rejection_of (run_calls example_ext
     [(store_example_env, AddNode example_node ''alice''), (store_example_env, EnableNode ''node-1'' ''alice'')]
     example_revoked_db) ''node-1'' ''ep-1'' = Inr (Some (Inactive EpRevoked))"
proof -
  have "find_trust (db_trust example_revoked_db) ''ep-1'' = Some example_revoked_row"
    by (simp add: example_revoked_db_def example_revoked_row_def lookup_def)
  moreover have "keys_ok example_revoked_db" by (simp add: example_revoked_db_def keys_ok_def empty_db_def)
  moreover have "et_status example_revoked_row = EpRevoked" by (simp add: example_revoked_row_def)
  ultimately show ?thesis using revoked_endpoint_stays_rejected by metis
qed

end
