(* ===== verification/Rpc_Client.thy ===== *)
theory Rpc_Client
  imports Protocol
begin

text \<open>
  The controller's RPC client (\<open>ocfleet-cli/src/rpc_client.rs\<close>): building a request, one exchange with a
  remote endpoint, and the checks on a response before it is believed. The network, the JSON codec and the
  random sources are the record \<open>transport\<close>.
\<close>

section \<open>Errors and requests\<close>

datatype rpc_client_error = Structured (ce_code: error_code) (ce_message: string) (ce_details: json)

definition structured :: "error_code \<Rightarrow> string \<Rightarrow> rpc_client_error" where
  "structured code message = Structured code message (jobj [])"

definition endpoint_mismatch :: "string \<Rightarrow> string \<Rightarrow> rpc_client_error" where
  "endpoint_mismatch expected actual =
     Structured EndpointMismatch
       (''ENDPOINT_MISMATCH expected='' @ expected @ '' actual='' @ actual)
       (jobj [(''expected_endpoint_id'', JStr expected), (''actual_remote_endpoint_id'', JStr actual)])"

text \<open>What the client gets from outside, for one call:

  \<^item> \<open>tr_uuid\<close>, \<open>tr_nonce\<close>, \<open>tr_issued_at\<close>: a fresh UUID, 16 random bytes as base64url text, the clock;
  \<^item> \<open>tr_bind\<close>, \<open>tr_connect\<close>, \<open>tr_open\<close>: \<open>Endpoint::bind\<close>, \<open>Endpoint::connect\<close> with the identity the peer
    proved in the handshake (\<open>remote_id\<close>), \<open>open_bi\<close>; errors are their texts;
  \<^item> \<open>tr_encode\<close>, \<open>tr_decode\<close>: \<open>serde_json::to_vec\<close> and \<open>serde_json::from_slice\<close>;
  \<^item> \<open>tr_write_length\<close>, \<open>tr_write_payload\<close>, \<open>tr_shutdown\<close>: the three writes of a frame;
  \<^item> \<open>tr_input\<close>: the bytes the stream yields before it ends, with the text of the read error;
  \<^item> \<open>tr_read_in_time\<close>, \<open>tr_in_time\<close>: whether the read and the whole call finish before their timeouts.\<close>

record transport =
  tr_uuid :: string
  tr_nonce :: string
  tr_issued_at :: string
  tr_bind :: "string + unit"
  tr_connect :: "string \<Rightarrow> string + string"
  tr_open :: "string + unit"
  tr_encode :: "rpc_request \<Rightarrow> string + string"
  tr_write_length :: "string + unit"
  tr_write_payload :: "string + unit"
  tr_shutdown :: "string + unit"
  tr_input :: string
  tr_read_error :: string
  tr_decode :: "string \<Rightarrow> string + rpc_response"
  tr_read_in_time :: bool
  tr_in_time :: bool

definition bind_controller_endpoint :: "transport \<Rightarrow> rpc_client_error + unit" where
  "bind_controller_endpoint N = map_err (structured ConnectFailed) (tr_bind N)"

definition build_request :: "transport \<Rightarrow> string \<Rightarrow> json \<Rightarrow> string option \<Rightarrow> nat \<Rightarrow> rpc_request" where
  "build_request N method params actor deadline_ms = \<lparr>rq_version = PROTOCOL_VERSION, rq_request_id = tr_uuid N,
     rq_method = method, rq_params = params, rq_issued_at = tr_issued_at N, rq_nonce = tr_nonce N,
     rq_deadline_ms = deadline_ms, rq_actor = actor, rq_auth = None\<rparr>"

section \<open>One exchange\<close>

definition write_request_frame :: "transport \<Rightarrow> rpc_request \<Rightarrow> rpc_client_error + unit" where
  "write_request_frame N request =
     rbind (map_err (structured InternalError) (tr_encode N request)) (\<lambda>payload.
     rbind (ensure (\<not> length payload > DEFAULT_MAX_REQUEST_BYTES)
       (structured FrameTooLarge (''request frame too large: '' @ show_nat (length payload) @ '' > ''
          @ show_nat DEFAULT_MAX_REQUEST_BYTES))) (\<lambda>_.
     rbind (map_err (structured ConnectFailed) (tr_write_length N)) (\<lambda>_.
     rbind (map_err (structured ConnectFailed) (tr_write_payload N)) (\<lambda>_.
       map_err (structured ConnectFailed) (tr_shutdown N)))))"

definition read_response_frame :: "transport \<Rightarrow> nat \<Rightarrow> rpc_client_error + string" where
  "read_response_frame N max_response_bytes =
     (if length (tr_input N) < 4 then Inl (structured FrameReadFailed (tr_read_error N))
      else let declared = u32_from_be_bytes (take 4 (tr_input N)); rest = drop 4 (tr_input N) in
        if declared > max_response_bytes
        then Inl (structured FrameTooLarge (''frame too large: '' @ show_nat declared @ '' > ''
               @ show_nat max_response_bytes))
        else if length rest < declared then Inl (structured FrameReadFailed (tr_read_error N))
        else Inr (take declared rest))"

definition read_response_frame_with_timeout :: "transport \<Rightarrow> nat \<Rightarrow> nat \<Rightarrow> rpc_client_error + string" where
  "read_response_frame_with_timeout N max_response_bytes timeout =
     (if tr_read_in_time N then read_response_frame N max_response_bytes
      else Inl (structured RpcTimeout (''response frame read timed out after '' @ show_nat timeout @ '' ms'')))"

text \<open>The identities whose streams the request was written to, and the answer. A call that is cut off by
  its timeout reports what it had begun.\<close>

definition call_endpoint_addr_inner ::
    "transport \<Rightarrow> string \<Rightarrow> string \<Rightarrow> rpc_request \<Rightarrow> string list \<times> (rpc_client_error + rpc_response)" where
  "call_endpoint_addr_inner N target expected_endpoint_id request =
     (case map_err (structured ConnectFailed) (tr_connect N target) of
        Inl e \<Rightarrow> ([], Inl e)
      | Inr actual_endpoint_id \<Rightarrow>
          if actual_endpoint_id \<noteq> expected_endpoint_id
          then ([], Inl (endpoint_mismatch expected_endpoint_id actual_endpoint_id))
          else (case map_err (structured ConnectFailed) (tr_open N) of
              Inl e \<Rightarrow> ([], Inl e)
            | Inr _ \<Rightarrow> ([actual_endpoint_id],
                rbind (write_request_frame N request) (\<lambda>_.
                rbind (read_response_frame_with_timeout N DEFAULT_MAX_RESPONSE_BYTES (rq_deadline_ms request)) (\<lambda>payload.
                  map_err (structured InvalidResponse) (tr_decode N payload))))))"

definition call_endpoint_addr ::
    "transport \<Rightarrow> string \<Rightarrow> string \<Rightarrow> rpc_request \<Rightarrow> string list \<times> (rpc_client_error + rpc_response)" where
  "call_endpoint_addr N target expected_endpoint_id request =
     (let r = call_endpoint_addr_inner N target expected_endpoint_id request in
      if tr_in_time N then r
      else (fst r, Inl (structured RpcTimeout
        (''rpc timed out after '' @ show_nat (rq_deadline_ms request) @ '' ms''))))"

section \<open>Checks on a response\<close>

definition validate_rpc_response :: "rpc_response \<Rightarrow> string \<Rightarrow> string option \<Rightarrow> rpc_client_error + unit" where
  "validate_rpc_response response expected_request_id expected_agent_endpoint_id =
     (if rs_version response \<noteq> PROTOCOL_VERSION
      then Inl (structured InvalidResponse (''invalid response version: expected '' @ show_nat PROTOCOL_VERSION
             @ '', got '' @ show_nat (rs_version response)))
      else if rs_request_id response \<noteq> Some expected_request_id
      then Inl (structured InvalidResponse ''response request_id does not match request'')
      else if rs_ok response
      then (if rs_error response \<noteq> None \<or> rs_result response = None
            then Inl (structured InvalidResponse ''ok response must include result and omit error'')
            else (case expected_agent_endpoint_id of
                None \<Rightarrow> Inr ()
              | Some expected_endpoint_id \<Rightarrow>
                  let actual = Option.bind (Option.bind (rs_result response) (jget ''agent_endpoint_id'')) as_str in
                  if actual \<noteq> Some expected_endpoint_id
                  then Inl (structured InvalidResponse (''agent_endpoint_id mismatch: expected='' @ expected_endpoint_id
                         @ '' actual='' @ (case actual of Some a \<Rightarrow> a | None \<Rightarrow> ''<missing>'')))
                  else Inr ()))
      else (case (rs_result response, rs_error response) of
          (None, Some error) \<Rightarrow> Inl (Structured (err_code error) (err_message error) (err_details error))
        | _ \<Rightarrow> Inl (structured InvalidResponse ''error response must include error and omit result'')))"

definition require_string_field :: "(string \<times> json) list \<Rightarrow> string \<Rightarrow> rpc_client_error + string" where
  "require_string_field kvs field =
     ok_or (Option.bind (map_of kvs field) as_str) (structured InvalidResponse (field @ '' must be a string''))"

definition require_str :: "(string \<times> json) list \<Rightarrow> string \<Rightarrow> string \<Rightarrow> rpc_client_error + unit" where
  "require_str kvs field expected =
     rbind (require_string_field kvs field) (\<lambda>actual.
       ensure (actual = expected)
         (structured InvalidResponse (field @ '' mismatch: expected='' @ expected @ '' actual='' @ actual)))"

definition as_object :: "json \<Rightarrow> (string \<times> json) list option" where
  "as_object v = (case v of JObj kvs \<Rightarrow> Some kvs | _ \<Rightarrow> None)"

definition as_bool :: "json \<Rightarrow> bool option" where
  "as_bool v = (case v of JBool b \<Rightarrow> Some b | _ \<Rightarrow> None)"

text \<open>The \<open>{fields:?}\<close> of a list of keys in an error text; \<open>quote\<close> is \<open>{:?}\<close> of one key, whose escapes follow
  the Unicode tables of the standard library.\<close>

fun join_with :: "string \<Rightarrow> string list \<Rightarrow> string" where
  "join_with sep [] = []"
| "join_with sep [x] = x"
| "join_with sep (x # y # rest) = x @ sep @ join_with sep (y # rest)"

definition debug_keys :: "(string \<Rightarrow> string) \<Rightarrow> string list \<Rightarrow> string" where
  "debug_keys quote ks = ''['' @ join_with '', '' (map quote ks) @ '']''"

definition exact_fields :: "(string \<Rightarrow> string) \<Rightarrow> string list \<Rightarrow> string \<Rightarrow> (string \<times> json) list \<Rightarrow> rpc_client_error + unit" where
  "exact_fields quote expected what kvs =
     (let fields = sort (map fst kvs) in
      ensure (fields = expected) (structured InvalidResponse (what @ '' fields mismatch: '' @ debug_keys quote fields)))"

definition path_result_fields :: "string list" where
  "path_result_fields = [''ok'', ''peer_request_id'', ''probe'', ''root_request_id'', ''source_agent_endpoint_id'',
     ''target_agent_endpoint_id'', ''target_result'', ''time_utc'']"

definition validate_path_success_fields ::
    "(string \<Rightarrow> string) \<Rightarrow> (string \<times> json) list \<Rightarrow> rpc_client_error + unit" where
  "validate_path_success_fields quote kvs = exact_fields quote path_result_fields ''path success result'' kvs"

definition validate_path_failure_fields ::
    "(string \<Rightarrow> string) \<Rightarrow> (string \<times> json) list \<Rightarrow> rpc_client_error + unit" where
  "validate_path_failure_fields quote kvs = exact_fields quote path_result_fields ''path failure result'' kvs"

definition target_object :: "json \<Rightarrow> rpc_client_error + (string \<times> json) list" where
  "target_object result = ok_or (as_object result) (structured InvalidResponse ''target_result must be an object'')"

definition validate_target_segment_failure_result ::
    "(string \<Rightarrow> string) \<Rightarrow> json \<Rightarrow> rpc_client_error + unit" where
  "validate_target_segment_failure_result quote result =
     rbind (target_object result) (\<lambda>kvs.
     rbind (exact_fields quote [''error_code'', ''ok'', ''reason'', ''stage''] ''target_result failure'' kvs) (\<lambda>_.
     rbind (ensure (Option.bind (map_of kvs ''ok'') as_bool = Some False)
       (structured InvalidResponse ''target_result ok must be false'')) (\<lambda>_.
     rbind (require_string_field kvs ''error_code'') (\<lambda>_.
     rbind (require_string_field kvs ''stage'') (\<lambda>_.
     rbind (require_string_field kvs ''reason'') (\<lambda>_. Inr ()))))))"

definition validate_normalized_peer_echo_result ::
    "(string \<Rightarrow> string) \<Rightarrow> json \<Rightarrow> rpc_client_error + unit" where
  "validate_normalized_peer_echo_result quote result =
     rbind (target_object result) (\<lambda>kvs.
     rbind (exact_fields quote [''message'', ''probe''] ''target_result'' kvs) (\<lambda>_.
     rbind (require_str kvs ''probe'' ''peer.echo'') (\<lambda>_.
       require_str kvs ''message'' ''pong'')))"

definition validate_path_echo_result ::
    "ext \<Rightarrow> (string \<Rightarrow> string) \<Rightarrow> json \<Rightarrow> string \<Rightarrow> string \<Rightarrow> string \<Rightarrow> rpc_client_error + unit" where
  "validate_path_echo_result X quote result expected_source expected_target expected_root =
     rbind (ok_or (as_object result) (structured InvalidResponse ''path result must be an object'')) (\<lambda>kvs.
     rbind (require_str kvs ''probe'' ''path.echo'') (\<lambda>_.
     rbind (require_str kvs ''source_agent_endpoint_id'' expected_source) (\<lambda>_.
     rbind (require_str kvs ''target_agent_endpoint_id'' expected_target) (\<lambda>_.
     rbind (require_str kvs ''root_request_id'' expected_root) (\<lambda>_.
     rbind (require_string_field kvs ''peer_request_id'') (\<lambda>_.
     rbind (require_string_field kvs ''time_utc'') (\<lambda>time_utc.
     rbind (ensure (parse_rfc3339 X time_utc \<noteq> None)
       (structured InvalidResponse (''invalid path time_utc: '' @ rfc3339_error X time_utc))) (\<lambda>_.
     rbind (ok_or (Option.bind (map_of kvs ''ok'') as_bool) (structured InvalidResponse ''ok must be bool'')) (\<lambda>ok.
       if ok
       then rbind (validate_path_success_fields quote kvs) (\<lambda>_.
            rbind (ok_or (map_of kvs ''target_result'')
              (structured InvalidResponse ''successful path result must include target_result'')) (\<lambda>target_result.
              validate_normalized_peer_echo_result quote target_result))
       else rbind (validate_path_failure_fields quote kvs) (\<lambda>_.
            rbind (ok_or (map_of kvs ''target_result'')
              (structured InvalidResponse ''failed path result must include target_result'')) (\<lambda>target_result.
              validate_target_segment_failure_result quote target_result)))))))))))"

end
