(* ===== verification/Ocserv_Output.thy ===== *)
theory Ocserv_Output
  imports Stored_Json
begin

text \<open>
  The redaction of ocserv texts (\<open>ocfleet-cli/src/ocserv_output.rs\<close>): the recognisers of addresses,
  fingerprints and forbidden words, the check of every printed text and the sanitised message of an audit
  record.

  The sources split on characters; splitting on bytes only adds empty tokens between the bytes of a
  multi-byte separator, and no recogniser accepts an empty token.
\<close>

definition CLI_OUTPUT_MAX_BYTES :: nat where "CLI_OUTPUT_MAX_BYTES = 8 * 1024"

text \<open>\<open>octet.parse::<u8>()\<close> of up to three digits.\<close>

definition is_octet :: "string \<Rightarrow> bool" where
  "is_octet octet \<longleftrightarrow> octet \<noteq> [] \<and> length octet \<le> 3 \<and> list_all is_ascii_digit octet \<and> digits_value 10 octet \<le> 255"

definition contains_ipv4_address :: "string \<Rightarrow> bool" where
  "contains_ipv4_address output \<longleftrightarrow>
     list_ex (\<lambda>token. let octets = split_on (\<lambda>c. c = CHR ''.'') token in
         length octets = 4 \<and> list_all is_octet octets)
       (split_on (\<lambda>c. \<not> (is_ascii_alphanumeric c \<or> c = CHR ''.'' \<or> c = CHR ''_'')) output)"

text \<open>\<open>split\<close> on white space, which may take several bytes, and on a set of ASCII characters.\<close>

function split_space :: "(char \<Rightarrow> bool) \<Rightarrow> string \<Rightarrow> string list" where
  "split_space p [] = [[]]"
| "split_space p (c # cs) =
     (let k = ws_head (map byte (c # cs)) in
      if k > 0 then [] # split_space p (drop k (c # cs))
      else if p c then [] # split_space p cs
      else (case split_space p cs of [] \<Rightarrow> [[c]] | t # ts \<Rightarrow> (c # t) # ts))"
  by pat_completeness auto
termination
  by (relation "measure (length \<circ> snd)") auto

definition trim_matches :: "(char \<Rightarrow> bool) \<Rightarrow> string \<Rightarrow> string" where
  "trim_matches p s = rev (dropWhile p (rev (dropWhile p s)))"

definition contains_ipv6_like_address :: "string \<Rightarrow> bool" where
  "contains_ipv6_like_address output \<longleftrightarrow>
     list_ex (\<lambda>t. let token = trim_matches (\<lambda>c. c \<in> {CHR '':'', CHR '';'', CHR '')'', CHR ''(''}) t in
         CHR '':'' \<in> set token \<and> length (filter (\<lambda>c. c = CHR '':'') token) \<ge> 2
         \<and> list_all (\<lambda>c. is_ascii_hexdigit c \<or> c = CHR '':'') token)
       (split_space (\<lambda>c. c \<in> {CHR 0x22, CHR 0x27, CHR '','', CHR ''['', CHR '']''}) output)"

definition contains_full_sha256_hex :: "string \<Rightarrow> bool" where
  "contains_full_sha256_hex output \<longleftrightarrow>
     list_ex (\<lambda>token. length token = 64 \<and> list_all is_ascii_hexdigit token)
       (split_on (\<lambda>c. \<not> is_ascii_hexdigit c) output)"

text \<open>\<open>str::replace\<close> of a non-empty pattern.\<close>

function str_replace :: "string \<Rightarrow> string \<Rightarrow> string \<Rightarrow> string" where
  "str_replace p r [] = []"
| "str_replace p r (c # cs) =
     (if p \<noteq> [] \<and> starts_with p (c # cs) then r @ str_replace p r (drop (length p) (c # cs))
      else c # str_replace p r cs)"
  by pat_completeness auto
termination
  by (relation "measure (\<lambda>x. length (snd (snd x)))") auto

definition forbidden_ocserv_markers :: "string list" where
  "forbidden_ocserv_markers =
    [''-----begin'', ''begin certificate'', ''private key'', ''/etc/'', ''/var/log'', ''systemctl'',
     ''journalctl'', ''occtl'', ''execstart'', ''ocserv.conf'', ''server-cert'', ''username'',
     CHR 0x22 # ''user'' @ [CHR 0x22], '' user='', ''client_ip'', ''client-ip'', ''client ip'',
     ''session_id'', ''session-id'', ''session id'', ''vpn_ip'', ''vpn-ip'', ''assigned_ip'', ''cn='',
     ''san'', ''dns:'', ''issuer'', ''serial'', ''subject'']"

definition contains_forbidden_ocserv_marker :: "string \<Rightarrow> bool" where
  "contains_forbidden_ocserv_marker output \<longleftrightarrow>
     (let lowered = str_replace ''ocserv.config'' ''ocserv_config'' (to_ascii_lowercase output) in
      list_ex (\<lambda>forbidden. str_contains forbidden lowered) forbidden_ocserv_markers)"

definition assert_low_sensitive_ocserv_output :: "string \<Rightarrow> string + unit" where
  "assert_low_sensitive_ocserv_output output = all_ok [
     ensure (\<not> length output > CLI_OUTPUT_MAX_BYTES) ''ocserv output exceeds bounded size'',
     ensure (\<not> (contains_ipv4_address output \<or> contains_ipv6_like_address output))
       ''ocserv output contains forbidden address-like content'',
     ensure (\<not> contains_full_sha256_hex output) ''ocserv output contains full sha256 fingerprint'',
     ensure (\<not> contains_forbidden_ocserv_marker output) ''ocserv output contains forbidden content'']"

text \<open>\<open>char::is_control\<close> holds of the ASCII controls and of U+0080 to U+009F.\<close>

fun blank_controls :: "string \<Rightarrow> string" where
  "blank_controls [] = []"
| "blank_controls (c # cs) =
     (if is_ascii_control c then CHR '' '' # blank_controls cs
      else (case cs of
          d # ds \<Rightarrow>
            if byte c = 194 \<and> 128 \<le> byte d \<and> byte d \<le> 159 then CHR '' '' # blank_controls ds
            else c # blank_controls cs
        | [] \<Rightarrow> [c]))"

text \<open>\<open>is_char_boundary\<close> inside a string: the byte is not a continuation byte.\<close>

definition is_continuation :: "char \<Rightarrow> bool" where
  "is_continuation c \<longleftrightarrow> 128 \<le> byte c \<and> byte c < 192"

fun floor_boundary :: "string \<Rightarrow> nat \<Rightarrow> nat" where
  "floor_boundary s n =
     (if n = 0 then 0 else if is_continuation (s ! n) then floor_boundary s (n - 1) else n)"

definition truncate_to_boundary :: "nat \<Rightarrow> string \<Rightarrow> string" where
  "truncate_to_boundary max_bytes s =
     (if length s \<le> max_bytes then s else take (floor_boundary s max_bytes) s)"

definition low_sensitive_ocserv_audit_message :: "string \<Rightarrow> string" where
  "low_sensitive_ocserv_audit_message message =
     (let sanitized = blank_controls message in
      if contains_ipv4_address sanitized \<or> contains_ipv6_like_address sanitized
         \<or> contains_forbidden_ocserv_marker sanitized
      then ''ocserv readonly command failed''
      else if length sanitized > 128 then truncate_to_boundary 128 sanitized
      else sanitized)"

section \<open>Laws\<close>

declare split_space.simps [simp del] str_replace.simps [simp del] floor_boundary.simps [simp del]

lemma floor_boundary_le: "floor_boundary s n \<le> n"
  by (induction s n rule: floor_boundary.induct) (subst floor_boundary.simps, auto)

lemma truncate_to_boundary_length: "length (truncate_to_boundary n s) \<le> n"
  using floor_boundary_le [of s n] by (auto simp: truncate_to_boundary_def)

lemma blank_controls_clean: "c \<in> set (blank_controls s) \<Longrightarrow> \<not> is_ascii_control c"
proof (induction s rule: blank_controls.induct)
  case (2 a cs)
  have "\<not> is_ascii_control (CHR '' '')" by code_simp
  with 2 show ?case by (cases cs) (auto split: if_splits)
qed simp

end
