(* ===== verification/Controller_Summaries.thy ===== *)
theory Controller_Summaries
  imports Capabilities Rpc_Client Store_Payloads Ocserv_Output
begin

text \<open>
  What the controller keeps of an agent's answer (\<open>ocfleet-cli/src/controller_rpc.rs\<close>): a summary of selected
  fields per method, the decoding of a capability response, and the sanitised text of an error
  (\<open>ocfleet-cli/src/ocserv_output.rs\<close>).
\<close>

section \<open>JSON objects\<close>

text \<open>\<open>Map::insert\<close> on the ordered map.\<close>

fun map_insert :: "string \<Rightarrow> json \<Rightarrow> (string \<times> json) list \<Rightarrow> (string \<times> json) list" where
  "map_insert k v [] = [(k, v)]"
| "map_insert k v (kv # kvs) =
     (if k = fst kv then (k, v) # kvs
      else if k < fst kv then (k, v) # kv # kvs
      else kv # map_insert k v kvs)"

definition insert_some :: "string \<Rightarrow> json option \<Rightarrow> (string \<times> json) list \<Rightarrow> (string \<times> json) list" where
  "insert_some k x summary = (case x of Some v \<Rightarrow> map_insert k v summary | None \<Rightarrow> summary)"

definition as_i64 :: "json \<Rightarrow> int option" where
  "as_i64 v = (case v of JInt i \<Rightarrow> if - int i64_max - 1 \<le> i \<and> i \<le> int i64_max then Some i else None | _ \<Rightarrow> None)"

definition as_array :: "json \<Rightarrow> json list option" where
  "as_array v = (case v of JArr vs \<Rightarrow> Some vs | _ \<Rightarrow> None)"

fun nested_value :: "json \<Rightarrow> string list \<Rightarrow> json option" where
  "nested_value source [] = Some source"
| "nested_value source (field # path) = Option.bind (jget field source) (\<lambda>v. nested_value v path)"

definition copy_string_field :: "json \<Rightarrow> string \<Rightarrow> (string \<times> json) list \<Rightarrow> (string \<times> json) list" where
  "copy_string_field source field target =
     insert_some field (map_option JStr (Option.bind (jget field source) as_str)) target"

definition copy_nested_string_field ::
    "json \<Rightarrow> string list \<Rightarrow> string \<Rightarrow> (string \<times> json) list \<Rightarrow> (string \<times> json) list" where
  "copy_nested_string_field source path target_field target =
     insert_some target_field (map_option JStr (Option.bind (nested_value source path) as_str)) target"

definition copy_nested_u64_field ::
    "json \<Rightarrow> string list \<Rightarrow> string \<Rightarrow> (string \<times> json) list \<Rightarrow> (string \<times> json) list" where
  "copy_nested_u64_field source path target_field target =
     insert_some target_field (map_option (\<lambda>n. JInt (int n)) (Option.bind (nested_value source path) as_u64)) target"

text \<open>\<open>chars().take(n).collect()\<close>: a character is a byte and the continuation bytes after it.\<close>

fun take_chars :: "nat \<Rightarrow> string \<Rightarrow> string" where
  "take_chars n [] = []"
| "take_chars n (c # cs) =
     (if n = 0 then []
      else c # takeWhile is_continuation cs @ take_chars (n - 1) (dropWhile is_continuation cs))"

section \<open>Capability responses\<close>

datatype capability_decode_error = CdInvalidResponse | CdIncompatibleProtocol | CdUnsupportedCapability

primrec capability_error_text :: "capability_decode_error \<Rightarrow> string" where
  "capability_error_text CdInvalidResponse = ''capabilities response is invalid''"
| "capability_error_text CdIncompatibleProtocol =
     ''agent protocol range is incompatible with this controller''"
| "capability_error_text CdUnsupportedCapability =
     ''agent omits the required node.capabilities method''"

primrec capability_error_code :: "capability_decode_error \<Rightarrow> error_code" where
  "capability_error_code CdInvalidResponse = InvalidResponse"
| "capability_error_code CdIncompatibleProtocol = SchemaVersionUnsupported"
| "capability_error_code CdUnsupportedCapability = SchemaVersionUnsupported"

primrec audit_message :: "capability_decode_error \<Rightarrow> string" where
  "audit_message CdInvalidResponse = ''capabilities response is invalid''"
| "audit_message CdIncompatibleProtocol = ''agent protocol range is incompatible''"
| "audit_message CdUnsupportedCapability = ''agent omits a required capability''"

text \<open>The derived \<open>Deserialize\<close> of \<open>NodeCapabilitiesResponse\<close> and its parts.\<close>

definition as_u32 :: "json \<Rightarrow> nat option" where
  "as_u32 v = Option.bind (as_u64 v) (\<lambda>n. if n \<le> u32_max then Some n else None)"

definition as_fixed_method :: "json \<Rightarrow> fixed_rpc_method option" where
  "as_fixed_method v =
     Option.bind (as_variant v) (\<lambda>s. find (\<lambda>m. fixed_method_as_str m = s) READONLY_FIXED_METHOD_CATALOG)"

definition as_feature_flag :: "json \<Rightarrow> agent_feature_flag option" where
  "as_feature_flag v =
     Option.bind (as_variant v) (\<lambda>s. find (\<lambda>f. feature_as_str f = s)
       [CapabilityNegotiation, HmacConfigFingerprint, LocalSnapshotV2, OcservReadonly])"

definition as_provider_schema_id :: "json \<Rightarrow> provider_schema_id option" where
  "as_provider_schema_id v =
     Option.bind (as_variant v) (\<lambda>s. if s = ''ocserv_snapshot'' then Some OcservSnapshot else None)"

definition as_provider_schema :: "json \<Rightarrow> provider_schema option" where
  "as_provider_schema v =
     Option.bind (struct_fields [''provider'', ''min_version'', ''max_version''] v) (\<lambda>f.
     Option.bind (Option.bind (f ''provider'') as_provider_schema_id) (\<lambda>provider.
     Option.bind (Option.bind (f ''min_version'') as_u32) (\<lambda>min_version.
     Option.bind (Option.bind (f ''max_version'') as_u32) (\<lambda>max_version.
       Some \<lparr>ps_provider = provider, ps_min_version = min_version, ps_max_version = max_version\<rparr>))))"

definition as_controlled_writes :: "json \<Rightarrow> controlled_writes_capability option" where
  "as_controlled_writes v =
     Option.bind (struct_fields [''compiled'', ''locally_enabled''] v) (\<lambda>f.
     Option.bind (Option.bind (f ''compiled'') as_bool) (\<lambda>compiled.
     Option.bind (Option.bind (f ''locally_enabled'') as_bool) (\<lambda>locally_enabled.
       Some \<lparr>cwc_compiled = compiled, cwc_locally_enabled = locally_enabled\<rparr>)))"

definition capabilities_fields :: "string list" where
  "capabilities_fields = [''protocol_min'', ''protocol_max'', ''agent_version'', ''supported_methods'',
     ''provider_schemas'', ''feature_flags'', ''controlled_writes'']"

definition as_node_capabilities :: "json \<Rightarrow> node_capabilities option" where
  "as_node_capabilities v =
     Option.bind (struct_fields capabilities_fields v) (\<lambda>f.
     Option.bind (Option.bind (f ''protocol_min'') as_u32) (\<lambda>protocol_min.
     Option.bind (Option.bind (f ''protocol_max'') as_u32) (\<lambda>protocol_max.
     Option.bind (Option.bind (f ''agent_version'') as_str) (\<lambda>agent_version.
     Option.bind (Option.bind (f ''supported_methods'') (as_list as_fixed_method)) (\<lambda>methods.
     Option.bind (Option.bind (f ''provider_schemas'') (as_list as_provider_schema)) (\<lambda>schemas.
     Option.bind (Option.bind (f ''feature_flags'') (as_list as_feature_flag)) (\<lambda>flags.
     Option.bind (Option.bind (f ''controlled_writes'') as_controlled_writes) (\<lambda>writes.
       Some \<lparr>cap_protocol_min = protocol_min, cap_protocol_max = protocol_max,
         cap_agent_version = agent_version, cap_supported_methods = methods,
         cap_provider_schemas = schemas, cap_feature_flags = flags, cap_controlled_writes = writes\<rparr>))))))))"

definition decode_structural_capabilities :: "ext \<Rightarrow> json \<Rightarrow> capability_decode_error + node_capabilities" where
  "decode_structural_capabilities X result =
     rbind (ok_or (as_node_capabilities result) CdInvalidResponse) (\<lambda>response.
     rbind (map_err (\<lambda>_. CdInvalidResponse) (capabilities_validate X response)) (\<lambda>_. Inr response))"

definition decode_node_capabilities :: "ext \<Rightarrow> json \<Rightarrow> capability_decode_error + node_capabilities" where
  "decode_node_capabilities X result =
     rbind (decode_structural_capabilities X result) (\<lambda>response.
     rbind (map_err (\<lambda>error. case error of
           IncompatibleProtocol _ _ _ \<Rightarrow> CdIncompatibleProtocol
         | CapabilityMethodMissing \<Rightarrow> CdUnsupportedCapability
         | CapInvalidField _ \<Rightarrow> CdInvalidResponse)
       (ensure_controller_compatible X PROTOCOL_VERSION response)) (\<lambda>_. Inr response))"

definition CONTROLLER_RPC_RESULT_CLASS :: string where "CONTROLLER_RPC_RESULT_CLASS = ''controller_rpc_summary''"
definition CAPABILITIES_RESULT_CLASS :: string where "CAPABILITIES_RESULT_CLASS = ''capability_negotiation''"
definition OCSERV_RESULT_CLASS :: string where "OCSERV_RESULT_CLASS = ''low_sensitive_summary''"

definition first_provider :: "node_capabilities \<Rightarrow> provider_schema option" where
  "first_provider c = (case cap_provider_schemas c of [] \<Rightarrow> None | p # _ \<Rightarrow> Some p)"

definition jnat :: "nat \<Rightarrow> json" where
  "jnat n = JInt (int n)"

definition capabilities_audit_summary :: "ext \<Rightarrow> json \<Rightarrow> string + json" where
  "capabilities_audit_summary X result =
     rbind (map_err capability_error_text (decode_node_capabilities X result)) (\<lambda>response. Inr (jobj [
       (''result_class'', JStr CAPABILITIES_RESULT_CLASS),
       (''status'', JStr ''compatible''),
       (''compatible'', JBool True),
       (''protocol_min'', jnat (cap_protocol_min response)),
       (''protocol_max'', jnat (cap_protocol_max response)),
       (''agent_version'', JStr (cap_agent_version response)),
       (''supported_method_count'', jnat (length (cap_supported_methods response))),
       (''provider_schema_count'', jnat (length (cap_provider_schemas response))),
       (''ocserv_snapshot_min'', jopt (\<lambda>p. jnat (ps_min_version p)) (first_provider response)),
       (''ocserv_snapshot_max'', jopt (\<lambda>p. jnat (ps_max_version p)) (first_provider response)),
       (''feature_flag_count'', jnat (length (cap_feature_flags response))),
       (''controlled_writes_compiled'', JBool (cwc_compiled (cap_controlled_writes response))),
       (''controlled_writes_locally_enabled'', JBool (cwc_locally_enabled (cap_controlled_writes response)))]))"

primrec capability_failure_status :: "capability_decode_error \<Rightarrow> string" where
  "capability_failure_status CdInvalidResponse = ''invalid_response''"
| "capability_failure_status CdIncompatibleProtocol = ''incompatible_protocol''"
| "capability_failure_status CdUnsupportedCapability = ''unsupported_capability''"

definition capabilities_failure_audit_summary :: "ext \<Rightarrow> json \<Rightarrow> capability_decode_error \<Rightarrow> json" where
  "capabilities_failure_audit_summary X result error =
     jobj ([(''message'', JStr (audit_message error)),
       (''result_class'', JStr CAPABILITIES_RESULT_CLASS),
       (''status'', JStr (capability_failure_status error)),
       (''compatible'', JBool False),
       (''actions_enabled'', JBool False)]
      @ (case decode_structural_capabilities X result of
           Inl _ \<Rightarrow> []
         | Inr response \<Rightarrow>
             [(''agent_version'', JStr (cap_agent_version response)),
              (''protocol_min'', jnat (cap_protocol_min response)),
              (''protocol_max'', jnat (cap_protocol_max response)),
              (''ocserv_snapshot_min'', jopt (\<lambda>p. jnat (ps_min_version p)) (first_provider response)),
              (''ocserv_snapshot_max'', jopt (\<lambda>p. jnat (ps_max_version p)) (first_provider response)),
              (''controlled_writes_compiled'', JBool (cwc_compiled (cap_controlled_writes response))),
              (''controlled_writes_locally_enabled'', JBool (cwc_locally_enabled (cap_controlled_writes response)))]))"

definition legacy_capabilities_fallback :: "error_code \<Rightarrow> json option" where
  "legacy_capabilities_fallback code =
     (if code = MethodNotFound
      then Some (jobj [(''message'', JStr ''legacy agent does not support capability negotiation''),
        (''result_class'', JStr CAPABILITIES_RESULT_CLASS),
        (''status'', JStr ''legacy_unsupported''),
        (''compatible'', JBool False),
        (''actions_enabled'', JBool False)])
      else None)"

section \<open>Summaries\<close>

definition result_class_summary :: "string \<Rightarrow> (string \<times> json) list" where
  "result_class_summary c = map_insert ''result_class'' (JStr c) []"

definition service_summary :: "json \<Rightarrow> (string \<times> json) list \<Rightarrow> (string \<times> json) list" where
  "service_summary result =
     copy_nested_string_field result [''live'', ''config_fingerprint_short''] ''config_fingerprint_short''
     \<circ> insert_some ''cert_min_days_remaining''
         (map_option JInt (Option.bind (nested_value result [''live'', ''cert_min_days_remaining'']) as_i64))
     \<circ> copy_nested_u64_field result [''live'', ''connection_failure_count_rolling''] ''connection_failure_count_rolling''
     \<circ> copy_nested_u64_field result [''live'', ''auth_failure_count_rolling''] ''auth_failure_count_rolling''
     \<circ> copy_nested_string_field result [''live'', ''last_snapshot_at''] ''last_snapshot_at''
     \<circ> copy_nested_string_field result [''live'', ''collector_status''] ''collector_status''
     \<circ> copy_nested_string_field result [''service'', ''enabled''] ''service_enabled''
     \<circ> copy_nested_string_field result [''service'', ''state''] ''service_state''"

definition min_days_remaining :: "json list \<Rightarrow> int option" where
  "min_days_remaining certs =
     (case List.map_filter (\<lambda>cert. Option.bind (jget ''days_remaining'' cert) as_i64) certs of
        [] \<Rightarrow> None
      | d # ds \<Rightarrow> Some (foldl min d ds))"

definition worrying_status :: "json list \<Rightarrow> string option" where
  "worrying_status certs =
     find (\<lambda>status. status \<in> {''expired'', ''expiring_soon'', ''unreadable'', ''invalid'', ''unknown''})
       (List.map_filter (\<lambda>cert. Option.bind (jget ''status'' cert) as_str) certs)"

definition cert_summary :: "json \<Rightarrow> (string \<times> json) list \<Rightarrow> (string \<times> json) list" where
  "cert_summary result summary =
     (case Option.bind (jget ''certs'' result) as_array of
        None \<Rightarrow> summary
      | Some certs \<Rightarrow>
          insert_some ''status'' (map_option JStr (worrying_status certs))
            (insert_some ''days_remaining'' (map_option JInt (min_days_remaining certs))
              (map_insert ''cert_count'' (jnat (length certs)) summary)))"

definition hash_prefix :: "json option \<Rightarrow> json option" where
  "hash_prefix v = map_option (\<lambda>hash. JStr (take_chars 12 hash)) (Option.bind v as_str)"

definition fingerprint_summary :: "json \<Rightarrow> (string \<times> json) list \<Rightarrow> (string \<times> json) list" where
  "fingerprint_summary result summary =
     (let summary = insert_some ''config_fingerprint_prefix'' (hash_prefix (nested_value result [''fingerprint'', ''hash'']))
        (copy_nested_string_field result [''fingerprint'', ''key_id''] ''config_fingerprint_key_id''
          (copy_nested_string_field result [''fingerprint'', ''status''] ''config_fingerprint_status''
            (copy_nested_string_field result [''fingerprint'', ''algorithm''] ''config_fingerprint_algorithm'' summary)))
      in case nested_value result [''fingerprint'', ''previous''] of
           None \<Rightarrow> summary
         | Some previous \<Rightarrow>
             insert_some ''config_fingerprint_previous_prefix'' (hash_prefix (jget ''hash'' previous))
               (copy_nested_string_field previous [''key_id''] ''config_fingerprint_previous_key_id'' summary))"

definition low_sensitive_ocserv_observation_summary :: "string \<Rightarrow> json \<Rightarrow> string + json" where
  "low_sensitive_ocserv_observation_summary method result =
     (let summary = result_class_summary OCSERV_RESULT_CLASS in
      if method = OCSERV_SERVICE_SUMMARY then Inr (JObj (service_summary result summary))
      else if method = OCSERV_VERSION
        then Inr (JObj (copy_string_field result ''status'' (copy_string_field result ''version'' summary)))
      else if method = OCSERV_SESSIONS_SUMMARY
        then Inr (JObj (copy_nested_string_field result [''sessions'', ''status''] ''sessions_status''
          (copy_nested_u64_field result [''sessions'', ''total''] ''sessions_total'' summary)))
      else if method = OCSERV_CERT_EXPIRY then Inr (JObj (cert_summary result summary))
      else if method = OCSERV_CONFIG_FINGERPRINT then Inr (JObj (fingerprint_summary result summary))
      else Inl (''unsupported ocserv observation method: '' @ method))"

definition copy_fields :: "json \<Rightarrow> string list \<Rightarrow> (string \<times> json) list \<Rightarrow> (string \<times> json) list" where
  "copy_fields result = fold (copy_string_field result)"

definition path_echo_summary :: "json \<Rightarrow> (string \<times> json) list \<Rightarrow> (string \<times> json) list" where
  "path_echo_summary result summary =
     insert_some ''target_error_code''
       (map_option JStr (Option.bind (nested_value result [''target_result'', ''error_code'']) as_str))
       (copy_fields result [''source_agent_endpoint_id'', ''target_agent_endpoint_id'', ''root_request_id'',
          ''peer_request_id'', ''time_utc'']
         (insert_some ''ok'' (map_option JBool (Option.bind (jget ''ok'' result) as_bool))
           (copy_string_field result ''probe'' summary)))"

definition low_sensitive_fixed_rpc_summary :: "ext \<Rightarrow> string \<Rightarrow> json \<Rightarrow> string + json" where
  "low_sensitive_fixed_rpc_summary X method result =
     (let summary = result_class_summary CONTROLLER_RPC_RESULT_CLASS in
      if method = NODE_PING
        then Inr (JObj (copy_fields result [''message'', ''node_id'', ''agent_version'', ''time_utc''] summary))
      else if method = NODE_INFO
        then Inr (JObj (copy_fields result [''node_id'', ''region'', ''role'', ''agent_version'', ''current_time_utc'',
          ''agent_endpoint_id''] summary))
      else if method = NODE_CAPABILITIES then capabilities_audit_summary X result
      else if method = PROBE_CONTROLLER_PING
        then Inr (JObj (copy_fields result [''message'', ''probe'', ''node_id'', ''agent_version'', ''agent_endpoint_id'',
          ''time_utc''] summary))
      else if method = PROBE_PATH_ECHO then Inr (JObj (path_echo_summary result summary))
      else if method \<in> {OCSERV_SERVICE_SUMMARY, OCSERV_VERSION, OCSERV_SESSIONS_SUMMARY, OCSERV_CERT_EXPIRY,
          OCSERV_CONFIG_FINGERPRINT} then low_sensitive_ocserv_observation_summary method result
      else Inl (''unsupported fixed RPC method for summary: '' @ method))"

end
