(* ===== verification/Controller_Rpc.thy ===== *)
theory Controller_Rpc
  imports Dispatch_Gate Controller_Summaries
begin

text \<open>
  Fixed controller RPCs (\<open>ocfleet-cli/src/controller_rpc.rs\<close>): the closed set of methods, the two passes
  through the trust gate, the exchange with the agent, the checks on its answer, and the audit record. The
  database is threaded through; an audit record that cannot be written changes a success into a failure.
\<close>

section \<open>Methods\<close>

datatype fixed_controller_rpc =
    RpcNodePing
  | RpcNodeInfo
  | RpcNodeCapabilities
  | RpcProbeControllerPing
  | RpcProbePathEcho string string
  | RpcOcservServiceSummary
  | RpcOcservVersion
  | RpcOcservSessionsSummary
  | RpcOcservCertExpiry
  | RpcOcservConfigFingerprint

definition FIXED_CONTROLLER_RPC_METHODS :: "string list" where
  "FIXED_CONTROLLER_RPC_METHODS = [NODE_PING, NODE_INFO, NODE_CAPABILITIES, PROBE_CONTROLLER_PING, PROBE_PATH_ECHO,
     OCSERV_SERVICE_SUMMARY, OCSERV_VERSION, OCSERV_SESSIONS_SUMMARY, OCSERV_CERT_EXPIRY, OCSERV_CONFIG_FINGERPRINT]"

definition from_method_without_params :: "string \<Rightarrow> fixed_controller_rpc option" where
  "from_method_without_params method =
     (if method = NODE_PING then Some RpcNodePing
      else if method = NODE_INFO then Some RpcNodeInfo
      else if method = NODE_CAPABILITIES then Some RpcNodeCapabilities
      else if method = PROBE_CONTROLLER_PING then Some RpcProbeControllerPing
      else if method = OCSERV_SERVICE_SUMMARY then Some RpcOcservServiceSummary
      else if method = OCSERV_VERSION then Some RpcOcservVersion
      else if method = OCSERV_SESSIONS_SUMMARY then Some RpcOcservSessionsSummary
      else if method = OCSERV_CERT_EXPIRY then Some RpcOcservCertExpiry
      else if method = OCSERV_CONFIG_FINGERPRINT then Some RpcOcservConfigFingerprint
      else None)"

primrec rpc_method :: "fixed_controller_rpc \<Rightarrow> string" where
  "rpc_method RpcNodePing = NODE_PING"
| "rpc_method RpcNodeInfo = NODE_INFO"
| "rpc_method RpcNodeCapabilities = NODE_CAPABILITIES"
| "rpc_method RpcProbeControllerPing = PROBE_CONTROLLER_PING"
| "rpc_method (RpcProbePathEcho _ _) = PROBE_PATH_ECHO"
| "rpc_method RpcOcservServiceSummary = OCSERV_SERVICE_SUMMARY"
| "rpc_method RpcOcservVersion = OCSERV_VERSION"
| "rpc_method RpcOcservSessionsSummary = OCSERV_SESSIONS_SUMMARY"
| "rpc_method RpcOcservCertExpiry = OCSERV_CERT_EXPIRY"
| "rpc_method RpcOcservConfigFingerprint = OCSERV_CONFIG_FINGERPRINT"

definition rpc_params :: "fixed_controller_rpc \<Rightarrow> json" where
  "rpc_params rpc =
     (case rpc of
        RpcProbePathEcho _ target \<Rightarrow> jobj [(''target_agent_endpoint_id'', JStr target)]
      | _ \<Rightarrow> jobj [])"

definition rpc_result_class :: "string \<Rightarrow> string" where
  "rpc_result_class method =
     (if method = NODE_CAPABILITIES then CAPABILITIES_RESULT_CLASS
      else if starts_with ''ocserv.'' method then OCSERV_RESULT_CLASS
      else CONTROLLER_RPC_RESULT_CLASS)"

section \<open>Failures and outcomes\<close>

record rpc_command_success =
  rs_cmd_request_id :: string
  rs_cmd_result :: json

record rpc_command_failure =
  rf_code :: error_code
  rf_message :: string
  rf_request_id :: "string option"
  rf_detail_json :: json
  rf_endpoint_id :: "string option"
  rf_endpoint_trust_rejection :: "endpoint_trust_rejection option"
  rf_endpoint_trust_target :: bool

definition rpc_failure :: "error_code \<Rightarrow> string \<Rightarrow> string option \<Rightarrow> json \<Rightarrow> rpc_command_failure" where
  "rpc_failure code message request_id detail_json = \<lparr>rf_code = code, rf_message = message,
     rf_request_id = request_id, rf_detail_json = detail_json, rf_endpoint_id = None,
     rf_endpoint_trust_rejection = None, rf_endpoint_trust_target = False\<rparr>"

record controller_rpc_outcome =
  co_node_id :: string
  co_endpoint_id :: "string option"
  co_method :: string
  co_request_id :: "string option"
  co_ok :: bool
  co_error_code :: "string option"
  co_duration_ms :: nat
  co_result_class :: string
  co_summary_json :: json
  co_message :: "string option"

definition failure_to_outcome ::
    "string \<Rightarrow> string option \<Rightarrow> string \<Rightarrow> rpc_command_failure \<Rightarrow> nat \<Rightarrow> string \<Rightarrow> controller_rpc_outcome" where
  "failure_to_outcome node_id endpoint_id method failure duration_ms result_class = \<lparr>co_node_id = node_id,
     co_endpoint_id = endpoint_id, co_method = method, co_request_id = rf_request_id failure, co_ok = False,
     co_error_code = Some (error_code_name (rf_code failure)), co_duration_ms = duration_ms,
     co_result_class = result_class, co_summary_json = rf_detail_json failure,
     co_message = Some (rf_message failure)\<rparr>"

definition audit_failure_outcome ::
    "string \<Rightarrow> string option \<Rightarrow> string \<Rightarrow> nat \<Rightarrow> string \<Rightarrow> controller_rpc_outcome" where
  "audit_failure_outcome node_id endpoint_id method duration_ms result_class = \<lparr>co_node_id = node_id,
     co_endpoint_id = endpoint_id, co_method = method, co_request_id = None, co_ok = False,
     co_error_code = Some (error_code_name AuditWriteFailed), co_duration_ms = duration_ms,
     co_result_class = result_class,
     co_summary_json = jobj [(''message'', JStr ''controller audit write failed''),
       (''result_class'', JStr result_class), (''error_code'', JStr (error_code_name AuditWriteFailed))],
     co_message = Some ''controller audit write failed''\<rparr>"

definition unsupported_fixed_rpc_failure :: "string \<Rightarrow> rpc_command_failure" where
  "unsupported_fixed_rpc_failure method =
     rpc_failure ParamsInvalid (''unsupported fixed RPC method: '' @ method) None
       (jobj [(''message'', JStr ''unsupported fixed RPC method''),
         (''result_class'', JStr CONTROLLER_RPC_RESULT_CLASS), (''method'', JStr method)])"

definition rpc_client_error_detail_json :: "rpc_client_error \<Rightarrow> json" where
  "rpc_client_error_detail_json err = jobj [(''message'', JStr ''controller RPC request failed''),
     (''result_class'', JStr CONTROLLER_RPC_RESULT_CLASS),
     (''error_code'', JStr (error_code_name (ce_code err)))]"

definition client_failure :: "string option \<Rightarrow> rpc_client_error \<Rightarrow> rpc_command_failure" where
  "client_failure request_id err =
     rpc_failure (ce_code err) (ce_message err) request_id (rpc_client_error_detail_json err)"

definition low_sensitive_detail :: "string \<Rightarrow> json" where
  "low_sensitive_detail message = jobj [(''message'', JStr (low_sensitive_ocserv_audit_message message)),
     (''result_class'', JStr OCSERV_RESULT_CLASS)]"

definition ocserv_failure_detail :: "rpc_command_failure \<Rightarrow> json" where
  "ocserv_failure_detail failure = jobj [
     (''message'', JStr (low_sensitive_ocserv_audit_message (rf_message failure))),
     (''result_class'', JStr OCSERV_RESULT_CLASS),
     (''error_code'', JStr (error_code_name (rf_code failure)))]"

text \<open>The texts of \<open>StoreError\<close>; that of a \<open>rusqlite::Error\<close> is a parameter.\<close>

primrec store_error_text :: "(sqlite_error \<Rightarrow> string) \<Rightarrow> store_error \<Rightarrow> string" where
  "store_error_text t (SeSqlite e) = ''sqlite error: '' @ t e"
| "store_error_text t (SeIo e) = ''io error: '' @ e"
| "store_error_text t SeUnsafePermissions = ''controller state file permissions are unsafe''"
| "store_error_text t (SeUnsupportedFutureSchema found supported) =
     ''unsupported future controller database schema '' @ show_int found @ ''; this binary supports up to ''
     @ show_int supported"
| "store_error_text t (SeSchemaUpgradeRequired found required) =
     ''controller database schema '' @ show_int found @ '' must be migrated to '' @ show_int required
     @ '' before read-only policy review''"
| "store_error_text t SeReadOnlySnapshotWalActive =
     ''controller database has an active WAL; checkpoint it before immutable policy review''"
| "store_error_text t (SeMigrationBackup e) = ''database migration backup failed: '' @ e"
| "store_error_text t (SeDatabaseIntegrityCheckFailed check detail) =
     ''database integrity check failed ('' @ check @ ''): '' @ detail"
| "store_error_text t (SeNodeNotFound n) = ''node not found: '' @ n"
| "store_error_text t (SeNodeAlreadyExists n) = ''node already exists: '' @ n"
| "store_error_text t (SeObservabilityJobNotFound j) = ''observability job not found: '' @ j"
| "store_error_text t (SeObservabilityRunNotFound r) = ''observability run not found: '' @ r"
| "store_error_text t (SeSchedulerClaimLost j) = ''scheduler claim was lost for job: '' @ j"
| "store_error_text t (SeObservabilityRunNotRunning r) = ''observability run is not running: '' @ r"
| "store_error_text t (SeEnrollmentRejected r) = ''enrollment rejected: '' @ r"
| "store_error_text t (SeEnrollmentTokenNotFound k) = ''enrollment token not found: '' @ k"
| "store_error_text t (SeEnrollmentTokenConflict k d) = ''enrollment token conflict for '' @ k @ '': '' @ d"
| "store_error_text t (SeInvalidEnrollmentTokenTransition k s a) =
     ''invalid enrollment token transition for '' @ k @ '': '' @ s @ '' cannot '' @ a"
| "store_error_text t (SeJoinRequestNotFound r) = ''join request not found: '' @ r"
| "store_error_text t (SeEnrollmentRequestConflict r d) = ''enrollment request conflict for '' @ r @ '': '' @ d"
| "store_error_text t (SeRetentionOperationConflict i d) = ''retention operation conflict for '' @ i @ '': '' @ d"
| "store_error_text t (SeHealthEvaluationConflict i d) = ''health evaluation conflict for '' @ i @ '': '' @ d"
| "store_error_text t (SeAlertEvaluationConflict i d) = ''alert evaluation conflict for '' @ i @ '': '' @ d"
| "store_error_text t (SeAlertMutationConflict i d) = ''alert mutation conflict for '' @ i @ '': '' @ d"
| "store_error_text t (SeInvalidJoinRequestStatus r s x) = ''join request '' @ r @ '' is '' @ s @ '', expected '' @ x"
| "store_error_text t (SeInvalidEnrollmentBinding r d) =
     ''enrollment binding rejected for join request '' @ r @ '': '' @ d"
| "store_error_text t (SeEndpointNotFound e) = ''endpoint not found: '' @ e"
| "store_error_text t (SeEndpointAlreadyExists e) = ''endpoint already exists: '' @ e"
| "store_error_text t (SeInvalidEndpointTransition e f a) =
     ''invalid endpoint transition for '' @ e @ '': '' @ f @ '' cannot '' @ a"
| "store_error_text t (SeEndpointBindingMismatch e d) = ''endpoint binding is inconsistent for '' @ e @ '': '' @ d"
| "store_error_text t (SeAmbiguousActiveEndpointBinding n) = ''node '' @ n @ '' has multiple active endpoint bindings''"
| "store_error_text t (SeEndpointGenerationExhausted e) = ''endpoint generation exhausted: '' @ e"
| "store_error_text t (SeEndpointLineageInvalid e) = ''endpoint rotation lineage is inconsistent: '' @ e"
| "store_error_text t (SeInvalidInput m) = ''invalid input: '' @ m"

section \<open>The environment of a command\<close>

datatype identity_error = IdentityIo string | InvalidLength | InvalidPermissions | MissingParent

text \<open>The acting user, the clock (as audit text and as elapsed milliseconds), the hash of a JSON value
  (\<open>blake3\<close> of its serialisation), the loading of the secret key file, the network, and the texts of
  third-party errors. A command audits at most once per run of this environment.\<close>

record controller_env =
  ce_actor :: string
  ce_now_text :: string
  ce_elapsed_ms :: nat
  ce_hash_json :: "json \<Rightarrow> string"
  ce_load_key :: "identity_error + unit"
  ce_net :: transport
  ce_sqlite_text :: "sqlite_error \<Rightarrow> string"
  ce_endpoint_id_text :: "string \<Rightarrow> string"
  ce_quote :: "string \<Rightarrow> string"

section \<open>Audit\<close>

record rpc_audit_record =
  ra_actor :: string
  ra_node_id :: string
  ra_endpoint_id :: "string option"
  ra_method :: string
  ra_request_id :: "string option"
  ra_params_hash :: string
  ra_ok :: bool
  ra_error_code :: "error_code option"
  ra_duration_ms :: nat
  ra_detail_json :: json

definition rpc_audit_event :: "string \<Rightarrow> rpc_audit_record \<Rightarrow> ctl_audit_event" where
  "rpc_audit_event now_text r = (ctl_audit_event_new now_text (ra_actor r) ''rpc.completed'')\<lparr>
     ae_node_id := Some (ra_node_id r), ae_endpoint_id := ra_endpoint_id r, ae_method := Some (ra_method r),
     ae_request_id := ra_request_id r, ae_params_hash := Some (ra_params_hash r), ae_ok := Some (ra_ok r),
     ae_error_code := map_option error_code_name (ra_error_code r), ae_duration_ms := Some (ra_duration_ms r),
     ae_detail_json := ra_detail_json r\<rparr>"

definition write_rpc_audit :: "ext \<Rightarrow> controller_env \<Rightarrow> rpc_audit_record \<Rightarrow> unit stx" where
  "write_rpc_audit X C r = insert_audit X (rpc_audit_event (ce_now_text C) r)"

text \<open>\<open>let _ = write_rpc_audit(..)\<close>: the result is dropped.\<close>

definition try_rpc_audit :: "ext \<Rightarrow> controller_env \<Rightarrow> rpc_audit_record \<Rightarrow> store_db \<Rightarrow> store_db" where
  "try_rpc_audit X C r db = snd (run_tx (write_rpc_audit X C r) db)"

definition write_rpc_rejection_audits :: "ext \<Rightarrow> controller_env \<Rightarrow> string \<Rightarrow> string option \<Rightarrow> string list
    \<Rightarrow> rpc_command_failure \<Rightarrow> store_db \<Rightarrow> store_db" where
  "write_rpc_rejection_audits X C node_id endpoint_id methods failure =
     fold (\<lambda>method. try_rpc_audit X C \<lparr>ra_actor = ce_actor C, ra_node_id = node_id, ra_endpoint_id = endpoint_id,
       ra_method = method, ra_request_id = None, ra_params_hash = ce_hash_json C (jobj []), ra_ok = False,
       ra_error_code = Some (rf_code failure), ra_duration_ms = ce_elapsed_ms C,
       ra_detail_json = rf_detail_json failure\<rparr>) methods"

section \<open>The gate\<close>

definition get_node :: "store_db \<Rightarrow> string \<Rightarrow> store_error + node_record option" where
  "get_node db node_id = Inr (map_option node_from_row (find_node (db_nodes db) node_id))"

definition known_endpoint_id :: "store_db \<Rightarrow> string \<Rightarrow> string option" where
  "known_endpoint_id db node_id =
     (case get_node db node_id of Inr (Some node) \<Rightarrow> Some (nd_endpoint_id node) | _ \<Rightarrow> None)"

definition endpoint_trust_rejection_message :: "node_record \<Rightarrow> endpoint_trust_rejection \<Rightarrow> string" where
  "endpoint_trust_rejection_message node rejection =
     rejection_message rejection False (nd_node_id node) (nd_endpoint_id node)"

definition endpoint_trust_failure ::
    "node_record \<Rightarrow> endpoint_trust_rejection \<Rightarrow> string \<Rightarrow> (string \<times> string) option \<Rightarrow> rpc_command_failure" where
  "endpoint_trust_failure node rejection result_class target =
     (let is_target = target \<noteq> None;
          message = (case target of
              Some (target_node_id, endpoint_id) \<Rightarrow> rejection_message rejection True target_node_id endpoint_id
            | None \<Rightarrow> endpoint_trust_rejection_message node rejection);
          trust_state_field = (if is_target then ''target_endpoint_trust_state'' else ''endpoint_trust_state'');
          endpoint_status_field = (if is_target then ''target_endpoint_status'' else ''endpoint_status'');
          detail = map_insert trust_state_field (JStr (rejection_trust_state rejection))
            (map_insert ''result_class'' (JStr result_class) (map_insert ''message'' (JStr message) []));
          detail = (case target of
              Some (target_node_id, target_endpoint_id) \<Rightarrow>
                map_insert ''target_endpoint_id'' (JStr target_endpoint_id)
                  (map_insert ''target_node_id'' (JStr target_node_id) detail)
            | None \<Rightarrow> detail);
          detail = (case rejection_endpoint_status rejection of
              Some status \<Rightarrow> map_insert endpoint_status_field (JStr (endpoint_status_as_str status)) detail
            | None \<Rightarrow> detail) in
      (rpc_failure EndpointNotAllowed message None (JObj detail))
        \<lparr>rf_endpoint_id := Some (nd_endpoint_id node), rf_endpoint_trust_rejection := Some rejection,
         rf_endpoint_trust_target := is_target\<rparr>)"

definition trust_read_failure :: "string \<Rightarrow> rpc_command_failure" where
  "trust_read_failure result_class =
     rpc_failure SqliteError ''controller endpoint trust read failed'' None
       (jobj [(''message'', JStr ''controller endpoint trust read failed''), (''result_class'', JStr result_class)])"

definition ensure_fixed_rpc_trust ::
    "node_record \<Rightarrow> fixed_controller_rpc \<Rightarrow> (string \<Rightarrow> string \<Rightarrow> store_error + endpoint_trust_rejection option)
     \<Rightarrow> rpc_command_failure + unit" where
  "ensure_fixed_rpc_trust node rpc check =
     (let result_class = rpc_result_class (rpc_method rpc) in
      rbind (map_err (\<lambda>_. trust_read_failure result_class) (check (nd_node_id node) (nd_endpoint_id node))) (\<lambda>r.
      case r of
        Some rejection \<Rightarrow> Inl (endpoint_trust_failure node rejection result_class None)
      | None \<Rightarrow>
          (case rpc of
             RpcProbePathEcho target_node_id target_endpoint_id \<Rightarrow>
               rbind (map_err (\<lambda>_. trust_read_failure result_class) (check target_node_id target_endpoint_id)) (\<lambda>r.
               case r of
                 Some rejection \<Rightarrow>
                   Inl (endpoint_trust_failure node rejection result_class (Some (target_node_id, target_endpoint_id)))
               | None \<Rightarrow> Inr ())
           | _ \<Rightarrow> Inr ())))"

text \<open>\<open>load_fixed_rpc_node\<close> and \<open>load_ocserv_rpc_node\<close> differ in the details they report.\<close>

definition jmessage :: "string \<Rightarrow> json" where
  "jmessage message = jobj [(''message'', JStr message)]"

definition load_fixed_rpc_node :: "controller_env \<Rightarrow> store_db \<Rightarrow> string \<Rightarrow> rpc_command_failure + node_record" where
  "load_fixed_rpc_node C db node_id =
     rbind (map_err (\<lambda>err. rpc_failure ParamsInvalid (validation_error_text err) None (jmessage (validation_error_text err)))
       (validate_node_id node_id)) (\<lambda>_.
     rbind (map_err (\<lambda>err. rpc_failure SqliteError (store_error_text (ce_sqlite_text C) err) None
         (jmessage ''controller registry read failed'')) (get_node db node_id)) (\<lambda>found.
     case found of
       None \<Rightarrow> (let message = ''node not found: '' @ node_id in
         Inl (rpc_failure NodeNotFound message None (jmessage message)))
     | Some node \<Rightarrow>
         if \<not> nd_enabled node
         then (let message = ''node disabled: '' @ node_id in
           Inl ((rpc_failure NodeDisabled message None (jmessage message))\<lparr>rf_endpoint_id := Some (nd_endpoint_id node)\<rparr>))
         else rbind (map_err (\<lambda>err. rpc_failure SqliteError (store_error_text (ce_sqlite_text C) err) None
                  (jmessage ''controller endpoint trust read failed''))
                (endpoint_trust_rejection_of db (nd_node_id node) (nd_endpoint_id node))) (\<lambda>r.
              case r of
                Some rejection \<Rightarrow> Inl (endpoint_trust_failure node rejection CONTROLLER_RPC_RESULT_CLASS None)
              | None \<Rightarrow> Inr node)))"

definition load_ocserv_rpc_node :: "controller_env \<Rightarrow> store_db \<Rightarrow> string \<Rightarrow> rpc_command_failure + node_record" where
  "load_ocserv_rpc_node C db node_id =
     rbind (map_err (\<lambda>err. rpc_failure ParamsInvalid (validation_error_text err) None
         (low_sensitive_detail (validation_error_text err))) (validate_node_id node_id)) (\<lambda>_.
     rbind (map_err (\<lambda>err. rpc_failure SqliteError (store_error_text (ce_sqlite_text C) err) None
         (low_sensitive_detail ''controller registry read failed'')) (get_node db node_id)) (\<lambda>found.
     case found of
       None \<Rightarrow> (let message = ''node not found: '' @ node_id in
         Inl (rpc_failure NodeNotFound message None (low_sensitive_detail message)))
     | Some node \<Rightarrow>
         if \<not> nd_enabled node
         then (let message = ''node disabled: '' @ node_id in
           Inl (rpc_failure NodeDisabled message None (low_sensitive_detail message)))
         else rbind (map_err (\<lambda>err. rpc_failure SqliteError (store_error_text (ce_sqlite_text C) err) None
                  (low_sensitive_detail ''controller endpoint trust read failed''))
                (endpoint_trust_rejection_of db (nd_node_id node) (nd_endpoint_id node))) (\<lambda>r.
              case r of
                Some rejection \<Rightarrow> Inl (endpoint_trust_failure node rejection OCSERV_RESULT_CLASS None)
              | None \<Rightarrow> Inr node)))"

section \<open>The exchange\<close>

definition invalid_response :: "string \<Rightarrow> string \<Rightarrow> json \<Rightarrow> rpc_command_failure" where
  "invalid_response message request_id detail = rpc_failure InvalidResponse message (Some request_id) detail"

definition validate_capabilities_answer :: "ext \<Rightarrow> rpc_response \<Rightarrow> string \<Rightarrow> rpc_command_failure + unit" where
  "validate_capabilities_answer X response request_id =
     rbind (ok_or (rs_result response) (invalid_response ''capabilities response missing result'' request_id
       (jobj [(''message'', JStr ''capabilities response is invalid''),
         (''result_class'', JStr CAPABILITIES_RESULT_CLASS)]))) (\<lambda>result.
     rbind (map_err (\<lambda>error. rpc_failure (capability_error_code error) (capability_error_text error) (Some request_id)
         (capabilities_failure_audit_summary X result error)) (decode_node_capabilities X result)) (\<lambda>_. Inr ()))"

definition validate_path_answer ::
    "ext \<Rightarrow> controller_env \<Rightarrow> rpc_response \<Rightarrow> string \<Rightarrow> node_record \<Rightarrow> json \<Rightarrow> rpc_command_failure + unit" where
  "validate_path_answer X C response request_id node params =
     rbind (ok_or (Option.bind (jget ''target_agent_endpoint_id'' params) as_str)
       (rpc_failure ParamsInvalid ''probe.path.echo missing target_agent_endpoint_id'' (Some request_id) (jobj []))) (\<lambda>target.
     rbind (ok_or (rs_result response) (invalid_response ''path response missing result'' request_id (jobj []))) (\<lambda>result.
       map_err (client_failure (Some request_id))
         (validate_path_echo_result X (ce_quote C) result (nd_endpoint_id node) target request_id)))"

definition validate_response_for_method :: "ext \<Rightarrow> controller_env \<Rightarrow> rpc_response \<Rightarrow> string \<Rightarrow> string
    \<Rightarrow> node_record \<Rightarrow> json \<Rightarrow> rpc_command_failure + unit" where
  "validate_response_for_method X C response request_id method node params =
     (let expected_agent_endpoint_id =
        (if method \<in> {NODE_INFO, PROBE_CONTROLLER_PING} then Some (nd_endpoint_id node) else None) in
      rbind (map_err (client_failure (Some request_id))
        (validate_rpc_response response request_id expected_agent_endpoint_id)) (\<lambda>_.
      rbind (if method = NODE_CAPABILITIES then validate_capabilities_answer X response request_id else Inr ()) (\<lambda>_.
        if method = PROBE_PATH_ECHO then validate_path_answer X C response request_id node params else Inr ())))"

definition key_failure :: "identity_error \<Rightarrow> rpc_command_failure" where
  "key_failure err =
     (let code = (case err of InvalidPermissions \<Rightarrow> SecretKeyPermissionInvalid | _ \<Rightarrow> SecretKeyLoadFailed) in
      rpc_failure code ''failed to load controller SecretKey'' None
        (jobj [(''message'', JStr ''controller SecretKey unavailable''),
          (''result_class'', JStr CONTROLLER_RPC_RESULT_CLASS), (''error_code'', JStr (error_code_name code))]))"

text \<open>With the identities the request was written to.\<close>

definition execute_node_rpc_raw :: "ext \<Rightarrow> controller_env \<Rightarrow> node_record \<Rightarrow> string \<Rightarrow> json
    \<Rightarrow> string list \<times> (rpc_command_failure + rpc_command_success)" where
  "execute_node_rpc_raw X C node method params =
     (case rbind (map_err key_failure (ce_load_key C)) (\<lambda>_.
           rbind (map_err (client_failure None) (bind_controller_endpoint (ce_net C))) (\<lambda>_.
             ok_or (endpoint_id_from_str X (nd_endpoint_id node))
               (rpc_failure ConnectFailed (''invalid node endpoint_id: '' @ ce_endpoint_id_text C (nd_endpoint_id node)) None
                 (jobj [(''endpoint_id'', JStr (nd_endpoint_id node)),
                   (''error'', JStr (ce_endpoint_id_text C (nd_endpoint_id node)))])))) of
        Inl failure \<Rightarrow> ([], Inl failure)
      | Inr expected_endpoint_id \<Rightarrow>
          let request = build_request (ce_net C) method params (Some (ce_actor C)) DEFAULT_DEADLINE_MS;
              request_id = rq_request_id request;
              (contacted, answer) = call_endpoint_addr (ce_net C) expected_endpoint_id expected_endpoint_id request in
          (contacted,
           rbind (map_err (client_failure (Some request_id)) answer) (\<lambda>response.
           rbind (validate_response_for_method X C response request_id method node (rq_params request)) (\<lambda>_.
             Inr \<lparr>rs_cmd_request_id = request_id,
               rs_cmd_result = (case rs_result response of Some v \<Rightarrow> v | None \<Rightarrow> jobj [])\<rparr>))))"

definition execute_fixed_node_rpc :: "ext \<Rightarrow> controller_env \<Rightarrow> store_db \<Rightarrow> node_record \<Rightarrow> fixed_controller_rpc
    \<Rightarrow> string list \<times> (rpc_command_failure + rpc_command_success)" where
  "execute_fixed_node_rpc X C db node rpc =
     (case ensure_fixed_rpc_trust node rpc (endpoint_trust_rejection_of db) of
        Inl failure \<Rightarrow> ([], Inl failure)
      | Inr _ \<Rightarrow> execute_node_rpc_raw X C node (rpc_method rpc) (rpc_params rpc))"

section \<open>Commands\<close>

text \<open>A command returns the identities it wrote to, its outcome and the database.\<close>

definition audit_of :: "controller_env \<Rightarrow> string \<Rightarrow> string option \<Rightarrow> string \<Rightarrow> json \<Rightarrow> string option
    \<Rightarrow> error_code option \<Rightarrow> json \<Rightarrow> rpc_audit_record" where
  "audit_of C node_id endpoint_id method params request_id error_code detail = \<lparr>ra_actor = ce_actor C,
     ra_node_id = node_id, ra_endpoint_id = endpoint_id, ra_method = method, ra_request_id = request_id,
     ra_params_hash = ce_hash_json C params, ra_ok = (error_code = None), ra_error_code = error_code,
     ra_duration_ms = ce_elapsed_ms C, ra_detail_json = detail\<rparr>"

definition fixed_rpc_failed :: "ext \<Rightarrow> controller_env \<Rightarrow> string \<Rightarrow> string option \<Rightarrow> string \<Rightarrow> json \<Rightarrow> string
    \<Rightarrow> rpc_command_failure \<Rightarrow> store_db \<Rightarrow> controller_rpc_outcome \<times> store_db" where
  "fixed_rpc_failed X C node_id endpoint_id method params result_class failure db =
     (failure_to_outcome node_id endpoint_id method failure (ce_elapsed_ms C) result_class,
      try_rpc_audit X C (audit_of C node_id endpoint_id method params (rf_request_id failure)
        (Some (rf_code failure)) (rf_detail_json failure)) db)"

definition fixed_rpc_succeeded :: "ext \<Rightarrow> controller_env \<Rightarrow> node_record \<Rightarrow> string \<Rightarrow> json \<Rightarrow> string
    \<Rightarrow> rpc_command_success \<Rightarrow> store_db \<Rightarrow> controller_rpc_outcome \<times> store_db" where
  "fixed_rpc_succeeded X C node method params result_class success db =
     (case low_sensitive_fixed_rpc_summary X method (rs_cmd_result success) of
        Inl err \<Rightarrow>
          (failure_to_outcome (nd_node_id node) (Some (nd_endpoint_id node)) method
             (invalid_response err (rs_cmd_request_id success)
               (jobj [(''message'', JStr ''fixed RPC response summary is invalid''),
                 (''result_class'', JStr result_class), (''error_code'', JStr ''INVALID_RESPONSE'')]))
             (ce_elapsed_ms C) result_class, db)
      | Inr summary_json \<Rightarrow>
          (case run_tx (write_rpc_audit X C (audit_of C (nd_node_id node) (Some (nd_endpoint_id node)) method params
               (Some (rs_cmd_request_id success)) None summary_json)) db of
             (Inr _, db') \<Rightarrow>
               (\<lparr>co_node_id = nd_node_id node, co_endpoint_id = Some (nd_endpoint_id node), co_method = method,
                 co_request_id = Some (rs_cmd_request_id success), co_ok = True, co_error_code = None,
                 co_duration_ms = ce_elapsed_ms C, co_result_class = result_class,
                 co_summary_json = summary_json, co_message = None\<rparr>, db')
           | (Inl _, db') \<Rightarrow>
               (audit_failure_outcome (nd_node_id node) (Some (nd_endpoint_id node)) method (ce_elapsed_ms C)
                  result_class, db')))"

definition run_fixed_node_rpc ::
    "ext \<Rightarrow> controller_env \<Rightarrow> string \<Rightarrow> string \<Rightarrow> store_db \<Rightarrow> string list \<times> controller_rpc_outcome \<times> store_db" where
  "run_fixed_node_rpc X C node_id method db =
     (case from_method_without_params method of
        None \<Rightarrow>
          ([], fixed_rpc_failed X C node_id (known_endpoint_id db node_id) method (jobj []) CONTROLLER_RPC_RESULT_CLASS
             (unsupported_fixed_rpc_failure method) db)
      | Some rpc \<Rightarrow>
          let method = rpc_method rpc; result_class = rpc_result_class method; params = rpc_params rpc in
          (case load_fixed_rpc_node C db node_id of
             Inl failure \<Rightarrow>
               ([], fixed_rpc_failed X C node_id (rf_endpoint_id failure) method params result_class failure db)
           | Inr node \<Rightarrow>
               (case execute_fixed_node_rpc X C db node rpc of
                  (contacted, Inr success) \<Rightarrow>
                    (contacted, fixed_rpc_succeeded X C node method params result_class success db)
                | (contacted, Inl failure) \<Rightarrow>
                    (contacted, fixed_rpc_failed X C (nd_node_id node) (Some (nd_endpoint_id node)) method params
                       result_class failure db))))"

text \<open>\<open>execute_ocserv_rpc\<close> and \<open>run_single_ocserv_rpc\<close> are generic in the response type: \<open>decode\<close> is its
  \<open>serde_json::from_value\<close>. The third-party error text of a failed decode is not used.\<close>

definition execute_ocserv_rpc :: "ext \<Rightarrow> controller_env \<Rightarrow> (json \<Rightarrow> 'a option) \<Rightarrow> node_record \<Rightarrow> string \<Rightarrow> store_db
    \<Rightarrow> string list \<times> (rpc_command_failure + 'a) \<times> store_db" where
  "execute_ocserv_rpc X C decode node method db =
     (case from_method_without_params method of
        None \<Rightarrow> ([], Inl (unsupported_fixed_rpc_failure method), db)
      | Some rpc \<Rightarrow>
          let audit = (\<lambda>request_id error_code detail. audit_of C (nd_node_id node) (Some (nd_endpoint_id node)) method
                (rpc_params rpc) request_id error_code detail) in
          (case execute_fixed_node_rpc X C db node rpc of
             (contacted, Inr success) \<Rightarrow>
               (contacted,
                (case decode (rs_cmd_result success) of
                   None \<Rightarrow>
                     let failure = invalid_response ''ocserv readonly response schema is invalid''
                           (rs_cmd_request_id success)
                           (jobj [(''message'', JStr ''ocserv readonly response schema is invalid''),
                             (''result_class'', JStr OCSERV_RESULT_CLASS), (''error_code'', JStr ''INVALID_RESPONSE'')]) in
                     (Inl failure, try_rpc_audit X C (audit (Some (rs_cmd_request_id success)) (Some InvalidResponse)
                        (ocserv_failure_detail failure)) db)
                 | Some typed \<Rightarrow>
                     (case run_tx (write_rpc_audit X C (audit (Some (rs_cmd_request_id success)) None
                          (jobj [(''result_class'', JStr OCSERV_RESULT_CLASS)]))) db of
                        (Inr _, db') \<Rightarrow> (Inr typed, db')
                      | (Inl err, db') \<Rightarrow>
                          (Inl (rpc_failure AuditWriteFailed
                            (case err of Fail e \<Rightarrow> store_error_text (ce_sqlite_text C) e | Panic \<Rightarrow> [])
                            None (low_sensitive_detail ''controller audit write failed'')), db'))))
           | (contacted, Inl failure) \<Rightarrow>
               (contacted, Inl failure, try_rpc_audit X C (audit (rf_request_id failure) (Some (rf_code failure))
                  (ocserv_failure_detail failure)) db)))"

definition run_single_ocserv_rpc :: "ext \<Rightarrow> controller_env \<Rightarrow> (json \<Rightarrow> 'a option) \<Rightarrow> ('a \<Rightarrow> json) \<Rightarrow> string \<Rightarrow> string
    \<Rightarrow> store_db \<Rightarrow> string list \<times> controller_rpc_outcome \<times> store_db" where
  "run_single_ocserv_rpc X C decode summary node_id method db =
     (case load_ocserv_rpc_node C db node_id of
        Inl failure \<Rightarrow>
          ([], failure_to_outcome node_id (known_endpoint_id db node_id) method failure (ce_elapsed_ms C) OCSERV_RESULT_CLASS,
           write_rpc_rejection_audits X C node_id (known_endpoint_id db node_id) [method] failure db)
      | Inr node \<Rightarrow>
          (case execute_ocserv_rpc X C decode node method db of
             (contacted, Inr v, db') \<Rightarrow>
               (contacted, \<lparr>co_node_id = nd_node_id node, co_endpoint_id = Some (nd_endpoint_id node),
                  co_method = method, co_request_id = None, co_ok = True, co_error_code = None,
                  co_duration_ms = ce_elapsed_ms C, co_result_class = OCSERV_RESULT_CLASS,
                  co_summary_json = summary v, co_message = None\<rparr>, db')
           | (contacted, Inl failure, db') \<Rightarrow>
               (contacted, failure_to_outcome (nd_node_id node) (Some (nd_endpoint_id node)) method failure
                  (ce_elapsed_ms C) OCSERV_RESULT_CLASS, db')))"

section \<open>Laws\<close>

lemma call_contacts: "c \<in> set (fst (call_endpoint_addr N target expected request)) \<Longrightarrow> c = expected"
  by (auto simp: call_endpoint_addr_def call_endpoint_addr_inner_def Let_def split: sum.splits if_splits)

lemma raw_contacts:
  "c \<in> set (fst (execute_node_rpc_raw X C node meth params)) \<Longrightarrow> endpoint_id_from_str X (nd_endpoint_id node) = Some c"
  by (auto simp: execute_node_rpc_raw_def Let_def rbind_Inr_iff split: sum.splits prod.splits dest: call_contacts
      dest!: arg_cong [where f = fst])

lemma gate_first:
  "ensure_fixed_rpc_trust node rpc (endpoint_trust_rejection_of db) = Inr () \<Longrightarrow>
   dispatchable db (nd_node_id node) (nd_endpoint_id node)"
  using gate_total [of db] by (auto simp: ensure_fixed_rpc_trust_def rbind_Inr_iff Let_def simp flip: gate_open split: option.splits)

lemma execute_contacts:
  assumes "c \<in> set (fst (execute_fixed_node_rpc X C db node rpc))"
  shows "dispatchable db (nd_node_id node) (nd_endpoint_id node) \<and> endpoint_id_from_str X (nd_endpoint_id node) = Some c"
  using assms gate_first [of node rpc db] raw_contacts [of c X C node]
  by (auto simp: execute_fixed_node_rpc_def split: sum.splits)

lemma loaded_node:
  "load_fixed_rpc_node C db n = Inr node \<Longrightarrow> \<exists>r. find_node (db_nodes db) n = Some r \<and> node = node_from_row r
     \<and> nr_enabled r \<and> dispatchable db n (nr_endpoint_id r)"
  by (auto simp: load_fixed_rpc_node_def rbind_Inr_iff get_node_def node_from_row_def gate_open Let_def
      dest: lookup_key split: option.splits if_splits)

text \<open>The three ways a command ends.\<close>

lemma run_fixed_cases:
  obtains (refused) endpoint m params rc failure where
      "run_fixed_node_rpc X C n meth db = ([], fixed_rpc_failed X C n endpoint m params rc failure db)"
  | (failed) node rpc contacted failure where
      "from_method_without_params meth = Some rpc" "load_fixed_rpc_node C db n = Inr node"
      "execute_fixed_node_rpc X C db node rpc = (contacted, Inl failure)"
      "run_fixed_node_rpc X C n meth db = (contacted, fixed_rpc_failed X C (nd_node_id node)
         (Some (nd_endpoint_id node)) (rpc_method rpc) (rpc_params rpc) (rpc_result_class (rpc_method rpc)) failure db)"
  | (succeeded) node rpc contacted success where
      "from_method_without_params meth = Some rpc" "load_fixed_rpc_node C db n = Inr node"
      "execute_fixed_node_rpc X C db node rpc = (contacted, Inr success)"
      "run_fixed_node_rpc X C n meth db = (contacted, fixed_rpc_succeeded X C node (rpc_method rpc)
         (rpc_params rpc) (rpc_result_class (rpc_method rpc)) success db)"
proof (cases "from_method_without_params meth")
  case None
  then show thesis using refused by (simp add: run_fixed_node_rpc_def)
next
  case rpc: (Some rpc)
  show thesis
  proof (cases "load_fixed_rpc_node C db n")
    case (Inl failure)
    with rpc show thesis using refused by (simp add: run_fixed_node_rpc_def Let_def)
  next
    case node: (Inr node)
    obtain contacted r where r: "execute_fixed_node_rpc X C db node rpc = (contacted, r)" by fastforce
    show thesis
      using rpc node r failed [OF rpc node] succeeded [OF rpc node]
      by (cases r) (simp_all add: run_fixed_node_rpc_def Let_def)
  qed
qed

lemma rpc_contacts:
  assumes "c \<in> set (fst (run_fixed_node_rpc X C n meth db))"
  shows "\<exists>r. find_node (db_nodes db) n = Some r \<and> dispatchable db n (nr_endpoint_id r)
    \<and> endpoint_id_from_str X (nr_endpoint_id r) = Some c"
proof -
  have "\<exists>rpc node. load_fixed_rpc_node C db n = Inr node \<and> c \<in> set (fst (execute_fixed_node_rpc X C db node rpc))"
  proof (cases rule: run_fixed_cases [of X C n meth db])
    case refused
    then show ?thesis using assms by simp
  next
    case failed
    then show ?thesis using assms by (metis fst_conv)
  next
    case succeeded
    then show ?thesis using assms by (metis fst_conv)
  qed
  then obtain rpc node where node: "load_fixed_rpc_node C db n = Inr node"
      and c: "c \<in> set (fst (execute_fixed_node_rpc X C db node rpc))" by blast
  from loaded_node [OF node] execute_contacts [OF c] show ?thesis by (auto simp: node_from_row_def)
qed

text \<open>What a command does to the database is at most one audit insertion.\<close>

lemma failed_call: "\<exists>ev. snd (fixed_rpc_failed X C n e m p rc failure db) = exec_call X (E, AppendAudit ev) db"
  by (auto simp: fixed_rpc_failed_def try_rpc_audit_def exec_call_def write_rpc_audit_def)

lemma succeeded_call:
  "snd (fixed_rpc_succeeded X C node m p rc success db) = db
   \<or> (\<exists>ev. snd (fixed_rpc_succeeded X C node m p rc success db) = exec_call X (E, AppendAudit ev) db)"
proof (cases "low_sensitive_fixed_rpc_summary X m (rs_cmd_result success)")
  case (Inr summary)
  let ?ev = "rpc_audit_event (ce_now_text C) (audit_of C (nd_node_id node) (Some (nd_endpoint_id node)) m p
    (Some (rs_cmd_request_id success)) None summary)"
  have "snd (fixed_rpc_succeeded X C node m p rc success db) = exec_call X (E, AppendAudit ?ev) db"
    using Inr by (auto simp: fixed_rpc_succeeded_def exec_call_def write_rpc_audit_def split: sum.splits prod.splits)
  then show ?thesis by blast
qed (simp add: fixed_rpc_succeeded_def)

lemma rpc_is_store_call:
  "snd (snd (run_fixed_node_rpc X C n meth db)) = db
   \<or> (\<exists>ev. snd (snd (run_fixed_node_rpc X C n meth db)) = exec_call X (E, AppendAudit ev) db)"
proof (cases rule: run_fixed_cases [of X C n meth db])
  case refused
  then show ?thesis using failed_call by simp
next
  case failed
  then show ?thesis using failed_call by simp
next
  case (succeeded node rpc contacted success)
  then show ?thesis
    using succeeded_call [of X C node "rpc_method rpc" "rpc_params rpc" "rpc_result_class (rpc_method rpc)" success db E]
    by simp
qed

lemma succeeded_audited:
  assumes "co_ok (fst (fixed_rpc_succeeded X C node m p rc success db))"
  shows "\<exists>ev. snd (fixed_rpc_succeeded X C node m p rc success db)
      = db\<lparr>db_audit := db_audit db @ [(Suc (db_audit_seq db), ev)], db_audit_seq := Suc (db_audit_seq db)\<rparr>
    \<and> ae_actor ev = ce_actor C \<and> ae_event ev = ''rpc.completed'' \<and> ae_node_id ev = Some (nd_node_id node)
    \<and> ae_method ev = Some m \<and> ae_ok ev = Some True"
proof -
  obtain summary where summary: "low_sensitive_fixed_rpc_summary X m (rs_cmd_result success) = Inr summary"
    using assms by (cases "low_sensitive_fixed_rpc_summary X m (rs_cmd_result success)")
      (auto simp: fixed_rpc_succeeded_def failure_to_outcome_def)
  then show ?thesis using assms
    by (auto simp: fixed_rpc_succeeded_def audit_failure_outcome_def write_rpc_audit_def insert_audit_def
        insert_audit_tx_def run_tx_def tbind_def ttry_def tmodify_def audit_of_def rpc_audit_event_def
        ctl_audit_event_new_def split: sum.splits prod.splits)
qed

lemma rpc_ok_audited:
  assumes "co_ok (fst (snd (run_fixed_node_rpc X C n meth db)))"
  shows "\<exists>ev. snd (snd (run_fixed_node_rpc X C n meth db))
      = db\<lparr>db_audit := db_audit db @ [(Suc (db_audit_seq db), ev)], db_audit_seq := Suc (db_audit_seq db)\<rparr>
    \<and> ae_actor ev = ce_actor C \<and> ae_event ev = ''rpc.completed'' \<and> ae_node_id ev = Some n \<and> ae_method ev = Some meth
    \<and> ae_ok ev = Some True"
proof -
  have meth: "rpc_method rpc = meth" if "from_method_without_params meth = Some rpc" for rpc
    using that by (auto simp: from_method_without_params_def split: if_splits)
  have node: "nd_node_id node = n" if "load_fixed_rpc_node C db n = Inr node" for node
    using loaded_node [OF that] by (auto simp: node_from_row_def dest: lookup_key)
  show ?thesis
  proof (cases rule: run_fixed_cases [of X C n meth db])
    case (succeeded nd rpc contacted success)
    then show ?thesis
      using assms meth node
        succeeded_audited [of X C nd "rpc_method rpc" "rpc_params rpc" "rpc_result_class (rpc_method rpc)" success db]
      by simp
  qed (use assms in \<open>simp_all add: fixed_rpc_failed_def failure_to_outcome_def\<close>)
qed

section \<open>An example\<close>

text \<open>A registry with one enabled node, and an agent that answers a version query with an empty object.\<close>

definition example_node_row :: node_row where
  "example_node_row = \<lparr>nr_node_id = ''n'', nr_endpoint_id = ''e'', nr_name = ''n'', nr_region = ''r'', nr_role = ''o'',
     nr_enabled = True, nr_created_at = ''Z'', nr_updated_at = ''Z''\<rparr>"

definition example_trust_row :: endpoint_trust where
  "example_trust_row = \<lparr>et_endpoint_id = ''e'', et_node_id = Some ''n'', et_fingerprint = None, et_status = EpActive,
     et_generation = 1, et_previous_endpoint_id = None, et_rotated_to = None, et_trust_bundle_json = JObj [],
     et_created_at = ''Z'', et_updated_at = ''Z''\<rparr>"

definition example_trusted_db :: store_db where
  "example_trusted_db = \<lparr>db_nodes = [example_node_row], db_trust = [example_trust_row], db_tokens = [], db_joins = [],
     db_audit = [], db_audit_seq = 0\<rparr>"

definition example_stale_db :: store_db where
  "example_stale_db = example_trusted_db\<lparr>db_trust := [example_trust_row\<lparr>et_status := EpRevoked\<rparr>]\<rparr>"

definition example_answer :: rpc_response where
  "example_answer = \<lparr>rs_version = 1, rs_request_id = Some ''q'', rs_ok = True, rs_result = Some (JObj []),
     rs_error = None, rs_started_at = ''Z'', rs_finished_at = ''Z'', rs_duration_ms = 1\<rparr>"

definition example_net :: transport where
  "example_net = \<lparr>tr_uuid = ''q'', tr_nonce = ''k'', tr_issued_at = ''Z'', tr_bind = Inr (), tr_connect = Inr,
     tr_open = Inr (), tr_encode = (\<lambda>_. Inr ''{}''), tr_write_length = Inr (), tr_write_payload = Inr (),
     tr_shutdown = Inr (), tr_input = [CHR 0x00, CHR 0x00, CHR 0x00, CHR 0x01, CHR ''a''], tr_read_error = ''eof'',
     tr_decode = (\<lambda>_. Inr example_answer), tr_read_in_time = True, tr_in_time = True\<rparr>"

definition example_controller :: controller_env where
  "example_controller = \<lparr>ce_actor = ''a'', ce_now_text = ''Z'', ce_elapsed_ms = 1, ce_hash_json = (\<lambda>_. ''h''),
     ce_load_key = Inr (), ce_net = example_net, ce_sqlite_text = (\<lambda>_. ''s''), ce_endpoint_id_text = (\<lambda>s. s),
     ce_quote = (\<lambda>s. s)\<rparr>"

section \<open>Properties\<close>

text \<open>C8. A controller RPC is written only to a trusted agent: whatever the state of the database and the
  behaviour of the network, a fixed RPC reaches an identity only if the node is registered and enabled, its
  trust row is active, bound to it and the only active one, and the identity, as proved in the handshake, is
  the one registered for the node.\<close>

theorem rpc_reaches_trusted_endpoint_only:
  assumes "c \<in> set (fst (run_fixed_node_rpc X C n meth db))"
  shows "\<exists>r t. find_node (db_nodes db) n = Some r \<and> nr_enabled r
    \<and> find_trust (db_trust db) (nr_endpoint_id r) = Some t \<and> et_status t = EpActive \<and> et_node_id t = Some n
    \<and> length (active_rows_for_node db n) = 1 \<and> endpoint_id_from_str X (nr_endpoint_id r) = Some c"
  using rpc_contacts [OF assms] by (auto simp: dispatchable_def)

theorem rpc_reaches_trusted_endpoint_only_witness:
  "\<exists>r t. find_node (db_nodes example_trusted_db) ''n'' = Some r \<and> nr_enabled r
    \<and> find_trust (db_trust example_trusted_db) (nr_endpoint_id r) = Some t \<and> et_status t = EpActive"
proof -
  have "''e'' \<in> set (fst (run_fixed_node_rpc example_ext example_controller ''n'' OCSERV_VERSION example_trusted_db))"
    by code_simp
  from rpc_reaches_trusted_endpoint_only [OF this] show ?thesis by blast
qed

text \<open>C9. A revoked or rotated endpoint is never contacted again: after any sequence of store calls, a fixed
  RPC to a node that still points to it sends nothing.\<close>

theorem revoked_endpoint_never_contacted:
  assumes "keys_ok db" "find_trust (db_trust db) e = Some t" "et_status t = EpRevoked \<or> et_status t = EpRotated"
    and "find_node (db_nodes (run_calls X calls db)) n = Some r" "nr_endpoint_id r = e"
  shows "fst (run_fixed_node_rpc X C n meth (run_calls X calls db)) = []"
proof (rule ccontr)
  assume "fst (run_fixed_node_rpc X C n meth (run_calls X calls db)) \<noteq> []"
  then obtain c where "c \<in> set (fst (run_fixed_node_rpc X C n meth (run_calls X calls db)))"
    using last_in_set by blast
  from rpc_contacts [OF this] terminal_status [OF assms(1-3), of X calls] assms(3-5) show False
    by (auto simp: dispatchable_def)
qed

theorem revoked_endpoint_never_contacted_witness:
  "fst (run_fixed_node_rpc example_ext example_controller ''n'' NODE_PING (run_calls example_ext [] example_stale_db)) = []"
proof -
  have "keys_ok example_stale_db" by (simp add: example_stale_db_def example_trusted_db_def keys_ok_def)
  moreover have "find_trust (db_trust example_stale_db) ''e'' = Some (example_trust_row\<lparr>et_status := EpRevoked\<rparr>)"
    by (simp add: example_stale_db_def example_trust_row_def lookup_def)
  moreover have "find_node (db_nodes (run_calls example_ext [] example_stale_db)) ''n'' = Some example_node_row"
    by (simp add: example_stale_db_def example_trusted_db_def example_node_row_def lookup_def)
  moreover have "nr_endpoint_id example_node_row = ''e''" by (simp add: example_node_row_def)
  moreover have "et_status (example_trust_row\<lparr>et_status := EpRevoked\<rparr>) = EpRevoked" by (simp add: example_trust_row_def)
  ultimately show ?thesis using revoked_endpoint_never_contacted by metis
qed

text \<open>C10. No successful RPC goes unrecorded: a fixed RPC that reports success has appended exactly one audit
  record, by the acting user, for this node and method and marked as successful; and no RPC, successful or
  not, changes anything in the database but the audit log.\<close>

theorem rpc_success_is_audited:
  assumes "co_ok (fst (snd (run_fixed_node_rpc X C n meth db)))"
  shows "\<exists>ev. snd (snd (run_fixed_node_rpc X C n meth db)) = db\<lparr>db_audit := db_audit db @ [(Suc (db_audit_seq db), ev)],
       db_audit_seq := Suc (db_audit_seq db)\<rparr>
    \<and> ae_actor ev = ce_actor C \<and> ae_event ev = ''rpc.completed'' \<and> ae_node_id ev = Some n \<and> ae_method ev = Some meth
    \<and> ae_ok ev = Some True"
  using rpc_ok_audited [OF assms] .

theorem rpc_success_is_audited_witness:
  "\<exists>ev. db_audit (snd (snd (run_fixed_node_rpc example_ext example_controller ''n'' OCSERV_VERSION example_trusted_db)))
     = [(1, ev)] \<and> ae_actor ev = ''a''"
proof -
  have "co_ok (fst (snd (run_fixed_node_rpc example_ext example_controller ''n'' OCSERV_VERSION example_trusted_db)))"
    by code_simp
  from rpc_success_is_audited [OF this] show ?thesis
    by (auto simp: example_trusted_db_def example_controller_def)
qed

end
