(* ===== verification/Observability_Payloads.thy ===== *)
theory Observability_Payloads
  imports Store_Payloads Config_Validation
begin

text \<open>
  The closed JSON documents of the observability tables (\<open>ocfleet-cli/src/storage_payloads.rs\<close>): the target
  selector and the path pair of a scheduler job, the summary of a run, the summary of an observation, and
  the two documents of a health snapshot.
\<close>

section \<open>Decoding\<close>

text \<open>\<open>serde(default)\<close> on a struct: an array may also stop early.\<close>

definition struct_fields_default :: "string list \<Rightarrow> json \<Rightarrow> (string \<Rightarrow> json option) option" where
  "struct_fields_default names v =
     (case v of
        JObj kvs \<Rightarrow> if list_all (\<lambda>kv. fst kv \<in> set names) kvs then Some (map_of kvs) else None
      | JArr vs \<Rightarrow> if length vs \<le> length names then Some (map_of (zip names vs)) else None
      | _ \<Rightarrow> None)"

text \<open>A field of type \<open>Option<T>\<close>: an absent key and \<open>null\<close> are \<open>None\<close>.\<close>

definition opt_field :: "(json \<Rightarrow> 'a option) \<Rightarrow> json option \<Rightarrow> 'a option option" where
  "opt_field dec x = default_field None (as_nullable dec) x"

definition as_bool :: "json \<Rightarrow> bool option" where
  "as_bool v = (case v of JBool b \<Rightarrow> Some b | _ \<Rightarrow> None)"

definition as_i64 :: "json \<Rightarrow> int option" where
  "as_i64 v = (case v of JInt i \<Rightarrow> if - int i64_max - 1 \<le> i \<and> i \<le> int i64_max then Some i else None
     | _ \<Rightarrow> None)"

definition jnat :: "nat \<Rightarrow> json" where
  "jnat n = JInt (int n)"

text \<open>\<open>Map::retain(|_, value| !value.is_null())\<close>\<close>

definition drop_nulls :: "(string \<times> json) list \<Rightarrow> (string \<times> json) list" where
  "drop_nulls kvs = filter (\<lambda>kv. snd kv \<noteq> JNull) kvs"

section \<open>Strings\<close>

definition strip_prefix :: "string \<Rightarrow> string \<Rightarrow> string option" where
  "strip_prefix p s = (if starts_with p s then Some (drop (length p) s) else None)"

definition split_once :: "char \<Rightarrow> string \<Rightarrow> (string \<times> string) option" where
  "split_once c s =
     (if c \<in> set s then Some (takeWhile (\<lambda>b. b \<noteq> c) s, tl (dropWhile (\<lambda>b. b \<noteq> c) s)) else None)"

section \<open>Job selectors and pairs\<close>

definition SCHEDULER_SELECTOR_SCHEMA_V1 :: string where
  "SCHEDULER_SELECTOR_SCHEMA_V1 = ''ocfleet.scheduler.selector.v1''"

definition SCHEDULER_PAIR_SCHEMA_V1 :: string where
  "SCHEDULER_PAIR_SCHEMA_V1 = ''ocfleet.scheduler.pair.v1''"

record selector_payload =
  sp_schema :: string
  sp_selector :: string
  sp_name :: "string option"

record pair_payload =
  pp_schema :: string
  pp_source_node_id :: string
  pp_target_node_id :: string

definition selector_text_validate :: "string \<Rightarrow> string + unit" where
  "selector_text_validate selector =
     (if selector = ''explicit-pair'' then Inr ()
      else case strip_prefix ''role='' selector of
        Some role \<Rightarrow> map_err validation_error_text (validate_role role)
      | None \<Rightarrow> (case strip_prefix ''node_id='' selector of
            Some node_id \<Rightarrow> map_err validation_error_text (validate_node_id node_id)
          | None \<Rightarrow> (case split_once (CHR ''='') selector of
                Some (field, value) \<Rightarrow>
                  if field \<in> {''environment'', ''site'', ''owner_team'', ''service_tier''}
                  then validate_metadata_value value ''selector value''
                  else (case strip_prefix ''label.'' field of
                      Some key \<Rightarrow> validate_label_json (jobj [(key, JStr value)]) ''selector label''
                    | None \<Rightarrow> Inl ''scheduler selector field is not allowed'')
              | None \<Rightarrow>
                  Inl ''scheduler selector must use a bounded node, role, metadata, or label field'')))"

definition selector_validate :: "selector_payload \<Rightarrow> string + unit" where
  "selector_validate p = all_ok [
     ensure (sp_schema p = SCHEDULER_SELECTOR_SCHEMA_V1) ''scheduler selector payload schema is unsupported'',
     selector_text_validate (sp_selector p),
     (case sp_name p of None \<Rightarrow> Inr () | Some name \<Rightarrow> validate_description name)]"

definition selector_new :: "string \<Rightarrow> string option \<Rightarrow> string + selector_payload" where
  "selector_new selector name =
     (let payload = \<lparr>sp_schema = SCHEDULER_SELECTOR_SCHEMA_V1, sp_selector = selector, sp_name = name\<rparr> in
      rbind (selector_validate payload) (\<lambda>_. Inr payload))"

definition selector_decode :: "json \<Rightarrow> selector_payload option" where
  "selector_decode v =
     Option.bind (struct_fields [''schema'', ''selector'', ''name''] v) (\<lambda>f.
     Option.bind (Option.bind (f ''schema'') as_str) (\<lambda>schema.
     Option.bind (Option.bind (f ''selector'') as_str) (\<lambda>selector.
     Option.bind (opt_field as_str (f ''name'')) (\<lambda>name.
       Some \<lparr>sp_schema = schema, sp_selector = selector, sp_name = name\<rparr>))))"

definition selector_from_value :: "json \<Rightarrow> string + selector_payload" where
  "selector_from_value v =
     rbind (ok_or (selector_decode v) ''scheduler selector payload is not closed v1 data'') (\<lambda>payload.
     rbind (selector_validate payload) (\<lambda>_. Inr payload))"

definition selector_to_value :: "selector_payload \<Rightarrow> json" where
  "selector_to_value p = jobj [(''schema'', JStr (sp_schema p)), (''selector'', JStr (sp_selector p)),
     (''name'', jstr_opt (sp_name p))]"

definition pair_validate :: "pair_payload \<Rightarrow> string + unit" where
  "pair_validate p = all_ok [
     ensure (pp_schema p = SCHEDULER_PAIR_SCHEMA_V1) ''scheduler pair payload schema is unsupported'',
     map_err validation_error_text (validate_node_id (pp_source_node_id p)),
     map_err validation_error_text (validate_node_id (pp_target_node_id p)),
     ensure (pp_source_node_id p \<noteq> pp_target_node_id p) ''scheduler pair payload requires distinct nodes'']"

definition pair_new :: "string \<Rightarrow> string \<Rightarrow> string + pair_payload" where
  "pair_new source target =
     (let payload = \<lparr>pp_schema = SCHEDULER_PAIR_SCHEMA_V1, pp_source_node_id = source,
        pp_target_node_id = target\<rparr> in
      rbind (pair_validate payload) (\<lambda>_. Inr payload))"

definition pair_decode :: "json \<Rightarrow> pair_payload option" where
  "pair_decode v =
     Option.bind (struct_fields [''schema'', ''source_node_id'', ''target_node_id''] v) (\<lambda>f.
     Option.bind (Option.bind (f ''schema'') as_str) (\<lambda>schema.
     Option.bind (Option.bind (f ''source_node_id'') as_str) (\<lambda>source.
     Option.bind (Option.bind (f ''target_node_id'') as_str) (\<lambda>target.
       Some \<lparr>pp_schema = schema, pp_source_node_id = source, pp_target_node_id = target\<rparr>))))"

definition pair_from_value :: "json \<Rightarrow> string + pair_payload" where
  "pair_from_value v =
     rbind (ok_or (pair_decode v) ''scheduler pair payload is not closed v1 data'') (\<lambda>payload.
     rbind (pair_validate payload) (\<lambda>_. Inr payload))"

definition pair_to_value :: "pair_payload \<Rightarrow> json" where
  "pair_to_value p = jobj [(''schema'', JStr (pp_schema p)),
     (''source_node_id'', JStr (pp_source_node_id p)), (''target_node_id'', JStr (pp_target_node_id p))]"

definition validate_scheduler_payload_relationship ::
    "string \<Rightarrow> selector_payload \<Rightarrow> pair_payload option \<Rightarrow> string + unit" where
  "validate_scheduler_payload_relationship kind selector pair =
     (if kind = ''path-probe'' then
        ensure (\<not> (sp_selector selector \<noteq> ''explicit-pair'' \<or> pair = None))
          ''path-probe job requires an explicit typed pair''
      else ensure (\<not> (sp_selector selector = ''explicit-pair'' \<or> pair \<noteq> None))
          ''non-path job cannot use an explicit pair'')"

section \<open>Run summaries\<close>

definition RUN_SUMMARY_SCHEMA_V1 :: string where
  "RUN_SUMMARY_SCHEMA_V1 = ''ocfleet.run.summary.v1''"

record run_summary =
  rs_schema :: string
  rs_result_class :: string
  rs_job_id :: "string option"
  rs_kind :: "string option"
  rs_status :: string
  rs_triggered_by :: string
  rs_observations :: "nat option"
  rs_failed_observations :: "nat option"

definition job_kinds :: "string list" where
  "job_kinds = [''controller-ping'', ''ocserv-status'', ''ocserv-cert'', ''ocserv-sessions'', ''path-probe'']"

definition run_summary_validate :: "run_summary \<Rightarrow> string + unit" where
  "run_summary_validate p = all_ok [
     ensure (rs_schema p = RUN_SUMMARY_SCHEMA_V1) ''run summary payload schema is unsupported'',
     ensure (rs_result_class p = ''scheduler_summary'') ''run summary result class is unsupported'',
     (case rs_job_id p of None \<Rightarrow> Inr () | Some job_id \<Rightarrow> validate_fixed_id job_id 128 ''run summary job ID''),
     ensure (case rs_kind p of None \<Rightarrow> True | Some kind \<Rightarrow> kind \<in> set job_kinds)
       ''run summary job kind is unsupported'',
     ensure (rs_status p \<in> {''running'', ''succeeded'', ''failed'', ''skipped''})
       ''run summary status is unsupported'',
     ensure (rs_triggered_by p \<in> {''manual'', ''scheduler.run.once''}) ''run summary trigger is unsupported'',
     ensure ((case rs_observations p of None \<Rightarrow> True | Some n \<Rightarrow> n \<le> 1000000)
         \<and> (case rs_failed_observations p of None \<Rightarrow> True | Some n \<Rightarrow> n \<le> 1000000))
       ''run summary observation count exceeds limit'',
     ensure (case (rs_observations p, rs_failed_observations p) of
           (Some observations, Some failed) \<Rightarrow> failed \<le> observations | _ \<Rightarrow> True)
       ''run summary failed count exceeds observation count'',
     ensure (\<not> (rs_failed_observations p \<noteq> None \<and> rs_observations p = None))
       ''run summary failed count requires an observation count'',
     ensure (\<not> (rs_status p = ''running'' \<and> (rs_observations p \<noteq> None \<or> rs_failed_observations p \<noteq> None)))
       ''running run summary cannot contain terminal counts'']"

definition run_summary_new :: "string option \<Rightarrow> string option \<Rightarrow> string \<Rightarrow> string \<Rightarrow> nat option
    \<Rightarrow> nat option \<Rightarrow> string + run_summary" where
  "run_summary_new job_id kind status triggered_by observations failed =
     (let payload = \<lparr>rs_schema = RUN_SUMMARY_SCHEMA_V1, rs_result_class = ''scheduler_summary'',
        rs_job_id = job_id, rs_kind = kind, rs_status = status, rs_triggered_by = triggered_by,
        rs_observations = observations, rs_failed_observations = failed\<rparr> in
      rbind (run_summary_validate payload) (\<lambda>_. Inr payload))"

text \<open>\<open>LegacyRunSummaryV1\<close>: every field is optional.\<close>

record legacy_run_summary =
  lr_result_class :: "string option"
  lr_job_id :: "string option"
  lr_kind :: "string option"
  lr_status :: "string option"
  lr_triggered_by :: "string option"
  lr_observations :: "nat option"
  lr_failed_observations :: "nat option"
  lr_started :: "bool option"

definition legacy_run_fields :: "string list" where
  "legacy_run_fields = [''result_class'', ''job_id'', ''kind'', ''status'', ''triggered_by'',
     ''observations'', ''failed_observations'', ''started'']"

definition legacy_run_decode :: "json \<Rightarrow> legacy_run_summary option" where
  "legacy_run_decode v =
     Option.bind (struct_fields_default legacy_run_fields v) (\<lambda>f.
     Option.bind (opt_field as_str (f ''result_class'')) (\<lambda>result_class.
     Option.bind (opt_field as_str (f ''job_id'')) (\<lambda>job_id.
     Option.bind (opt_field as_str (f ''kind'')) (\<lambda>kind.
     Option.bind (opt_field as_str (f ''status'')) (\<lambda>status.
     Option.bind (opt_field as_str (f ''triggered_by'')) (\<lambda>triggered_by.
     Option.bind (opt_field as_u64 (f ''observations'')) (\<lambda>observations.
     Option.bind (opt_field as_u64 (f ''failed_observations'')) (\<lambda>failed.
     Option.bind (opt_field as_bool (f ''started'')) (\<lambda>started.
       Some \<lparr>lr_result_class = result_class, lr_job_id = job_id, lr_kind = kind, lr_status = status,
         lr_triggered_by = triggered_by, lr_observations = observations,
         lr_failed_observations = failed, lr_started = started\<rparr>)))))))))"

definition run_summary_from_legacy :: "string option \<Rightarrow> string option \<Rightarrow> string \<Rightarrow> string \<Rightarrow> json
    \<Rightarrow> string + run_summary" where
  "run_summary_from_legacy job_id kind_hint status triggered_by v =
     rbind (ok_or (legacy_run_decode v) ''run summary contains unsupported fields or values'') (\<lambda>l.
     rbind (all_ok [
       ensure (lr_result_class l = None \<or> lr_result_class l = Some ''scheduler_summary'')
         ''run summary result class is inconsistent'',
       ensure (\<not> (lr_job_id l \<noteq> None \<and> lr_job_id l \<noteq> job_id)) ''run summary job ID is inconsistent'',
       ensure (lr_status l = None \<or> lr_status l = Some status) ''run summary status is inconsistent'',
       ensure (lr_triggered_by l = None \<or> lr_triggered_by l = Some triggered_by)
         ''run summary trigger is inconsistent'',
       ensure (case lr_started l of None \<Rightarrow> True | Some started \<Rightarrow> \<not> (\<not> started \<or> status \<noteq> ''running''))
         ''legacy run summary started marker is inconsistent'',
       ensure (case (lr_kind l, kind_hint) of (Some kind, Some hint) \<Rightarrow> kind = hint | _ \<Rightarrow> True)
         ''run summary job kind is inconsistent'']) (\<lambda>_.
     run_summary_new job_id (case lr_kind l of Some kind \<Rightarrow> Some kind | None \<Rightarrow> kind_hint) status
       triggered_by (lr_observations l) (lr_failed_observations l)))"

definition run_summary_fields :: "string list" where
  "run_summary_fields = [''schema'', ''result_class'', ''job_id'', ''kind'', ''status'', ''triggered_by'',
     ''observations'', ''failed_observations'']"

definition run_summary_decode :: "json \<Rightarrow> run_summary option" where
  "run_summary_decode v =
     Option.bind (struct_fields run_summary_fields v) (\<lambda>f.
     Option.bind (Option.bind (f ''schema'') as_str) (\<lambda>schema.
     Option.bind (Option.bind (f ''result_class'') as_str) (\<lambda>result_class.
     Option.bind (opt_field as_str (f ''job_id'')) (\<lambda>job_id.
     Option.bind (opt_field as_str (f ''kind'')) (\<lambda>kind.
     Option.bind (Option.bind (f ''status'') as_str) (\<lambda>status.
     Option.bind (Option.bind (f ''triggered_by'') as_str) (\<lambda>triggered_by.
     Option.bind (opt_field as_u64 (f ''observations'')) (\<lambda>observations.
     Option.bind (opt_field as_u64 (f ''failed_observations'')) (\<lambda>failed.
       Some \<lparr>rs_schema = schema, rs_result_class = result_class, rs_job_id = job_id, rs_kind = kind,
         rs_status = status, rs_triggered_by = triggered_by, rs_observations = observations,
         rs_failed_observations = failed\<rparr>)))))))))"

definition run_summary_from_value :: "json \<Rightarrow> string + run_summary" where
  "run_summary_from_value v =
     rbind (ok_or (run_summary_decode v) ''run summary payload is not closed v1 data'') (\<lambda>payload.
     rbind (run_summary_validate payload) (\<lambda>_. Inr payload))"

definition run_summary_to_value :: "run_summary \<Rightarrow> json" where
  "run_summary_to_value p = jobj [
     (''schema'', JStr (rs_schema p)),
     (''result_class'', JStr (rs_result_class p)),
     (''job_id'', jstr_opt (rs_job_id p)),
     (''kind'', jstr_opt (rs_kind p)),
     (''status'', JStr (rs_status p)),
     (''triggered_by'', JStr (rs_triggered_by p)),
     (''observations'', jopt jnat (rs_observations p)),
     (''failed_observations'', jopt jnat (rs_failed_observations p))]"

definition run_public_summary :: "run_summary \<Rightarrow> json" where
  "run_public_summary p = jobj (drop_nulls [
     (''result_class'', JStr (rs_result_class p)),
     (''job_id'', jstr_opt (rs_job_id p)),
     (''kind'', jstr_opt (rs_kind p)),
     (''status'', JStr (rs_status p)),
     (''triggered_by'', JStr (rs_triggered_by p)),
     (''observations'', jopt jnat (rs_observations p)),
     (''failed_observations'', jopt jnat (rs_failed_observations p))])"

definition run_validate_relationship ::
    "run_summary \<Rightarrow> string option \<Rightarrow> string option \<Rightarrow> string \<Rightarrow> string \<Rightarrow> string + unit" where
  "run_validate_relationship p job_id kind status triggered_by =
     ensure (\<not> (rs_job_id p \<noteq> job_id \<or> rs_kind p \<noteq> kind \<or> rs_status p \<noteq> status
         \<or> rs_triggered_by p \<noteq> triggered_by))
       ''run summary does not match relational job, kind, status, or trigger''"

definition canonical_run_summary :: "string option \<Rightarrow> string option \<Rightarrow> string \<Rightarrow> string \<Rightarrow> json
    \<Rightarrow> store_error + json" where
  "canonical_run_summary job_id kind_hint status triggered_by v =
     rbind (map_err SeInvalidInput
       (case run_summary_from_value v of
          Inr payload \<Rightarrow> Inr payload
        | Inl _ \<Rightarrow> run_summary_from_legacy job_id kind_hint status triggered_by v)) (\<lambda>payload.
     rbind (map_err SeInvalidInput
       (run_validate_relationship payload job_id kind_hint status triggered_by)) (\<lambda>_.
     Inr (run_summary_to_value payload)))"

section \<open>Health documents\<close>

definition HEALTH_DEGRADED_METHODS_SCHEMA_V1 :: string where
  "HEALTH_DEGRADED_METHODS_SCHEMA_V1 = ''ocfleet.health.degraded-methods.v1''"

definition HEALTH_SUMMARY_SCHEMA_V1 :: string where
  "HEALTH_SUMMARY_SCHEMA_V1 = ''ocfleet.health.summary.v1''"

definition HEALTH_DEGRADED_METHODS :: "string list" where
  "HEALTH_DEGRADED_METHODS = [''ocserv.cert.expiry'', ''ocserv.config.fingerprint'',
     ''ocserv.service.summary'', ''ocserv.sessions.summary'', ''ocserv.version'']"

record degraded_payload =
  dm_schema :: string
  dm_methods :: "string list"

definition degraded_validate :: "degraded_payload \<Rightarrow> string + unit" where
  "degraded_validate p = all_ok [
     ensure (dm_schema p = HEALTH_DEGRADED_METHODS_SCHEMA_V1)
       ''health degraded-methods payload schema is unsupported'',
     ensure (length (dm_methods p) \<le> length HEALTH_DEGRADED_METHODS)
       ''health degraded-methods payload has too many methods'',
     ensure (\<not> list_ex (\<lambda>ab. fst ab \<ge> snd ab) (zip (dm_methods p) (tl (dm_methods p))))
       ''health degraded methods must be sorted and unique'',
     ensure (list_all (\<lambda>m. m \<in> set HEALTH_DEGRADED_METHODS) (dm_methods p))
       ''health degraded-methods payload contains an unsupported method'']"

definition degraded_new :: "string list \<Rightarrow> string + degraded_payload" where
  "degraded_new methods =
     (let payload = \<lparr>dm_schema = HEALTH_DEGRADED_METHODS_SCHEMA_V1,
        dm_methods = remdups_adj (sort methods)\<rparr> in
      rbind (degraded_validate payload) (\<lambda>_. Inr payload))"

definition degraded_decode :: "json \<Rightarrow> degraded_payload option" where
  "degraded_decode v =
     Option.bind (struct_fields [''schema'', ''methods''] v) (\<lambda>f.
     Option.bind (Option.bind (f ''schema'') as_str) (\<lambda>schema.
     Option.bind (Option.bind (f ''methods'') (as_list as_str)) (\<lambda>methods.
       Some \<lparr>dm_schema = schema, dm_methods = methods\<rparr>)))"

definition degraded_from_value :: "json \<Rightarrow> string + degraded_payload" where
  "degraded_from_value v =
     rbind (ok_or (degraded_decode v) ''health degraded-methods payload is not closed v1 data'') (\<lambda>payload.
     rbind (degraded_validate payload) (\<lambda>_. Inr payload))"

definition degraded_to_value :: "degraded_payload \<Rightarrow> json" where
  "degraded_to_value p = jobj [(''schema'', JStr (dm_schema p)), (''methods'', jstrs (dm_methods p))]"

record health_summary =
  hs_schema :: string
  hs_region :: "string option"
  hs_role :: "string option"
  hs_status :: string
  hs_endpoint_status :: "string option"
  hs_consecutive_failures :: "nat option"

definition health_summary_validate :: "health_summary \<Rightarrow> string + unit" where
  "health_summary_validate p = all_ok [
     ensure (hs_schema p = HEALTH_SUMMARY_SCHEMA_V1) ''health summary payload schema is unsupported'',
     (case hs_region p of None \<Rightarrow> Inr () | Some r \<Rightarrow> map_err validation_error_text (validate_region r)),
     (case hs_role p of None \<Rightarrow> Inr () | Some r \<Rightarrow> map_err validation_error_text (validate_role r)),
     ensure (hs_status p \<in> {''healthy'', ''degraded'', ''unreachable'', ''stale'', ''disabled'', ''unknown''})
       ''health summary status is unsupported'',
     ensure (case hs_endpoint_status p of None \<Rightarrow> True
         | Some st \<Rightarrow> st \<in> {''active'', ''revoked'', ''quarantined'', ''rotated''})
       ''health summary endpoint status is unsupported'',
     ensure (case hs_consecutive_failures p of None \<Rightarrow> True | Some n \<Rightarrow> n \<le> 1000)
       ''health summary consecutive failures exceeds 1000'']"

definition health_summary_new :: "string option \<Rightarrow> string option \<Rightarrow> string \<Rightarrow> string option \<Rightarrow> nat option
    \<Rightarrow> string + health_summary" where
  "health_summary_new region role status endpoint_status failures =
     (let payload = \<lparr>hs_schema = HEALTH_SUMMARY_SCHEMA_V1, hs_region = region, hs_role = role,
        hs_status = status, hs_endpoint_status = endpoint_status, hs_consecutive_failures = failures\<rparr> in
      rbind (health_summary_validate payload) (\<lambda>_. Inr payload))"

definition health_summary_decode :: "json \<Rightarrow> health_summary option" where
  "health_summary_decode v =
     Option.bind (struct_fields [''schema'', ''region'', ''role'', ''status'', ''endpoint_status'',
       ''consecutive_failures''] v) (\<lambda>f.
     Option.bind (Option.bind (f ''schema'') as_str) (\<lambda>schema.
     Option.bind (opt_field as_str (f ''region'')) (\<lambda>region.
     Option.bind (opt_field as_str (f ''role'')) (\<lambda>role.
     Option.bind (Option.bind (f ''status'') as_str) (\<lambda>status.
     Option.bind (opt_field as_str (f ''endpoint_status'')) (\<lambda>endpoint_status.
     Option.bind (opt_field as_u64 (f ''consecutive_failures'')) (\<lambda>failures.
       Some \<lparr>hs_schema = schema, hs_region = region, hs_role = role, hs_status = status,
         hs_endpoint_status = endpoint_status, hs_consecutive_failures = failures\<rparr>)))))))"

definition health_summary_from_value :: "json \<Rightarrow> string + health_summary" where
  "health_summary_from_value v =
     rbind (ok_or (health_summary_decode v) ''health summary payload is not closed v1 data'') (\<lambda>payload.
     rbind (health_summary_validate payload) (\<lambda>_. Inr payload))"

definition health_summary_to_value :: "health_summary \<Rightarrow> json" where
  "health_summary_to_value p = jobj [
     (''schema'', JStr (hs_schema p)),
     (''region'', jstr_opt (hs_region p)),
     (''role'', jstr_opt (hs_role p)),
     (''status'', JStr (hs_status p)),
     (''endpoint_status'', jstr_opt (hs_endpoint_status p)),
     (''consecutive_failures'', jopt jnat (hs_consecutive_failures p))]"

definition validate_health_payload_relationship :: "string \<Rightarrow> health_summary \<Rightarrow> string + unit" where
  "validate_health_payload_relationship status p =
     ensure (hs_status p = status) ''health summary status does not match snapshot status''"

section \<open>Observation summaries\<close>

definition OBSERVATION_SUMMARY_SCHEMA_V1 :: string where
  "OBSERVATION_SUMMARY_SCHEMA_V1 = ''ocfleet.observation.summary.v1''"

text \<open>\<open>ObservationSummaryFieldsV1\<close>: a struct whose fields are all optional is represented by the fields
  that are present, with their encoded values.\<close>

datatype field_type = FieldStr | FieldBool | FieldU64 | FieldI64 | FieldStrs

primrec has_field_type :: "field_type \<Rightarrow> json \<Rightarrow> bool" where
  "has_field_type FieldStr v \<longleftrightarrow> as_str v \<noteq> None"
| "has_field_type FieldBool v \<longleftrightarrow> as_bool v \<noteq> None"
| "has_field_type FieldU64 v \<longleftrightarrow> as_u64 v \<noteq> None"
| "has_field_type FieldI64 v \<longleftrightarrow> as_i64 v \<noteq> None"
| "has_field_type FieldStrs v \<longleftrightarrow> as_list as_str v \<noteq> None"

definition observation_fields :: "(string \<times> field_type) list" where
  "observation_fields = [
     (''message'', FieldStr), (''node_id'', FieldStr), (''agent_version'', FieldStr),
     (''time_utc'', FieldStr), (''region'', FieldStr), (''role'', FieldStr),
     (''current_time_utc'', FieldStr), (''agent_endpoint_id'', FieldStr), (''probe'', FieldStr),
     (''ok'', FieldBool), (''source_agent_endpoint_id'', FieldStr),
     (''target_agent_endpoint_id'', FieldStr), (''root_request_id'', FieldStr),
     (''peer_request_id'', FieldStr), (''target_error_code'', FieldStr), (''service_state'', FieldStr),
     (''service_enabled'', FieldStr), (''collector_status'', FieldStr), (''last_snapshot_at'', FieldStr),
     (''auth_failure_count_rolling'', FieldU64), (''connection_failure_count_rolling'', FieldU64),
     (''cert_min_days_remaining'', FieldI64), (''config_fingerprint_short'', FieldStr),
     (''version'', FieldStr), (''status'', FieldStr), (''sessions_total'', FieldU64),
     (''sessions_status'', FieldStr), (''cert_count'', FieldU64), (''days_remaining'', FieldI64),
     (''config_fingerprint_algorithm'', FieldStr), (''config_fingerprint_key_id'', FieldStr),
     (''config_fingerprint_status'', FieldStr), (''config_fingerprint_prefix'', FieldStr),
     (''config_fingerprint_previous_key_id'', FieldStr),
     (''config_fingerprint_previous_prefix'', FieldStr), (''request_id'', FieldStr),
     (''target_node_id'', FieldStr), (''target_endpoint_id'', FieldStr), (''job_id'', FieldStr),
     (''kind'', FieldStr), (''skipped_tasks'', FieldU64), (''error_code'', FieldStr),
     (''selector_class'', FieldStr), (''reason_code'', FieldStr), (''endpoint_trust_state'', FieldStr),
     (''endpoint_status'', FieldStr), (''source_node_id'', FieldStr), (''source_endpoint_id'', FieldStr),
     (''degraded_methods'', FieldStrs)]"

definition observation_fields_decode :: "json \<Rightarrow> (string \<times> json) list option" where
  "observation_fields_decode v =
     Option.bind (struct_fields_default (map fst observation_fields) v) (\<lambda>f.
       if list_all (\<lambda>nt. case f (fst nt) of None \<Rightarrow> True | Some w \<Rightarrow> w = JNull \<or> has_field_type (snd nt) w)
            observation_fields
       then Some (drop_nulls (map (\<lambda>nt. (fst nt, case f (fst nt) of None \<Rightarrow> JNull | Some w \<Rightarrow> w)) observation_fields))
       else None)"

text \<open>\<open>serde_json::to_value(&self.fields)\<close> writes every field, the absent ones as \<open>null\<close>.\<close>

definition observation_fields_value :: "(string \<times> json) list \<Rightarrow> json" where
  "observation_fields_value fs =
     jobj (map (\<lambda>nt. (fst nt, case map_of fs (fst nt) of None \<Rightarrow> JNull | Some w \<Rightarrow> w)) observation_fields)"

record observation_summary =
  os_schema :: string
  os_result_class :: string
  os_method :: string
  os_fields :: "(string \<times> json) list"

definition observation_methods :: "string list" where
  "observation_methods = [''probe.controller.ping'', ''probe.path.echo'', ''ocserv.service.summary'',
     ''ocserv.version'', ''ocserv.sessions.summary'', ''ocserv.cert.expiry'', ''ocserv.config.fingerprint'']"

definition observation_classes :: "string list" where
  "observation_classes = [''controller_rpc_summary'', ''low_sensitive_summary'', ''scheduler_summary'']"

definition observation_validate :: "ext \<Rightarrow> observation_summary \<Rightarrow> string + unit" where
  "observation_validate X p = all_ok [
     ensure (os_schema p = OBSERVATION_SUMMARY_SCHEMA_V1) ''observation summary payload schema is unsupported'',
     ensure (os_method p \<in> set observation_methods) ''observation summary method is unsupported'',
     ensure (os_result_class p \<in> set observation_classes) ''observation summary result class is unsupported'',
     map_err invalid_input_text
       (validate_low_sensitive_json X (observation_fields_value (os_fields p)) ''observation summary fields''),
     (case Option.bind (map_of (os_fields p) ''degraded_methods'') (as_list as_str) of
        None \<Rightarrow> Inr ()
      | Some methods \<Rightarrow> rbind (degraded_new methods) (\<lambda>_. Inr ()))]"

definition observation_from_legacy :: "ext \<Rightarrow> string \<Rightarrow> string \<Rightarrow> json \<Rightarrow> string + observation_summary" where
  "observation_from_legacy X method result_class v =
     (case v of
        JObj kvs \<Rightarrow>
          rbind (ensure (case map_of kvs ''result_class'' of None \<Rightarrow> True
              | Some embedded \<Rightarrow> as_str embedded = Some result_class)
            ''observation summary result class is inconsistent'') (\<lambda>_.
          rbind (ok_or (observation_fields_decode (JObj (filter (\<lambda>kv. fst kv \<noteq> ''result_class'') kvs)))
            ''observation summary contains unsupported fields or values'') (\<lambda>fields.
          let payload = \<lparr>os_schema = OBSERVATION_SUMMARY_SCHEMA_V1, os_result_class = result_class,
            os_method = method, os_fields = fields\<rparr> in
          rbind (observation_validate X payload) (\<lambda>_. Inr payload)))
      | _ \<Rightarrow> Inl ''observation summary must be an object'')"

definition observation_decode :: "json \<Rightarrow> observation_summary option" where
  "observation_decode v =
     Option.bind (struct_fields [''schema'', ''result_class'', ''method'', ''fields''] v) (\<lambda>f.
     Option.bind (Option.bind (f ''schema'') as_str) (\<lambda>schema.
     Option.bind (Option.bind (f ''result_class'') as_str) (\<lambda>result_class.
     Option.bind (Option.bind (f ''method'') as_str) (\<lambda>m.
     Option.bind (Option.bind (f ''fields'') observation_fields_decode) (\<lambda>fields.
       Some \<lparr>os_schema = schema, os_result_class = result_class, os_method = m, os_fields = fields\<rparr>)))))"

definition observation_from_value :: "ext \<Rightarrow> json \<Rightarrow> string + observation_summary" where
  "observation_from_value X v =
     rbind (ok_or (observation_decode v) ''observation summary payload is not closed v1 data'') (\<lambda>payload.
     rbind (observation_validate X payload) (\<lambda>_. Inr payload))"

definition observation_to_value :: "observation_summary \<Rightarrow> json" where
  "observation_to_value p = jobj [
     (''schema'', JStr (os_schema p)),
     (''result_class'', JStr (os_result_class p)),
     (''method'', JStr (os_method p)),
     (''fields'', jobj (os_fields p))]"

definition observation_public_summary :: "observation_summary \<Rightarrow> json" where
  "observation_public_summary p = jobj ((''result_class'', JStr (os_result_class p)) # os_fields p)"

end
