(* ===== verification/Scheduler_Store.thy ===== *)
theory Scheduler_Store
  imports Store_Core Observability_Payloads "HOL-Library.Product_Lexorder"
begin

text \<open>
  The scheduler's tables (\<open>ocfleet-cli/src/store.rs\<close>): jobs, runs, observations, the claim of a job by a
  scheduler process, and the maintenance window. A claim is a lease with an owner, an expiry and a fence
  token; a process writes a run only under the claim it holds.

  Timestamps are texts. The statements of the database compare them as texts, the code as instants; the
  model keeps both comparisons where the source has them.
\<close>

section \<open>Tables\<close>

record observability_job =
  jb_job_id :: string
  jb_kind :: string
  jb_selector_json :: json
  jb_pair_selector_json :: "json option"
  jb_interval_seconds :: nat
  jb_jitter_seconds :: nat
  jb_timeout_ms :: nat
  jb_enabled :: bool
  jb_next_run_at :: "string option"
  jb_last_run_at :: "string option"
  jb_created_at :: string
  jb_updated_at :: string

record observability_run =
  rn_run_id :: string
  rn_job_id :: "string option"
  rn_started_at :: string
  rn_finished_at :: "string option"
  rn_status :: string
  rn_triggered_by :: string
  rn_summary_json :: json

record probe_observation =
  ob_observation_id :: string
  ob_run_id :: "string option"
  ob_node_id :: "string option"
  ob_endpoint_id :: "string option"
  ob_method :: string
  ob_ok :: "bool option"
  ob_error_code :: "string option"
  ob_duration_ms :: "nat option"
  ob_observed_at :: string
  ob_expires_at :: "string option"
  ob_result_class :: string
  ob_summary_json :: json

text \<open>A row of \<open>scheduler_job_claims\<close>; the schema lets a row have an owner, a claim time and an expiry, or
  none of them.\<close>

record claim_row =
  cl_job_id :: string
  cl_owner_id :: "string option"
  cl_fence_token :: int
  cl_claimed_at :: "string option"
  cl_lease_expires_at :: "string option"
  cl_active_run_id :: "string option"
  cl_updated_at :: string

record maintenance_window =
  mw_starts_at :: string
  mw_ends_at :: string
  mw_reason :: string
  mw_updated_at :: string

record sched_db =
  sd_store :: store_db
  sd_jobs :: "observability_job list"
  sd_runs :: "observability_run list"
  sd_observations :: "probe_observation list"
  sd_claims :: "claim_row list"
  sd_maintenance :: "maintenance_window option"

definition empty_sched_db :: sched_db where
  "empty_sched_db = \<lparr>sd_store = empty_db, sd_jobs = [], sd_runs = [], sd_observations = [], sd_claims = [],
     sd_maintenance = None\<rparr>"

section \<open>Arguments\<close>

record scheduler_job_claim =
  sc_job_id :: string
  sc_owner_id :: string
  sc_fence_token :: nat
  sc_claimed_at :: string
  sc_lease_expires_at :: string
  sc_active_run_id :: "string option"

record scheduler_run_start =
  st_run_id :: string
  st_job_id :: string
  st_started_at :: string

record scheduler_job_clock =
  ck_job_id :: string
  ck_next_run_at :: string
  ck_last_run_at :: string

record scheduler_outcome_entry =
  oe_observation :: probe_observation
  oe_audit :: ctl_audit_event

record scheduler_outcome =
  so_job_id :: string
  so_run_id :: "string option"
  so_entries :: "scheduler_outcome_entry list"
  so_job_clock :: "scheduler_job_clock option"

record scheduler_run_finish =
  sf_run_id :: string
  sf_finished_at :: string
  sf_job_clock :: scheduler_job_clock

definition MIN_SCHEDULER_LEASE_SECONDS :: nat where "MIN_SCHEDULER_LEASE_SECONDS = 5"
definition MAX_SCHEDULER_LEASE_SECONDS :: nat where "MAX_SCHEDULER_LEASE_SECONDS = 21600"
definition MAX_SCHEDULER_OUTCOME_ENTRIES :: nat where "MAX_SCHEDULER_OUTCOME_ENTRIES = 4"

text \<open>Outside the database: the two clock texts, and the text of a parsed timestamp moved by a number of
  seconds (\<open>(OffsetDateTime::parse(..) + Duration::seconds(n)).format(&Rfc3339)\<close>), which panics when the
  sum is out of range and fails with a text when it has no RFC3339 form.\<close>

record sched_env =
  sv_now_text :: string
  sv_sql_now :: string
  sv_add_seconds :: "string \<Rightarrow> nat \<Rightarrow> string fault + string"

text \<open>Documented behaviour of the formatter: its text parses to the moved instant.\<close>

definition adds_seconds :: "ext \<Rightarrow> sched_env \<Rightarrow> bool" where
  "adds_seconds X V \<longleftrightarrow> (\<forall>t n s. sv_add_seconds V t n = Inr s \<longrightarrow>
     parse_rfc3339 X s = map_option (\<lambda>i. i + ns_of_secs (int n)) (parse_rfc3339 X t))"

type_synonym 'a sctx = "(sched_db, store_error, 'a) tx"

section \<open>Statements\<close>

text \<open>A statement on the tables of the registry or on the audit log.\<close>

definition on_store :: "'a stx \<Rightarrow> 'a sctx" where
  "on_store m = (\<lambda>s. case m (sd_store s) of
      Inl e \<Rightarrow> Inl e
    | Inr r \<Rightarrow> Inr (fst r, s\<lparr>sd_store := snd r\<rparr>))"

definition tquery :: "(sched_db \<Rightarrow> store_error + 'a) \<Rightarrow> 'a sctx" where
  "tquery q = tbind (tread q) ttry"

definition toption :: "'a option \<Rightarrow> store_error \<Rightarrow> 'a sctx" where
  "toption x e = ttry (ok_or x e)"

definition update_jobs :: "(observability_job \<Rightarrow> bool) \<Rightarrow> (observability_job \<Rightarrow> observability_job) \<Rightarrow> nat sctx" where
  "update_jobs P f =
     tbind (tread sd_jobs) (\<lambda>rows.
     tseq (tmodify (\<lambda>s. s\<lparr>sd_jobs := update_rows P f rows\<rparr>))
     (treturn (affected P rows)))"

definition update_runs :: "(observability_run \<Rightarrow> bool) \<Rightarrow> (observability_run \<Rightarrow> observability_run) \<Rightarrow> nat sctx" where
  "update_runs P f =
     tbind (tread sd_runs) (\<lambda>rows.
     tseq (tmodify (\<lambda>s. s\<lparr>sd_runs := update_rows P f rows\<rparr>))
     (treturn (affected P rows)))"

definition update_claims :: "(claim_row \<Rightarrow> bool) \<Rightarrow> (claim_row \<Rightarrow> claim_row) \<Rightarrow> nat sctx" where
  "update_claims P f =
     tbind (tread sd_claims) (\<lambda>rows.
     tseq (tmodify (\<lambda>s. s\<lparr>sd_claims := update_rows P f rows\<rparr>))
     (treturn (affected P rows)))"

text \<open>\<open>INSERT .. ON CONFLICT(job_id) DO UPDATE\<close>\<close>

definition upsert_claim :: "claim_row \<Rightarrow> unit sctx" where
  "upsert_claim row = tmodify (\<lambda>s. s\<lparr>sd_claims :=
     (if cl_job_id row \<in> set (map cl_job_id (sd_claims s))
      then update_rows (\<lambda>r. cl_job_id r = cl_job_id row) (\<lambda>_. row) (sd_claims s)
      else sd_claims s @ [row])\<rparr>)"

text \<open>A comparison of a nullable text column with a text; \<open>NULL\<close> compares to nothing.\<close>

definition sql_gt :: "string option \<Rightarrow> string \<Rightarrow> bool" where
  "sql_gt x t = (case x of None \<Rightarrow> False | Some s \<Rightarrow> t < s)"

definition sql_le :: "string option \<Rightarrow> string \<Rightarrow> bool" where
  "sql_le x t = (case x of None \<Rightarrow> False | Some s \<Rightarrow> s \<le> t)"

section \<open>Validation\<close>

definition validate_safe_id :: "string \<Rightarrow> string \<Rightarrow> nat \<Rightarrow> store_error + unit" where
  "validate_safe_id field value max_len =
     (let ok_len = value \<noteq> [] \<and> length value \<le> max_len;
          ok_chars = list_all (\<lambda>b. is_ascii_alphanumeric b \<or> b \<in> set ''._-:'') value
      in if ok_len \<and> ok_chars then Inr ()
         else Inl (SeInvalidInput (field @ '' must be 1-'' @ show_nat max_len
                @ '' chars and contain only [a-zA-Z0-9._:-]'')))"

definition validate_optional_id :: "string \<Rightarrow> string option \<Rightarrow> nat \<Rightarrow> store_error + unit" where
  "validate_optional_id field value max_len =
     (case value of None \<Rightarrow> Inr () | Some v \<Rightarrow> validate_safe_id field v max_len)"

definition validate_u64_range :: "string \<Rightarrow> nat \<Rightarrow> nat \<Rightarrow> nat \<Rightarrow> store_error + unit" where
  "validate_u64_range name value mn mx =
     ensure (mn \<le> value \<and> value \<le> mx)
       (SeInvalidInput (name @ '' must be between '' @ show_nat mn @ '' and '' @ show_nat mx))"

definition validate_bounded_rfc3339 :: "ext \<Rightarrow> string \<Rightarrow> string \<Rightarrow> store_error + int" where
  "validate_bounded_rfc3339 X value field =
     (if value = [] \<or> length value > 64 then Inl (SeInvalidInput (field @ '' must be bounded RFC3339''))
      else ok_or (parse_rfc3339 X value) (SeInvalidInput (field @ '' must be bounded RFC3339'')))"

text \<open>The check without the parsed instant.\<close>

definition check_rfc3339 :: "ext \<Rightarrow> string \<Rightarrow> string \<Rightarrow> store_error + unit" where
  "check_rfc3339 X value field = rbind (validate_bounded_rfc3339 X value field) (\<lambda>_. Inr ())"

definition check_actor :: "string \<Rightarrow> store_error + unit" where
  "check_actor actor = map_err SeInvalidInput (validate_actor actor)"

definition validate_scheduler_claim_input ::
    "ext \<Rightarrow> string \<Rightarrow> string \<Rightarrow> nat \<Rightarrow> string \<Rightarrow> store_error + unit" where
  "validate_scheduler_claim_input X owner_id now lease_seconds actor = all_ok [
     validate_safe_id ''scheduler owner_id'' owner_id 128,
     check_rfc3339 X now ''scheduler claim timestamp'',
     validate_u64_range ''scheduler lease_seconds'' lease_seconds MIN_SCHEDULER_LEASE_SECONDS
       MAX_SCHEDULER_LEASE_SECONDS,
     check_actor actor]"

text \<open>The two \<open>expect\<close>s follow the checks that make them succeed.\<close>

definition validate_scheduler_claim :: "ext \<Rightarrow> scheduler_job_claim \<Rightarrow> unit sctx" where
  "validate_scheduler_claim X claim =
     tseq (ttry (all_ok [
       validate_safe_id ''scheduler job_id'' (sc_job_id claim) 128,
       validate_safe_id ''scheduler owner_id'' (sc_owner_id claim) 128,
       ensure (\<not> (sc_fence_token claim = 0 \<or> sc_fence_token claim > i64_max))
         (SeInvalidInput ''scheduler fence token is out of range''),
       check_rfc3339 X (sc_claimed_at claim) ''scheduler claimed_at'',
       check_rfc3339 X (sc_lease_expires_at claim) ''scheduler lease_expires_at'',
       validate_optional_id ''scheduler active_run_id'' (sc_active_run_id claim) 128]))
     (tbind (texpect (parse_rfc3339 X (sc_claimed_at claim))) (\<lambda>claimed_at.
     tbind (texpect (parse_rfc3339 X (sc_lease_expires_at claim))) (\<lambda>lease_expires_at.
     tcheck (claimed_at < lease_expires_at)
       (SeInvalidInput ''scheduler lease must expire after it is claimed''))))"

definition validate_scheduler_maintenance_window ::
    "ext \<Rightarrow> maintenance_window \<Rightarrow> store_error + maintenance_window" where
  "validate_scheduler_maintenance_window X w =
     rbind (validate_bounded_rfc3339 X (mw_starts_at w) ''maintenance starts_at'') (\<lambda>starts_at.
     rbind (validate_bounded_rfc3339 X (mw_ends_at w) ''maintenance ends_at'') (\<lambda>ends_at.
     rbind (ensure (starts_at < ends_at) (SeInvalidInput ''maintenance ends_at must be later than starts_at'')) (\<lambda>_.
     rbind (map_err SeInvalidInput (validate_reason (mw_reason w))) (\<lambda>_.
     rbind (validate_bounded_rfc3339 X (mw_updated_at w) ''maintenance updated_at'') (\<lambda>_.
     Inr w)))))"

definition validate_scheduler_job_kind :: "string \<Rightarrow> store_error + unit" where
  "validate_scheduler_job_kind kind =
     ensure (kind \<in> set job_kinds) (SeInvalidInput ''scheduler job kind is invalid'')"

definition scheduler_job_kind_allows_method :: "string \<Rightarrow> string \<Rightarrow> bool" where
  "scheduler_job_kind_allows_method kind m =
     (if kind = ''controller-ping'' then m = PROBE_CONTROLLER_PING
      else if kind = ''ocserv-status'' then
        m \<in> {OCSERV_SERVICE_SUMMARY, OCSERV_VERSION, OCSERV_SESSIONS_SUMMARY, OCSERV_CONFIG_FINGERPRINT}
      else if kind = ''ocserv-cert'' then m = OCSERV_CERT_EXPIRY
      else if kind = ''ocserv-sessions'' then m = OCSERV_SESSIONS_SUMMARY
      else if kind = ''path-probe'' then m = PROBE_PATH_ECHO
      else False)"

definition validate_scheduler_job_clock :: "ext \<Rightarrow> scheduler_job_clock \<Rightarrow> store_error + unit" where
  "validate_scheduler_job_clock X clock =
     rbind (validate_safe_id ''scheduler clock job_id'' (ck_job_id clock) 128) (\<lambda>_.
     rbind (validate_bounded_rfc3339 X (ck_next_run_at clock) ''scheduler next_run_at'') (\<lambda>next_run_at.
     rbind (validate_bounded_rfc3339 X (ck_last_run_at clock) ''scheduler last_run_at'') (\<lambda>last_run_at.
     ensure (last_run_at < next_run_at)
       (SeInvalidInput ''scheduler next_run_at must be later than last_run_at''))))"

definition validate_scheduler_observation :: "ext \<Rightarrow> probe_observation \<Rightarrow> store_error + unit" where
  "validate_scheduler_observation X ob = all_ok [
     validate_safe_id ''scheduler observation_id'' (ob_observation_id ob) 128,
     validate_optional_id ''scheduler observation run_id'' (ob_run_id ob) 128,
     validate_optional_id ''scheduler observation node_id'' (ob_node_id ob) 128,
     validate_optional_id ''scheduler observation endpoint_id'' (ob_endpoint_id ob) 128,
     ensure (ob_method ob \<in> {PROBE_CONTROLLER_PING, PROBE_PATH_ECHO, OCSERV_SERVICE_SUMMARY, OCSERV_VERSION,
         OCSERV_SESSIONS_SUMMARY, OCSERV_CERT_EXPIRY, OCSERV_CONFIG_FINGERPRINT})
       (SeInvalidInput ''scheduler observation method is invalid''),
     validate_optional_id ''scheduler observation error_code'' (ob_error_code ob) 64,
     ensure (\<not> (ob_ok ob = None \<or> ob_duration_ms ob = None))
       (SeInvalidInput ''scheduler observation ok and duration_ms are required''),
     ensure (\<not> (ob_ok ob = Some True \<and> ob_error_code ob \<noteq> None
         \<or> ob_ok ob = Some False \<and> ob_error_code ob = None))
       (SeInvalidInput ''scheduler observation result and error_code are inconsistent''),
     check_rfc3339 X (ob_observed_at ob) ''scheduler observed_at'',
     (case ob_expires_at ob of None \<Rightarrow> Inr () | Some t \<Rightarrow> check_rfc3339 X t ''scheduler expires_at''),
     ensure (ob_result_class ob \<in> set observation_classes)
       (SeInvalidInput ''scheduler observation result_class is invalid''),
     validate_low_sensitive_json X (ob_summary_json ob) ''observation summary'']"

definition validate_scheduler_outcome_audit ::
    "ctl_audit_event \<Rightarrow> probe_observation \<Rightarrow> string \<Rightarrow> store_error + unit" where
  "validate_scheduler_outcome_audit audit ob actor = all_ok [
     ensure (ae_actor audit = actor)
       (SeInvalidInput ''scheduler outcome audit actor does not match writer actor''),
     ensure (\<not> (ae_node_id audit \<noteq> ob_node_id ob \<or> ae_endpoint_id audit \<noteq> ob_endpoint_id ob
         \<or> ae_method audit \<noteq> Some (ob_method ob) \<or> ae_ok audit \<noteq> ob_ok ob
         \<or> ae_duration_ms audit \<noteq> ob_duration_ms ob))
       (SeInvalidInput ''scheduler outcome audit fields do not match observation''),
     ensure (\<not> (ae_ok audit = Some True \<and> ae_error_code audit \<noteq> None
         \<or> ae_ok audit = Some False \<and> ae_error_code audit = None))
       (SeInvalidInput ''scheduler outcome audit result and error_code are inconsistent''),
     ensure (\<not> (ae_event audit \<noteq> ''rpc.completed'' \<and> ae_error_code audit \<noteq> ob_error_code ob))
       (SeInvalidInput ''scheduler outcome audit error_code does not match observation'')]"

definition validate_run_bound_entry :: "string \<Rightarrow> scheduler_outcome_entry \<Rightarrow> store_error + unit" where
  "validate_run_bound_entry run_id en = all_ok [
     ensure (ob_run_id (oe_observation en) = Some run_id)
       (SeInvalidInput ''scheduler outcome contains a mismatched run_id''),
     ensure (ae_event (oe_audit en) \<in> {''rpc.completed'', ''scheduler.task.outcome''})
       (SeInvalidInput ''run-bound scheduler outcome audit event is invalid'')]"

definition validate_scheduler_outcome :: "ext \<Rightarrow> scheduler_outcome \<Rightarrow> string \<Rightarrow> store_error + unit" where
  "validate_scheduler_outcome X out actor = all_ok [
     check_actor actor,
     validate_safe_id ''scheduler job_id'' (so_job_id out) 128,
     ensure (\<not> (so_entries out = [] \<or> length (so_entries out) > MAX_SCHEDULER_OUTCOME_ENTRIES))
       (SeInvalidInput (''scheduler outcome must contain 1-'' @ show_nat MAX_SCHEDULER_OUTCOME_ENTRIES @ '' entries'')),
     (case so_run_id out of
        Some run_id \<Rightarrow> all_ok [
          validate_safe_id ''scheduler run_id'' run_id 128,
          ensure (so_job_clock out = None)
            (SeInvalidInput ''run-bound scheduler outcome cannot update job clocks''),
          each_ok (validate_run_bound_entry run_id) (so_entries out)]
      | None \<Rightarrow> (case so_entries out of
            [en] \<Rightarrow> ensure (\<not> (ob_run_id (oe_observation en) \<noteq> None
                \<or> ae_event (oe_audit en) \<noteq> ''scheduler.job.invalid''
                \<or> ob_ok (oe_observation en) \<noteq> Some False
                \<or> ob_error_code (oe_observation en) \<noteq> Some ''SCHEDULER_JOB_INVALID''))
              (SeInvalidInput ''runless scheduler outcome must contain one failed scheduler.job.invalid entry'')
          | _ \<Rightarrow> Inl (SeInvalidInput ''runless scheduler outcome must contain one failed scheduler.job.invalid entry''))),
     (case so_job_clock out of
        None \<Rightarrow> Inr ()
      | Some clock \<Rightarrow> all_ok [
          validate_scheduler_job_clock X clock,
          ensure (ck_job_id clock = so_job_id out)
            (SeInvalidInput ''scheduler outcome clock job_id does not match outcome'')]),
     each_ok (\<lambda>en. all_ok [
       validate_scheduler_observation X (oe_observation en),
       validate_scheduler_outcome_audit (oe_audit en) (oe_observation en) actor]) (so_entries out)]"

section \<open>Rows\<close>

definition u64_to_i64 :: "nat \<Rightarrow> store_error + nat" where
  "u64_to_i64 n = (if n \<le> i64_max then Inr n else Inl (SeSqlite ToSqlConversionFailure))"

abbreviation find_job :: "sched_db \<Rightarrow> string \<Rightarrow> observability_job option" where
  "find_job s \<equiv> lookup jb_job_id (sd_jobs s)"

abbreviation find_run :: "sched_db \<Rightarrow> string \<Rightarrow> observability_run option" where
  "find_run s \<equiv> lookup rn_run_id (sd_runs s)"

abbreviation find_claim :: "sched_db \<Rightarrow> string \<Rightarrow> claim_row option" where
  "find_claim s \<equiv> lookup cl_job_id (sd_claims s)"

definition transpose_ok :: "('a \<Rightarrow> 'e + 'b) \<Rightarrow> 'a option \<Rightarrow> 'e + 'b option" where
  "transpose_ok f x = (case x of None \<Rightarrow> Inr None | Some a \<Rightarrow> rbind (f a) (\<lambda>b. Inr (Some b)))"

definition observability_job_from_row :: "observability_job \<Rightarrow> store_error + observability_job" where
  "observability_job_from_row r =
     rbind (map_err (conversion_error 2) (selector_from_value (jb_selector_json r))) (\<lambda>selector.
     rbind (map_err (conversion_error 3) (transpose_ok pair_from_value (jb_pair_selector_json r))) (\<lambda>pair.
     rbind (map_err (conversion_error 2)
       (validate_scheduler_payload_relationship (jb_kind r) selector pair)) (\<lambda>_.
     Inr r)))"

text \<open>\<open>ObservabilityJobLoadResult\<close>. The JSON columns hold documents, so only the typed reasons remain.\<close>

record invalid_job =
  ij_job_id :: string
  ij_kind :: string
  ij_enabled :: bool
  ij_next_run_at :: "string option"
  ij_reason_code :: string

datatype job_load_result = JobValid observability_job | JobInvalid invalid_job

definition observability_job_load :: "observability_job \<Rightarrow> job_load_result" where
  "observability_job_load r =
     (let invalid = (\<lambda>reason. JobInvalid \<lparr>ij_job_id = jb_job_id r, ij_kind = jb_kind r, ij_enabled = jb_enabled r,
        ij_next_run_at = jb_next_run_at r, ij_reason_code = reason\<rparr>) in
      case selector_from_value (jb_selector_json r) of
        Inl _ \<Rightarrow> invalid ''UNSUPPORTED_SELECTOR_PAYLOAD''
      | Inr selector \<Rightarrow> (case transpose_ok pair_from_value (jb_pair_selector_json r) of
            Inl _ \<Rightarrow> invalid ''UNSUPPORTED_PAIR_SELECTOR_PAYLOAD''
          | Inr pair \<Rightarrow>
              if \<not> is_ok (validate_scheduler_payload_relationship (jb_kind r) selector pair)
              then invalid (if jb_kind r = ''path-probe'' then ''INVALID_PATH_PAIR''
                            else ''INVALID_SELECTOR_RELATIONSHIP'')
              else JobValid r))"

definition get_observability_job_tx :: "string \<Rightarrow> observability_job option sctx" where
  "get_observability_job_tx job_id = tquery (\<lambda>s. opt_row observability_job_from_row (find_job s job_id))"

definition list_observability_jobs :: "observability_job list sctx" where
  "list_observability_jobs = tquery (\<lambda>s. map_ok observability_job_from_row (sort_key jb_job_id (sd_jobs s)))"

definition list_observability_jobs_tolerant :: "job_load_result list sctx" where
  "list_observability_jobs_tolerant =
     tread (\<lambda>s. map observability_job_load (sort_key jb_job_id (sd_jobs s)))"

definition list_observability_jobs_limited :: "nat \<Rightarrow> observability_job list sctx" where
  "list_observability_jobs_limited limit0 =
     tbind (ttry (u64_to_i64 limit0)) (\<lambda>limit.
     tquery (\<lambda>s. map_ok observability_job_from_row (take limit (sort_key jb_job_id (sd_jobs s)))))"

definition get_observability_job :: "string \<Rightarrow> observability_job option sctx" where
  "get_observability_job job_id = get_observability_job_tx job_id"

definition get_observability_job_tolerant :: "string \<Rightarrow> job_load_result option sctx" where
  "get_observability_job_tolerant job_id = tread (\<lambda>s. map_option observability_job_load (find_job s job_id))"

definition get_observability_job_kind_tx :: "string \<Rightarrow> string option sctx" where
  "get_observability_job_kind_tx job_id = tread (\<lambda>s. map_option jb_kind (find_job s job_id))"

definition get_observability_job_start_state_tx :: "string \<Rightarrow> (string \<times> bool) option sctx" where
  "get_observability_job_start_state_tx job_id =
     tread (\<lambda>s. map_option (\<lambda>j. (jb_kind j, jb_enabled j)) (find_job s job_id))"

definition observability_job_exists_tx :: "string \<Rightarrow> bool sctx" where
  "observability_job_exists_tx job_id = tread (\<lambda>s. find_job s job_id \<noteq> None)"

definition get_observability_run_state_tx :: "string \<Rightarrow> observability_run option sctx" where
  "get_observability_run_state_tx run_id = tread (\<lambda>s. find_run s run_id)"

definition ensure_running_observability_run :: "observability_run \<Rightarrow> unit sctx" where
  "ensure_running_observability_run run =
     tcheck (\<not> (rn_status run \<noteq> ''running'' \<or> rn_finished_at run \<noteq> None))
       (SeObservabilityRunNotRunning (rn_run_id run))"

text \<open>The observations of a run, and how many of them failed.\<close>

definition run_counts :: "sched_db \<Rightarrow> string \<Rightarrow> nat \<times> nat" where
  "run_counts s run_id =
     (let rows = filter (\<lambda>ob. ob_run_id ob = Some run_id) (sd_observations s) in
      (length rows, length (filter (\<lambda>ob. ob_ok ob = Some False) rows)))"

definition count_observability_run_outcomes_tx :: "string \<Rightarrow> (nat \<times> nat) sctx" where
  "count_observability_run_outcomes_tx run_id = tread (\<lambda>s. run_counts s run_id)"

definition insert_observability_run_tx :: "observability_run \<Rightarrow> unit sctx" where
  "insert_observability_run_tx run =
     tbind (case rn_job_id run of
         Some job_id \<Rightarrow> get_observability_job_kind_tx job_id
       | None \<Rightarrow> treturn None) (\<lambda>kind.
     tbind (ttry (canonical_run_summary (rn_job_id run) kind (rn_status run) (rn_triggered_by run)
       (rn_summary_json run))) (\<lambda>summary_json.
     tbind (tread sd_runs) (\<lambda>rows.
     tseq (tcheck (rn_run_id run \<notin> set (map rn_run_id rows)) (constraint ''observability_runs.run_id''))
     (tbind (tread (\<lambda>s. case rn_job_id run of None \<Rightarrow> True | Some job_id \<Rightarrow> find_job s job_id \<noteq> None)) (\<lambda>present.
     tseq (tcheck present (constraint ''observability_runs.job_id''))
     (tmodify (\<lambda>s. s\<lparr>sd_runs := rows @ [run\<lparr>rn_summary_json := summary_json\<rparr>]\<rparr>)))))))"

definition canonical_observation_summary :: "ext \<Rightarrow> probe_observation \<Rightarrow> store_error + json" where
  "canonical_observation_summary X ob =
     rbind (map_err SeInvalidInput
       (case observation_from_value X (ob_summary_json ob) of
          Inr payload \<Rightarrow> Inr payload
        | Inl _ \<Rightarrow> observation_from_legacy X (ob_method ob) (ob_result_class ob) (ob_summary_json ob))) (\<lambda>payload.
     rbind (ensure (\<not> (os_method payload \<noteq> ob_method ob \<or> os_result_class payload \<noteq> ob_result_class ob))
       (SeInvalidInput ''observation summary does not match relational method/result class'')) (\<lambda>_.
     Inr (observation_to_value payload)))"

definition option_u64_to_i64 :: "nat option \<Rightarrow> store_error + nat option" where
  "option_u64_to_i64 x = transpose_ok u64_to_i64 x"

definition insert_probe_observation_tx :: "ext \<Rightarrow> probe_observation \<Rightarrow> unit sctx" where
  "insert_probe_observation_tx X ob =
     tbind (ttry (canonical_observation_summary X ob)) (\<lambda>summary_json.
     tseq (ttry (option_u64_to_i64 (ob_duration_ms ob)))
     (tbind (tread sd_observations) (\<lambda>rows.
     tseq (tcheck (ob_observation_id ob \<notin> set (map ob_observation_id rows))
       (constraint ''probe_observations.observation_id''))
     (tbind (tread (\<lambda>s. case ob_run_id ob of None \<Rightarrow> True | Some run_id \<Rightarrow> find_run s run_id \<noteq> None)) (\<lambda>present.
     tseq (tcheck present (constraint ''probe_observations.run_id''))
     (tmodify (\<lambda>s. s\<lparr>sd_observations := rows @ [ob\<lparr>ob_summary_json := summary_json\<rparr>]\<rparr>)))))))"

section \<open>Audit records\<close>

definition sched_audit :: "ext \<Rightarrow> ctl_audit_event \<Rightarrow> unit sctx" where
  "sched_audit X ev = on_store (insert_audit_tx X ev)"

definition scheduler_job_selector_class :: "observability_job \<Rightarrow> string" where
  "scheduler_job_selector_class j =
     (if jb_pair_selector_json j \<noteq> None then ''explicit_pair''
      else case Option.bind (jget ''selector'' (jb_selector_json j)) as_str of
        None \<Rightarrow> ''invalid''
      | Some selector \<Rightarrow>
          if selector = ''all'' then ''all''
          else if starts_with ''role='' selector then ''role''
          else if starts_with ''node_id='' selector then ''node_id''
          else ''invalid'')"

definition observability_job_audit_json :: "observability_job \<Rightarrow> json" where
  "observability_job_audit_json j = jobj [
     (''job_id'', JStr (jb_job_id j)),
     (''kind'', JStr (jb_kind j)),
     (''selector_class'', JStr (scheduler_job_selector_class j)),
     (''interval_seconds'', jnat (jb_interval_seconds j)),
     (''jitter_seconds'', jnat (jb_jitter_seconds j)),
     (''timeout_ms'', jnat (jb_timeout_ms j)),
     (''enabled'', JBool (jb_enabled j))]"

definition scheduler_job_add_audit_detail :: "observability_job \<Rightarrow> json" where
  "scheduler_job_add_audit_detail j = jobj [
     (''actor_type'', JStr ''user''),
     (''target_type'', JStr ''observability_job''),
     (''target_id'', JStr (jb_job_id j)),
     (''job_id'', JStr (jb_job_id j)),
     (''kind'', JStr (jb_kind j)),
     (''interval_seconds'', jnat (jb_interval_seconds j)),
     (''selector_class'', JStr (scheduler_job_selector_class j)),
     (''result_class'', JStr ''scheduler_summary''),
     (''before'', JNull),
     (''after'', observability_job_audit_json j),
     (''reason'', JNull)]"

definition scheduler_job_state_audit_detail :: "observability_job \<Rightarrow> observability_job \<Rightarrow> json" where
  "scheduler_job_state_audit_detail before after = jobj [
     (''actor_type'', JStr ''user''),
     (''target_type'', JStr ''observability_job''),
     (''target_id'', JStr (jb_job_id after)),
     (''job_id'', JStr (jb_job_id after)),
     (''enabled'', JBool (jb_enabled after)),
     (''result_class'', JStr ''scheduler_summary''),
     (''before'', observability_job_audit_json before),
     (''after'', observability_job_audit_json after),
     (''reason'', JNull)]"

definition insert_scheduler_claim_audit_tx ::
    "ext \<Rightarrow> sched_env \<Rightarrow> string \<Rightarrow> scheduler_job_claim \<Rightarrow> string \<Rightarrow> string \<Rightarrow> unit sctx" where
  "insert_scheduler_claim_audit_tx X V event_name claim actor state =
     sched_audit X ((ctl_audit_event_new (sv_now_text V) actor event_name)\<lparr>ae_ok := Some True,
       ae_detail_json := jobj [
         (''job_id'', JStr (sc_job_id claim)),
         (''correlation_id'', JStr (sc_owner_id claim)),
         (''generation'', jnat (sc_fence_token claim)),
         (''expires_at'', JStr (sc_lease_expires_at claim)),
         (''state'', JStr state)]\<rparr>)"

section \<open>Jobs\<close>

definition validate_job_insert :: "observability_job \<Rightarrow> store_error + unit" where
  "validate_job_insert job =
     rbind (validate_scheduler_job_kind (jb_kind job)) (\<lambda>_.
     rbind (map_err SeInvalidInput (selector_from_value (jb_selector_json job))) (\<lambda>selector.
     rbind (map_err SeInvalidInput (transpose_ok pair_from_value (jb_pair_selector_json job))) (\<lambda>pair.
     all_ok [
       map_err SeInvalidInput (validate_scheduler_payload_relationship (jb_kind job) selector pair),
       validate_u64_range ''interval_seconds'' (jb_interval_seconds job) 60 86400,
       validate_u64_range ''jitter_seconds'' (jb_jitter_seconds job) 0 3600,
       ensure (jb_jitter_seconds job \<le> jb_interval_seconds job)
         (SeInvalidInput ''jitter_seconds must not exceed interval_seconds''),
       validate_u64_range ''timeout_ms'' (jb_timeout_ms job) 1000 30000])))"

definition insert_observability_job :: "ext \<Rightarrow> sched_env \<Rightarrow> observability_job \<Rightarrow> string \<Rightarrow> unit sctx" where
  "insert_observability_job X V job actor =
     tseq (ttry (check_actor actor))
     (tseq (ttry (validate_job_insert job))
     (tbind (tread sd_jobs) (\<lambda>rows.
     tseq (tcheck (jb_job_id job \<notin> set (map jb_job_id rows)) (constraint ''observability_jobs.job_id''))
     (tseq (tmodify (\<lambda>s. s\<lparr>sd_jobs := rows @ [job]\<rparr>))
     (tbind (get_observability_job_tx (jb_job_id job)) (\<lambda>found.
     tbind (toption found (SeObservabilityJobNotFound (jb_job_id job))) (\<lambda>after.
     sched_audit X ((ctl_audit_event_new (sv_now_text V) actor ''scheduler.job.add'')\<lparr>ae_ok := Some True,
       ae_detail_json := scheduler_job_add_audit_detail after\<rparr>))))))))"

definition set_observability_job_enabled :: "ext \<Rightarrow> sched_env \<Rightarrow> string \<Rightarrow> bool \<Rightarrow> string \<Rightarrow> unit sctx" where
  "set_observability_job_enabled X V job_id enabled actor =
     tseq (ttry (check_actor actor))
     (tbind (get_observability_job_tx job_id) (\<lambda>found.
     tbind (toption found (SeObservabilityJobNotFound job_id)) (\<lambda>before.
     tbind (update_jobs (\<lambda>r. jb_job_id r = job_id) (\<lambda>r. r\<lparr>jb_enabled := enabled, jb_updated_at := sv_sql_now V\<rparr>)) (\<lambda>n.
     tseq (tcheck (n \<noteq> 0) (SeObservabilityJobNotFound job_id))
     (tbind (get_observability_job_tx job_id) (\<lambda>found'.
     tbind (toption found' (SeObservabilityJobNotFound job_id)) (\<lambda>after.
     sched_audit X ((ctl_audit_event_new (sv_now_text V) actor
         (if enabled then ''scheduler.job.enable'' else ''scheduler.job.disable''))\<lparr>ae_ok := Some True,
       ae_detail_json := scheduler_job_state_audit_detail before after\<rparr>))))))))"

definition update_observability_job_run_times ::
    "sched_env \<Rightarrow> string \<Rightarrow> string option \<Rightarrow> string option \<Rightarrow> unit sctx" where
  "update_observability_job_run_times V job_id next_run_at last_run_at =
     tseq (update_jobs (\<lambda>r. jb_job_id r = job_id)
       (\<lambda>r. r\<lparr>jb_next_run_at := next_run_at, jb_last_run_at := last_run_at, jb_updated_at := sv_sql_now V\<rparr>))
     (treturn ())"

text \<open>The clock of a job moves forward: never to an earlier last run, and with the same last run never to
  an earlier next run.\<close>

definition update_scheduler_job_clock_tx :: "ext \<Rightarrow> sched_env \<Rightarrow> scheduler_job_clock \<Rightarrow> unit sctx" where
  "update_scheduler_job_clock_tx X V clock =
     tbind (tread (\<lambda>s. find_job s (ck_job_id clock))) (\<lambda>found.
     tbind (toption found (SeObservabilityJobNotFound (ck_job_id clock))) (\<lambda>job.
     tbind (ttry (validate_bounded_rfc3339 X (ck_next_run_at clock) ''scheduler next_run_at'')) (\<lambda>proposed_next.
     tbind (ttry (validate_bounded_rfc3339 X (ck_last_run_at clock) ''scheduler last_run_at'')) (\<lambda>proposed_last.
     tseq (case jb_last_run_at job of
         None \<Rightarrow> treturn ()
       | Some prev \<Rightarrow>
           tbind (ttry (validate_bounded_rfc3339 X prev ''stored scheduler last_run_at'')) (\<lambda>existing.
           tseq (tcheck (\<not> existing > proposed_last)
             (SeInvalidInput ''scheduler job clock update would regress last_run_at''))
           (case jb_next_run_at job of
              None \<Rightarrow> treturn ()
            | Some nxt \<Rightarrow> twhen (existing = proposed_last)
                (tbind (ttry (validate_bounded_rfc3339 X nxt ''stored scheduler next_run_at'')) (\<lambda>existing_next.
                 tcheck (\<not> existing_next > proposed_next)
                   (SeInvalidInput ''scheduler job clock update would regress next_run_at''))))))
     (tbind (update_jobs
         (\<lambda>r. jb_job_id r = ck_job_id clock \<and> jb_last_run_at r = jb_last_run_at job
            \<and> jb_next_run_at r = jb_next_run_at job)
         (\<lambda>r. r\<lparr>jb_next_run_at := Some (ck_next_run_at clock), jb_last_run_at := Some (ck_last_run_at clock),
            jb_updated_at := sv_sql_now V\<rparr>)) (\<lambda>n.
     tcheck (n = 1) (SeInvalidInput ''scheduler job clock changed concurrently'')))))))"

section \<open>Claims\<close>

definition scheduler_lease_expiry :: "ext \<Rightarrow> sched_env \<Rightarrow> string \<Rightarrow> nat \<Rightarrow> string sctx" where
  "scheduler_lease_expiry X V now lease_seconds =
     tseq (tcheck (lease_seconds \<le> i64_max) (SeInvalidInput ''scheduler lease_seconds exceeds i64''))
     (tseq (tcheck (parse_rfc3339 X now \<noteq> None) (SeInvalidInput ''scheduler claim timestamp must be RFC3339''))
     (case sv_add_seconds V now lease_seconds of
        Inr text \<Rightarrow> treturn text
      | Inl (Fail e) \<Rightarrow> tfail (Fail (SeInvalidInput e))
      | Inl Panic \<Rightarrow> tfail Panic))"

text \<open>A lease is held while it has an owner and its expiry parses to a later instant.\<close>

definition lease_held :: "ext \<Rightarrow> claim_row \<Rightarrow> int \<Rightarrow> bool" where
  "lease_held X row now \<longleftrightarrow> cl_owner_id row \<noteq> None
     \<and> (case Option.bind (cl_lease_expires_at row) (parse_rfc3339 X) of None \<Rightarrow> False | Some t \<Rightarrow> t > now)"

definition recover_expired_scheduler_run_tx ::
    "ext \<Rightarrow> sched_env \<Rightarrow> string \<Rightarrow> string \<Rightarrow> string \<Rightarrow> string \<Rightarrow> unit sctx" where
  "recover_expired_scheduler_run_tx X V job_id run_id recovered_at actor =
     tbind (get_observability_run_state_tx run_id) (\<lambda>found.
     tbind (toption found (SeObservabilityRunNotFound run_id)) (\<lambda>run.
     tseq (tcheck (rn_job_id run = Some job_id)
       (SeInvalidInput ''expired scheduler claim references a run for another job''))
     (twhen (\<not> (rn_status run \<noteq> ''running'' \<or> rn_finished_at run \<noteq> None))
       (tbind (toption (parse_rfc3339 X (rn_started_at run))
           (SeInvalidInput ''stored scheduler started_at is invalid'')) (\<lambda>started_at.
        tbind (texpect (parse_rfc3339 X recovered_at)) (\<lambda>recovered.
        let finished_at = (if recovered < started_at then rn_started_at run else recovered_at) in
        tbind (get_observability_job_kind_tx job_id) (\<lambda>k.
        tbind (toption k (SeObservabilityJobNotFound job_id)) (\<lambda>kind.
        tbind (ttry (map_err SeInvalidInput (run_summary_new (Some job_id) (Some kind) ''failed''
            ''scheduler.run.once'' (Some 0) (Some 0)))) (\<lambda>summary.
        tbind (update_runs
            (\<lambda>r. rn_run_id r = run_id \<and> rn_job_id r = Some job_id \<and> rn_status r = ''running''
               \<and> rn_finished_at r = None)
            (\<lambda>r. r\<lparr>rn_finished_at := Some finished_at, rn_status := ''failed'',
               rn_summary_json := run_summary_to_value summary\<rparr>)) (\<lambda>n.
        tseq (tcheck (n = 1) (SeObservabilityRunNotRunning run_id))
        (sched_audit X ((ctl_audit_event_new (sv_now_text V) actor ''scheduler.run.recover'')\<lparr>ae_ok := Some False,
          ae_error_code := Some ''SCHEDULER_LEASE_EXPIRED'',
          ae_detail_json := jobj [
            (''run_id'', JStr run_id),
            (''job_id'', JStr job_id),
            (''kind'', JStr kind),
            (''status'', JStr ''failed''),
            (''reason_code'', JStr ''SCHEDULER_LEASE_EXPIRED''),
            (''result_class'', JStr ''scheduler_summary'')]\<rparr>))))))))))))"

definition acquire_scheduler_claim_tx :: "ext \<Rightarrow> sched_env \<Rightarrow> string \<Rightarrow> string \<Rightarrow> string \<Rightarrow> nat \<Rightarrow> string \<Rightarrow> bool
    \<Rightarrow> scheduler_job_claim option sctx" where
  "acquire_scheduler_claim_tx X V job_id owner_id now lease_seconds actor require_due =
     tbind (tread (\<lambda>s. find_job s job_id)) (\<lambda>found.
     tbind (toption found (SeObservabilityJobNotFound job_id)) (\<lambda>job.
     tbind (texpect (parse_rfc3339 X now)) (\<lambda>now_instant.
     let is_due = (case jb_next_run_at job of
         None \<Rightarrow> True
       | Some due \<Rightarrow> (case parse_rfc3339 X due of None \<Rightarrow> True | Some t \<Rightarrow> t \<le> now_instant)) in
     if \<not> jb_enabled job \<or> (require_due \<and> \<not> is_due) then treturn None
     else tbind (tread (\<lambda>s. find_claim s job_id)) (\<lambda>existing.
     if (case existing of None \<Rightarrow> False | Some row \<Rightarrow> lease_held X row now_instant) then treturn None
     else
     let previous_fence = (case existing of None \<Rightarrow> 0 | Some row \<Rightarrow> cl_fence_token row);
         expired_run_id = (case existing of None \<Rightarrow> None | Some row \<Rightarrow> cl_active_run_id row) in
     tbind (toption (i64_checked_add previous_fence 1) (SeInvalidInput ''scheduler fence token is exhausted'')) (\<lambda>fence_token.
     tseq (tcheck (\<not> fence_token \<le> 0) (SeInvalidInput ''stored scheduler fence token is invalid''))
     (tseq (case expired_run_id of
         None \<Rightarrow> treturn ()
       | Some run_id \<Rightarrow> recover_expired_scheduler_run_tx X V job_id run_id now actor)
     (tbind (scheduler_lease_expiry X V now lease_seconds) (\<lambda>lease_expires_at.
     tseq (upsert_claim \<lparr>cl_job_id = job_id, cl_owner_id = Some owner_id, cl_fence_token = fence_token,
        cl_claimed_at = Some now, cl_lease_expires_at = Some lease_expires_at, cl_active_run_id = None,
        cl_updated_at = now\<rparr>)
     (let claim = \<lparr>sc_job_id = job_id, sc_owner_id = owner_id, sc_fence_token = nat fence_token,
        sc_claimed_at = now, sc_lease_expires_at = lease_expires_at, sc_active_run_id = None\<rparr> in
      tseq (insert_scheduler_claim_audit_tx X V ''scheduler.claim.acquire'' claim actor ''acquired'')
      (treturn (Some claim)))))))))))"

text \<open>The candidate of \<open>claim_next_due_scheduler_job\<close>: the texts are compared in the database, \<open>NULL\<close>
  first.\<close>

definition next_due_job :: "sched_db \<Rightarrow> string \<Rightarrow> string option" where
  "next_due_job s now =
     (case sort_key (\<lambda>j. (case jb_next_run_at j of None \<Rightarrow> [] | Some t \<Rightarrow> t, jb_job_id j))
         (filter (\<lambda>j. jb_enabled j
            \<and> (jb_next_run_at j = None \<or> sql_le (jb_next_run_at j) now)
            \<and> (case find_claim s (jb_job_id j) of
                  None \<Rightarrow> True
                | Some row \<Rightarrow> cl_owner_id row = None \<or> sql_le (cl_lease_expires_at row) now)) (sd_jobs s)) of
        [] \<Rightarrow> None
      | j # _ \<Rightarrow> Some (jb_job_id j))"

definition claim_next_due_scheduler_job ::
    "ext \<Rightarrow> sched_env \<Rightarrow> string \<Rightarrow> string \<Rightarrow> nat \<Rightarrow> string \<Rightarrow> scheduler_job_claim option sctx" where
  "claim_next_due_scheduler_job X V owner_id now lease_seconds actor =
     tseq (ttry (validate_scheduler_claim_input X owner_id now lease_seconds actor))
     (tbind (tread (\<lambda>s. next_due_job s now)) (\<lambda>found.
      case found of
        None \<Rightarrow> treturn None
      | Some job_id \<Rightarrow> acquire_scheduler_claim_tx X V job_id owner_id now lease_seconds actor True))"

definition claim_job ::
    "ext \<Rightarrow> sched_env \<Rightarrow> bool \<Rightarrow> string \<Rightarrow> string \<Rightarrow> string \<Rightarrow> nat \<Rightarrow> string \<Rightarrow> scheduler_job_claim option sctx" where
  "claim_job X V require_due job_id owner_id now lease_seconds actor =
     tseq (ttry (validate_safe_id ''scheduler job_id'' job_id 128))
     (tseq (ttry (validate_scheduler_claim_input X owner_id now lease_seconds actor))
     (acquire_scheduler_claim_tx X V job_id owner_id now lease_seconds actor require_due))"

definition claim_scheduler_job ::
    "ext \<Rightarrow> sched_env \<Rightarrow> string \<Rightarrow> string \<Rightarrow> string \<Rightarrow> nat \<Rightarrow> string \<Rightarrow> scheduler_job_claim option sctx" where
  "claim_scheduler_job X V = claim_job X V False"

definition claim_due_scheduler_job ::
    "ext \<Rightarrow> sched_env \<Rightarrow> string \<Rightarrow> string \<Rightarrow> string \<Rightarrow> nat \<Rightarrow> string \<Rightarrow> scheduler_job_claim option sctx" where
  "claim_due_scheduler_job X V = claim_job X V True"

text \<open>The row a claim names: job, owner and fence token agree.\<close>

definition names_claim :: "scheduler_job_claim \<Rightarrow> claim_row \<Rightarrow> bool" where
  "names_claim claim r \<longleftrightarrow> cl_job_id r = sc_job_id claim \<and> cl_owner_id r = Some (sc_owner_id claim)
     \<and> cl_fence_token r = int (sc_fence_token claim)"

definition renew_scheduler_job_claim ::
    "ext \<Rightarrow> sched_env \<Rightarrow> scheduler_job_claim \<Rightarrow> string \<Rightarrow> nat \<Rightarrow> string \<Rightarrow> scheduler_job_claim sctx" where
  "renew_scheduler_job_claim X V claim now lease_seconds actor =
     tseq (validate_scheduler_claim X claim)
     (tseq (ttry (validate_scheduler_claim_input X (sc_owner_id claim) now lease_seconds actor))
     (tbind (scheduler_lease_expiry X V now lease_seconds) (\<lambda>lease_expires_at.
     tbind (update_claims (\<lambda>r. names_claim claim r \<and> sql_gt (cl_lease_expires_at r) now)
       (\<lambda>r. r\<lparr>cl_lease_expires_at := Some lease_expires_at, cl_updated_at := now\<rparr>)) (\<lambda>n.
     tseq (tcheck (n = 1) (SeSchedulerClaimLost (sc_job_id claim)))
     (let renewed = claim\<lparr>sc_lease_expires_at := lease_expires_at\<rparr> in
      tseq (insert_scheduler_claim_audit_tx X V ''scheduler.claim.renew'' renewed actor ''renewed'')
      (treturn renewed))))))"

definition release_scheduler_job_claim ::
    "ext \<Rightarrow> sched_env \<Rightarrow> scheduler_job_claim \<Rightarrow> string \<Rightarrow> string \<Rightarrow> unit sctx" where
  "release_scheduler_job_claim X V claim released_at actor =
     tseq (validate_scheduler_claim X claim)
     (tseq (ttry (check_rfc3339 X released_at ''scheduler released_at''))
     (tseq (ttry (check_actor actor))
     (tbind (update_claims (names_claim claim)
       (\<lambda>r. r\<lparr>cl_owner_id := None, cl_claimed_at := None, cl_lease_expires_at := None, cl_active_run_id := None,
          cl_updated_at := released_at\<rparr>)) (\<lambda>n.
     tseq (tcheck (n = 1) (SeSchedulerClaimLost (sc_job_id claim)))
     (insert_scheduler_claim_audit_tx X V ''scheduler.claim.release'' claim actor ''released'')))))"

definition scheduler_job_claim_from_row :: "claim_row \<Rightarrow> store_error + scheduler_job_claim" where
  "scheduler_job_claim_from_row r =
     rbind (ensure (\<not> cl_fence_token r < 0) (conversion_error 2 ''out of range integral type conversion attempted'')) (\<lambda>_.
     rbind (ensure (cl_fence_token r \<noteq> 0) (conversion_error 2 ''scheduler fence token must be positive'')) (\<lambda>_.
     rbind (ok_or (cl_owner_id r) (conversion_error 1 ''Invalid column type'')) (\<lambda>owner_id.
     rbind (ok_or (cl_claimed_at r) (conversion_error 3 ''Invalid column type'')) (\<lambda>claimed_at.
     rbind (ok_or (cl_lease_expires_at r) (conversion_error 4 ''Invalid column type'')) (\<lambda>lease_expires_at.
     Inr \<lparr>sc_job_id = cl_job_id r, sc_owner_id = owner_id, sc_fence_token = nat (cl_fence_token r),
       sc_claimed_at = claimed_at, sc_lease_expires_at = lease_expires_at,
       sc_active_run_id = cl_active_run_id r\<rparr>)))))"

definition get_scheduler_job_claim :: "string \<Rightarrow> scheduler_job_claim option sctx" where
  "get_scheduler_job_claim job_id =
     tseq (ttry (validate_safe_id ''scheduler job_id'' job_id 128))
     (tquery (\<lambda>s. opt_row scheduler_job_claim_from_row
       (find (\<lambda>r. cl_job_id r = job_id \<and> cl_owner_id r \<noteq> None) (sd_claims s))))"

section \<open>Maintenance\<close>

text \<open>\<open>length(..)\<close> of a text column counts characters: the bytes that do not continue one.\<close>

definition sql_length :: "string \<Rightarrow> nat" where
  "sql_length t = length (filter (\<lambda>b. \<not> (128 \<le> byte b \<and> byte b < 192)) t)"

definition get_scheduler_maintenance :: "ext \<Rightarrow> maintenance_window option sctx" where
  "get_scheduler_maintenance X =
     tquery (\<lambda>s. transpose_ok (validate_scheduler_maintenance_window X) (sd_maintenance s))"

definition scheduler_maintenance_active_at :: "ext \<Rightarrow> string \<Rightarrow> maintenance_window option sctx" where
  "scheduler_maintenance_active_at X now_text =
     tbind (ttry (validate_bounded_rfc3339 X now_text ''scheduler maintenance check timestamp'')) (\<lambda>now.
     tbind (get_scheduler_maintenance X) (\<lambda>found.
     case found of
       None \<Rightarrow> treturn None
     | Some window \<Rightarrow>
         tbind (texpect (parse_rfc3339 X (mw_starts_at window))) (\<lambda>starts_at.
         tbind (texpect (parse_rfc3339 X (mw_ends_at window))) (\<lambda>ends_at.
         treturn (if starts_at \<le> now \<and> now < ends_at then Some window else None)))))"

definition set_scheduler_maintenance :: "ext \<Rightarrow> sched_env \<Rightarrow> maintenance_window \<Rightarrow> string \<Rightarrow> unit sctx" where
  "set_scheduler_maintenance X V window0 actor =
     tseq (ttry (check_actor actor))
     (tbind (ttry (validate_scheduler_maintenance_window X window0)) (\<lambda>window.
     tseq (tcheck (1 \<le> sql_length (mw_reason window) \<and> sql_length (mw_reason window) \<le> 256)
       (constraint ''scheduler_maintenance.reason''))
     (tseq (tmodify (\<lambda>s. s\<lparr>sd_maintenance := Some window\<rparr>))
     (sched_audit X ((ctl_audit_event_new (sv_now_text V) actor ''scheduler.maintenance.set'')\<lparr>ae_ok := Some True,
       ae_detail_json := jobj [
         (''from'', JStr (mw_starts_at window)),
         (''to'', JStr (mw_ends_at window)),
         (''reason'', JStr (mw_reason window)),
         (''state'', JStr ''configured''),
         (''result_class'', JStr ''scheduler_summary'')]\<rparr>)))))"

definition clear_scheduler_maintenance :: "ext \<Rightarrow> sched_env \<Rightarrow> string \<Rightarrow> string \<Rightarrow> bool sctx" where
  "clear_scheduler_maintenance X V cleared_at actor =
     tseq (ttry (check_actor actor))
     (tseq (ttry (check_rfc3339 X cleared_at ''scheduler maintenance cleared_at''))
     (tbind (tread (\<lambda>s. sd_maintenance s \<noteq> None)) (\<lambda>removed.
     tseq (tmodify (\<lambda>s. s\<lparr>sd_maintenance := None\<rparr>))
     (tseq (sched_audit X ((ctl_audit_event_new (sv_now_text V) actor ''scheduler.maintenance.clear'')\<lparr>ae_ok := Some True,
       ae_detail_json := jobj [
         (''state'', JStr (if removed then ''cleared'' else ''already_clear'')),
         (''result_class'', JStr ''scheduler_summary'')]\<rparr>))
     (treturn removed)))))"

section \<open>Runs\<close>

definition write_scheduler_run_start_with_claim ::
    "ext \<Rightarrow> sched_env \<Rightarrow> scheduler_run_start \<Rightarrow> scheduler_job_claim option \<Rightarrow> string \<Rightarrow> unit sctx" where
  "write_scheduler_run_start_with_claim X V start claim_opt actor =
     tseq (ttry (all_ok [
       check_actor actor,
       validate_safe_id ''scheduler run_id'' (st_run_id start) 128,
       validate_safe_id ''scheduler job_id'' (st_job_id start) 128,
       check_rfc3339 X (st_started_at start) ''scheduler started_at'']))
     (tseq (case claim_opt of
         None \<Rightarrow> treturn ()
       | Some claim \<Rightarrow> tseq (validate_scheduler_claim X claim)
           (tcheck (sc_job_id claim = st_job_id start)
             (SeInvalidInput ''scheduler claim job_id does not match run start'')))
     (tbind (get_observability_job_start_state_tx (st_job_id start)) (\<lambda>found.
     tbind (toption found (SeObservabilityJobNotFound (st_job_id start))) (\<lambda>ke.
     tseq (ttry (validate_scheduler_job_kind (fst ke)))
     (tseq (tcheck (snd ke) (SeInvalidInput (''scheduler job is disabled: '' @ st_job_id start)))
     (tseq (insert_observability_run_tx \<lparr>rn_run_id = st_run_id start, rn_job_id = Some (st_job_id start),
        rn_started_at = st_started_at start, rn_finished_at = None, rn_status = ''running'',
        rn_triggered_by = ''scheduler.run.once'',
        rn_summary_json = jobj [
          (''job_id'', JStr (st_job_id start)),
          (''kind'', JStr (fst ke)),
          (''status'', JStr ''running''),
          (''result_class'', JStr ''scheduler_summary'')]\<rparr>)
     (tseq (case claim_opt of
         None \<Rightarrow> treturn ()
       | Some claim \<Rightarrow>
           tbind (update_claims
             (\<lambda>r. names_claim claim r \<and> cl_active_run_id r = None
                \<and> sql_gt (cl_lease_expires_at r) (st_started_at start))
             (\<lambda>r. r\<lparr>cl_active_run_id := Some (st_run_id start), cl_updated_at := st_started_at start\<rparr>)) (\<lambda>n.
           tcheck (n = 1) (SeSchedulerClaimLost (st_job_id start))))
     (sched_audit X ((ctl_audit_event_new (sv_now_text V) actor ''scheduler.run.start'')\<lparr>ae_ok := Some True,
       ae_detail_json := jobj [
         (''run_id'', JStr (st_run_id start)),
         (''job_id'', JStr (st_job_id start)),
         (''kind'', JStr (fst ke)),
         (''status'', JStr ''running''),
         (''result_class'', JStr ''scheduler_summary'')]\<rparr>)))))))))"

definition write_scheduler_run_start :: "ext \<Rightarrow> sched_env \<Rightarrow> scheduler_run_start \<Rightarrow> string \<Rightarrow> unit sctx" where
  "write_scheduler_run_start X V start actor = write_scheduler_run_start_with_claim X V start None actor"

definition write_scheduler_claimed_run_start ::
    "ext \<Rightarrow> sched_env \<Rightarrow> scheduler_run_start \<Rightarrow> scheduler_job_claim \<Rightarrow> string \<Rightarrow> unit sctx" where
  "write_scheduler_claimed_run_start X V start claim actor =
     write_scheduler_run_start_with_claim X V start (Some claim) actor"

definition ensure_active_scheduler_run_claim_tx :: "ext \<Rightarrow> string \<Rightarrow> string \<Rightarrow> string \<Rightarrow> unit sctx" where
  "ensure_active_scheduler_run_claim_tx X job_id run_id check_at_text =
     tbind (tread (\<lambda>s. find_claim s job_id)) (\<lambda>found.
     case found of
       None \<Rightarrow> treturn ()
     | Some row \<Rightarrow>
         tbind (toption (parse_rfc3339 X check_at_text)
           (SeInvalidInput ''scheduler claim check timestamp is invalid'')) (\<lambda>check_at.
         tcheck (cl_active_run_id row = Some run_id \<and> lease_held X row check_at)
           (SeSchedulerClaimLost job_id)))"

text \<open>\<open>iter().max()\<close> on the texts; the validated list is not empty.\<close>

definition max_text :: "string list \<Rightarrow> string option" where
  "max_text ts = (case ts of [] \<Rightarrow> None | t # us \<Rightarrow> Some (fold max us t))"

primrec tforeach :: "('a \<Rightarrow> ('s, 'e, unit) tx) \<Rightarrow> 'a list \<Rightarrow> ('s, 'e, unit) tx" where
  "tforeach f [] = treturn ()"
| "tforeach f (x # xs) = tseq (f x) (tforeach f xs)"

definition write_scheduler_outcome :: "ext \<Rightarrow> sched_env \<Rightarrow> scheduler_outcome \<Rightarrow> string \<Rightarrow> unit sctx" where
  "write_scheduler_outcome X V out actor =
     tseq (ttry (validate_scheduler_outcome X out actor))
     (tseq (case so_run_id out of
         Some run_id \<Rightarrow>
           tbind (get_observability_run_state_tx run_id) (\<lambda>found.
           tbind (toption found (SeObservabilityRunNotFound run_id)) (\<lambda>run.
           tseq (tcheck (rn_job_id run = Some (so_job_id out))
             (SeInvalidInput ''scheduler outcome job_id does not match run''))
           (tbind (texpect (max_text (map (\<lambda>en. ob_observed_at (oe_observation en)) (so_entries out)))) (\<lambda>observed_at.
           tseq (ensure_active_scheduler_run_claim_tx X (so_job_id out) run_id observed_at)
           (tseq (ensure_running_observability_run run)
           (tbind (get_observability_job_kind_tx (so_job_id out)) (\<lambda>k.
           tbind (toption k (SeObservabilityJobNotFound (so_job_id out))) (\<lambda>kind.
           tseq (ttry (validate_scheduler_job_kind kind))
           (ttry (each_ok (\<lambda>en. ensure (scheduler_job_kind_allows_method kind (ob_method (oe_observation en)))
               (SeInvalidInput ''scheduler outcome method is not allowed for job kind'')) (so_entries out)))))))))))
       | None \<Rightarrow>
           tbind (observability_job_exists_tx (so_job_id out)) (\<lambda>present.
           tcheck present (SeObservabilityJobNotFound (so_job_id out))))
     (tseq (tforeach (\<lambda>en. tseq (insert_probe_observation_tx X (oe_observation en)) (sched_audit X (oe_audit en)))
         (so_entries out))
     (case so_job_clock out of
        None \<Rightarrow> treturn ()
      | Some clock \<Rightarrow> update_scheduler_job_clock_tx X V clock)))"

definition finish_status :: "nat \<Rightarrow> nat \<Rightarrow> string" where
  "finish_status observation_count failed_observation_count =
     (if observation_count = 0 then ''skipped''
      else if failed_observation_count = 0 then ''succeeded''
      else ''failed'')"

definition write_scheduler_run_finish :: "ext \<Rightarrow> sched_env \<Rightarrow> scheduler_run_finish \<Rightarrow> string \<Rightarrow> unit sctx" where
  "write_scheduler_run_finish X V fin actor =
     (let clock = sf_job_clock fin; job_id = ck_job_id clock; run_id = sf_run_id fin in
     tseq (ttry (all_ok [
       check_actor actor,
       validate_safe_id ''scheduler run_id'' run_id 128,
       check_rfc3339 X (sf_finished_at fin) ''scheduler finished_at'',
       validate_scheduler_job_clock X clock,
       ensure (ck_last_run_at clock = sf_finished_at fin)
         (SeInvalidInput ''scheduler last_run_at must equal finished_at'')]))
     (tbind (get_observability_run_state_tx run_id) (\<lambda>found.
     tbind (toption found (SeObservabilityRunNotFound run_id)) (\<lambda>run.
     tseq (ensure_running_observability_run run)
     (tseq (tcheck (rn_job_id run = Some job_id) (SeInvalidInput ''scheduler finish job_id does not match run''))
     (tseq (ensure_active_scheduler_run_claim_tx X job_id run_id (sf_finished_at fin))
     (tbind (texpect (parse_rfc3339 X (sf_finished_at fin))) (\<lambda>finished_at.
     tbind (toption (parse_rfc3339 X (rn_started_at run))
       (SeInvalidInput ''stored scheduler started_at is not bounded RFC3339'')) (\<lambda>started_at.
     tseq (tcheck (\<not> finished_at < started_at)
       (SeInvalidInput ''scheduler finished_at must not precede started_at''))
     (tbind (get_observability_job_kind_tx job_id) (\<lambda>k.
     tbind (toption k (SeObservabilityJobNotFound job_id)) (\<lambda>kind.
     tseq (ttry (validate_scheduler_job_kind kind))
     (tbind (count_observability_run_outcomes_tx run_id) (\<lambda>counts.
     let status = finish_status (fst counts) (snd counts) in
     tbind (ttry (canonical_run_summary (rn_job_id run) (Some kind) status ''scheduler.run.once'' (jobj [
         (''job_id'', JStr job_id),
         (''kind'', JStr kind),
         (''status'', JStr status),
         (''observations'', jnat (fst counts)),
         (''failed_observations'', jnat (snd counts)),
         (''result_class'', JStr ''scheduler_summary'')]))) (\<lambda>summary_json.
     tbind (update_runs (\<lambda>r. rn_run_id r = run_id \<and> rn_status r = ''running'' \<and> rn_finished_at r = None)
       (\<lambda>r. r\<lparr>rn_finished_at := Some (sf_finished_at fin), rn_status := status, rn_summary_json := summary_json\<rparr>)) (\<lambda>n.
     tseq (tcheck (n = 1) (SeObservabilityRunNotRunning run_id))
     (tseq (update_scheduler_job_clock_tx X V clock)
     (tseq (update_claims (\<lambda>r. cl_job_id r = job_id \<and> cl_active_run_id r = Some run_id)
       (\<lambda>r. r\<lparr>cl_active_run_id := None, cl_updated_at := sf_finished_at fin\<rparr>))
     (sched_audit X ((ctl_audit_event_new (sv_now_text V) actor ''scheduler.run.finish'')\<lparr>
       ae_ok := Some (status \<noteq> ''failed''),
       ae_detail_json := jobj [
         (''run_id'', JStr run_id),
         (''job_id'', JStr job_id),
         (''kind'', JStr kind),
         (''status'', JStr status),
         (''observations'', jnat (fst counts)),
         (''failed_observations'', jnat (snd counts)),
         (''result_class'', JStr ''scheduler_summary'')]\<rparr>))))))))))))))))))))"

definition insert_observability_run :: "ext \<Rightarrow> observability_run \<Rightarrow> unit sctx" where
  "insert_observability_run X run =
     tseq (ttry (validate_low_sensitive_json X (rn_summary_json run) ''observability run summary''))
     (insert_observability_run_tx run)"

definition finish_observability_run :: "string \<Rightarrow> string \<Rightarrow> string \<Rightarrow> json \<Rightarrow> unit sctx" where
  "finish_observability_run run_id finished_at status summary =
     tbind (tread (\<lambda>s. find_run s run_id)) (\<lambda>found.
     tbind (toption found (SeObservabilityRunNotFound run_id)) (\<lambda>run.
     tbind (tread (\<lambda>s. Option.bind (rn_job_id run) (\<lambda>j. map_option jb_kind (find_job s j)))) (\<lambda>kind.
     tbind (ttry (map_err SeInvalidInput (run_summary_from_value (rn_summary_json run)))) (\<lambda>stored.
     tseq (ttry (map_err SeInvalidInput
       (run_validate_relationship stored (rn_job_id run) kind (rn_status run) (rn_triggered_by run))))
     (tbind (ttry (canonical_run_summary (rn_job_id run) kind status (rn_triggered_by run) summary)) (\<lambda>summary_json.
     tseq (update_runs (\<lambda>r. rn_run_id r = run_id)
       (\<lambda>r. r\<lparr>rn_finished_at := Some finished_at, rn_status := status, rn_summary_json := summary_json\<rparr>))
     (treturn ())))))))"

definition insert_probe_observation :: "ext \<Rightarrow> probe_observation \<Rightarrow> unit sctx" where
  "insert_probe_observation X ob =
     tseq (ttry (validate_low_sensitive_json X (ob_summary_json ob) ''observation summary''))
     (insert_probe_observation_tx X ob)"

section \<open>Reads\<close>

definition observability_run_from_row :: "sched_db \<Rightarrow> observability_run \<Rightarrow> store_error + observability_run \<times> nat \<times> nat" where
  "observability_run_from_row s r =
     (let kind = Option.bind (rn_job_id r) (\<lambda>j. map_option jb_kind (find_job s j)) in
      rbind (map_err (conversion_error 6) (run_summary_from_value (rn_summary_json r))) (\<lambda>payload.
      rbind (map_err (conversion_error 6)
        (run_validate_relationship payload (rn_job_id r) kind (rn_status r) (rn_triggered_by r))) (\<lambda>_.
      Inr (r\<lparr>rn_summary_json := run_public_summary payload\<rparr>, run_counts s (rn_run_id r)))))"

definition get_observability_run :: "string \<Rightarrow> (observability_run \<times> nat \<times> nat) option sctx" where
  "get_observability_run run_id = tquery (\<lambda>s. opt_row (observability_run_from_row s) (find_run s run_id))"

definition list_observability_runs :: "nat \<Rightarrow> (observability_run \<times> nat \<times> nat) list sctx" where
  "list_observability_runs limit0 =
     tbind (ttry (u64_to_i64 limit0)) (\<lambda>limit.
     tquery (\<lambda>s. map_ok (observability_run_from_row s)
       (take limit (rev (sort_key (\<lambda>r. (rn_started_at r, rn_run_id r)) (sd_runs s))))))"

definition probe_observation_from_row :: "ext \<Rightarrow> probe_observation \<Rightarrow> store_error + probe_observation" where
  "probe_observation_from_row X r =
     rbind (map_err (conversion_error 11) (observation_from_value X (ob_summary_json r))) (\<lambda>payload.
     rbind (ensure (\<not> (os_method payload \<noteq> ob_method r \<or> os_result_class payload \<noteq> ob_result_class r))
       (conversion_error 11 ''observation summary does not match relational method/result class'')) (\<lambda>_.
     Inr (r\<lparr>ob_summary_json := observation_public_summary payload\<rparr>)))"

definition get_probe_observation :: "ext \<Rightarrow> string \<Rightarrow> probe_observation option sctx" where
  "get_probe_observation X observation_id =
     tquery (\<lambda>s. opt_row (probe_observation_from_row X) (lookup ob_observation_id (sd_observations s) observation_id))"

text \<open>Newest first.\<close>

definition observations_desc :: "probe_observation list \<Rightarrow> probe_observation list" where
  "observations_desc rows = rev (sort_key (\<lambda>r. (ob_observed_at r, ob_observation_id r)) rows)"

definition list_probe_observations_since ::
    "ext \<Rightarrow> string option \<Rightarrow> string option \<Rightarrow> nat \<Rightarrow> probe_observation list sctx" where
  "list_probe_observations_since X node_filter since limit0 =
     tbind (ttry (u64_to_i64 limit0)) (\<lambda>limit.
     tquery (\<lambda>s. map_ok (probe_observation_from_row X) (take limit (observations_desc
       (filter (\<lambda>r. (node_filter = None \<or> ob_node_id r = node_filter)
          \<and> (case since of None \<Rightarrow> True | Some t \<Rightarrow> t \<le> ob_observed_at r)) (sd_observations s))))))"

definition list_probe_observations :: "ext \<Rightarrow> string option \<Rightarrow> nat \<Rightarrow> probe_observation list sctx" where
  "list_probe_observations X node_filter limit = list_probe_observations_since X node_filter None limit"

definition list_probe_observations_filtered ::
    "ext \<Rightarrow> string option \<Rightarrow> string option \<Rightarrow> nat \<Rightarrow> probe_observation list sctx" where
  "list_probe_observations_filtered X node_filter method_filter limit0 =
     tbind (ttry (u64_to_i64 limit0)) (\<lambda>limit.
     tquery (\<lambda>s. map_ok (probe_observation_from_row X) (take limit (observations_desc
       (filter (\<lambda>r. (node_filter = None \<or> ob_node_id r = node_filter)
          \<and> (case method_filter of None \<Rightarrow> True | Some m \<Rightarrow> ob_method r = m)) (sd_observations s))))))"

end
