(* ===== verification/Scheduler_Leases.thy ===== *)
theory Scheduler_Leases
  imports Scheduler_Store Store_Operations
begin

text \<open>
  What the claims of the scheduler promise. Abstractly the claim table is a lease service: every job has a
  fence token that only grows, at most one owner per token, and at most one active run. Every call of the
  scheduler store is a step of that service, so an owner whose claim was taken over is fenced off.
\<close>

section \<open>The lease service\<close>

record lease =
  ls_fence :: int
  ls_owner :: "string option"
  ls_expires :: "string option"
  ls_active :: "string option"

text \<open>The leases, and the identifiers of the runs that exist.\<close>

record lease_state =
  lt_leases :: "string \<rightharpoonup> lease"
  lt_runs :: "string set"

definition job_fence :: "lease_state \<Rightarrow> string \<Rightarrow> int" where
  "job_fence a j = (case lt_leases a j of None \<Rightarrow> 0 | Some l \<Rightarrow> ls_fence l)"

definition job_active :: "lease_state \<Rightarrow> string \<Rightarrow> string option" where
  "job_active a j = Option.bind (lt_leases a j) ls_active"

abbreviation set_lease :: "lease_state \<Rightarrow> string \<Rightarrow> lease \<Rightarrow> lease_state" where
  "set_lease a j l \<equiv> a\<lparr>lt_leases := (lt_leases a)(j \<mapsto> l)\<rparr>"

inductive lease_step :: "lease_state \<Rightarrow> lease_state \<Rightarrow> bool" where
  acquire: "lease_step a (set_lease a j
     \<lparr>ls_fence = job_fence a j + 1, ls_owner = Some owner, ls_expires = Some e, ls_active = None\<rparr>)"
| renew: "lt_leases a j = Some l \<Longrightarrow> ls_owner l \<noteq> None \<Longrightarrow> lease_step a (set_lease a j (l\<lparr>ls_expires := Some e\<rparr>))"
| release: "lt_leases a j = Some l \<Longrightarrow> ls_owner l \<noteq> None \<Longrightarrow>
     lease_step a (set_lease a j (l\<lparr>ls_owner := None, ls_expires := None, ls_active := None\<rparr>))"
| start: "lt_leases a j = Some l \<Longrightarrow> ls_owner l \<noteq> None \<Longrightarrow> ls_active l = None \<Longrightarrow> r \<notin> lt_runs a \<Longrightarrow>
     lease_step a ((set_lease a j (l\<lparr>ls_active := Some r\<rparr>))\<lparr>lt_runs := insert r (lt_runs a)\<rparr>)"
| finish: "lt_leases a j = Some l \<Longrightarrow> ls_active l = Some r \<Longrightarrow> lease_step a (set_lease a j (l\<lparr>ls_active := None\<rparr>))"
| record_run: "r \<notin> lt_runs a \<Longrightarrow> lease_step a (a\<lparr>lt_runs := insert r (lt_runs a)\<rparr>)"

text \<open>A lease has an owner and an expiry or neither, its token is positive, and an active run exists and
  has an owner.\<close>

definition lease_ok :: "string set \<Rightarrow> lease \<Rightarrow> bool" where
  "lease_ok R l \<longleftrightarrow> 0 < ls_fence l \<and> (ls_owner l = None \<longleftrightarrow> ls_expires l = None)
     \<and> (\<forall>r. ls_active l = Some r \<longrightarrow> ls_owner l \<noteq> None \<and> r \<in> R)"

definition leases_ok :: "lease_state \<Rightarrow> bool" where
  "leases_ok a \<longleftrightarrow> (\<forall>j l. lt_leases a j = Some l \<longrightarrow> lease_ok (lt_runs a) l)"

text \<open>What no sequence of steps undoes: fences grow, a fence has one owner until it is released, and a run
  that exists and is not active does not become active.\<close>

definition lease_progress :: "lease_state \<Rightarrow> lease_state \<Rightarrow> bool" where
  "lease_progress a b \<longleftrightarrow> lt_runs a \<subseteq> lt_runs b
     \<and> (\<forall>j l. lt_leases a j = Some l \<longrightarrow> (\<exists>m. lt_leases b j = Some m \<and> ls_fence l \<le> ls_fence m
          \<and> (ls_fence m = ls_fence l \<longrightarrow> ls_owner m = ls_owner l \<or> ls_owner m = None)))
     \<and> (\<forall>j r. r \<in> lt_runs a \<and> job_active a j \<noteq> Some r \<longrightarrow> job_active b j \<noteq> Some r)"

lemma leases_ok_step: "lease_step a b \<Longrightarrow> leases_ok a \<Longrightarrow> leases_ok b"
  by (induction rule: lease_step.induct)
    (fastforce simp: leases_ok_def lease_ok_def job_fence_def split: if_splits option.splits)+

lemma lease_progress_refl: "lease_progress a a"
  by (simp add: lease_progress_def)

lemma lease_progress_trans:
  assumes "lease_progress a b" "lease_progress b c"
  shows "lease_progress a c"
  unfolding lease_progress_def
proof (intro conjI allI impI)
  show "lt_runs a \<subseteq> lt_runs c" using assms by (auto simp: lease_progress_def)
  fix j l assume "lt_leases a j = Some l"
  then obtain m where m: "lt_leases b j = Some m" "ls_fence l \<le> ls_fence m"
      "ls_fence m = ls_fence l \<longrightarrow> ls_owner m = ls_owner l \<or> ls_owner m = None"
    using assms(1) unfolding lease_progress_def by blast
  then obtain n where n: "lt_leases c j = Some n" "ls_fence m \<le> ls_fence n"
      "ls_fence n = ls_fence m \<longrightarrow> ls_owner n = ls_owner m \<or> ls_owner n = None"
    using assms(2) unfolding lease_progress_def by blast
  show "\<exists>n. lt_leases c j = Some n \<and> ls_fence l \<le> ls_fence n
      \<and> (ls_fence n = ls_fence l \<longrightarrow> ls_owner n = ls_owner l \<or> ls_owner n = None)"
    using m n by (intro exI [of _ n]) auto
next
  fix j r assume "r \<in> lt_runs a \<and> job_active a j \<noteq> Some r"
  then show "job_active c j \<noteq> Some r" using assms unfolding lease_progress_def by blast
qed

lemma lease_progress_step: "lease_step a b \<Longrightarrow> lease_progress a b"
  by (induction rule: lease_step.induct)
    (auto simp: lease_progress_def job_active_def job_fence_def split: if_splits option.splits)

section \<open>The tables as a lease service\<close>

definition lease_view :: "claim_row \<Rightarrow> lease" where
  "lease_view r = \<lparr>ls_fence = cl_fence_token r, ls_owner = cl_owner_id r, ls_expires = cl_lease_expires_at r,
     ls_active = cl_active_run_id r\<rparr>"

definition abs_leases :: "sched_db \<Rightarrow> lease_state" where
  "abs_leases s = \<lparr>lt_leases = table cl_job_id lease_view (sd_claims s), lt_runs = rn_run_id ` set (sd_runs s)\<rparr>"

definition sched_keys :: "sched_db \<Rightarrow> bool" where
  "sched_keys s \<longleftrightarrow> distinct (map jb_job_id (sd_jobs s)) \<and> distinct (map rn_run_id (sd_runs s))
     \<and> distinct (map cl_job_id (sd_claims s))"

text \<open>What a committed call does.\<close>

definition sched_commits :: "sched_db \<Rightarrow> sched_db \<Rightarrow> bool" where
  "sched_commits s s' \<longleftrightarrow> sched_keys s' \<and> lease_step\<^sup>=\<^sup>= (abs_leases s) (abs_leases s')"

lemma abs_leases_simps [simp]:
  "lt_leases (abs_leases s) = table cl_job_id lease_view (sd_claims s)"
  "lt_runs (abs_leases s) = rn_run_id ` set (sd_runs s)"
  by (simp_all add: abs_leases_def)

text \<open>Writes that leave the claims and the run identifiers alone.\<close>

lemma quiet_commits:
  assumes "sched_keys s" "sd_claims s' = sd_claims s" "map rn_run_id (sd_runs s') = map rn_run_id (sd_runs s)"
    "distinct (map jb_job_id (sd_jobs s'))"
  shows "sched_commits s s'"
proof -
  have "rn_run_id ` set (sd_runs s') = rn_run_id ` set (sd_runs s)" using assms(3) by (metis list.set_map)
  then show ?thesis using assms by (simp add: sched_commits_def sched_keys_def abs_leases_def)
qed

section \<open>Statements\<close>

lemmas [vcg_first] = vcg_expect

lemma vcg_on_store:
  "outcome p m (sd_store s) (\<lambda>a d. Q a (s\<lparr>sd_store := d\<rparr>)) \<Longrightarrow> outcome p (on_store m) s Q"
  by (auto simp: outcome_def on_store_def split: sum.splits)

lemma vcg_sched_audit [vcg_first]: "(\<And>d. Q () (s\<lparr>sd_store := d\<rparr>)) \<Longrightarrow> outcome p (sched_audit X ev) s Q"
  unfolding sched_audit_def insert_audit_tx_def by (rule vcg_on_store) (simp add: wp)

lemma vcg_claim_audit [vcg_first]:
  "(\<And>d. Q () (s\<lparr>sd_store := d\<rparr>)) \<Longrightarrow> outcome p (insert_scheduler_claim_audit_tx X V e c a t) s Q"
  unfolding insert_scheduler_claim_audit_tx_def by (rule vcg_sched_audit)

lemma vcg_tquery [vcg_first]: "(\<And>a. q s = Inr a \<Longrightarrow> Q a s) \<Longrightarrow> outcome p (tquery q) s Q"
  by (simp add: tquery_def wp)

lemma vcg_toption [vcg_first]: "(\<And>a. x = Some a \<Longrightarrow> Q a s) \<Longrightarrow> outcome p (toption x e) s Q"
  by (simp add: toption_def wp)

lemma vcg_update_jobs [vcg_first]:
  "Q (affected P (sd_jobs s)) (s\<lparr>sd_jobs := update_rows P f (sd_jobs s)\<rparr>) \<Longrightarrow> outcome p (update_jobs P f) s Q"
  by (simp add: update_jobs_def wp)

lemma vcg_update_runs [vcg_first]:
  "Q (affected P (sd_runs s)) (s\<lparr>sd_runs := update_rows P f (sd_runs s)\<rparr>) \<Longrightarrow> outcome p (update_runs P f) s Q"
  by (simp add: update_runs_def wp)

lemma vcg_update_claims [vcg_first]:
  "Q (affected P (sd_claims s)) (s\<lparr>sd_claims := update_rows P f (sd_claims s)\<rparr>) \<Longrightarrow> outcome p (update_claims P f) s Q"
  by (simp add: update_claims_def wp)

lemma vcg_sched_reads [vcg_first]:
  "(\<And>a. opt_row observability_job_from_row (find_job s j) = Inr a \<Longrightarrow> Q a s) \<Longrightarrow> outcome p (get_observability_job_tx j) s Q"
  "Q1 (map_option jb_kind (find_job s j)) s \<Longrightarrow> outcome p (get_observability_job_kind_tx j) s Q1"
  "Q2 (map_option (\<lambda>j. (jb_kind j, jb_enabled j)) (find_job s j)) s \<Longrightarrow> outcome p (get_observability_job_start_state_tx j) s Q2"
  "Q3 (find_job s j \<noteq> None) s \<Longrightarrow> outcome p (observability_job_exists_tx j) s Q3"
  "Q4 (find_run s r) s \<Longrightarrow> outcome p (get_observability_run_state_tx r) s Q4"
  "Q5 (run_counts s r) s \<Longrightarrow> outcome p (count_observability_run_outcomes_tx r) s Q5"
  "(rn_status run = ''running'' \<Longrightarrow> rn_finished_at run = None \<Longrightarrow> Q6 () s) \<Longrightarrow> outcome p (ensure_running_observability_run run) s Q6"
  by (simp_all add: get_observability_job_tx_def get_observability_job_kind_tx_def tquery_def wp
      get_observability_job_start_state_tx_def observability_job_exists_tx_def get_observability_run_state_tx_def
      count_observability_run_outcomes_tx_def ensure_running_observability_run_def Let_def)

lemma check_rfc3339_ok: "check_rfc3339 X t f = Inr () \<Longrightarrow> parse_rfc3339 X t \<noteq> None"
  by (auto simp: check_rfc3339_def validate_bounded_rfc3339_def rbind_Inr_iff split: if_splits)

lemma check_rfc3339_None: "parse_rfc3339 X t = None \<Longrightarrow> check_rfc3339 X t f \<noteq> Inr u"
  by (auto simp: check_rfc3339_def validate_bounded_rfc3339_def rbind_Inr_iff)

lemma vcg_validate_claim [vcg_first]: "Q () s \<Longrightarrow> outcome p (validate_scheduler_claim X c) s Q"
proof -
  assume "Q () s"
  show ?thesis unfolding validate_scheduler_claim_def
    by ((rule vcg vcg_expect)+; use \<open>Q () s\<close> check_rfc3339_ok in \<open>fastforce simp: all_ok_iff\<close>)
qed

text \<open>Only the formatter of the expiry can panic.\<close>

lemma vcg_lease_expiry [vcg_first]:
  assumes "\<And>t. sv_add_seconds V now n = Inr t \<Longrightarrow> Q t s" "sv_add_seconds V now n = Inl Panic \<Longrightarrow> p"
  shows "outcome p (scheduler_lease_expiry X V now n) s Q"
  using assms by (auto simp: scheduler_lease_expiry_def wp split: sum.splits fault.splits)

text \<open>The run insertion adds a fresh row.\<close>

lemma vcg_insert_run [vcg_first]:
  assumes "\<And>v. rn_run_id run \<notin> set (map rn_run_id (sd_runs s)) \<Longrightarrow>
    Q () (s\<lparr>sd_runs := sd_runs s @ [run\<lparr>rn_summary_json := v\<rparr>]\<rparr>)"
  shows "outcome p (insert_observability_run_tx run) s Q"
  using assms by (auto simp: insert_observability_run_tx_def wp get_observability_job_kind_tx_def split: option.splits)

lemma vcg_insert_observation [vcg_first]:
  "(\<And>obs. Q () (s\<lparr>sd_observations := obs\<rparr>)) \<Longrightarrow> outcome p (insert_probe_observation_tx X ob) s Q"
  by (auto simp: insert_probe_observation_tx_def wp)


lemma vcg_recover:
  assumes "\<And>runs d. map rn_run_id runs = map rn_run_id (sd_runs s) \<Longrightarrow> Q () (s\<lparr>sd_runs := runs, sd_store := d\<rparr>)"
    and "parse_rfc3339 X now = None \<Longrightarrow> p"
  shows "outcome p (recover_expired_scheduler_run_tx X V j r now actor) s Q"
proof -
  have unchanged: "Q () s" using assms(1) [of "sd_runs s" "sd_store s"] by simp
  show ?thesis unfolding recover_expired_scheduler_run_tx_def
    by ((rule vcg_first vcg vcg_expect)+) (simp_all add: assms unchanged distinct_update)
qed

lemma vcg_recover_any [vcg_first]:
  assumes "\<And>runs d. map rn_run_id runs = map rn_run_id (sd_runs s) \<Longrightarrow> Q () (s\<lparr>sd_runs := runs, sd_store := d\<rparr>)"
    and "parse_rfc3339 X now = None \<Longrightarrow> p"
  shows "outcome p (case x of None \<Rightarrow> treturn () | Some r \<Rightarrow> recover_expired_scheduler_run_tx X V j r now actor) s Q"
  using assms(1) [of "sd_runs s" "sd_store s"] vcg_recover [of s Q, OF assms] by (cases x) (simp_all add: wp)

text \<open>An upsert sets one entry of the map.\<close>

lemma lookup_replace:
  "key t = m \<Longrightarrow> lookup key (update_rows (\<lambda>r. key r = m) (\<lambda>_. t) rows) k
     = (if k = m \<and> m \<in> set (map key rows) then Some t else lookup key rows k)"
  unfolding lookup_def update_rows_def by (induction rows) auto

lemma upsert_rows:
  fixes rows :: "claim_row list"
  defines "rows' \<equiv> \<lambda>row. if cl_job_id row \<in> set (map cl_job_id rows)
     then update_rows (\<lambda>r. cl_job_id r = cl_job_id row) (\<lambda>_. row) rows else rows @ [row]"
  assumes "distinct (map cl_job_id rows)"
  shows "distinct (map cl_job_id (rows' row))"
    "table cl_job_id lease_view (rows' row) = (table cl_job_id lease_view rows)(cl_job_id row \<mapsto> lease_view row)"
proof -
  have ids: "map cl_job_id (update_rows (\<lambda>r. cl_job_id r = cl_job_id row) (\<lambda>_. row) rows) = map cl_job_id rows"
    by (simp add: update_rows_def)
  show "distinct (map cl_job_id (rows' row))" using assms(2) by (auto simp: rows'_def ids)
  show "table cl_job_id lease_view (rows' row) = (table cl_job_id lease_view rows)(cl_job_id row \<mapsto> lease_view row)"
    by (rule ext) (auto simp: rows'_def table_def lookup_replace lookup_insert lookup_None
        dest!: lookup_Some split: option.splits)
qed

lemma vcg_upsert [vcg_first]:
  assumes "distinct (map cl_job_id (sd_claims s))"
    and "\<And>rows. distinct (map cl_job_id rows) \<Longrightarrow>
      table cl_job_id lease_view rows = (table cl_job_id lease_view (sd_claims s))(cl_job_id row \<mapsto> lease_view row) \<Longrightarrow>
      Q () (s\<lparr>sd_claims := rows\<rparr>)"
  shows "outcome p (upsert_claim row) s Q"
  unfolding upsert_claim_def by (rule vcg assms(2) upsert_rows [OF assms(1)])+

text \<open>A new claim: the previous lease is not held, and the token is the next one.\<close>

definition acquires :: "ext \<Rightarrow> string \<Rightarrow> sched_db \<Rightarrow> scheduler_job_claim \<Rightarrow> sched_db \<Rightarrow> bool" where
  "acquires X now s c s' \<longleftrightarrow> sched_keys s'
     \<and> (\<forall>row t. find_claim s (sc_job_id c) = Some row \<longrightarrow> parse_rfc3339 X now = Some t \<longrightarrow> \<not> lease_held X row t)
     \<and> int (sc_fence_token c) = job_fence (abs_leases s) (sc_job_id c) + 1
     \<and> abs_leases s' = set_lease (abs_leases s) (sc_job_id c) \<lparr>ls_fence = int (sc_fence_token c),
          ls_owner = Some (sc_owner_id c), ls_expires = Some (sc_lease_expires_at c), ls_active = None\<rparr>"

lemma next_fence:
  assumes "i64_checked_add (case find_claim s j of None \<Rightarrow> 0 | Some row \<Rightarrow> cl_fence_token row) 1 = Some f"
  shows "f = job_fence (abs_leases s) j + 1"
  using assms by (auto simp: i64_checked_add_def job_fence_def table_def lease_view_def split: option.splits if_splits)

lemma run_ids: "map rn_run_id runs = map rn_run_id runs' \<Longrightarrow> rn_run_id ` set runs = rn_run_id ` set runs'"
  by (metis list.set_map)

lemma acquires_intro:
  assumes "sched_keys s" "parse_rfc3339 X now = Some t"
    "\<not> (case find_claim s j of None \<Rightarrow> False | Some row \<Rightarrow> lease_held X row t)"
    "i64_checked_add (case find_claim s j of None \<Rightarrow> 0 | Some row \<Rightarrow> cl_fence_token row) 1 = Some f" "\<not> f \<le> 0"
    "map rn_run_id runs = map rn_run_id (sd_runs s)" "distinct (map cl_job_id rows)"
    "table cl_job_id lease_view rows = (table cl_job_id lease_view (sd_claims s))(j \<mapsto>
       \<lparr>ls_fence = f, ls_owner = Some owner, ls_expires = Some e, ls_active = None\<rparr>)"
  shows "acquires X now s \<lparr>sc_job_id = j, sc_owner_id = owner, sc_fence_token = nat f, sc_claimed_at = now,
     sc_lease_expires_at = e, sc_active_run_id = None\<rparr> (s\<lparr>sd_runs := runs, sd_claims := rows, sd_store := d\<rparr>)"
  using assms(1-3,5-8) next_fence [OF assms(4)] run_ids [OF assms(6)]
  by (simp add: acquires_def sched_keys_def abs_leases_def split: option.splits)

lemma sched_keys_claims: "sched_keys s \<Longrightarrow> distinct (map cl_job_id (sd_claims s))"
  by (simp add: sched_keys_def)

lemma acquire_commits:
  assumes "sched_keys s" "parse_rfc3339 X now \<noteq> None" "\<And>n. sv_add_seconds V now n = Inl Panic \<Longrightarrow> p"
  shows "outcome p (acquire_scheduler_claim_tx X V j owner now secs actor due) s
     (\<lambda>c s'. case c of None \<Rightarrow> s' = s | Some c \<Rightarrow> sc_job_id c = j \<and> sc_owner_id c = owner
        \<and> sv_add_seconds V now secs = Inr (sc_lease_expires_at c) \<and> acquires X now s c s')"
  unfolding acquire_scheduler_claim_tx_def
  by (((rule vcg_first vcg)+; ((rule vcg_first vcg)+)?; ((rule vcg_first vcg)+)?; ((rule vcg_first vcg)+)?))
    (simp_all add: assms lease_view_def acquires_intro sched_keys_claims [OF assms(1)])

text \<open>An update of the claim of one job.\<close>

lemma claim_update:
  assumes "sched_keys s" "affected P (sd_claims s) = 1" "\<And>r. P r \<Longrightarrow> cl_job_id r = j" "\<And>r. cl_job_id (f r) = cl_job_id r"
  obtains row where "find_claim s j = Some row" "P row" "distinct (map cl_job_id (update_rows P f (sd_claims s)))"
    "table cl_job_id lease_view (update_rows P f (sd_claims s))
       = (table cl_job_id lease_view (sd_claims s))(j \<mapsto> lease_view (f row))"
proof -
  have d: "distinct (map cl_job_id (sd_claims s))" using assms(1) by (simp add: sched_keys_def)
  obtain row where row: "find_claim s j = Some row" "P row"
    using affected_row [of P "sd_claims s" cl_job_id j] assms(2,3) d by auto
  show ?thesis using that [OF row] table_update [of cl_job_id "sd_claims s" j row P f lease_view] row assms(3) d
    by (simp add: distinct_update assms(4))
qed


section \<open>Calls\<close>

datatype sched_call =
    AddJob observability_job string
  | SetJobEnabled string bool string
  | SetJobTimes string "string option" "string option"
  | ClaimNextDue string string nat string
  | ClaimJob bool string string string nat string
  | RenewClaim scheduler_job_claim string nat string
  | ReleaseClaim scheduler_job_claim string string
  | SetMaintenance maintenance_window string
  | ClearMaintenance string string
  | StartRun scheduler_run_start "scheduler_job_claim option" string
  | WriteOutcome scheduler_outcome string
  | FinishRun scheduler_run_finish string
  | InsertRun observability_run
  | CloseRun string string string json
  | InsertObservation probe_observation

definition no_claim :: "'a sctx \<Rightarrow> scheduler_job_claim option sctx" where
  "no_claim m = tseq m (treturn None)"

text \<open>A call answers with the claim it acquired, if any.\<close>

fun sched_tx :: "ext \<Rightarrow> sched_env \<Rightarrow> sched_call \<Rightarrow> scheduler_job_claim option sctx" where
  "sched_tx X V (AddJob job actor) = no_claim (insert_observability_job X V job actor)"
| "sched_tx X V (SetJobEnabled job_id enabled actor) = no_claim (set_observability_job_enabled X V job_id enabled actor)"
| "sched_tx X V (SetJobTimes job_id nxt prev) = no_claim (update_observability_job_run_times V job_id nxt prev)"
| "sched_tx X V (ClaimNextDue owner now secs actor) = claim_next_due_scheduler_job X V owner now secs actor"
| "sched_tx X V (ClaimJob due job_id owner now secs actor) =
     (if due then claim_due_scheduler_job X V job_id owner now secs actor
      else claim_scheduler_job X V job_id owner now secs actor)"
| "sched_tx X V (RenewClaim c now secs actor) = no_claim (renew_scheduler_job_claim X V c now secs actor)"
| "sched_tx X V (ReleaseClaim c at actor) = no_claim (release_scheduler_job_claim X V c at actor)"
| "sched_tx X V (SetMaintenance w actor) = no_claim (set_scheduler_maintenance X V w actor)"
| "sched_tx X V (ClearMaintenance at actor) = no_claim (clear_scheduler_maintenance X V at actor)"
| "sched_tx X V (StartRun start c actor) = no_claim (write_scheduler_run_start_with_claim X V start c actor)"
| "sched_tx X V (WriteOutcome out actor) = no_claim (write_scheduler_outcome X V out actor)"
| "sched_tx X V (FinishRun fin actor) = no_claim (write_scheduler_run_finish X V fin actor)"
| "sched_tx X V (InsertRun run) = no_claim (insert_observability_run X run)"
| "sched_tx X V (CloseRun run_id at status summary) = no_claim (finish_observability_run run_id at status summary)"
| "sched_tx X V (InsertObservation ob) = no_claim (insert_probe_observation X ob)"

fun call_now :: "sched_call \<Rightarrow> string" where
  "call_now (ClaimNextDue owner now secs actor) = now"
| "call_now (ClaimJob due job_id owner now secs actor) = now"
| "call_now (RenewClaim c now secs actor) = now"
| "call_now _ = []"

definition exec_sched :: "ext \<Rightarrow> sched_env \<times> sched_call \<Rightarrow> sched_db \<Rightarrow> sched_db" where
  "exec_sched X c s = snd (run_tx (sched_tx X (fst c) (snd c)) s)"

abbreviation run_sched :: "ext \<Rightarrow> (sched_env \<times> sched_call) list \<Rightarrow> sched_db \<Rightarrow> sched_db" where
  "run_sched X \<equiv> fold (exec_sched X)"

section \<open>Every call commits a step of the lease service\<close>

lemma post_no_claim: "outcome p m s (\<lambda>_. Q) \<Longrightarrow> outcome p (no_claim m) s (\<lambda>_. Q)"
  by (simp add: no_claim_def wp)

lemma distinct_job_update: "sched_keys s \<Longrightarrow> (\<And>r. jb_job_id (f r) = jb_job_id r) \<Longrightarrow>
    distinct (map jb_job_id (update_rows P f (sd_jobs s)))"
  by (simp add: sched_keys_def distinct_update)

lemma insert_job_commits: "sched_keys s \<Longrightarrow> outcome p (insert_observability_job X V job actor) s (\<lambda>_. sched_commits s)"
  unfolding insert_observability_job_def
  by ((rule vcg_first vcg)+) (auto intro!: quiet_commits simp: sched_keys_def)

lemma set_enabled_commits: "sched_keys s \<Longrightarrow> outcome p (set_observability_job_enabled X V j b actor) s (\<lambda>_. sched_commits s)"
  unfolding set_observability_job_enabled_def
  by ((rule vcg_first vcg)+) (auto intro!: quiet_commits distinct_job_update)

lemma set_times_commits: "sched_keys s \<Longrightarrow> outcome p (update_observability_job_run_times V j nxt prev) s (\<lambda>_. sched_commits s)"
  unfolding update_observability_job_run_times_def
  by ((rule vcg_first vcg)+) (auto intro!: quiet_commits distinct_job_update)

lemma acquires_commits: "acquires X now s c s' \<Longrightarrow> sched_commits s s'"
  using lease_step.acquire [of "abs_leases s" "sc_job_id c" "sc_owner_id c" "sc_lease_expires_at c"]
  by (auto simp: acquires_def sched_commits_def)

lemma sched_commits_refl: "sched_keys s \<Longrightarrow> sched_commits s s"
  by (simp add: sched_commits_def)


definition claim_call :: "sched_call \<Rightarrow> bool" where
  "claim_call c \<longleftrightarrow> (\<exists>owner now secs actor. c = ClaimNextDue owner now secs actor)
     \<or> (\<exists>due j owner now secs actor. c = ClaimJob due j owner now secs actor)"

definition claim_answer :: "ext \<Rightarrow> string \<Rightarrow> sched_db \<Rightarrow> scheduler_job_claim option \<Rightarrow> sched_db \<Rightarrow> bool" where
  "claim_answer X now s c s' \<longleftrightarrow> (case c of None \<Rightarrow> s' = s | Some c \<Rightarrow> acquires X now s c s')"

lemma claim_input_parses:
  "validate_scheduler_claim_input X owner now secs actor = Inr () \<Longrightarrow> parse_rfc3339 X now \<noteq> None"
  using check_rfc3339_ok by (fastforce simp: validate_scheduler_claim_input_def all_ok_iff)

lemma claim_call_acquires:
  assumes "sched_keys s" "claim_call c" "\<And>t n. sv_add_seconds V t n = Inl Panic \<Longrightarrow> p"
  shows "outcome p (sched_tx X V c) s (claim_answer X (call_now c) s)"
proof -
  have acq: "parse_rfc3339 X now \<noteq> None \<Longrightarrow>
      outcome p (acquire_scheduler_claim_tx X V j owner now secs actor due) s (claim_answer X now s)"
    for j owner now secs actor due
    by (rule post_mono [OF acquire_commits [OF assms(1) _ assms(3)]]) (auto simp: claim_answer_def split: option.splits)
  have [simp]: "claim_answer X now s None s" for now by (simp add: claim_answer_def)
  show ?thesis using assms(2)
    by (auto simp: claim_call_def claim_next_due_scheduler_job_def claim_due_scheduler_job_def
        claim_scheduler_job_def claim_job_def wp intro!: acq dest: claim_input_parses split: option.split)
qed

lemma renew_commits:
  assumes "sched_keys s" "\<And>t n. sv_add_seconds V t n = Inl Panic \<Longrightarrow> p"
  shows "outcome p (renew_scheduler_job_claim X V c now secs actor) s (\<lambda>_. sched_commits s)"
  unfolding renew_scheduler_job_claim_def
proof ((rule vcg_first vcg)+, goal_cases)
  case (1 a e d)
  let ?P = "\<lambda>r. names_claim c r \<and> sql_gt (cl_lease_expires_at r) now"
  let ?f = "\<lambda>r. r\<lparr>cl_lease_expires_at := Some e, cl_updated_at := now\<rparr>"
  obtain row where row: "find_claim s (sc_job_id c) = Some row" "?P row"
      "distinct (map cl_job_id (update_rows ?P ?f (sd_claims s)))"
      "table cl_job_id lease_view (update_rows ?P ?f (sd_claims s))
         = (table cl_job_id lease_view (sd_claims s))(sc_job_id c \<mapsto> lease_view (?f row))"
    using claim_update [OF assms(1) 1(3), of "sc_job_id c" ?f] by (auto simp: names_claim_def)
  show ?case
    using lease_step.renew [of "abs_leases s" "sc_job_id c" "lease_view row" e] row assms(1)
    by (auto simp: sched_commits_def sched_keys_def abs_leases_def table_def lease_view_def names_claim_def)
qed (use assms(2) in auto)


lemma release_commits:
  assumes "sched_keys s"
  shows "outcome p (release_scheduler_job_claim X V c t actor) s (\<lambda>_. sched_commits s)"
  unfolding release_scheduler_job_claim_def
proof ((rule vcg_first vcg)+, goal_cases)
  case (1 a b d)
  let ?f = "\<lambda>r. r\<lparr>cl_owner_id := None, cl_claimed_at := None, cl_lease_expires_at := None, cl_active_run_id := None,
    cl_updated_at := t\<rparr>"
  obtain row where row: "find_claim s (sc_job_id c) = Some row" "names_claim c row"
      "distinct (map cl_job_id (update_rows (names_claim c) ?f (sd_claims s)))"
      "table cl_job_id lease_view (update_rows (names_claim c) ?f (sd_claims s))
         = (table cl_job_id lease_view (sd_claims s))(sc_job_id c \<mapsto> lease_view (?f row))"
    using claim_update [OF assms 1(3), of "sc_job_id c" ?f] by (auto simp: names_claim_def)
  show ?case
    using lease_step.release [of "abs_leases s" "sc_job_id c" "lease_view row"] row assms
    by (auto simp: sched_commits_def sched_keys_def abs_leases_def table_def lease_view_def names_claim_def)
qed

lemma maintenance_commits:
  "sched_keys s \<Longrightarrow> outcome p (set_scheduler_maintenance X V w actor) s (\<lambda>_. sched_commits s)"
  "sched_keys s \<Longrightarrow> outcome p (clear_scheduler_maintenance X V t actor) s (\<lambda>_. sched_commits s)"
  unfolding set_scheduler_maintenance_def clear_scheduler_maintenance_def
  by ((rule vcg_first vcg)+; auto intro!: quiet_commits simp: sched_keys_def)+

lemma new_run_commits:
  assumes "sched_keys s" "rn_run_id run \<notin> set (map rn_run_id (sd_runs s))"
    "sd_claims s' = sd_claims s" "sd_jobs s' = sd_jobs s" "sd_runs s' = sd_runs s @ [run]"
  shows "sched_commits s s'"
  using assms lease_step.record_run [of "rn_run_id run" "abs_leases s"]
  by (auto simp: sched_commits_def sched_keys_def abs_leases_def)

lemma insert_run_commits: "sched_keys s \<Longrightarrow> outcome p (insert_observability_run X run) s (\<lambda>_. sched_commits s)"
  unfolding insert_observability_run_def by ((rule vcg_first vcg)+) (erule new_run_commits; simp)

lemma start_commits:
  assumes "sched_keys s"
  shows "outcome p (write_scheduler_run_start_with_claim X V st c actor) s (\<lambda>_. sched_commits s)"
proof (cases c)
  case None
  show ?thesis unfolding write_scheduler_run_start_with_claim_def None option.case
    by ((rule vcg_first vcg)+) (rule new_run_commits [OF assms]; simp)
next
  case (Some claim)
  show ?thesis unfolding write_scheduler_run_start_with_claim_def Some option.case
  proof ((rule vcg_first vcg)+, goal_cases)
    case prems: (1 a ke b v d)
    let ?P = "\<lambda>r. names_claim claim r \<and> cl_active_run_id r = None \<and> sql_gt (cl_lease_expires_at r) (st_started_at st)"
    let ?f = "\<lambda>r. r\<lparr>cl_active_run_id := Some (st_run_id st), cl_updated_at := st_started_at st\<rparr>"
    have "affected ?P (sd_claims s) = 1" using prems by simp
    then obtain row where row: "find_claim s (sc_job_id claim) = Some row" "?P row"
        "distinct (map cl_job_id (update_rows ?P ?f (sd_claims s)))"
        "table cl_job_id lease_view (update_rows ?P ?f (sd_claims s))
           = (table cl_job_id lease_view (sd_claims s))(sc_job_id claim \<mapsto> lease_view (?f row))"
      using claim_update [OF assms, of ?P "sc_job_id claim" ?f] by (auto simp: names_claim_def)
    have "st_run_id st \<notin> set (map rn_run_id (sd_runs s))" using prems by simp
    then show ?case
      using lease_step.start [of "abs_leases s" "sc_job_id claim" "lease_view row" "st_run_id st"] row assms
      by (auto simp: sched_commits_def sched_keys_def abs_leases_def table_def lease_view_def names_claim_def)
  qed
qed

lemma clock_commits:
  assumes "sched_keys s" "\<And>jobs. distinct (map jb_job_id jobs) \<Longrightarrow> Q () (s\<lparr>sd_jobs := jobs\<rparr>)"
  shows "outcome p (update_scheduler_job_clock_tx X V clock) s Q"
  unfolding update_scheduler_job_clock_tx_def
  by ((rule vcg_first vcg)+; ((rule vcg_first vcg)+)?; ((rule vcg_first vcg)+)?; ((rule vcg_first vcg)+)?)
    (auto intro!: assms(2) distinct_job_update [OF assms(1)])


lemma vcg_foreach:
  assumes "I s" "\<And>x s. I s \<Longrightarrow> outcome p (f x) s (\<lambda>_. I)" "\<And>s. I s \<Longrightarrow> Q () s"
  shows "outcome p (tforeach f xs) s Q"
  using assms(1)
proof (induction xs arbitrary: s)
  case (Cons x xs)
  show ?case using Cons by (auto simp: wp intro: post_mono [OF assms(2) [of s x]])
qed (simp add: wp assms(3))

text \<open>An active run of a held claim, or a job that was never claimed.\<close>

lemma vcg_ensure_active:
  assumes "(\<And>row t. find_claim s j = Some row \<Longrightarrow> parse_rfc3339 X at = Some t \<Longrightarrow>
      cl_active_run_id row = Some r \<Longrightarrow> lease_held X row t \<Longrightarrow> Q () s)" "find_claim s j = None \<Longrightarrow> Q () s"
  shows "outcome p (ensure_active_scheduler_run_claim_tx X j r at) s Q"
  unfolding ensure_active_scheduler_run_claim_tx_def
  by ((rule vcg_first vcg)+; ((rule vcg_first vcg)+)?) (auto intro: assms)

lemma outcome_entries_quiet:
  assumes "\<And>obs d. Q () (s\<lparr>sd_observations := obs, sd_store := d\<rparr>)"
  shows "outcome p (tforeach (\<lambda>en. tseq (insert_probe_observation_tx X (oe_observation en)) (sched_audit X (oe_audit en))) xs) s Q"
proof (rule vcg_foreach [where I = "\<lambda>s'. \<exists>obs d. s' = s\<lparr>sd_observations := obs, sd_store := d\<rparr>"])
  show "\<exists>obs d. s = s\<lparr>sd_observations := obs, sd_store := d\<rparr>"
    by (intro exI [of _ "sd_observations s"] exI [of _ "sd_store s"]) simp
next
  fix en s' assume "\<exists>obs d. s' = s\<lparr>sd_observations := obs, sd_store := d\<rparr>"
  then obtain obs d where s': "s' = s\<lparr>sd_observations := obs, sd_store := d\<rparr>" by blast
  show "outcome p (tseq (insert_probe_observation_tx X (oe_observation en)) (sched_audit X (oe_audit en))) s'
      (\<lambda>_ s'. \<exists>obs d. s' = s\<lparr>sd_observations := obs, sd_store := d\<rparr>)"
    by ((rule vcg_first vcg)+) (auto simp: s')
next
  fix s' assume "\<exists>obs d. s' = s\<lparr>sd_observations := obs, sd_store := d\<rparr>"
  then show "Q () s'" using assms by auto
qed

text \<open>What the checks of an outcome leave unchanged, and what they have established.\<close>

definition writes_run :: "ext \<Rightarrow> sched_db \<Rightarrow> string \<Rightarrow> string \<Rightarrow> string \<Rightarrow> bool" where
  "writes_run X s j r at \<longleftrightarrow> (\<exists>run. find_run s r = Some run \<and> rn_job_id run = Some j
       \<and> rn_status run = ''running'' \<and> rn_finished_at run = None)
     \<and> (\<forall>row. find_claim s j = Some row \<longrightarrow> cl_active_run_id row = Some r
       \<and> (\<exists>t. parse_rfc3339 X at = Some t \<and> lease_held X row t))"

definition outcome_at :: "scheduler_outcome \<Rightarrow> string" where
  "outcome_at out = (case max_text (map (\<lambda>en. ob_observed_at (oe_observation en)) (so_entries out)) of Some t \<Rightarrow> t)"

lemma max_text_None: "max_text ts = None \<longleftrightarrow> ts = []"
  by (cases ts) (simp_all add: max_text_def)

lemma outcome_entries: "validate_scheduler_outcome X out actor = Inr u \<Longrightarrow> so_entries out \<noteq> []"
  by (auto simp: validate_scheduler_outcome_def all_ok_iff)

lemma sched_keys_frame:
  "sched_keys (s\<lparr>sd_observations := obs, sd_store := d\<rparr>) = sched_keys s"
  "distinct (map jb_job_id jobs) \<Longrightarrow> sched_keys s \<Longrightarrow> sched_commits s (s\<lparr>sd_observations := obs, sd_store := d, sd_jobs := jobs\<rparr>)"
  "sched_keys s \<Longrightarrow> sched_commits s (s\<lparr>sd_observations := obs, sd_store := d\<rparr>)"
  by (simp_all add: sched_keys_def) (rule quiet_commits; simp add: sched_keys_def)+

lemma outcome_commits:
  assumes "sched_keys s"
  shows "outcome p (write_scheduler_outcome X V out actor) s
     (\<lambda>_ s'. sched_commits s s' \<and> (\<forall>r. so_run_id out = Some r \<longrightarrow> writes_run X s (so_job_id out) r (outcome_at out)))"
  unfolding write_scheduler_outcome_def
  by ((rule vcg_first vcg vcg_ensure_active outcome_entries_quiet clock_commits)+;
     ((rule vcg_first vcg vcg_ensure_active outcome_entries_quiet clock_commits)+)?;
     ((rule vcg_first vcg vcg_ensure_active outcome_entries_quiet clock_commits)+)?;
     ((rule vcg_first vcg vcg_ensure_active outcome_entries_quiet clock_commits)+)?)
    (simp_all add: assms sched_keys_frame writes_run_def outcome_at_def max_text_None outcome_entries)

lemma finish_update:
  assumes "sched_keys s"
  shows "distinct (map cl_job_id (update_rows (\<lambda>r. cl_job_id r = j \<and> cl_active_run_id r = Some q) (\<lambda>r. r\<lparr>cl_active_run_id := None, cl_updated_at := t\<rparr>) (sd_claims s)))"
    "lease_step\<^sup>=\<^sup>= (abs_leases s) (abs_leases s\<lparr>lt_leases := table cl_job_id lease_view
       (update_rows (\<lambda>r. cl_job_id r = j \<and> cl_active_run_id r = Some q) (\<lambda>r. r\<lparr>cl_active_run_id := None, cl_updated_at := t\<rparr>) (sd_claims s))\<rparr>)"
proof -
  let ?P = "\<lambda>r. cl_job_id r = j \<and> cl_active_run_id r = Some q"
  let ?f = "\<lambda>r. r\<lparr>cl_active_run_id := None, cl_updated_at := t\<rparr>"
  show "distinct (map cl_job_id (update_rows ?P ?f (sd_claims s)))"
    using sched_keys_claims [OF assms] by (simp add: distinct_update)
  have view: "table cl_job_id lease_view (update_rows ?P ?f (sd_claims s)) k
      = map_option (\<lambda>r. if ?P r then lease_view (?f r) else lease_view r) (find_claim s k)" for k
    by (cases "find_claim s k") (simp_all add: table_def lookup_update)
  show "lease_step\<^sup>=\<^sup>= (abs_leases s) (abs_leases s\<lparr>lt_leases := table cl_job_id lease_view (update_rows ?P ?f (sd_claims s))\<rparr>)"
  proof (cases "\<exists>row. find_claim s j = Some row \<and> cl_active_run_id row = Some q")
    case True
    then obtain row where row: "find_claim s j = Some row" "cl_active_run_id row = Some q" by blast
    have "table cl_job_id lease_view (update_rows ?P ?f (sd_claims s)) = (table cl_job_id lease_view (sd_claims s))(j \<mapsto> lease_view (?f row))"
      using row lookup_key [OF row(1)] by (intro table_update) simp_all
    then show ?thesis
      using lease_step.finish [of "abs_leases s" j "lease_view row" q] row by (auto simp: table_def lease_view_def)
  next
    case False
    have "\<not> ?P r" if "find_claim s k = Some r" for k r using False that lookup_key [OF that] by auto
    then have "table cl_job_id lease_view (update_rows ?P ?f (sd_claims s)) k = table cl_job_id lease_view (sd_claims s) k" for k
      unfolding view by (cases "find_claim s k") (auto simp: table_def)
    then have "table cl_job_id lease_view (update_rows ?P ?f (sd_claims s)) = table cl_job_id lease_view (sd_claims s)" ..
    then show ?thesis by (simp add: abs_leases_def)
  qed
qed


text \<open>The run a finish closes.\<close>

definition closed_run :: "sched_db \<Rightarrow> string \<Rightarrow> string \<Rightarrow> sched_db \<Rightarrow> bool" where
  "closed_run s r at s' \<longleftrightarrow> (\<exists>run. find_run s' r = Some run \<and> rn_finished_at run = Some at
     \<and> rn_status run = finish_status (fst (run_counts s r)) (snd (run_counts s r)))"

definition close_run :: "string \<Rightarrow> string \<Rightarrow> string \<Rightarrow> json \<Rightarrow> observability_run list \<Rightarrow> observability_run list" where
  "close_run q t st v = update_rows (\<lambda>r. rn_run_id r = q \<and> rn_status r = ''running'' \<and> rn_finished_at r = None)
     (\<lambda>r. r\<lparr>rn_finished_at := Some t, rn_status := st, rn_summary_json := v\<rparr>)"

definition clear_run :: "string \<Rightarrow> string \<Rightarrow> string \<Rightarrow> claim_row list \<Rightarrow> claim_row list" where
  "clear_run j q t = update_rows (\<lambda>r. cl_job_id r = j \<and> cl_active_run_id r = Some q)
     (\<lambda>r. r\<lparr>cl_active_run_id := None, cl_updated_at := t\<rparr>)"

lemma close_run_ids: "map rn_run_id (close_run q t st v rows) = map rn_run_id rows"
  by (simp add: close_run_def distinct_update)

lemma close_run_keys: "sched_keys (s\<lparr>sd_runs := close_run q t st v (sd_runs s)\<rparr>) = sched_keys s"
  by (simp add: sched_keys_def close_run_ids)

lemma finish_state:
  assumes "sched_keys s" "distinct (map jb_job_id jobs)"
  shows "sched_commits s (s\<lparr>sd_runs := close_run q t st v (sd_runs s), sd_jobs := jobs, sd_claims := clear_run j q t' (sd_claims s), sd_store := d\<rparr>)"
  using finish_update [OF assms(1), of j q t'] assms run_ids [OF close_run_ids, of q t st v "sd_runs s"]
  by (simp add: sched_commits_def sched_keys_def close_run_ids clear_run_def [symmetric] abs_leases_def)

lemma close_run_closes:
  assumes "find_run s q = Some run" "rn_status run = ''running''" "rn_finished_at run = None"
  shows "lookup rn_run_id (close_run q t st v (sd_runs s)) q
    = Some (run\<lparr>rn_finished_at := Some t, rn_status := st, rn_summary_json := v\<rparr>)"
  using assms lookup_key [OF assms(1)] by (simp add: close_run_def lookup_update)

lemma finish_commits:
  assumes "sched_keys s"
  shows "outcome p (write_scheduler_run_finish X V fin actor) s
     (\<lambda>_ s'. sched_commits s s' \<and> writes_run X s (ck_job_id (sf_job_clock fin)) (sf_run_id fin) (sf_finished_at fin)
        \<and> closed_run s (sf_run_id fin) (sf_finished_at fin) s')"
  unfolding write_scheduler_run_finish_def Let_def
  by ((rule vcg_first vcg vcg_ensure_active clock_commits)+;
     ((rule vcg_first vcg vcg_ensure_active clock_commits)+)?;
     ((rule vcg_first vcg vcg_ensure_active clock_commits)+)?;
     ((rule vcg_first vcg vcg_ensure_active clock_commits)+)?)
   (simp_all add: assms close_run_def [symmetric] clear_run_def [symmetric] close_run_keys finish_state
      close_run_closes writes_run_def closed_run_def all_ok_iff check_rfc3339_None)


lemma close_commits: "sched_keys s \<Longrightarrow> outcome p (finish_observability_run r t st v) s (\<lambda>_. sched_commits s)"
  unfolding finish_observability_run_def
  by ((rule vcg_first vcg)+) (auto intro!: quiet_commits simp: distinct_update sched_keys_def)

lemma insert_observation_commits: "sched_keys s \<Longrightarrow> outcome p (insert_probe_observation X ob) s (\<lambda>_. sched_commits s)"
  unfolding insert_probe_observation_def
  by ((rule vcg_first vcg)+) (auto intro!: quiet_commits simp: sched_keys_def)

lemma sched_call_commits:
  assumes "sched_keys s" "\<And>t n. sv_add_seconds V t n = Inl Panic \<Longrightarrow> p"
  shows "outcome p (sched_tx X V c) s (\<lambda>_. sched_commits s)"
proof (cases "claim_call c")
  case True
  show ?thesis
    by (rule post_mono [OF claim_call_acquires [OF assms(1) True assms(2)]])
      (auto simp: claim_answer_def acquires_commits sched_commits_refl assms(1) split: option.splits)
next
  case False
  have weak: "outcome p m s (\<lambda>_ s'. sched_commits s s' \<and> Q s') \<Longrightarrow> outcome p m s (\<lambda>_. sched_commits s)" for m Q
    by (erule post_mono) simp
  show ?thesis using False assms
    by (cases c) (auto simp: claim_call_def intro!: post_no_claim insert_job_commits set_enabled_commits set_times_commits
      renew_commits release_commits maintenance_commits start_commits insert_run_commits close_commits
      insert_observation_commits weak [OF outcome_commits] weak [OF finish_commits])
qed

lemma exec_sched_commits: "sched_keys s \<Longrightarrow> sched_commits s (exec_sched X c s)"
  unfolding exec_sched_def
  using post_snd_run [OF sched_call_commits [of s "fst c" True X "snd c"]] sched_commits_refl by fastforce

interpretation leases: refining "exec_sched X" sched_keys abs_leases lease_step for X
  using exec_sched_commits by unfold_locales (simp_all add: sched_commits_def)

lemma run_leases_progress: "sched_keys s \<Longrightarrow> lease_progress (abs_leases s) (abs_leases (run_sched X calls s))"
  by (rule leases.run_monotone) (auto intro: lease_progress_refl lease_progress_trans lease_progress_step)

lemma empty_sched_ok: "sched_keys empty_sched_db" "leases_ok (abs_leases empty_sched_db)"
  by (simp_all add: sched_keys_def empty_sched_db_def leases_ok_def table_def lookup_def)


section \<open>Fencing\<close>

lemma post_False: "outcome p m s (\<lambda>_ _. False) \<Longrightarrow> \<exists>e. run_tx m s = (Inl e, s)"
  by (auto simp: outcome_def run_tx_def split: sum.splits)

text \<open>A claim below the fence names no row.\<close>

lemma stale_names_nothing:
  assumes "sched_keys s" "int (sc_fence_token c) < job_fence (abs_leases s) (sc_job_id c)"
  shows "affected (\<lambda>r. names_claim c r \<and> P r) (sd_claims s) \<noteq> 1"
proof
  assume "affected (\<lambda>r. names_claim c r \<and> P r) (sd_claims s) = 1"
  then obtain row where "find_claim s (sc_job_id c) = Some row" "names_claim c row"
    using affected_row [of _ "sd_claims s" cl_job_id "sc_job_id c"] sched_keys_claims [OF assms(1)]
    by (metis (no_types, lifting) names_claim_def zero_neq_one)
  then show False using assms(2) by (simp add: job_fence_def table_def lease_view_def names_claim_def)
qed

lemmas stale_names = stale_names_nothing stale_names_nothing [where P = "\<lambda>_. True", simplified]

lemma stale_claim_fails:
  assumes "sched_keys s" "int (sc_fence_token c) < job_fence (abs_leases s) (sc_job_id c)"
  shows "\<exists>e. run_tx (renew_scheduler_job_claim X V c now secs actor) s = (Inl e, s)"
    "\<exists>e. run_tx (release_scheduler_job_claim X V c now actor) s = (Inl e, s)"
    "\<exists>e. run_tx (write_scheduler_claimed_run_start X V st c actor) s = (Inl e, s)"
proof -
  show "\<exists>e. run_tx (renew_scheduler_job_claim X V c now secs actor) s = (Inl e, s)"
    unfolding renew_scheduler_job_claim_def
    by (rule post_False [where p = True], (rule vcg_first vcg)+) (simp_all add: stale_names [OF assms, simplified])
  show "\<exists>e. run_tx (release_scheduler_job_claim X V c now actor) s = (Inl e, s)"
    unfolding release_scheduler_job_claim_def
    by (rule post_False [where p = True], (rule vcg_first vcg)+) (simp_all add: stale_names [OF assms, simplified])
  show "\<exists>e. run_tx (write_scheduler_claimed_run_start X V st c actor) s = (Inl e, s)"
    unfolding write_scheduler_claimed_run_start_def write_scheduler_run_start_with_claim_def option.case
    by (rule post_False [where p = True], (rule vcg_first vcg)+) (simp_all add: stale_names [OF assms, simplified])
qed

lemma no_claim_answer: "run_tx (no_claim m) s \<noteq> (Inr (Some c), s')"
  by (auto simp: no_claim_def run_tx_def tseq_def tbind_def treturn_def split: sum.splits)

lemma acquired:
  assumes "sched_keys s" "run_tx (sched_tx X V k) s = (Inr (Some c), s')"
  shows "acquires X (call_now k) s c s'"
proof -
  have "claim_call k" using assms(2) by (cases k) (simp_all add: claim_call_def no_claim_answer)
  then show ?thesis
    using post_run [OF claim_call_acquires [OF assms(1), of k V True X] assms(2)] by (simp add: claim_answer_def)
qed

lemma acquired_fence:
  assumes "acquires X now s c s'"
  shows "job_fence (abs_leases s') (sc_job_id c) = int (sc_fence_token c)"
    "int (sc_fence_token c) = job_fence (abs_leases s) (sc_job_id c) + 1"
  using assms by (simp_all add: acquires_def job_fence_def)

lemma fence_mono: "lease_progress a b \<Longrightarrow> leases_ok b \<or> lt_leases a j \<noteq> None \<Longrightarrow> job_fence a j \<le> job_fence b j"
  by (cases "lt_leases a j") (force simp: lease_progress_def job_fence_def leases_ok_def lease_ok_def split: option.splits)+


lemma acquires_keys: "acquires X now s c s' \<Longrightarrow> sched_keys s'"
  by (simp add: acquires_def)

lemma acquired_row:
  assumes "acquires X now s c s'"
  obtains row where "find_claim s' (sc_job_id c) = Some row"
    "lease_view row = \<lparr>ls_fence = int (sc_fence_token c), ls_owner = Some (sc_owner_id c),
       ls_expires = Some (sc_lease_expires_at c), ls_active = None\<rparr>"
proof -
  have "lt_leases (abs_leases s') (sc_job_id c) = Some \<lparr>ls_fence = int (sc_fence_token c), ls_owner = Some (sc_owner_id c),
      ls_expires = Some (sc_lease_expires_at c), ls_active = None\<rparr>"
    using assms unfolding acquires_def by (metis fun_upd_same lease_state.select_convs(1) lease_state.surjective lease_state.update_convs(1))
  then show ?thesis using that by (auto simp: table_def)
qed

lemma claim_job_acquires:
  assumes "sched_keys s" "run_tx (claim_job X V due j owner now secs actor) s = (Inr (Some c), s')"
  shows "sc_job_id c = j" "sv_add_seconds V now secs = Inr (sc_lease_expires_at c)" "acquires X now s c s'"
    "5 \<le> secs" "secs \<le> 21600"
proof -
  have "outcome True (claim_job X V due j owner now secs actor) s (\<lambda>c s'. 5 \<le> secs \<and> secs \<le> 21600 \<and> (case c of None \<Rightarrow> s' = s
      | Some c \<Rightarrow> sc_job_id c = j \<and> sc_owner_id c = owner \<and> sv_add_seconds V now secs = Inr (sc_lease_expires_at c) \<and> acquires X now s c s'))"
    unfolding claim_job_def
  proof ((rule vcg_first vcg)+, goal_cases)
    case (1 a b)
    have "5 \<le> secs" "secs \<le> 21600" using 1(2)
      by (auto simp: validate_scheduler_claim_input_def all_ok_iff validate_u64_range_def
          MIN_SCHEDULER_LEASE_SECONDS_def MAX_SCHEDULER_LEASE_SECONDS_def)
    then show ?case using claim_input_parses 1(2)
      by (auto intro!: post_mono [OF acquire_commits [OF assms(1), where p = True]])
  qed
  from post_run [OF this assms(2)] show "sc_job_id c = j" "sv_add_seconds V now secs = Inr (sc_lease_expires_at c)"
    "acquires X now s c s'" "5 \<le> secs" "secs \<le> 21600" by simp_all
qed

section \<open>An example\<close>

text \<open>A job whose claim by \<open>o0\<close> has expired with the run \<open>r0\<close> still open, taken over by \<open>o1\<close> and, after that
  lease, by \<open>o2\<close>.\<close>

definition sched_example_env :: sched_env where
  "sched_example_env = \<lparr>sv_now_text = ''Z'', sv_sql_now = ''Z'',
     sv_add_seconds = (\<lambda>t n. Inr (replicate n (CHR ''0'') @ t))\<rparr>"

definition example_job :: observability_job where
  "example_job = \<lparr>jb_job_id = ''j'', jb_kind = ''controller-ping'',
     jb_selector_json = selector_to_value \<lparr>sp_schema = SCHEDULER_SELECTOR_SCHEMA_V1, sp_selector = ''role=ocserv'', sp_name = None\<rparr>,
     jb_pair_selector_json = None, jb_interval_seconds = 60, jb_jitter_seconds = 0, jb_timeout_ms = 1000,
     jb_enabled = True, jb_next_run_at = None, jb_last_run_at = None, jb_created_at = ''Z'', jb_updated_at = ''Z''\<rparr>"

definition example_run :: observability_run where
  "example_run = \<lparr>rn_run_id = ''r0'', rn_job_id = Some ''j'', rn_started_at = ''Z'', rn_finished_at = None,
     rn_status = ''running'', rn_triggered_by = ''scheduler.run.once'', rn_summary_json = JNull\<rparr>"

definition example_claim_row :: claim_row where
  "example_claim_row = \<lparr>cl_job_id = ''j'', cl_owner_id = Some ''o0'', cl_fence_token = 1, cl_claimed_at = Some ''Z'',
     cl_lease_expires_at = Some ''00000Z'', cl_active_run_id = Some ''r0'', cl_updated_at = ''Z''\<rparr>"

definition example_sched_db :: sched_db where
  "example_sched_db = empty_sched_db\<lparr>sd_jobs := [example_job], sd_runs := [example_run], sd_claims := [example_claim_row]\<rparr>"

definition example_takeover :: sched_call where
  "example_takeover = ClaimJob False ''j'' ''o1'' ''0000000Z'' 5 ''a''"

definition example_claim :: scheduler_job_claim where
  "example_claim = \<lparr>sc_job_id = ''j'', sc_owner_id = ''o1'', sc_fence_token = 2, sc_claimed_at = ''0000000Z'',
     sc_lease_expires_at = ''000000000000Z'', sc_active_run_id = None\<rparr>"

definition example_retake :: sched_call where
  "example_retake = ClaimJob True ''j'' ''o2'' ''0000000000000Z'' 5 ''a''"

definition example_reclaim :: scheduler_job_claim where
  "example_reclaim = \<lparr>sc_job_id = ''j'', sc_owner_id = ''o2'', sc_fence_token = 3, sc_claimed_at = ''0000000000000Z'',
     sc_lease_expires_at = ''000000000000000000Z'', sc_active_run_id = None\<rparr>"

definition example_claimed_db :: sched_db where
  "example_claimed_db = snd (run_tx (sched_tx example_ext sched_example_env example_takeover) example_sched_db)"

definition example_reclaimed_db :: sched_db where
  "example_reclaimed_db = snd (run_tx (sched_tx example_ext sched_example_env example_retake) example_claimed_db)"

lemma example_answers:
  "(let r = run_tx (sched_tx example_ext sched_example_env example_takeover) example_sched_db in
    (fst r, fst (run_tx (sched_tx example_ext sched_example_env example_retake) (snd r))))
   = (Inr (Some example_claim), Inr (Some example_reclaim))"
  by code_simp


lemma example_claims:
  "run_tx (sched_tx example_ext sched_example_env example_takeover) example_sched_db = (Inr (Some example_claim), example_claimed_db)"
  "run_tx (sched_tx example_ext sched_example_env example_retake) example_claimed_db = (Inr (Some example_reclaim), example_reclaimed_db)"
  using example_answers
  by (simp_all add: Let_def example_claimed_db_def [symmetric] example_reclaimed_db_def prod_eq_iff)

lemma example_sched_ok: "sched_keys example_sched_db" "leases_ok (abs_leases example_sched_db)"
  by (simp_all add: sched_keys_def example_sched_db_def empty_sched_db_def leases_ok_def lease_ok_def table_def lookup_def
      lease_view_def example_claim_row_def example_run_def)

lemma example_adds_seconds: "adds_seconds example_ext sched_example_env"
proof -
  have "parse_rfc3339 example_ext (replicate n (CHR ''0'') @ t)
      = map_option (\<lambda>i. i + ns_of_secs (int n)) (parse_rfc3339 example_ext t)" for t n
    by (cases "t = []"; cases "n = 0") (auto simp: example_ext_def ns_of_secs_def algebra_simps)
  then show ?thesis by (simp add: adds_seconds_def sched_example_env_def)
qed

definition example_finish :: scheduler_run_finish where
  "example_finish = \<lparr>sf_run_id = ''r0'', sf_finished_at = ''00Z'',
     sf_job_clock = \<lparr>ck_job_id = ''j'', ck_next_run_at = ''000Z'', ck_last_run_at = ''00Z''\<rparr>\<rparr>"

lemma example_finish_answer:
  "fst (run_tx (write_scheduler_run_finish example_ext sched_example_env example_finish ''a'') example_sched_db) = Inr ()"
  by code_simp

section \<open>Properties\<close>

text \<open>C18. Every call of the scheduler store is atomic and, when the timestamp formatter does not panic, ends
  without a panic; what it changes of claims and runs is one step of the lease service or nothing. A sequence
  of calls on a database with unique keys keeps every lease well-formed.\<close>

theorem scheduler_refines_lease_service:
  assumes "sched_keys s" "\<And>t n. sv_add_seconds V t n \<noteq> Inl Panic"
  shows "fst (run_tx (sched_tx X V c) s) \<noteq> Inl Panic
    \<and> lease_step\<^sup>=\<^sup>= (abs_leases s) (abs_leases (exec_sched X (V, c) s))
    \<and> (is_ok (fst (run_tx (sched_tx X V c) s)) \<or> exec_sched X (V, c) s = s)
    \<and> (leases_ok (abs_leases s) \<longrightarrow> leases_ok (abs_leases (run_sched X calls s)))"
proof (intro conjI impI)
  show "fst (run_tx (sched_tx X V c) s) \<noteq> Inl Panic"
    using sched_call_commits [of s V False X c] assms by (intro post_no_panic) auto
  show "lease_step\<^sup>=\<^sup>= (abs_leases s) (abs_leases (exec_sched X (V, c) s))"
    using exec_sched_commits [OF assms(1)] by (simp add: sched_commits_def)
  show "is_ok (fst (run_tx (sched_tx X V c) s)) \<or> exec_sched X (V, c) s = s"
    by (auto simp: exec_sched_def run_tx_def split: sum.splits)
  show "leases_ok (abs_leases (run_sched X calls s))" if "leases_ok (abs_leases s)"
    by (rule leases.run_invariant [where I = leases_ok]) (use assms(1) that leases_ok_step in auto)
qed

theorem scheduler_refines_lease_service_witness:
  "sched_keys example_sched_db \<and> lease_step\<^sup>=\<^sup>= (abs_leases example_sched_db)
     (abs_leases (exec_sched example_ext (sched_example_env, example_takeover) example_sched_db))"
  using scheduler_refines_lease_service [of example_sched_db sched_example_env example_ext example_takeover "[]"]
    example_sched_ok by (simp add: sched_example_env_def)

text \<open>C15. Once a job is claimed again, every earlier claim of it is fenced off, whatever calls happen before
  and after: the new token is larger, and a renewal, a release and a run start under the earlier claim fail
  and change nothing.\<close>

theorem superseded_claim_is_fenced:
  assumes "sched_keys s" "run_tx (sched_tx X V k) s = (Inr (Some c), s')"
    and "run_tx (sched_tx X V' k') (run_sched X calls s') = (Inr (Some c'), s'')"
    and "sc_job_id c' = sc_job_id c" "sc_job_id d = sc_job_id c" "sc_fence_token d = sc_fence_token c"
  shows "sc_fence_token c < sc_fence_token c'
    \<and> (\<exists>e. run_tx (renew_scheduler_job_claim X W d now secs actor) (run_sched X calls' s'') = (Inl e, run_sched X calls' s''))
    \<and> (\<exists>e. run_tx (release_scheduler_job_claim X W d now actor) (run_sched X calls' s'') = (Inl e, run_sched X calls' s''))
    \<and> (\<exists>e. run_tx (write_scheduler_claimed_run_start X W st d actor) (run_sched X calls' s'') = (Inl e, run_sched X calls' s''))"
proof -
  let ?j = "sc_job_id c"
  have a: "acquires X (call_now k) s c s'" by (rule acquired [OF assms(1,2)])
  then have "sched_keys s'" by (simp add: acquires_def)
  then have ok: "sched_keys (run_sched X calls s')" by (rule leases.run_ok)
  have a': "acquires X (call_now k') (run_sched X calls s') c' s''" by (rule acquired [OF ok assms(3)])
  then have ok': "sched_keys s''" by (simp add: acquires_def)
  have "lt_leases (abs_leases s') ?j \<noteq> None" using a by (simp add: acquires_def)
  then have "job_fence (abs_leases s') ?j \<le> job_fence (abs_leases (run_sched X calls s')) ?j"
    using fence_mono [OF run_leases_progress [OF \<open>sched_keys s'\<close>]] by blast
  then have less: "int (sc_fence_token c) < int (sc_fence_token c')"
    using acquired_fence [OF a] acquired_fence [OF a'] assms(4) by simp
  have "lt_leases (abs_leases s'') ?j \<noteq> None" using a' assms(4) by (simp add: acquires_def)
  then have "job_fence (abs_leases s'') ?j \<le> job_fence (abs_leases (run_sched X calls' s'')) ?j"
    using fence_mono [OF run_leases_progress [OF ok']] by blast
  then have "int (sc_fence_token d) < job_fence (abs_leases (run_sched X calls' s'')) (sc_job_id d)"
    using less acquired_fence(1) [OF a'] assms(4-6) by simp
  then show ?thesis using less stale_claim_fails [OF leases.run_ok [OF ok']] by (simp del: fold_simps)
qed

theorem superseded_claim_is_fenced_witness:
  "\<exists>e. run_tx (renew_scheduler_job_claim example_ext sched_example_env example_claim ''0000000Z'' 5 ''a'') example_reclaimed_db
     = (Inl e, example_reclaimed_db)"
  using superseded_claim_is_fenced [OF example_sched_ok(1) example_claims(1), of sched_example_env example_retake "[]"
      example_reclaim example_reclaimed_db example_claim sched_example_env "''0000000Z''" 5 "''a''" "[]"
      "\<lparr>st_run_id = ''r1'', st_job_id = ''j'', st_started_at = ''0000000Z''\<rparr>"]
    example_claims(2) by (simp add: example_claim_def example_reclaim_def)




text \<open>C16. When a job is taken over while a run of the previous owner is open, that run is fenced off for good:
  no later outcome or finish of it is accepted, whatever calls happen in between.\<close>

theorem taken_over_run_cannot_write:
  assumes "sched_keys s" "leases_ok (abs_leases s)" "find_claim s j = Some row" "cl_active_run_id row = Some r"
    and "run_tx (sched_tx X V k) s = (Inr (Some c), s')" "sc_job_id c = j"
    and "so_job_id out = j" "so_run_id out = Some r" "ck_job_id (sf_job_clock fin) = j" "sf_run_id fin = r"
  shows "(\<exists>e. run_tx (write_scheduler_outcome X W out actor) (run_sched X calls s') = (Inl e, run_sched X calls s'))
    \<and> (\<exists>e. run_tx (write_scheduler_run_finish X W fin actor) (run_sched X calls s') = (Inl e, run_sched X calls s'))"
proof -
  let ?s = "run_sched X calls s'"
  have a: "acquires X (call_now k) s c s'" by (rule acquired [OF assms(1,5)])
  then have ok: "sched_keys s'" by (simp add: acquires_def)
  have "lease_ok (lt_runs (abs_leases s)) (lease_view row)" using assms(2,3) by (auto simp: leases_ok_def table_def)
  then have "r \<in> lt_runs (abs_leases s)" using assms(4) by (simp add: lease_ok_def lease_view_def)
  then have run: "r \<in> lt_runs (abs_leases s')" "job_active (abs_leases s') j \<noteq> Some r"
    using a assms(6) by (simp_all add: acquires_def job_active_def)
  have prog: "lease_progress (abs_leases s') (abs_leases ?s)" by (rule run_leases_progress [OF ok])
  then have "job_active (abs_leases ?s) j \<noteq> Some r" using run unfolding lease_progress_def by blast
  moreover have "lt_leases (abs_leases s') j \<noteq> None" using a assms(6) by (simp add: acquires_def)
  then have "lt_leases (abs_leases ?s) j \<noteq> None" using prog unfolding lease_progress_def by blast
  ultimately have no: "\<not> writes_run X ?s j r at" for at
    by (auto simp: writes_run_def job_active_def table_def lease_view_def)
  have "outcome True (write_scheduler_outcome X W out actor) ?s (\<lambda>_ _. False)"
    by (rule post_mono [OF outcome_commits [OF leases.run_ok [OF ok]]]) (use no assms(7,8) in auto)
  moreover have "outcome True (write_scheduler_run_finish X W fin actor) ?s (\<lambda>_ _. False)"
    by (rule post_mono [OF finish_commits [OF leases.run_ok [OF ok]]]) (use no assms(9,10) in auto)
  ultimately show ?thesis by (intro conjI post_False)
qed

theorem taken_over_run_cannot_write_witness:
  "\<exists>e. run_tx (write_scheduler_run_finish example_ext sched_example_env \<lparr>sf_run_id = ''r0'', sf_finished_at = ''00Z'',
      sf_job_clock = \<lparr>ck_job_id = ''j'', ck_next_run_at = ''000Z'', ck_last_run_at = ''00Z''\<rparr>\<rparr> ''a'') example_claimed_db
     = (Inl e, example_claimed_db)"
  using taken_over_run_cannot_write [OF example_sched_ok, of "''j''" example_claim_row "''r0''" example_ext sched_example_env
      example_takeover example_claim example_claimed_db "\<lparr>so_job_id = ''j'', so_run_id = Some ''r0'', so_entries = [], so_job_clock = None\<rparr>"
      "\<lparr>sf_run_id = ''r0'', sf_finished_at = ''00Z'',
      sf_job_clock = \<lparr>ck_job_id = ''j'', ck_next_run_at = ''000Z'', ck_last_run_at = ''00Z''\<rparr>\<rparr>" sched_example_env "''a''" "[]"]
    example_claims(1)
  by (simp add: example_sched_db_def lookup_def example_claim_row_def example_claim_def)




end
