(* ===== verification/Retention.thy ===== *)
theory Retention
  imports Scheduler_Store
begin

text \<open>
  Retention (\<open>ocfleet-cli/src/retention.rs\<close>, \<open>store.rs\<close>, \<open>duration_args.rs\<close>): policies per scope, the
  candidates of a deletion, the loop that deletes them in batches, and the replay of an operation from its
  audit record.

  A table that retention prunes is represented by the row identifier and the timestamp of its rows, which is
  all that the statements read; \<open>ON DELETE\<close> actions in other tables are outside.
\<close>

section \<open>Tables\<close>

type_synonym trow = "nat \<times> string"

record retention_policy =
  rp_scope :: string
  rp_max_age_days :: "nat option"
  rp_max_rows :: "nat option"
  rp_updated_at :: string

record ret_db =
  rd_store :: store_db
  rd_policies :: "retention_policy list"
  rd_rows :: "string \<Rightarrow> trow list"

record retention_report =
  rr_matched_count :: nat
  rr_oldest :: "string option"
  rr_newest :: "string option"

record retention_input =
  ra_operation_id :: string
  ra_scope :: string
  ra_cutoff :: "string option"
  ra_max_age_days :: "nat option"
  ra_max_rows :: "nat option"
  ra_limit :: "nat option"
  ra_batch_size :: nat

record retention_result =
  rx_cutoff :: "string option"
  rx_report :: retention_report
  rx_planned :: nat
  rx_deleted :: nat
  rx_batches :: nat

text \<open>The clock as text, the text of the instant a number of days ago (\<open>None\<close> when the subtraction or the
  formatting panics), and the SHA-256 of a document's text in hexadecimal.\<close>

record ret_env =
  rv_now_text :: string
  rv_days_ago :: "nat \<Rightarrow> string option"
  rv_sha256_json :: "json \<Rightarrow> string"

type_synonym 'a rtx = "(ret_db, store_error, 'a) tx"

definition MAX_RETENTION_APPLY_LIMIT :: nat where "MAX_RETENTION_APPLY_LIMIT = 100000"
definition MAX_RETENTION_BATCH_SIZE :: nat where "MAX_RETENTION_BATCH_SIZE = 1000"
definition MAX_RETENTION_POLICY_AGE_DAYS :: nat where "MAX_RETENTION_POLICY_AGE_DAYS = 36500"
definition MAX_RETENTION_POLICY_ROWS :: nat where "MAX_RETENTION_POLICY_ROWS = 10000000"

text \<open>\<open>retention_target\<close>: the table and its timestamp column. The audit log is not among them.\<close>

definition retention_target :: "string \<Rightarrow> store_error + string \<times> string" where
  "retention_target scope =
     (if scope = ''observations'' then Inr (''probe_observations'', ''observed_at'')
      else if scope = ''observability-runs'' then Inr (''observability_runs'', ''started_at'')
      else if scope = ''health-snapshots'' then Inr (''health_snapshots'', ''computed_at'')
      else if scope = ''health-history'' then Inr (''health_history'', ''computed_at'')
      else if scope = ''health-rollups'' then Inr (''health_rollups'', ''bucket_start'')
      else if scope = ''alert-events'' then Inr (''alert_events'', ''last_seen_at'')
      else Inl (SeSqlite (InvalidParameterName scope)))"

definition validate_age_and_rows :: "nat option \<Rightarrow> nat option \<Rightarrow> store_error + unit" where
  "validate_age_and_rows max_age_days max_rows = all_ok [
     ensure (case max_age_days of None \<Rightarrow> True | Some days \<Rightarrow> \<not> (days = 0 \<or> days > MAX_RETENTION_POLICY_AGE_DAYS))
       (SeInvalidInput (''retention max_age_days must be 1-'' @ show_nat MAX_RETENTION_POLICY_AGE_DAYS)),
     ensure (case max_rows of None \<Rightarrow> True | Some rows \<Rightarrow> \<not> (rows = 0 \<or> rows > MAX_RETENTION_POLICY_ROWS))
       (SeInvalidInput (''retention max_rows must be 1-'' @ show_nat MAX_RETENTION_POLICY_ROWS))]"

definition validate_retention_policy :: "ext \<Rightarrow> retention_policy \<Rightarrow> store_error + unit" where
  "validate_retention_policy X p =
     rbind (retention_target (rp_scope p)) (\<lambda>_.
     rbind (validate_age_and_rows (rp_max_age_days p) (rp_max_rows p)) (\<lambda>_.
     ensure (parse_rfc3339 X (rp_updated_at p) \<noteq> None) (SeInvalidInput ''retention updated_at must be RFC3339'')))"

definition validate_retention_apply_input :: "ext \<Rightarrow> retention_input \<Rightarrow> store_error + unit" where
  "validate_retention_apply_input X i =
     rbind (validate_audit_text (ra_operation_id i) ''retention operation_id'' 96) (\<lambda>_.
     rbind (ok_or (strip_prefix ''retention-'' (ra_operation_id i))
       (SeInvalidInput ''retention operation_id must use retention-<uuid> format'')) (\<lambda>uuid.
     rbind (ensure (uuid_ok X uuid) (SeInvalidInput ''retention operation_id must contain a UUID'')) (\<lambda>_.
     rbind (retention_target (ra_scope i)) (\<lambda>_.
     all_ok [
       ensure (case ra_cutoff i of None \<Rightarrow> True | Some cutoff \<Rightarrow> parse_rfc3339 X cutoff \<noteq> None)
         (SeInvalidInput ''retention cutoff must be RFC3339''),
       validate_age_and_rows (ra_max_age_days i) (ra_max_rows i),
       ensure (case ra_limit i of None \<Rightarrow> True | Some limit \<Rightarrow> \<not> (limit = 0 \<or> limit > MAX_RETENTION_APPLY_LIMIT))
         (SeInvalidInput (''retention limit must be 1-'' @ show_nat MAX_RETENTION_APPLY_LIMIT)),
       ensure (\<not> (ra_batch_size i = 0 \<or> ra_batch_size i > MAX_RETENTION_BATCH_SIZE))
         (SeInvalidInput (''retention batch_size must be 1-'' @ show_nat MAX_RETENTION_BATCH_SIZE))]))))"

section \<open>Candidates\<close>

text \<open>\<open>ORDER BY timestamp, rowid\<close>\<close>

definition row_key :: "trow \<Rightarrow> string \<times> nat" where
  "row_key r = (snd r, fst r)"

definition by_age :: "trow list \<Rightarrow> trow list" where
  "by_age rows = sort_key row_key rows"

text \<open>\<open>ORDER BY timestamp DESC, rowid DESC LIMIT -1 OFFSET n\<close>\<close>

definition beyond_newest :: "nat \<Rightarrow> trow list \<Rightarrow> trow list" where
  "beyond_newest n rows = drop n (rev (by_age rows))"

definition candidate :: "string option \<Rightarrow> nat option \<Rightarrow> trow list \<Rightarrow> trow \<Rightarrow> bool" where
  "candidate cutoff max_rows rows r =
     (case (cutoff, max_rows) of
        (None, None) \<Rightarrow> False
      | (Some c, None) \<Rightarrow> snd r < c
      | (None, Some n) \<Rightarrow> r \<in> set (beyond_newest n rows)
      | (Some c, Some n) \<Rightarrow> snd r < c \<or> r \<in> set (beyond_newest n rows))"

definition retention_candidate_report_for_target ::
    "string option \<Rightarrow> nat option \<Rightarrow> trow list \<Rightarrow> store_error + retention_report" where
  "retention_candidate_report_for_target cutoff max_rows rows =
     rbind (option_u64_to_i64 max_rows) (\<lambda>_.
      let found = by_age (filter (candidate cutoff max_rows rows) rows) in
      if i64_max < length found then Inl (SeSqlite ToSqlConversionFailure)
      else Inr \<lparr>rr_matched_count = length found,
        rr_oldest = (case found of [] \<Rightarrow> None | r # _ \<Rightarrow> Some (snd r)),
        rr_newest = (case rev found of [] \<Rightarrow> None | r # _ \<Rightarrow> Some (snd r))\<rparr>)"

text \<open>One \<open>DELETE\<close>: the oldest candidates, at most \<open>batch_size\<close>; the number of deleted rows.\<close>

definition prune_retention_target_batch ::
    "string option \<Rightarrow> nat option \<Rightarrow> nat \<Rightarrow> trow list \<Rightarrow> store_error + (nat \<times> trow list)" where
  "prune_retention_target_batch cutoff max_rows batch_size rows =
     (if batch_size = 0 then Inr (0, rows)
      else rbind (u64_to_i64 batch_size) (\<lambda>_.
        rbind (option_u64_to_i64 max_rows) (\<lambda>_.
        let victims = map fst (take batch_size (by_age (filter (candidate cutoff max_rows rows) rows))) in
        Inr (length (filter (\<lambda>r. fst r \<in> set victims) rows), filter (\<lambda>r. fst r \<notin> set victims) rows))))"

text \<open>The loop of \<open>apply_retention\<close>: the rows deleted, the batches and the remaining table. It stops when a
  batch deletes nothing.\<close>

function prune_loop :: "string option \<Rightarrow> nat option \<Rightarrow> nat \<Rightarrow> nat \<Rightarrow> nat \<Rightarrow> nat \<Rightarrow> trow list
    \<Rightarrow> store_error + (nat \<times> nat \<times> trow list)" where
  "prune_loop cutoff max_rows batch_size planned deleted batches rows =
     (if deleted < planned then
        (case prune_retention_target_batch cutoff max_rows (min (planned - deleted) batch_size) rows of
           Inl e \<Rightarrow> Inl e
         | Inr (n, rows') \<Rightarrow>
             if n = 0 then Inr (deleted, batches, rows')
             else (case u64_checked_add deleted n of
                 None \<Rightarrow> Inl (SeInvalidInput ''retention deleted row count overflow'')
               | Some deleted' \<Rightarrow> (case u64_checked_add batches 1 of
                     None \<Rightarrow> Inl (SeInvalidInput ''retention batch count overflow'')
                   | Some batches' \<Rightarrow> prune_loop cutoff max_rows batch_size planned deleted' batches' rows')))
      else Inr (deleted, batches, rows))"
  by pat_completeness auto

termination prune_loop
  by (relation "measure (\<lambda>(c, m, b, planned, deleted, n, rows). planned - deleted)")
    (auto simp: u64_checked_add_def split: if_splits)

declare prune_loop.simps [simp del]

section \<open>Operations of the store\<close>

definition on_fleet :: "'a stx \<Rightarrow> 'a rtx" where
  "on_fleet m = (\<lambda>s. case m (rd_store s) of
      Inl e \<Rightarrow> Inl e
    | Inr r \<Rightarrow> Inr (fst r, s\<lparr>rd_store := snd r\<rparr>))"

definition jnat_opt :: "nat option \<Rightarrow> json" where
  "jnat_opt x = jopt jnat x"

definition get_retention_policy_tx :: "string \<Rightarrow> retention_policy option rtx" where
  "get_retention_policy_tx scope = tread (\<lambda>s. find (\<lambda>p. rp_scope p = scope) (rd_policies s))"

definition get_retention_policy :: "string \<Rightarrow> retention_policy option rtx" where
  "get_retention_policy scope = tread (\<lambda>s. find (\<lambda>p. rp_scope p = scope) (rd_policies s))"

definition retention_policy_audit_json :: "retention_policy \<Rightarrow> json" where
  "retention_policy_audit_json p = jobj [
     (''scope'', JStr (rp_scope p)),
     (''max_age_days'', jnat_opt (rp_max_age_days p)),
     (''max_rows'', jnat_opt (rp_max_rows p)),
     (''updated_at'', JStr (rp_updated_at p))]"

text \<open>\<open>INSERT ... ON CONFLICT(scope) DO UPDATE\<close>\<close>

definition upsert_policy :: "retention_policy \<Rightarrow> retention_policy list \<Rightarrow> retention_policy list" where
  "upsert_policy p ps =
     (if \<exists>q \<in> set ps. rp_scope q = rp_scope p then map (\<lambda>q. if rp_scope q = rp_scope p then p else q) ps
      else ps @ [p])"

definition set_retention_policy :: "ext \<Rightarrow> ret_env \<Rightarrow> retention_policy \<Rightarrow> string \<Rightarrow> retention_policy rtx" where
  "set_retention_policy X V policy actor =
     tseq (ttry (map_err SeInvalidInput (validate_actor actor)))
    (tseq (ttry (validate_retention_policy X policy))
    (tbind (get_retention_policy_tx (rp_scope policy)) (\<lambda>before.
     if (case before of None \<Rightarrow> False
         | Some p \<Rightarrow> rp_max_age_days p = rp_max_age_days policy \<and> rp_max_rows p = rp_max_rows policy)
     then treturn (the before)
     else
       tseq (ttry (option_u64_to_i64 (rp_max_age_days policy)))
      (tseq (ttry (option_u64_to_i64 (rp_max_rows policy)))
      (tseq (tmodify (\<lambda>s. s\<lparr>rd_policies := upsert_policy policy (rd_policies s)\<rparr>))
      (tbind (get_retention_policy_tx (rp_scope policy)) (\<lambda>found.
       tbind (texpect found) (\<lambda>after.
       tseq (on_fleet (insert_audit_tx X ((ctl_audit_event_new (rv_now_text V) actor ''retention.set'')\<lparr>
         ae_ok := Some True,
         ae_detail_json := jobj [
           (''actor_type'', JStr ''user''),
           (''target_type'', JStr ''retention_policy''),
           (''target_id'', JStr (rp_scope policy)),
           (''before'', jopt retention_policy_audit_json before),
           (''after'', retention_policy_audit_json after),
           (''reason'', JNull)]\<rparr>)))
       (treturn after)))))))))"

definition retention_candidate_report ::
    "string \<Rightarrow> string option \<Rightarrow> nat option \<Rightarrow> retention_report rtx" where
  "retention_candidate_report scope cutoff max_rows =
     tbind (ttry (retention_target scope)) (\<lambda>target.
     tbind (tread (\<lambda>s. rd_rows s (fst target))) (\<lambda>rows.
     ttry (retention_candidate_report_for_target cutoff max_rows rows)))"

definition count_retention_candidates :: "string \<Rightarrow> string option \<Rightarrow> nat option \<Rightarrow> nat rtx" where
  "count_retention_candidates scope cutoff max_rows =
     tbind (retention_candidate_report scope cutoff max_rows) (\<lambda>r. treturn (rr_matched_count r))"

definition retention_checksum_payload ::
    "string \<Rightarrow> bool \<Rightarrow> nat option \<Rightarrow> nat \<Rightarrow> nat option \<Rightarrow> retention_result \<Rightarrow> json" where
  "retention_checksum_payload scope dry_run max_rows batch_size limit r = jobj [
     (''scope'', JStr scope),
     (''dry_run'', JBool dry_run),
     (''cutoff'', jstr_opt (rx_cutoff r)),
     (''max_rows'', jnat_opt max_rows),
     (''matched_count'', jnat (rr_matched_count (rx_report r))),
     (''planned_delete_count'', jnat (rx_planned r)),
     (''rows_deleted'', jnat (rx_deleted r)),
     (''batch_count'', jnat (rx_batches r)),
     (''batch_size'', jnat batch_size),
     (''limit'', jnat_opt limit),
     (''oldest_candidate'', jstr_opt (rr_oldest (rx_report r))),
     (''newest_candidate'', jstr_opt (rr_newest (rx_report r)))]"

definition retention_apply_audit_json :: "ret_env \<Rightarrow> retention_input \<Rightarrow> retention_result \<Rightarrow> json" where
  "retention_apply_audit_json V i r = jobj [
     (''actor_type'', JStr ''user''),
     (''target_type'', JStr ''retention_scope''),
     (''target_id'', JStr (ra_scope i)),
     (''scope'', JStr (ra_scope i)),
     (''dry_run'', JBool False),
     (''requested_cutoff'', jstr_opt (ra_cutoff i)),
     (''max_age_days'', jnat_opt (ra_max_age_days i)),
     (''cutoff'', jstr_opt (rx_cutoff r)),
     (''max_rows'', jnat_opt (ra_max_rows i)),
     (''limit'', jnat_opt (ra_limit i)),
     (''batch_size'', jnat (ra_batch_size i)),
     (''matched_count'', jnat (rr_matched_count (rx_report r))),
     (''planned_delete_count'', jnat (rx_planned r)),
     (''deleted_count'', jnat (rx_deleted r)),
     (''batch_count'', jnat (rx_batches r)),
     (''oldest_candidate'', jstr_opt (rr_oldest (rx_report r))),
     (''newest_candidate'', jstr_opt (rr_newest (rx_report r))),
     (''report_checksum'', JStr (rv_sha256_json V
        (retention_checksum_payload (ra_scope i) False (ra_max_rows i) (ra_batch_size i) (ra_limit i) r))),
     (''reason'', JNull)]"

text \<open>The audit records of an operation on a scope, oldest first. \<open>json_extract\<close> of a string is its text.\<close>

definition retention_records :: "retention_input \<Rightarrow> (nat \<times> ctl_audit_event) list \<Rightarrow> ctl_audit_event list" where
  "retention_records i log =
     map snd (filter (\<lambda>row. ae_event (snd row) = ''retention.apply''
       \<and> ae_request_id (snd row) = Some (ra_operation_id i)
       \<and> jget ''target_id'' (ae_detail_json (snd row)) = Some (JStr (ra_scope i))) log)"

definition retention_required_fields :: "string list" where
  "retention_required_fields =
     [''requested_cutoff'', ''max_age_days'', ''cutoff'', ''max_rows'', ''limit'', ''batch_size'',
      ''matched_count'', ''planned_delete_count'', ''deleted_count'', ''batch_count'', ''oldest_candidate'',
      ''newest_candidate'']"

definition read_u64 :: "store_error \<Rightarrow> json \<Rightarrow> string \<Rightarrow> store_error + nat" where
  "read_u64 conflict detail key = ok_or (Option.bind (jget key detail) as_u64) conflict"

definition read_optional_string :: "store_error \<Rightarrow> json \<Rightarrow> string \<Rightarrow> store_error + string option" where
  "read_optional_string conflict detail key =
     (case jget key detail of
        Some JNull \<Rightarrow> Inr None
      | Some (JStr value) \<Rightarrow> Inr (Some value)
      | _ \<Rightarrow> Inl conflict)"

definition retention_apply_replay ::
    "retention_input \<Rightarrow> string \<Rightarrow> (nat \<times> ctl_audit_event) list \<Rightarrow> store_error + retention_result option" where
  "retention_apply_replay i actor log =
     (let existing = take 2 (retention_records i log);
          conflict = SeRetentionOperationConflict (ra_operation_id i)
            ''operation audit provenance is mismatched or ambiguous'' in
      case existing of
        [] \<Rightarrow> Inr None
      | [row] \<Rightarrow>
          (let detail = ae_detail_json row in
           if ae_actor row \<noteq> actor
             \<or> list_ex (\<lambda>key. jget key detail = None) retention_required_fields
             \<or> jget ''requested_cutoff'' detail \<noteq> Some (jstr_opt (ra_cutoff i))
             \<or> jget ''max_age_days'' detail \<noteq> Some (jnat_opt (ra_max_age_days i))
             \<or> jget ''max_rows'' detail \<noteq> Some (jnat_opt (ra_max_rows i))
             \<or> jget ''limit'' detail \<noteq> Some (jnat_opt (ra_limit i))
             \<or> Option.bind (jget ''batch_size'' detail) as_u64 \<noteq> Some (ra_batch_size i)
           then Inl conflict
           else
             rbind (read_optional_string conflict detail ''cutoff'') (\<lambda>cutoff.
             rbind (read_u64 conflict detail ''matched_count'') (\<lambda>matched.
             rbind (read_optional_string conflict detail ''oldest_candidate'') (\<lambda>oldest.
             rbind (read_optional_string conflict detail ''newest_candidate'') (\<lambda>newest.
             rbind (read_u64 conflict detail ''planned_delete_count'') (\<lambda>planned.
             rbind (read_u64 conflict detail ''deleted_count'') (\<lambda>deleted.
             rbind (read_u64 conflict detail ''batch_count'') (\<lambda>batches.
             Inr (Some \<lparr>rx_cutoff = cutoff,
               rx_report = \<lparr>rr_matched_count = matched, rr_oldest = oldest, rr_newest = newest\<rparr>,
               rx_planned = planned, rx_deleted = deleted, rx_batches = batches\<rparr>)))))))))
      | _ \<Rightarrow> Inl conflict)"

definition apply_cutoff :: "ret_env \<Rightarrow> retention_input \<Rightarrow> string option rtx" where
  "apply_cutoff V i =
     (case (ra_cutoff i, ra_max_age_days i) of
        (Some cutoff, _) \<Rightarrow> treturn (Some cutoff)
      | (None, Some days) \<Rightarrow>
          tseq (ttry (ensure (days \<le> i64_max) (SeInvalidInput ''retention max_age_days is too large'')))
         (tbind (texpect (rv_days_ago V days)) (\<lambda>cutoff. treturn (Some cutoff)))
      | (None, None) \<Rightarrow> treturn None)"

definition planned_count :: "nat option \<Rightarrow> nat \<Rightarrow> nat" where
  "planned_count limit matched = (case limit of None \<Rightarrow> matched | Some n \<Rightarrow> min matched n)"

definition apply_retention :: "ext \<Rightarrow> ret_env \<Rightarrow> retention_input \<Rightarrow> string \<Rightarrow> retention_result rtx" where
  "apply_retention X V i actor =
     tseq (ttry (map_err SeInvalidInput (validate_actor actor)))
    (tseq (ttry (validate_retention_apply_input X i))
    (tbind (ttry (retention_target (ra_scope i))) (\<lambda>target.
     tbind (tread (\<lambda>s. db_audit (rd_store s))) (\<lambda>log.
     tbind (ttry (retention_apply_replay i actor log)) (\<lambda>replayed.
     case replayed of
       Some r \<Rightarrow> treturn r
     | None \<Rightarrow>
         tbind (apply_cutoff V i) (\<lambda>cutoff.
         tbind (tread (\<lambda>s. rd_rows s (fst target))) (\<lambda>rows.
         tbind (ttry (retention_candidate_report_for_target cutoff (ra_max_rows i) rows)) (\<lambda>report.
         let planned = planned_count (ra_limit i) (rr_matched_count report) in
         tbind (ttry (prune_loop cutoff (ra_max_rows i) (ra_batch_size i) planned 0 0 rows)) (\<lambda>(deleted, batches, rows').
         tseq (tmodify (\<lambda>s. s\<lparr>rd_rows := (rd_rows s)(fst target := rows')\<rparr>))
        (let result = \<lparr>rx_cutoff = cutoff, rx_report = report, rx_planned = planned, rx_deleted = deleted,
               rx_batches = batches\<rparr> in
         tseq (on_fleet (insert_audit_tx X ((ctl_audit_event_new (rv_now_text V) actor ''retention.apply'')\<lparr>
           ae_ok := Some True,
           ae_request_id := Some (ra_operation_id i),
           ae_detail_json := retention_apply_audit_json V i result\<rparr>)))
         (treturn result)))))))))))"

section \<open>The command\<close>

text \<open>\<open>duration_args.rs\<close>. The last character is removed with all its bytes; \<open>u64::from_str\<close> accepts one leading
  plus sign. An \<open>anyhow\<close> error is represented by its outermost message or by the store's error.\<close>

datatype cli_error = CliStore store_error | CliMessage string

definition is_continuation_byte :: "char \<Rightarrow> bool" where
  "is_continuation_byte c \<longleftrightarrow> 128 \<le> byte c \<and> byte c < 192"

definition last_char_len :: "string \<Rightarrow> nat" where
  "last_char_len s = Suc (length (takeWhile is_continuation_byte (rev s)))"

fun u64_digits :: "nat \<Rightarrow> string \<Rightarrow> nat option" where
  "u64_digits acc [] = Some acc"
| "u64_digits acc (c # cs) =
     (if is_ascii_digit c then
        (let acc' = 10 * acc + (byte c - 48) in if acc' \<le> u64_max then u64_digits acc' cs else None)
      else None)"

definition parse_u64 :: "string \<Rightarrow> nat option" where
  "parse_u64 s =
     (let ds = (case s of c # cs \<Rightarrow> if c = CHR ''+'' then cs else s | [] \<Rightarrow> s) in
      if ds = [] then None else u64_digits 0 ds)"

definition parse_duration_seconds :: "string \<Rightarrow> string \<Rightarrow> cli_error + nat" where
  "parse_duration_seconds value label =
     (if value = [] then Inl (CliMessage (label @ '' must use s, m, h, or d suffix''))
      else let number = take (length value - last_char_len value) value;
               suffix = drop (length value - last_char_len value) value in
        rbind (ensure (number \<noteq> []) (CliMessage (label @ '' must include a positive number''))) (\<lambda>_.
        rbind (ok_or (parse_u64 number) (CliMessage (''invalid '' @ label @ '' value: '' @ value))) (\<lambda>amount.
        rbind (ensure (amount \<noteq> 0) (CliMessage (label @ '' must be greater than zero''))) (\<lambda>_.
        rbind (if suffix = ''s'' then Inr 1 else if suffix = ''m'' then Inr 60
               else if suffix = ''h'' then Inr (60 * 60) else if suffix = ''d'' then Inr (24 * 60 * 60)
               else Inl (CliMessage (label @ '' must use s, m, h, or d suffix''))) (\<lambda>multiplier.
        if amount * multiplier \<le> u64_max then Inr (amount * multiplier)
        else Inl (CliMessage (label @ '' is too large'')))))))"

definition parse_retention_max_age_days :: "string \<Rightarrow> cli_error + nat" where
  "parse_retention_max_age_days value =
     rbind (parse_duration_seconds value ''--max-age'') (\<lambda>seconds.
     if seconds mod (24 * 60 * 60) \<noteq> 0 then Inl (CliMessage ''--max-age must resolve to whole days'')
     else let days = seconds div (24 * 60 * 60) in
       if days = 0 then Inl (CliMessage ''--max-age must be at least one day'') else Inr days)"

datatype retention_scope =
    Observations | ObservabilityRuns | HealthSnapshots | HealthHistory | HealthRollups | AlertEvents

definition RETENTION_SCOPES :: "string list" where
  "RETENTION_SCOPES =
     [''observations'', ''observability-runs'', ''health-snapshots'', ''health-history'', ''health-rollups'',
      ''alert-events'']"

fun retention_scope_name :: "retention_scope \<Rightarrow> string" where
  "retention_scope_name Observations = ''observations''"
| "retention_scope_name ObservabilityRuns = ''observability-runs''"
| "retention_scope_name HealthSnapshots = ''health-snapshots''"
| "retention_scope_name HealthHistory = ''health-history''"
| "retention_scope_name HealthRollups = ''health-rollups''"
| "retention_scope_name AlertEvents = ''alert-events''"

definition selected_retention_scopes :: "retention_scope option \<Rightarrow> string list" where
  "selected_retention_scopes scope =
     (case scope of Some s \<Rightarrow> [retention_scope_name s] | None \<Rightarrow> RETENTION_SCOPES)"

definition default_retention_policy :: "string \<Rightarrow> retention_policy" where
  "default_retention_policy scope =
     (let (age, rows) =
        (if scope = ''observations'' then (Some 30, Some 100000)
         else if scope = ''observability-runs'' then (Some 30, Some 100000)
         else if scope = ''health-snapshots'' then (Some 30, None)
         else if scope = ''health-history'' then (Some 90, Some 1000000)
         else if scope = ''health-rollups'' then (Some 1095, Some 5000000)
         else if scope = ''alert-events'' then (Some 180, None)
         else (None, None)) in
      \<lparr>rp_scope = scope, rp_max_age_days = age, rp_max_rows = rows, rp_updated_at = ''default''\<rparr>)"

text \<open>A command is a sequence of calls of the store, each a transaction of its own.\<close>

type_synonym 'a rcmd = "ret_db \<Rightarrow> (cli_error fault + 'a) \<times> ret_db"

definition cli_fault :: "store_error fault \<Rightarrow> cli_error fault" where
  "cli_fault f = (case f of Fail e \<Rightarrow> Fail (CliStore e) | Panic \<Rightarrow> Panic)"

definition call_store :: "'a rtx \<Rightarrow> 'a rcmd" where
  "call_store m s = (case run_tx m s of (r, s') \<Rightarrow> (map_err cli_fault r, s'))"

definition cmd_bind :: "'a rcmd \<Rightarrow> ('a \<Rightarrow> 'b rcmd) \<Rightarrow> 'b rcmd" where
  "cmd_bind m f s = (case m s of (Inl e, s') \<Rightarrow> (Inl e, s') | (Inr a, s') \<Rightarrow> f a s')"

definition cmd_try :: "cli_error + 'a \<Rightarrow> 'a rcmd" where
  "cmd_try r s = (map_err Fail r, s)"

definition cmd_expect :: "'a option \<Rightarrow> 'a rcmd" where
  "cmd_expect x s = (case x of Some a \<Rightarrow> (Inr a, s) | None \<Rightarrow> (Inl Panic, s))"

definition effective_retention_policy :: "string \<Rightarrow> retention_policy rcmd" where
  "effective_retention_policy scope =
     cmd_bind (call_store (get_retention_policy scope)) (\<lambda>found.
     cmd_try (Inr (case found of Some p \<Rightarrow> p | None \<Rightarrow> default_retention_policy scope)))"

definition retention_cutoff :: "ret_env \<Rightarrow> retention_policy \<Rightarrow> string option rcmd" where
  "retention_cutoff V p =
     (case rp_max_age_days p of
        None \<Rightarrow> cmd_try (Inr None)
      | Some days \<Rightarrow>
          cmd_bind (cmd_try (ensure (days \<le> i64_max) (CliMessage ''retention max age is too large''))) (\<lambda>_.
          cmd_bind (cmd_expect (rv_days_ago V days)) (\<lambda>cutoff. cmd_try (Inr (Some cutoff)))))"

definition validate_retention_apply_bounds :: "nat option \<Rightarrow> nat \<Rightarrow> cli_error + unit" where
  "validate_retention_apply_bounds limit batch_size = all_ok [
     ensure (case limit of None \<Rightarrow> True | Some n \<Rightarrow> \<not> (n = 0 \<or> n > MAX_RETENTION_APPLY_LIMIT))
       (CliMessage (''--limit must be between 1 and '' @ show_nat MAX_RETENTION_APPLY_LIMIT)),
     ensure (\<not> (batch_size = 0 \<or> batch_size > MAX_RETENTION_BATCH_SIZE))
       (CliMessage (''--batch-size must be between 1 and '' @ show_nat MAX_RETENTION_BATCH_SIZE))]"

text \<open>\<open>RetentionScopeReport\<close>, with the values that its fields share with the store's result kept together.\<close>

record retention_scope_report =
  sr_scope :: string
  sr_dry_run :: bool
  sr_max_rows :: "nat option"
  sr_batch_size :: nat
  sr_limit :: "nat option"
  sr_result :: retention_result
  sr_checksum :: string

definition scope_report ::
    "ret_env \<Rightarrow> string \<Rightarrow> bool \<Rightarrow> nat option \<Rightarrow> nat \<Rightarrow> nat option \<Rightarrow> retention_result \<Rightarrow> retention_scope_report" where
  "scope_report V scope dry_run max_rows batch_size limit r =
     \<lparr>sr_scope = scope, sr_dry_run = dry_run, sr_max_rows = max_rows, sr_batch_size = batch_size, sr_limit = limit,
      sr_result = r,
      sr_checksum = rv_sha256_json V (retention_checksum_payload scope dry_run max_rows batch_size limit r)\<rparr>"

record retention_scope_apply =
  sa_dry_run :: bool
  sa_operation_id :: "string option"
  sa_actor :: string
  sa_explicit_cutoff :: "string option"
  sa_limit :: "nat option"
  sa_batch_size :: nat

definition apply_retention_scope ::
    "ext \<Rightarrow> ret_env \<Rightarrow> string \<Rightarrow> retention_scope_apply \<Rightarrow> retention_scope_report rcmd" where
  "apply_retention_scope X V scope a =
     cmd_bind (effective_retention_policy scope) (\<lambda>policy.
     cmd_bind
       (if sa_dry_run a then
          cmd_bind (retention_cutoff V policy) (\<lambda>by_policy.
          let cutoff = (case sa_explicit_cutoff a of Some c \<Rightarrow> Some c | None \<Rightarrow> by_policy) in
          cmd_bind (call_store (retention_candidate_report scope cutoff (rp_max_rows policy))) (\<lambda>report.
          cmd_try (Inr \<lparr>rx_cutoff = cutoff, rx_report = report,
            rx_planned = planned_count (sa_limit a) (rr_matched_count report), rx_deleted = 0, rx_batches = 0\<rparr>)))
        else
          cmd_bind (cmd_expect (sa_operation_id a)) (\<lambda>operation_id.
          call_store (apply_retention X V
            \<lparr>ra_operation_id = operation_id, ra_scope = scope, ra_cutoff = sa_explicit_cutoff a,
             ra_max_age_days = rp_max_age_days policy, ra_max_rows = rp_max_rows policy,
             ra_limit = sa_limit a, ra_batch_size = sa_batch_size a\<rparr> (sa_actor a))))
       (\<lambda>result. cmd_try (Inr (scope_report V scope (sa_dry_run a) (rp_max_rows policy) (sa_batch_size a)
          (sa_limit a) result))))"

text \<open>The environment may differ from scope to scope.\<close>

fun apply_scopes ::
    "ext \<Rightarrow> (string \<Rightarrow> ret_env) \<Rightarrow> retention_scope_apply \<Rightarrow> string list \<Rightarrow> retention_scope_report list rcmd" where
  "apply_scopes X V a [] = cmd_try (Inr [])"
| "apply_scopes X V a (scope # scopes) =
     cmd_bind (apply_retention_scope X (V scope) scope a) (\<lambda>report.
     cmd_bind (apply_scopes X V a scopes) (\<lambda>reports. cmd_try (Inr (report # reports))))"

record retention_apply_options =
  ro_dry_run :: bool
  ro_operation_id :: "string option"
  ro_scope :: "retention_scope option"
  ro_before :: "string option"
  ro_limit :: "nat option"
  ro_batch_size :: nat

text \<open>\<open>run_retention_apply\<close> up to the printing: the operation's identifier and the reports. \<open>uuid\<close> is a fresh
  UUID, \<open>actor\<close> the local actor.\<close>

definition run_retention_apply ::
    "ext \<Rightarrow> (string \<Rightarrow> ret_env) \<Rightarrow> string \<Rightarrow> string \<Rightarrow> retention_apply_options
      \<Rightarrow> (string option \<times> retention_scope_report list) rcmd" where
  "run_retention_apply X V uuid actor opts =
     cmd_bind (cmd_try (validate_retention_apply_bounds (ro_limit opts) (ro_batch_size opts))) (\<lambda>_.
     let operation_id =
           (if ro_dry_run opts then None
            else Some (case ro_operation_id opts of Some op \<Rightarrow> op | None \<Rightarrow> ''retention-'' @ uuid)) in
     cmd_bind (cmd_try (ensure (case ro_before opts of None \<Rightarrow> True | Some t \<Rightarrow> parse_rfc3339 X t \<noteq> None)
       (CliMessage ''timestamp must be RFC3339''))) (\<lambda>_.
     cmd_bind (apply_scopes X V \<lparr>sa_dry_run = ro_dry_run opts, sa_operation_id = operation_id, sa_actor = actor,
         sa_explicit_cutoff = ro_before opts, sa_limit = ro_limit opts, sa_batch_size = ro_batch_size opts\<rparr>
         (selected_retention_scopes (ro_scope opts))) (\<lambda>reports.
     cmd_try (Inr (operation_id, reports)))))"

definition run_retention_set ::
    "ext \<Rightarrow> ret_env \<Rightarrow> string \<Rightarrow> retention_scope \<Rightarrow> string option \<Rightarrow> nat option \<Rightarrow> retention_policy rcmd" where
  "run_retention_set X V actor scope max_age max_rows =
     cmd_bind (cmd_try (ensure (\<not> (max_age = None \<and> max_rows = None))
       (CliMessage ''retention set requires --max-age or --max-rows''))) (\<lambda>_.
     cmd_bind (effective_retention_policy (retention_scope_name scope)) (\<lambda>policy.
     cmd_bind (cmd_try (case max_age of None \<Rightarrow> Inr (rp_max_age_days policy)
       | Some v \<Rightarrow> rbind (parse_retention_max_age_days v) (\<lambda>d. Inr (Some d)))) (\<lambda>age.
     cmd_bind (cmd_try (case max_rows of None \<Rightarrow> Inr (rp_max_rows policy)
       | Some n \<Rightarrow> if n = 0 then Inl (CliMessage ''--max-rows must be greater than zero'') else Inr (Some n))) (\<lambda>rows.
     call_store (set_retention_policy X V
       (policy\<lparr>rp_max_age_days := age, rp_max_rows := rows, rp_updated_at := rv_now_text V\<rparr>) actor)))))"

definition run_retention_explain ::
    "ret_env \<Rightarrow> retention_scope \<Rightarrow> (retention_policy \<times> string option \<times> retention_report) rcmd" where
  "run_retention_explain V scope =
     cmd_bind (effective_retention_policy (retention_scope_name scope)) (\<lambda>policy.
     cmd_bind (retention_cutoff V policy) (\<lambda>cutoff.
     cmd_bind (call_store (retention_candidate_report (retention_scope_name scope) cutoff (rp_max_rows policy)))
       (\<lambda>report. cmd_try (Inr (policy, cutoff, report)))))"

fun effective_policies :: "string list \<Rightarrow> retention_policy list rcmd" where
  "effective_policies [] = cmd_try (Inr [])"
| "effective_policies (scope # scopes) =
     cmd_bind (effective_retention_policy scope) (\<lambda>p.
     cmd_bind (effective_policies scopes) (\<lambda>ps. cmd_try (Inr (p # ps))))"

definition run_retention_show :: "retention_policy list rcmd" where
  "run_retention_show = effective_policies RETENTION_SCOPES"

section \<open>The order of a table\<close>

lemma filter_prefix:
  assumes "sorted_wrt R xs" "\<And>x y. R x y \<Longrightarrow> P y \<Longrightarrow> P x"
  shows "filter P xs = take (length (filter P xs)) xs"
  using assms(1)
proof (induction xs)
  case (Cons x xs)
  then have "\<not> P x \<Longrightarrow> filter P xs = []"
    using assms(2) by (fastforce simp: filter_empty_conv)
  with Cons show ?case
    by auto
qed simp

lemma row_key_inject [simp]: "row_key r = row_key r' \<longleftrightarrow> r = r'"
  by (auto simp: row_key_def prod_eq_iff)

lemma by_age_simps [simp]:
  "set (by_age rows) = set rows" "length (by_age rows) = length rows" "distinct (by_age rows) = distinct rows"
  "by_age [] = []"
  by (simp_all add: by_age_def)

lemma sorted_by_age: "sorted_wrt (\<lambda>r r'. row_key r \<le> row_key r') (by_age rows)"
  using sorted_sort_key [of row_key rows] by (simp add: by_age_def sorted_map)

lemma filter_by_age: "filter P (by_age rows) = by_age (filter P rows)"
  by (simp add: by_age_def filter_sort)

lemma take_down_closed:
  assumes "distinct xs" "sorted_wrt (\<lambda>r r'. row_key r \<le> row_key r') xs"
    "r \<in> set xs" "r' \<in> set (take n xs)" "row_key r \<le> row_key r'"
  shows "r \<in> set (take n xs)"
proof (rule ccontr)
  assume r: "r \<notin> set (take n xs)"
  have "r \<in> set (drop n xs)"
    using assms(3) r by (metis Un_iff append_take_drop_id set_append)
  moreover have "sorted_wrt (\<lambda>r r'. row_key r \<le> row_key r') (take n xs @ drop n xs)"
    using assms(2) by simp
  ultimately have "row_key r' \<le> row_key r"
    using assms(4) unfolding sorted_wrt_append by blast
  with assms(5) have "r = r'"
    by (simp add: antisym flip: row_key_inject)
  with r assms(4) show False
    by simp
qed

lemma set_beyond_newest: "set (beyond_newest n rows) = set (take (length rows - n) (by_age rows))"
  by (simp add: beyond_newest_def rev_drop flip: set_rev [of "drop n (rev (by_age rows))"])

lemma older_timestamp: "row_key r \<le> row_key r' \<Longrightarrow> snd r \<le> snd r'"
  by (auto simp: row_key_def less_eq_prod_def)

lemma candidate_down_closed:
  assumes "distinct rows" "r \<in> set rows" "candidate cutoff max_rows rows r'" "row_key r \<le> row_key r'"
  shows "candidate cutoff max_rows rows r"
proof -
  have "snd r' < c \<Longrightarrow> snd r < c" for c
    using older_timestamp [OF assms(4)] by simp
  moreover have "r' \<in> set (beyond_newest n rows) \<Longrightarrow> r \<in> set (beyond_newest n rows)" for n
    using take_down_closed [of "by_age rows" r r'] assms(1,2,4)
    by (simp add: set_beyond_newest sorted_by_age)
  ultimately show ?thesis
    using assms(3) by (auto simp: candidate_def split: option.splits)
qed

lemma sorted_wrt_restrict:
  "sorted_wrt R xs \<Longrightarrow> sorted_wrt (\<lambda>x y. R x y \<and> x \<in> set xs \<and> y \<in> set xs) xs"
  by (induction xs) (auto elim!: sorted_wrt_mono_rel [rotated])

text \<open>The candidates are the oldest rows of the table.\<close>

abbreviation candidates :: "string option \<Rightarrow> nat option \<Rightarrow> trow list \<Rightarrow> nat" where
  "candidates cutoff max_rows rows \<equiv> length (filter (candidate cutoff max_rows rows) rows)"

lemma candidates_are_oldest:
  assumes "distinct rows"
  shows "by_age (filter (candidate cutoff max_rows rows) rows) = take (candidates cutoff max_rows rows) (by_age rows)"
proof -
  have "filter (candidate cutoff max_rows rows) (by_age rows)
      = take (length (filter (candidate cutoff max_rows rows) (by_age rows))) (by_age rows)"
    by (rule filter_prefix [OF sorted_wrt_restrict [OF sorted_by_age]])
      (auto intro: candidate_down_closed [OF assms])
  then show ?thesis
    by (simp add: filter_by_age)
qed

text \<open>The table without its \<open>n\<close> oldest rows.\<close>

definition without_oldest :: "nat \<Rightarrow> trow list \<Rightarrow> trow list" where
  "without_oldest n rows = filter (\<lambda>r. r \<notin> set (take n (by_age rows))) rows"

lemma by_age_without_oldest:
  assumes "distinct rows"
  shows "by_age (without_oldest n rows) = drop n (by_age rows)"
proof -
  have d: "distinct (take n (by_age rows) @ drop n (by_age rows))"
    using assms by simp
  have "by_age (without_oldest n rows) = filter (\<lambda>r. r \<notin> set (take n (by_age rows))) (take n (by_age rows) @ drop n (by_age rows))"
    by (simp add: without_oldest_def flip: filter_by_age)
  also have "\<dots> = drop n (by_age rows)"
    using d unfolding filter_append distinct_append by (auto simp: filter_empty_conv filter_id_conv)
  finally show ?thesis .
qed

lemma without_oldest_simps [simp]:
  "distinct rows \<Longrightarrow> length (without_oldest n rows) = length rows - n"
  "without_oldest 0 rows = rows"
  "distinct rows \<Longrightarrow> distinct (without_oldest n rows)"
  "distinct (map fst rows) \<Longrightarrow> distinct (map fst (without_oldest n rows))"
  using by_age_without_oldest [of rows n] by_age_simps(2) [of "without_oldest n rows"]
  by (simp_all add: distinct_map_filter without_oldest_def)

lemma without_oldest_twice:
  assumes "distinct rows"
  shows "without_oldest m (without_oldest n rows) = without_oldest (n + m) rows"
proof -
  have "without_oldest m (without_oldest n rows)
      = filter (\<lambda>r. r \<notin> set (take n (by_age rows)) \<and> r \<notin> set (take m (drop n (by_age rows)))) rows"
    unfolding without_oldest_def [of m] by_age_without_oldest [OF assms]
    by (simp add: without_oldest_def)
  then show ?thesis
    by (simp add: without_oldest_def take_add)
qed

lemma beyond_newest_without_oldest:
  assumes "distinct rows"
  shows "set (beyond_newest m (without_oldest n rows)) = set (beyond_newest m rows) - set (take n (by_age rows))"
proof -
  let ?s = "by_age rows"
  have "set (beyond_newest m (without_oldest n rows)) = set (take (length rows - n - m) (drop n ?s))"
    using assms by (simp add: set_beyond_newest by_age_without_oldest)
  also have "\<dots> = set (take (length rows - m) ?s) - set (take n ?s)"
  proof (cases "n \<le> length rows - m")
    case True
    then have "take (length rows - m) ?s = take n ?s @ take (length rows - n - m) (drop n ?s)"
      by (metis diff_commute le_add_diff_inverse take_add)
    moreover have "distinct (take (length rows - m) ?s)"
      using assms by simp
    ultimately show ?thesis
      by auto
  next
    case False
    then show ?thesis
      using set_take_subset_set_take [of "length rows - m" n ?s] by auto
  qed
  finally show ?thesis
    by (simp add: set_beyond_newest)
qed

lemma candidate_without_oldest:
  assumes "distinct rows" "r \<in> set (without_oldest n rows)"
  shows "candidate cutoff max_rows (without_oldest n rows) r \<longleftrightarrow> candidate cutoff max_rows rows r"
proof -
  have "r \<notin> set (take n (by_age rows))"
    using assms(2) by (simp add: without_oldest_def)
  then show ?thesis
    by (simp add: candidate_def beyond_newest_without_oldest [OF assms(1)] split: option.splits)
qed

lemma candidates_without_oldest:
  assumes "distinct rows" "n \<le> candidates cutoff max_rows rows"
  shows "candidates cutoff max_rows (without_oldest n rows) = candidates cutoff max_rows rows - n"
proof -
  let ?s = "by_age rows"
  let ?P = "candidate cutoff max_rows rows"
  have "filter (candidate cutoff max_rows (without_oldest n rows)) (without_oldest n rows) = filter ?P (without_oldest n rows)"
    by (rule filter_cong) (simp_all add: candidate_without_oldest [OF assms(1)])
  then have "candidates cutoff max_rows (without_oldest n rows) = length (by_age (filter ?P (without_oldest n rows)))"
    by simp
  then have rest: "candidates cutoff max_rows (without_oldest n rows) = length (filter ?P (drop n ?s))"
    by (simp add: by_age_without_oldest [OF assms(1)] flip: filter_by_age)
  have "filter ?P (take n ?s @ drop n ?s) = take (candidates cutoff max_rows rows) ?s"
    by (simp add: filter_by_age candidates_are_oldest [OF assms(1)] del: filter_append)
  then have "length (filter ?P (take n ?s)) + length (filter ?P (drop n ?s)) = candidates cutoff max_rows rows"
    unfolding filter_append length_append [symmetric] by simp
  moreover have "filter ?P (take n ?s) = take n ?s"
  proof (rule filter_True, rule ballI)
    fix r assume "r \<in> set (take n ?s)"
    then have "r \<in> set (take (candidates cutoff max_rows rows) ?s)"
      using set_take_subset_set_take [OF assms(2), of ?s] by auto
    then show "?P r"
      by (simp flip: candidates_are_oldest [OF assms(1)])
  qed
  moreover have "length (take n ?s) = n"
    using order.trans [OF assms(2) length_filter_le] by simp
  ultimately show ?thesis
    using rest by simp
qed

section \<open>The loop\<close>

lemma filter_victims:
  assumes "distinct (map fst rows)" "set victims \<subseteq> set rows" "r \<in> set rows"
  shows "fst r \<in> fst ` set victims \<longleftrightarrow> r \<in> set victims"
  using assms by (auto simp: distinct_map dest: inj_onD)

text \<open>A batch deletes the oldest rows, as many as it may and as there are candidates.\<close>

lemma prune_batch:
  assumes "distinct (map fst rows)" "0 < b" "prune_retention_target_batch cutoff max_rows b rows = Inr (n, rows')"
  shows "n = min b (candidates cutoff max_rows rows) \<and> rows' = without_oldest n rows"
proof -
  let ?k = "candidates cutoff max_rows rows"
  let ?v = "take b (take ?k (by_age rows))"
  have d: "distinct rows"
    using assms(1) by (simp add: distinct_map)
  have v: "set ?v \<subseteq> set rows"
    by (auto dest!: in_set_takeD)
  have "n = length (filter (\<lambda>r. r \<in> set ?v) rows) \<and> rows' = filter (\<lambda>r. r \<notin> set ?v) rows"
    using assms(2,3)
    by (auto simp: prune_retention_target_batch_def candidates_are_oldest [OF d] rbind_Inr_iff Let_def
      filter_victims [OF assms(1) v] simp del: take_take cong: filter_cong)
  moreover have "length (filter (\<lambda>r. r \<in> set ?v) rows) = length ?v"
  proof -
    have "set (filter (\<lambda>r. r \<in> set ?v) rows) = set ?v"
      using v by auto
    then show ?thesis
      using d distinct_card [of "filter (\<lambda>r. r \<in> set ?v) rows"] distinct_card [of ?v]
      by (simp del: length_take take_take)
  qed
  moreover have "length ?v = min b ?k"
    using order.trans [OF min.cobounded2 length_filter_le, of b "candidate cutoff max_rows rows" rows]
    by (simp only: length_take by_age_simps min_absorb2 min.absorb2 length_filter_le)
  ultimately show ?thesis
    by (simp add: without_oldest_def)
qed

text \<open>Neither the conversions nor the counters fail within the bounds that the input is validated against.\<close>

lemma prune_batch_ok:
  assumes "b \<le> i64_max" "case max_rows of None \<Rightarrow> True | Some n \<Rightarrow> n \<le> i64_max"
  shows "\<exists>n rows'. prune_retention_target_batch cutoff max_rows b rows = Inr (n, rows')"
  using assms
  by (auto simp: prune_retention_target_batch_def u64_to_i64_def option_u64_to_i64_def transpose_ok_def rbind_def Let_def
    split: option.splits)

definition batches_for :: "nat \<Rightarrow> nat \<Rightarrow> nat" where
  "batches_for b n = (n + b - 1) div b"

lemma batches_for_0 [simp]: "0 < b \<Longrightarrow> batches_for b 0 = 0"
  by (simp add: batches_for_def)

lemma batches_for_step: "0 < n \<Longrightarrow> 0 < b \<Longrightarrow> batches_for b n = Suc (batches_for b (n - min n b))"
proof (cases "n \<le> b")
  case True
  assume "0 < n" "0 < b"
  with True have "(n + b - 1) div b = 1"
    by (intro div_nat_eqI) simp_all
  with True \<open>0 < b\<close> show ?thesis
    by (simp add: batches_for_def)
next
  case False
  assume "0 < b"
  with False have "n + b - 1 = n - 1 + b" "n - b + b - 1 = n - 1"
    by simp_all
  then show ?thesis
    using False \<open>0 < b\<close> div_add_self2 [of b "n - 1"]
    by (simp add: batches_for_def min_def del: diff_Suc_1 One_nat_def)
qed

lemma batches_for_le: "0 < b \<Longrightarrow> batches_for b n \<le> n"
proof -
  assume "0 < b"
  then have "n * 1 \<le> n * b"
    by (intro mult_le_mono2) simp
  with \<open>0 < b\<close> have "n + b - 1 < Suc n * b"
    unfolding mult_Suc by linarith
  then show ?thesis
    using less_mult_imp_div_less [of "n + b - 1" "Suc n" b] by (simp add: batches_for_def)
qed

text \<open>The loop ends after as many batches as the planned rows fill, and has deleted exactly these rows.\<close>

lemma prune_loop_deletes:
  assumes "0 < b" "b \<le> i64_max" "case max_rows of None \<Rightarrow> True | Some n \<Rightarrow> n \<le> i64_max" "planned \<le> i64_max"
  shows "distinct (map fst rows) \<Longrightarrow> deleted \<le> planned \<Longrightarrow> batches \<le> deleted
    \<Longrightarrow> planned - deleted \<le> candidates cutoff max_rows rows
    \<Longrightarrow> prune_loop cutoff max_rows b planned deleted batches rows
      = Inr (planned, batches + batches_for b (planned - deleted), without_oldest (planned - deleted) rows)"
proof (induction "planned - deleted" arbitrary: deleted batches rows rule: less_induct)
  case less
  let ?n = "min (planned - deleted) b"
  show ?case
  proof (cases "deleted < planned")
    case True
    have d: "distinct rows"
      using less.prems(1) by (simp add: distinct_map)
    have "?n \<le> i64_max"
      using assms(2) by simp
    then obtain n rows' where batch: "prune_retention_target_batch cutoff max_rows ?n rows = Inr (n, rows')"
      using prune_batch_ok [OF _ assms(3)] by blast
    have n: "n = ?n" "rows' = without_oldest ?n rows"
      using prune_batch [OF less.prems(1) _ batch] True assms(1) less.prems(4) by simp_all
    have "prune_loop cutoff max_rows b planned (deleted + ?n) (batches + 1) (without_oldest ?n rows)
        = Inr (planned, batches + 1 + batches_for b (planned - (deleted + ?n)),
            without_oldest (planned - (deleted + ?n)) (without_oldest ?n rows))"
      using True assms(1) less.prems
      by (intro less.hyps) (simp_all add: candidates_without_oldest [OF d])
    moreover have "deleted + ?n \<le> u64_max" "batches + 1 \<le> u64_max"
      using True less.prems(3) assms(4) by (simp_all add: i64_max_def u64_max_def)
    ultimately show ?thesis
      using True assms(1) batches_for_step [of "planned - deleted" b]
      by (subst prune_loop.simps)
        (simp add: batch n u64_checked_add_def without_oldest_twice [OF d])
  next
    case False
    with less.prems(2) assms(1) show ?thesis
      by (subst prune_loop.simps) simp
  qed
qed

section \<open>Replays\<close>

lemma map_of_filter_key: "map_of kvs k = (case filter (\<lambda>kv. fst kv = k) kvs of [] \<Rightarrow> None | kv # _ \<Rightarrow> Some (snd kv))"
  by (induction kvs) auto

lemma map_of_sort_key [simp]: "map_of (sort_key fst kvs) k = map_of kvs k"
  by (simp only: map_of_filter_key sort_key_stable)

lemma jget_jobj [simp]: "jget k (jobj kvs) = map_of kvs k"
  by (simp add: jget_def jobj_def)

lemma stored_detail:
  assumes "audit_detail X ev = Inr detail" "ae_detail_json ev = jobj kvs" "k \<noteq> ''_audit''"
  shows "jget k detail = map_of kvs k"
proof -
  have "detail = audit_payload_to_value ev (sort_key fst kvs)"
    using assms(1,2) by (auto simp: audit_detail_def audit_payload_new_def jobj_def rbind_Inr_iff map_err_def
      split: sum.splits)
  then show ?thesis
    using assms(3) by (simp add: audit_payload_to_value_def)
qed

text \<open>The record of an operation answers its replay.\<close>

definition result_bounded :: "retention_result \<Rightarrow> bool" where
  "result_bounded r \<longleftrightarrow> rr_matched_count (rx_report r) \<le> u64_max \<and> rx_planned r \<le> u64_max \<and> rx_deleted r \<le> u64_max
     \<and> rx_batches r \<le> u64_max"

lemma jnat_u64 [simp]: "as_u64 (jnat n) = (if n \<le> u64_max then Some n else None)"
  by (simp add: as_u64_def jnat_def)

lemma read_optional_jstr: "jget k d = Some (jstr_opt x) \<Longrightarrow> read_optional_string e d k = Inr x"
  by (cases x) (simp_all add: read_optional_string_def jstr_opt_def jopt_def)

lemma read_jnat: "jget k d = Some (jnat n) \<Longrightarrow> n \<le> u64_max \<Longrightarrow> read_u64 e d k = Inr n"
  by (simp add: read_u64_def ok_or_def)

lemma replay_of_record:
  assumes "retention_records i log = [row]" "ae_actor row = actor"
    "\<And>k. k \<noteq> ''_audit'' \<Longrightarrow> jget k (ae_detail_json row) = jget k (retention_apply_audit_json V i r)"
    "ra_batch_size i \<le> u64_max" "result_bounded r"
  shows "retention_apply_replay i actor log = Inr (Some r)"
proof -
  note fields = assms(3) retention_apply_audit_json_def
  have "list_all (\<lambda>k. jget k (ae_detail_json row) \<noteq> None) retention_required_fields"
    by (simp add: retention_required_fields_def fields)
  then show ?thesis
    using assms(1,2,4,5)
    by (simp add: retention_apply_replay_def fields read_optional_jstr read_jnat result_bounded_def list_ex_iff list_all_iff Let_def)
qed

lemma vcg_fleet_audit [vcg_first]:
  "(\<And>d. audit_detail X ev = Inr d \<Longrightarrow> Q () (s\<lparr>rd_store := (rd_store s)\<lparr>
      db_audit := db_audit (rd_store s) @ [(Suc (db_audit_seq (rd_store s)), ev\<lparr>ae_detail_json := d\<rparr>)],
      db_audit_seq := Suc (db_audit_seq (rd_store s))\<rparr>\<rparr>))
   \<Longrightarrow> outcome p (on_fleet (insert_audit_tx X ev)) s Q"
  by (auto simp: outcome_def on_fleet_def insert_audit_tx_def tbind_def ttry_def tmodify_def split: sum.splits)

definition retention_event :: "ret_env \<Rightarrow> retention_input \<Rightarrow> string \<Rightarrow> retention_result \<Rightarrow> ctl_audit_event" where
  "retention_event V i actor r = (ctl_audit_event_new (rv_now_text V) actor ''retention.apply'')\<lparr>
     ae_ok := Some True, ae_request_id := Some (ra_operation_id i), ae_detail_json := retention_apply_audit_json V i r\<rparr>"

definition cutoff_of :: "ret_env \<Rightarrow> string option \<Rightarrow> nat option \<Rightarrow> string option" where
  "cutoff_of V cutoff max_age_days =
     (case cutoff of Some c \<Rightarrow> Some c | None \<Rightarrow> Option.bind max_age_days (rv_days_ago V))"

text \<open>What a call that replays nothing does.\<close>

definition pruned :: "ext \<Rightarrow> ret_env \<Rightarrow> retention_input \<Rightarrow> string \<Rightarrow> ret_db \<Rightarrow> retention_result \<Rightarrow> ret_db \<Rightarrow> bool" where
  "pruned X V i actor s r s' \<longleftrightarrow>
     (\<exists>target detail rows'. retention_target (ra_scope i) = Inr target
       \<and> retention_records i (db_audit (rd_store s)) = []
       \<and> rx_cutoff r = cutoff_of V (ra_cutoff i) (ra_max_age_days i)
       \<and> retention_candidate_report_for_target (rx_cutoff r) (ra_max_rows i) (rd_rows s (fst target)) = Inr (rx_report r)
       \<and> rx_planned r = planned_count (ra_limit i) (rr_matched_count (rx_report r))
       \<and> prune_loop (rx_cutoff r) (ra_max_rows i) (ra_batch_size i) (rx_planned r) 0 0 (rd_rows s (fst target))
          = Inr (rx_deleted r, rx_batches r, rows')
       \<and> audit_detail X (retention_event V i actor r) = Inr detail
       \<and> s' = s\<lparr>rd_rows := (rd_rows s)(fst target := rows'),
           rd_store := (rd_store s)\<lparr>db_audit := db_audit (rd_store s) @
               [(Suc (db_audit_seq (rd_store s)), (retention_event V i actor r)\<lparr>ae_detail_json := detail\<rparr>)],
             db_audit_seq := Suc (db_audit_seq (rd_store s))\<rparr>\<rparr>)"

definition admitted :: "ext \<Rightarrow> retention_input \<Rightarrow> string \<Rightarrow> bool" where
  "admitted X i actor \<longleftrightarrow> is_ok (validate_actor actor) \<and> is_ok (validate_retention_apply_input X i)"

lemma replay_None: "retention_apply_replay i actor log = Inr None \<Longrightarrow> retention_records i log = []"
  by (auto simp: retention_apply_replay_def rbind_Inr_iff Let_def split: list.splits if_splits)

lemma vcg_apply_cutoff [vcg_first]:
  "Q (cutoff_of V (ra_cutoff i) (ra_max_age_days i)) s \<Longrightarrow> outcome True (apply_cutoff V i) s Q"
  by (auto simp: apply_cutoff_def cutoff_of_def wp intro!: vcg_expect split: option.splits)

lemma vcg_prod: "(\<And>a b. x = (a, b) \<Longrightarrow> outcome p (f a b) s Q) \<Longrightarrow> outcome p (case x of (a, b) \<Rightarrow> f a b) s Q"
  by (cases x) simp

lemma apply_outcome:
  "outcome True (apply_retention X V i actor) s (\<lambda>r s'. admitted X i actor \<and>
     (retention_apply_replay i actor (db_audit (rd_store s)) = Inr (Some r) \<and> s' = s \<or> pruned X V i actor s r s'))"
  unfolding apply_retention_def Let_def
  by ((rule vcg_first vcg vcg_prod)+)
    (simp_all add: pruned_def admitted_def retention_event_def is_ok_def replay_None post_return)

lemma input_bounds:
  assumes "is_ok (validate_retention_apply_input X i)"
  shows "0 < ra_batch_size i" "ra_batch_size i \<le> 1000" "case ra_max_rows i of None \<Rightarrow> True | Some n \<Rightarrow> n \<le> i64_max"
  using assms
  by (auto simp: is_ok_def validate_retention_apply_input_def validate_age_and_rows_def result_simps
    MAX_RETENTION_BATCH_SIZE_def MAX_RETENTION_POLICY_ROWS_def i64_max_def split: option.splits sum.splits)

lemma admitted_input: "admitted X i actor \<Longrightarrow> is_ok (validate_retention_apply_input X i)"
  by (simp add: admitted_def)

lemmas admitted_bounds = input_bounds [OF admitted_input]

lemma report_counts:
  assumes "retention_candidate_report_for_target cutoff max_rows rows = Inr report"
  shows "rr_matched_count report = candidates cutoff max_rows rows" "candidates cutoff max_rows rows \<le> i64_max"
  using assms
  by (auto simp: retention_candidate_report_for_target_def rbind_Inr_iff Let_def split: if_splits)

lemma planned_le: "planned_count limit n \<le> n"
  by (simp add: planned_count_def split: option.splits)

lemma pruned_result:
  assumes "admitted X i actor" "pruned X V i actor s r s'" "retention_target (ra_scope i) = Inr target"
    "distinct (map fst (rd_rows s (fst target)))"
  shows "rx_deleted r = rx_planned r" "rx_batches r = batches_for (ra_batch_size i) (rx_planned r)"
    "rx_planned r = planned_count (ra_limit i) (candidates (rx_cutoff r) (ra_max_rows i) (rd_rows s (fst target)))"
    "rd_rows s' = (rd_rows s)(fst target := without_oldest (rx_planned r) (rd_rows s (fst target)))"
    "result_bounded r"
proof -
  let ?rows = "rd_rows s (fst target)"
  obtain detail rows' where run:
      "retention_candidate_report_for_target (rx_cutoff r) (ra_max_rows i) ?rows = Inr (rx_report r)"
      "rx_planned r = planned_count (ra_limit i) (rr_matched_count (rx_report r))"
      "prune_loop (rx_cutoff r) (ra_max_rows i) (ra_batch_size i) (rx_planned r) 0 0 ?rows = Inr (rx_deleted r, rx_batches r, rows')"
      "rd_rows s' = (rd_rows s)(fst target := rows')"
    using assms(2,3) by (auto simp: pruned_def)
  note n = report_counts [OF run(1)]
  have le: "rx_planned r \<le> candidates (rx_cutoff r) (ra_max_rows i) ?rows"
    by (simp add: run(2) n(1) planned_le)
  have "prune_loop (rx_cutoff r) (ra_max_rows i) (ra_batch_size i) (rx_planned r) 0 0 ?rows
      = Inr (rx_planned r, 0 + batches_for (ra_batch_size i) (rx_planned r - 0), without_oldest (rx_planned r - 0) ?rows)"
    using le n(2) admitted_bounds [OF assms(1)] assms(4)
    by (intro prune_loop_deletes) (simp_all add: i64_max_def)
  then have loop: "rx_deleted r = rx_planned r" "rx_batches r = batches_for (ra_batch_size i) (rx_planned r)"
      "rows' = without_oldest (rx_planned r) ?rows"
    using run(3) by simp_all
  then show "rx_deleted r = rx_planned r" "rx_batches r = batches_for (ra_batch_size i) (rx_planned r)"
    "rx_planned r = planned_count (ra_limit i) (candidates (rx_cutoff r) (ra_max_rows i) ?rows)"
    "rd_rows s' = (rd_rows s)(fst target := without_oldest (rx_planned r) ?rows)"
    by (simp_all add: run(4) run(2) n(1))
  show "result_bounded r"
    using loop(1,2) le n batches_for_le [of "ra_batch_size i" "rx_planned r"] admitted_bounds(1) [OF assms(1)]
    by (simp add: result_bounded_def i64_max_def u64_max_def)
qed

lemma without_oldest_iff:
  assumes "distinct rows" "n \<le> candidates cutoff max_rows rows" "r \<in> set rows" "r \<notin> set (without_oldest n rows)"
  shows "candidate cutoff max_rows rows r"
proof -
  have "r \<in> set (take n (by_age rows))"
    using assms(3,4) by (simp add: without_oldest_def)
  then have "r \<in> set (take (candidates cutoff max_rows rows) (by_age rows))"
    using set_take_subset_set_take [OF assms(2), of "by_age rows"] by auto
  then show ?thesis
    by (simp flip: candidates_are_oldest [OF assms(1)])
qed

text \<open>The audit record that a call leaves.\<close>

lemma pruned_records:
  assumes "pruned X V i actor s r s'"
  shows "\<exists>row. retention_records i (db_audit (rd_store s')) = [row] \<and> ae_actor row = actor
    \<and> (\<forall>k. k \<noteq> ''_audit'' \<longrightarrow> jget k (ae_detail_json row) = jget k (retention_apply_audit_json V i r))"
proof -
  obtain detail where run: "retention_records i (db_audit (rd_store s)) = []"
      "audit_detail X (retention_event V i actor r) = Inr detail"
      "db_audit (rd_store s') = db_audit (rd_store s) @
         [(Suc (db_audit_seq (rd_store s)), (retention_event V i actor r)\<lparr>ae_detail_json := detail\<rparr>)]"
    using assms by (auto simp: pruned_def)
  let ?row = "(retention_event V i actor r)\<lparr>ae_detail_json := detail\<rparr>"
  have stored: "jget k detail = jget k (retention_apply_audit_json V i r)" if "k \<noteq> ''_audit''" for k
    unfolding retention_apply_audit_json_def jget_jobj
    by (rule stored_detail [OF run(2) _ that]) (simp add: retention_event_def retention_apply_audit_json_def)
  have "jget ''target_id'' detail = Some (JStr (ra_scope i))"
    by (simp add: stored retention_apply_audit_json_def)
  then have "retention_records i (db_audit (rd_store s')) = [?row]"
    using run(1) by (simp add: run(3) retention_records_def retention_event_def ctl_audit_event_new_def)
  with stored show ?thesis
    by (simp add: retention_event_def ctl_audit_event_new_def)
qed

lemma apply_replays:
  assumes "admitted X i actor" "retention_apply_replay i actor (db_audit (rd_store s)) = Inr (Some r)"
  shows "run_tx (apply_retention X V i actor) s = (Inr r, s)"
proof -
  have "validate_actor actor = Inr ()" "validate_retention_apply_input X i = Inr ()"
    using assms(1) by (auto simp: admitted_def is_ok_def split: sum.splits)
  moreover obtain target where "retention_target (ra_scope i) = Inr target"
    using calculation(2) by (auto simp: validate_retention_apply_input_def rbind_Inr_iff)
  ultimately show ?thesis
    using assms(2)
    by (simp add: apply_retention_def run_tx_def tseq_def tbind_def ttry_def tread_def treturn_def map_err_def)
qed

section \<open>The command's calls\<close>

lemma cmd_simps:
  "call_store m s = (map_err cli_fault (fst (run_tx m s)), snd (run_tx m s))"
  "cmd_try r s = (map_err Fail r, s)"
  by (simp_all add: call_store_def cmd_try_def split: prod.splits)

lemma cmd_bindE:
  assumes "cmd_bind m f s = (Inr b, s')"
  obtains a s1 where "m s = (Inr a, s1)" "f a s1 = (Inr b, s')"
  using assms by (auto simp: cmd_bind_def split: prod.splits sum.splits)

lemma call_storeE:
  assumes "call_store m s = (Inr a, s')"
  shows "run_tx m s = (Inr a, s')"
  using assms by (cases "fst (run_tx m s)") (auto simp: cmd_simps prod_eq_iff)

lemma cmd_tryE: "cmd_try r s = (Inr a, s') \<longleftrightarrow> r = Inr a \<and> s' = s"
  by (cases r) (auto simp: cmd_simps)

lemma cmd_expectE: "cmd_expect x s = (Inr a, s') \<longleftrightarrow> x = Some a \<and> s' = s"
  by (cases x) (auto simp: cmd_expect_def)

definition policy_of :: "ret_db \<Rightarrow> string \<Rightarrow> retention_policy" where
  "policy_of s scope =
     (case find (\<lambda>p. rp_scope p = scope) (rd_policies s) of Some p \<Rightarrow> p | None \<Rightarrow> default_retention_policy scope)"

lemma effective_policy: "effective_retention_policy scope s = (Inr p, s') \<longleftrightarrow> s' = s \<and> p = policy_of s scope"
  by (auto simp: policy_of_def effective_retention_policy_def cmd_bind_def cmd_simps get_retention_policy_def run_tx_def tread_def)

lemma retention_cutoff_result:
  assumes "retention_cutoff V p s = (Inr c, s')"
  shows "s' = s \<and> c = Option.bind (rp_max_age_days p) (rv_days_ago V)"
  using assms
  by (auto simp: retention_cutoff_def cmd_tryE cmd_expectE elim!: cmd_bindE split: option.splits)

lemma candidate_report_result:
  assumes "run_tx (retention_candidate_report scope cutoff max_rows) s = (Inr report, s')"
    "retention_target scope = Inr target"
  shows "s' = s" "rr_matched_count report = candidates cutoff max_rows (rd_rows s (fst target))"
  using assms report_counts(1) [of cutoff max_rows "rd_rows s (fst target)" report]
  by (auto simp: retention_candidate_report_def run_tx_def tbind_def ttry_def tread_def split: sum.splits)

lemma pruned_cutoff: "pruned X V i actor s r s' \<Longrightarrow> rx_cutoff r = cutoff_of V (ra_cutoff i) (ra_max_age_days i)"
  unfolding pruned_def by blast

lemma pruned_target: "pruned X V i actor s r s' \<Longrightarrow> \<exists>target. retention_target (ra_scope i) = Inr target"
  unfolding pruned_def by blast

lemma apply_new:
  assumes "run_tx (apply_retention X V i actor) s = (Inr r, s')" "retention_records i (db_audit (rd_store s)) = []"
  shows "admitted X i actor" "pruned X V i actor s r s'"
  using post_run [OF apply_outcome assms(1)] assms(2) by (auto simp: retention_apply_replay_def)

lemma dry_run_call:
  assumes "apply_retention_scope X V scope (a\<lparr>sa_dry_run := True\<rparr>) s = (Inr plan, s1)"
  shows "\<exists>report. let c = cutoff_of V (sa_explicit_cutoff a) (rp_max_age_days (policy_of s scope)) in
    run_tx (retention_candidate_report scope c (rp_max_rows (policy_of s scope))) s = (Inr report, s1)
    \<and> sr_result plan = \<lparr>rx_cutoff = c, rx_report = report,
        rx_planned = planned_count (sa_limit a) (rr_matched_count report), rx_deleted = 0, rx_batches = 0\<rparr>"
  using assms
  by (auto simp: apply_retention_scope_def effective_policy cmd_tryE scope_report_def Let_def cutoff_of_def
    elim!: cmd_bindE dest!: call_storeE retention_cutoff_result)

lemma real_run_call:
  assumes "apply_retention_scope X V scope (a\<lparr>sa_dry_run := False\<rparr>) s = (Inr done, s2)"
  shows "\<exists>i. sa_operation_id a = Some (ra_operation_id i) \<and> ra_scope i = scope \<and> ra_cutoff i = sa_explicit_cutoff a
    \<and> ra_max_age_days i = rp_max_age_days (policy_of s scope) \<and> ra_max_rows i = rp_max_rows (policy_of s scope)
    \<and> ra_limit i = sa_limit a \<and> run_tx (apply_retention X V i (sa_actor a)) s = (Inr (sr_result done), s2)"
proof -
  obtain operation_id where "sa_operation_id a = Some operation_id"
      and "call_store (apply_retention X V
        \<lparr>ra_operation_id = operation_id, ra_scope = scope, ra_cutoff = sa_explicit_cutoff a,
         ra_max_age_days = rp_max_age_days (policy_of s scope), ra_max_rows = rp_max_rows (policy_of s scope),
         ra_limit = sa_limit a, ra_batch_size = sa_batch_size a\<rparr> (sa_actor a)) s = (Inr (sr_result done), s2)"
        (is "call_store (apply_retention X V ?i _) s = _")
    using assms
    by (auto simp: apply_retention_scope_def effective_policy cmd_tryE cmd_expectE scope_report_def elim!: cmd_bindE)
  then show ?thesis
    by (intro exI [of _ ?i] conjI call_storeE) simp_all
qed

section \<open>Example\<close>

definition retention_example_env :: ret_env where
  "retention_example_env =
     \<lparr>rv_now_text = ''2026Z'', rv_days_ago = (\<lambda>d. Some ''2025Z''), rv_sha256_json = (\<lambda>_. ''0a'')\<rparr>"

definition retention_example_rows :: "trow list" where
  "retention_example_rows = [(3, ''2026Z''), (1, ''2023Z''), (2, ''2024Z'')]"

definition retention_example_db :: ret_db where
  "retention_example_db = \<lparr>rd_store = empty_db, rd_policies = [],
     rd_rows = (\<lambda>t. if t = ''probe_observations'' then retention_example_rows else [])\<rparr>"

definition retention_example_apply :: retention_scope_apply where
  "retention_example_apply = \<lparr>sa_dry_run = False,
     sa_operation_id = Some ''retention-00000000-0000-4000-8000-000000000001'', sa_actor = ''a'',
     sa_explicit_cutoff = None, sa_limit = None, sa_batch_size = 1\<rparr>"

definition retention_example_input :: retention_input where
  "retention_example_input =
     \<lparr>ra_operation_id = ''retention-00000000-0000-4000-8000-000000000001'', ra_scope = ''observations'',
      ra_cutoff = None, ra_max_age_days = Some 30, ra_max_rows = Some 100000, ra_limit = None, ra_batch_size = 1\<rparr>"

definition retention_example_result :: retention_result where
  "retention_example_result = \<lparr>rx_cutoff = Some ''2025Z'',
     rx_report = \<lparr>rr_matched_count = 2, rr_oldest = Some ''2023Z'', rr_newest = Some ''2024Z''\<rparr>,
     rx_planned = 2, rx_deleted = 2, rx_batches = 2\<rparr>"

text \<open>Two of the three rows are older than the cutoff and are deleted in two batches.\<close>

lemma retention_example_valid: "is_ok (validate_retention_apply_input example_ext retention_example_input)"
  by code_simp

lemma retention_example_report:
  "retention_candidate_report_for_target (Some ''2025Z'') (ra_max_rows retention_example_input) retention_example_rows
     = Inr (rx_report retention_example_result)"
  by code_simp

lemma retention_example_run:
  "fst (run_tx (apply_retention example_ext retention_example_env retention_example_input ''a'') retention_example_db)
     = Inr retention_example_result"
  by code_simp

lemma retention_example_distinct: "distinct (map fst (rd_rows retention_example_db tbl))"
  by (simp add: retention_example_db_def retention_example_rows_def)

definition retention_example_after :: ret_db where
  "retention_example_after =
     snd (run_tx (apply_retention example_ext retention_example_env retention_example_input ''a'') retention_example_db)"

lemma retention_example_commits:
  "run_tx (apply_retention example_ext retention_example_env retention_example_input ''a'') retention_example_db
     = (Inr retention_example_result, retention_example_after)"
  by (simp add: retention_example_after_def prod_eq_iff retention_example_run)

lemma retention_example_policy:
  "policy_of retention_example_db ''observations'' = default_retention_policy ''observations''"
  by (simp add: policy_of_def retention_example_db_def)

lemma retention_example_rest: "without_oldest 2 retention_example_rows = [(3, ''2026Z'')]"
  by code_simp

lemma retention_example_target: "retention_target ''observations'' = Inr (''probe_observations'', ''observed_at'')"
  by (simp add: retention_target_def)

lemma retention_example_plan:
  "apply_retention_scope example_ext retention_example_env ''observations'' (retention_example_apply\<lparr>sa_dry_run := True\<rparr>)
       retention_example_db
     = (Inr (scope_report retention_example_env ''observations'' True (Some 100000) 1 None
          (retention_example_result\<lparr>rx_deleted := 0, rx_batches := 0\<rparr>)), retention_example_db)"
proof -
  let ?p = "default_retention_policy ''observations''"
  have "effective_retention_policy ''observations'' retention_example_db = (Inr ?p, retention_example_db)"
    by (simp add: effective_policy retention_example_policy)
  moreover have "retention_cutoff retention_example_env ?p retention_example_db = (Inr (Some ''2025Z''), retention_example_db)"
    by (simp add: retention_cutoff_def default_retention_policy_def cmd_bind_def cmd_simps cmd_expect_def
      retention_example_env_def i64_max_def)
  moreover have "run_tx (retention_candidate_report ''observations'' (Some ''2025Z'') (Some 100000)) retention_example_db
      = (Inr (rx_report retention_example_result), retention_example_db)"
    using retention_example_report
    by (simp add: retention_candidate_report_def run_tx_def tbind_def tread_def ttry_def retention_example_target
      retention_example_db_def retention_example_input_def)
  ultimately show ?thesis
    by (simp add: apply_retention_scope_def cmd_bind_def cmd_simps retention_example_apply_def Let_def)
      (simp add: cmd_simps default_retention_policy_def retention_example_result_def planned_count_def)
qed

lemma retention_example_done:
  "apply_retention_scope example_ext retention_example_env ''observations'' (retention_example_apply\<lparr>sa_dry_run := False\<rparr>)
       retention_example_db
     = (Inr (scope_report retention_example_env ''observations'' False (Some 100000) 1 None retention_example_result),
        retention_example_after)"
proof -
  have "effective_retention_policy ''observations'' retention_example_db
      = (Inr (default_retention_policy ''observations''), retention_example_db)"
    by (simp add: effective_policy retention_example_policy)
  then show ?thesis
    using retention_example_commits
    by (simp add: apply_retention_scope_def cmd_bind_def cmd_simps cmd_expect_def retention_example_apply_def
      retention_example_input_def default_retention_policy_def)
qed

section \<open>Properties\<close>

text \<open>C22. Within the bounds that the store validates, the deletion loop ends: it deletes exactly the planned
  number of rows, the oldest ones, and needs exactly as many batches as they fill. No conversion and no counter
  overflows.\<close>

theorem prune_loop_ends:
  assumes "is_ok (validate_retention_apply_input X i)" "distinct (map fst rows)"
    "retention_candidate_report_for_target cutoff (ra_max_rows i) rows = Inr report"
  shows "let planned = planned_count (ra_limit i) (rr_matched_count report) in
    prune_loop cutoff (ra_max_rows i) (ra_batch_size i) planned 0 0 rows
      = Inr (planned, batches_for (ra_batch_size i) planned, without_oldest planned rows)"
proof -
  let ?planned = "planned_count (ra_limit i) (rr_matched_count report)"
  have "?planned \<le> candidates cutoff (ra_max_rows i) rows"
    by (simp add: report_counts(1) [OF assms(3)] planned_le)
  moreover have "candidates cutoff (ra_max_rows i) rows \<le> i64_max"
    by (rule report_counts(2) [OF assms(3)])
  ultimately have "prune_loop cutoff (ra_max_rows i) (ra_batch_size i) ?planned 0 0 rows
      = Inr (?planned, 0 + batches_for (ra_batch_size i) (?planned - 0), without_oldest (?planned - 0) rows)"
    using input_bounds [OF assms(1)] assms(2)
    by (intro prune_loop_deletes) (simp_all add: i64_max_def)
  then show ?thesis
    by (simp add: Let_def)
qed

theorem prune_loop_ends_witness:
  "prune_loop (Some ''2025Z'') (Some 100000) 1 2 0 0 retention_example_rows = Inr (2, 2, [(3, ''2026Z'')])"
  using prune_loop_ends [of example_ext retention_example_input retention_example_rows "Some ''2025Z''",
      OF retention_example_valid _ retention_example_report] retention_example_distinct [of "''probe_observations''"]
  by (simp add: retention_example_db_def retention_example_rest
    retention_example_input_def retention_example_result_def planned_count_def batches_for_def Let_def)



text \<open>C21. Retrying an operation is idempotent: once it has been applied, the same call by the same actor, at any
  later time, gives the same result and changes nothing.\<close>

theorem retention_retry_idempotent:
  assumes "run_tx (apply_retention X V i actor) s = (Inr r, s')" "\<forall>tbl. distinct (map fst (rd_rows s tbl))"
  shows "run_tx (apply_retention X V' i actor) s' = (Inr r, s')"
proof -
  have ok: "admitted X i actor"
    and "retention_apply_replay i actor (db_audit (rd_store s)) = Inr (Some r) \<and> s' = s \<or> pruned X V i actor s r s'"
    using post_run [OF apply_outcome assms(1)] by blast+
  then show ?thesis
  proof (elim disjE conjE)
    assume new: "pruned X V i actor s r s'"
    obtain target where "retention_target (ra_scope i) = Inr target"
      using new by (auto simp: pruned_def)
    then have bounded: "result_bounded r"
      using pruned_result(5) [OF ok new] assms(2) by simp
    have size: "ra_batch_size i \<le> u64_max"
      using admitted_bounds(2) [OF ok] by (simp add: u64_max_def)
    obtain row where row: "retention_records i (db_audit (rd_store s')) = [row]" "ae_actor row = actor"
        "\<forall>k. k \<noteq> ''_audit'' \<longrightarrow> jget k (ae_detail_json row) = jget k (retention_apply_audit_json V i r)"
      using pruned_records [OF new] by blast
    show ?thesis
      by (rule apply_replays [OF ok replay_of_record [OF row(1,2) _ size bounded]]) (simp add: row(3))
  qed (simp add: apply_replays [OF ok])
qed

theorem retention_retry_idempotent_witness:
  "run_tx (apply_retention example_ext (retention_example_env\<lparr>rv_days_ago := \<lambda>_. Some ''2027Z''\<rparr>)
       retention_example_input ''a'') retention_example_after
     = (Inr retention_example_result, retention_example_after)"
  using retention_retry_idempotent [OF retention_example_commits] retention_example_distinct by simp

text \<open>C23. A dry run changes nothing and announces what the operation then does: applied to the same state with the
  same clock, a new operation deletes exactly the number of rows that the dry run plans, with the same cutoff.\<close>

theorem retention_dry_run_predicts:
  assumes "apply_retention_scope X V scope (a\<lparr>sa_dry_run := True\<rparr>) s = (Inr plan, s1)"
    "apply_retention_scope X V scope (a\<lparr>sa_dry_run := False\<rparr>) s = (Inr done, s2)"
    "\<forall>row \<in> set (db_audit (rd_store s)). ae_request_id (snd row) \<noteq> sa_operation_id a"
    "\<forall>tbl. distinct (map fst (rd_rows s tbl))"
  shows "s1 = s \<and> rx_cutoff (sr_result done) = rx_cutoff (sr_result plan)
    \<and> rx_planned (sr_result done) = rx_planned (sr_result plan)
    \<and> rx_deleted (sr_result done) = rx_planned (sr_result plan) \<and> rx_deleted (sr_result plan) = 0"
proof -
  let ?p = "policy_of s scope"
  let ?c = "cutoff_of V (sa_explicit_cutoff a) (rp_max_age_days ?p)"
  obtain report where plan: "run_tx (retention_candidate_report scope ?c (rp_max_rows ?p)) s = (Inr report, s1)"
      "sr_result plan = \<lparr>rx_cutoff = ?c, rx_report = report,
        rx_planned = planned_count (sa_limit a) (rr_matched_count report), rx_deleted = 0, rx_batches = 0\<rparr>"
    using dry_run_call [OF assms(1)] unfolding Let_def by blast
  obtain i where i: "sa_operation_id a = Some (ra_operation_id i)" "ra_scope i = scope" "ra_cutoff i = sa_explicit_cutoff a"
      "ra_max_age_days i = rp_max_age_days ?p" "ra_max_rows i = rp_max_rows ?p" "ra_limit i = sa_limit a"
      and run: "run_tx (apply_retention X V i (sa_actor a)) s = (Inr (sr_result done), s2)"
    using real_run_call [OF assms(2)] by blast
  have "retention_records i (db_audit (rd_store s)) = []"
    using assms(3) i(1) by (auto simp: retention_records_def filter_empty_conv)
  note new = apply_new [OF run this]
  obtain target where target: "retention_target scope = Inr target"
    using pruned_target [OF new(2)] i(2) by auto
  then have "retention_target (ra_scope i) = Inr target"
    by (simp add: i(2))
  note facts = pruned_result(1,3) [OF new this] pruned_cutoff [OF new(2)]
  show ?thesis
    using candidate_report_result [OF plan(1) target] facts assms(4) by (simp add: plan(2) i)
qed

theorem retention_dry_run_predicts_witness:
  "rx_deleted retention_example_result
     = rx_planned (retention_example_result\<lparr>rx_deleted := 0, rx_batches := 0\<rparr>)"
  using retention_dry_run_predicts [OF retention_example_plan retention_example_done] retention_example_distinct
  by (simp add: retention_example_db_def empty_db_def scope_report_def)

end
