(* ===== verification/Api_Auth.thy ===== *)
theory Api_Auth
  imports Observability_Payloads "HOL-Library.Word"
begin

unbundle bit_operations_syntax

text \<open>
  Authentication and authorization of the read-only HTTP API (\<open>ocfleet-api/src/auth.rs\<close>, \<open>authorize\<close> of
  \<open>routes.rs\<close>): roles and permissions, the configuration of identities, and the decision for a request by its
  headers.

  Third-party code is the record \<open>api_ext\<close>: SHA-256, the Ed25519 verification, and the typed decoders that
  \<open>serde\<close> derives for the two JSON segments of a token and for a key set. A header is the first value of its
  name that is visible ASCII text, which is how every reader in the sources takes it.
\<close>

section \<open>Roles and permissions\<close>

datatype role = Viewer | Operator | SecurityAdmin | ChangeApprover | Auditor

datatype permission =
    FleetRead | AuditRead | MetricsRead | HealthRead
  | ControlledWriteCreate | ControlledWriteApprove | SecurityAdminister

datatype authentication_method = LocalDevelopment | LegacyBearer | Oidc | Mtls | ServiceAccountToken | BreakGlass

text \<open>\<open>derive(PartialOrd, Ord)\<close>: the order of the variants.\<close>

fun role_rank :: "role \<Rightarrow> nat" where
  "role_rank Viewer = 0"
| "role_rank Operator = 1"
| "role_rank SecurityAdmin = 2"
| "role_rank ChangeApprover = 3"
| "role_rank Auditor = 4"

lemma role_rank_inject [simp]: "role_rank r = role_rank r' \<longleftrightarrow> r = r'"
  by (cases r; cases r') simp_all

instantiation role :: linorder
begin

definition less_eq_role :: "role \<Rightarrow> role \<Rightarrow> bool" where
  "less_eq_role r r' \<longleftrightarrow> role_rank r \<le> role_rank r'"

definition less_role :: "role \<Rightarrow> role \<Rightarrow> bool" where
  "less_role r r' \<longleftrightarrow> role_rank r < role_rank r'"

instance
  by standard (auto simp: less_eq_role_def less_role_def)

end

fun role_as_str :: "role \<Rightarrow> string" where
  "role_as_str Viewer = ''viewer''"
| "role_as_str Operator = ''operator''"
| "role_as_str SecurityAdmin = ''security-admin''"
| "role_as_str ChangeApprover = ''change-approver''"
| "role_as_str Auditor = ''auditor''"

definition role_parse :: "string \<Rightarrow> string + role" where
  "role_parse value =
     (if value = ''viewer'' then Inr Viewer
      else if value = ''operator'' then Inr Operator
      else if value = ''security-admin'' then Inr SecurityAdmin
      else if value = ''change-approver'' then Inr ChangeApprover
      else if value = ''auditor'' then Inr Auditor
      else Inl ''unknown RBAC role'')"

definition role_permits :: "role \<Rightarrow> permission \<Rightarrow> bool" where
  "role_permits r p \<longleftrightarrow>
     r \<in> {Viewer, Operator, SecurityAdmin} \<and> p \<in> {FleetRead, AuditRead, MetricsRead, HealthRead}
   \<or> r = Auditor \<and> p \<in> {AuditRead, HealthRead}
   \<or> r \<in> {Operator, SecurityAdmin} \<and> p = ControlledWriteCreate
   \<or> r \<in> {ChangeApprover, SecurityAdmin} \<and> p = ControlledWriteApprove
   \<or> r = SecurityAdmin \<and> p = SecurityAdminister"

section \<open>Principals\<close>

record principal =
  pr_id :: string
  pr_roles :: "role set"
  pr_method :: authentication_method
  pr_authenticated :: bool

definition principal_role :: "principal \<Rightarrow> role" where
  "principal_role p = (if pr_roles p = {} then Viewer else Min (pr_roles p))"

definition principal_permits :: "principal \<Rightarrow> permission \<Rightarrow> bool" where
  "principal_permits p perm \<longleftrightarrow> (\<exists>r \<in> pr_roles p. role_permits r perm)"

definition local_viewer :: principal where
  "local_viewer = \<lparr>pr_id = ''local-development'', pr_roles = {Viewer}, pr_method = LocalDevelopment,
     pr_authenticated = False\<rparr>"

definition authenticated_viewer :: principal where
  "authenticated_viewer = \<lparr>pr_id = ''legacy-bearer'', pr_roles = {Viewer}, pr_method = LegacyBearer,
     pr_authenticated = True\<rparr>"

section \<open>Third-party functions\<close>

type_synonym bytes = "8 word list"

record jwt_header =
  jh_alg :: string
  jh_kid :: string
  jh_typ :: "string option"

datatype audience = One string | Many "string list"

record jwt_claims =
  jc_iss :: string
  jc_aud :: audience
  jc_sub :: string
  jc_exp :: int
  jc_nbf :: "int option"
  jc_extra :: "string \<Rightarrow> json option"

record jwk =
  jk_kty :: string
  jk_crv :: string
  jk_alg :: string
  jk_use :: string
  jk_kid :: string
  jk_x :: string

text \<open>The arguments of \<open>ax_verify\<close> are the public key, the message and the signature; \<open>ax_base64\<close> and
  \<open>ax_base64_std\<close> are the unpadded URL-safe and the standard decoder; \<open>ax_read_jwks\<close> reads and decodes a
  key-set file.\<close>

record api_ext =
  ax_sha256 :: "string \<Rightarrow> bytes"
  ax_verify :: "bytes \<Rightarrow> string \<Rightarrow> bytes \<Rightarrow> bool"
  ax_base64 :: "string \<Rightarrow> bytes option"
  ax_base64_std :: "string \<Rightarrow> bytes option"
  ax_jwt_header :: "bytes \<Rightarrow> jwt_header option"
  ax_jwt_claims :: "bytes \<Rightarrow> jwt_claims option"
  ax_read_jwks :: "string \<Rightarrow> string + jwk list"

text \<open>A SHA-256 digest has 32 bytes.\<close>

definition sha256_sized :: "api_ext \<Rightarrow> bool" where
  "sha256_sized A \<longleftrightarrow> (\<forall>s. length (ax_sha256 A s) = 32)"

section \<open>Tokens and texts\<close>

definition MAX_TOKEN_BYTES :: nat where "MAX_TOKEN_BYTES = 16 * 1024"
definition MIN_TOKEN_BYTES :: nat where "MIN_TOKEN_BYTES = 32"
definition MAX_AUTH_ENTRIES :: nat where "MAX_AUTH_ENTRIES = 256"
definition MAX_JWT_SEGMENT_BYTES :: nat where "MAX_JWT_SEGMENT_BYTES = 12 * 1024"

text \<open>\<open>constant_time_eq\<close> accumulates the differences of two arrays of 32 bytes.\<close>

definition digest_eq :: "bytes \<Rightarrow> bytes \<Rightarrow> bool" where
  "digest_eq left right = (foldl (\<lambda>diff (l, r). diff OR (l XOR r)) 0 (zip left right) = 0)"

definition is_ascii_whitespace :: "char \<Rightarrow> bool" where
  "is_ascii_whitespace c \<longleftrightarrow> byte c \<in> {32, 9, 10, 12, 13}"

definition validate_token :: "string \<Rightarrow> string + unit" where
  "validate_token token = all_ok [
     ensure (MIN_TOKEN_BYTES \<le> length token \<and> length token \<le> MAX_TOKEN_BYTES)
       (''auth token must be between '' @ show_nat MIN_TOKEN_BYTES @ '' and '' @ show_nat MAX_TOKEN_BYTES @ '' bytes''),
     ensure (\<not> list_ex (\<lambda>b. is_ascii_control b \<or> is_ascii_whitespace b) token)
       ''auth token must not contain whitespace or control characters'']"

definition validate_identity_text :: "string \<Rightarrow> string \<Rightarrow> string + string" where
  "validate_identity_text value field =
     (if trim value = [] \<or> length value > 256 \<or> list_ex (\<lambda>b. \<not> is_ascii_byte b \<or> is_ascii_control b) value
      then Inl (field @ '' is invalid'') else Inr value)"

fun hex_pairs :: "string \<Rightarrow> bytes" where
  "hex_pairs (h # l # rest) =
     of_nat (16 * the (hex_value h) + the (hex_value l)) # hex_pairs rest"
| "hex_pairs _ = []"

text \<open>The digits have been checked when they are converted, so \<open>from_str_radix\<close> succeeds.\<close>

definition parse_sha256 :: "string \<Rightarrow> string \<Rightarrow> string + bytes" where
  "parse_sha256 value field =
     (if length value \<noteq> 64 \<or> \<not> list_all (\<lambda>b. is_ascii_hexdigit b \<and> \<not> is_ascii_uppercase b) value
      then Inl (field @ '' must be lowercase SHA-256 hex'')
      else Inr (hex_pairs value))"

definition parse_roles :: "string list \<Rightarrow> string + role set" where
  "parse_roles values =
     (if values = [] \<or> length values > 5 then Inl ''identity must have 1-5 roles''
      else rbind (map_ok role_parse values) (\<lambda>roles. Inr (set roles)))"

text \<open>\<open>trim_end_matches(['\r', '\n'])\<close>\<close>

definition trim_line_end :: "string \<Rightarrow> string" where
  "trim_line_end s = rev (dropWhile (\<lambda>c. byte c \<in> {10, 13}) (rev s))"

definition from_token_text :: "api_ext \<Rightarrow> string \<Rightarrow> string + bytes" where
  "from_token_text A raw =
     (let token = trim_line_end raw in rbind (validate_token token) (\<lambda>_. Inr (ax_sha256 A token)))"

section \<open>Configuration\<close>

record service_account_file =
  sf_principal_id :: string
  sf_token_sha256 :: string
  sf_expires_at :: string
  sf_roles :: "string list"

record break_glass_file =
  bf_enabled :: bool
  bf_account :: service_account_file

record mtls_identity_file =
  mf_subject :: string
  mf_principal_id :: string
  mf_roles :: "string list"

record oidc_key_file =
  kf_kid :: string
  kf_algorithm :: string
  kf_public_key :: string

record oidc_file =
  of_issuer :: string
  of_audience :: string
  of_groups_claim :: string
  of_keys :: "oidc_key_file list"
  of_jwks_file :: "string option"
  of_role_mappings :: "(string \<times> string) list"

record auth_config_file =
  af_local_development :: bool
  af_mtls_proxy_secret :: "string option"
  af_service_accounts :: "service_account_file list"
  af_oidc :: "oidc_file option"
  af_mtls_subjects :: "mtls_identity_file list"
  af_break_glass :: "break_glass_file option"

record service_account =
  sc_principal_id :: string
  sc_token_digest :: bytes
  sc_expires_at :: int
  sc_roles :: "role set"

record mtls_identity =
  mi_principal_id :: string
  mi_roles :: "role set"

record oidc_verifier =
  ov_issuer :: string
  ov_audience :: string
  ov_groups_claim :: string
  ov_keys :: "string \<rightharpoonup> bytes"
  ov_mappings :: "string \<rightharpoonup> role set"

record auth_config =
  ac_local_development :: bool
  ac_mtls_proxy_secret :: "bytes option"
  ac_service_accounts :: "service_account list"
  ac_oidc :: "oidc_verifier option"
  ac_mtls_subjects :: "(string \<times> mtls_identity) list"
  ac_break_glass :: "service_account option"

definition service_account_try_from :: "ext \<Rightarrow> service_account_file \<Rightarrow> string + service_account" where
  "service_account_try_from X f =
     rbind (validate_identity_text (sf_principal_id f) ''principal_id'') (\<lambda>principal_id.
     rbind (parse_sha256 (sf_token_sha256 f) ''token_sha256'') (\<lambda>digest.
     rbind (ok_or (parse_rfc3339 X (sf_expires_at f)) ''service-account expiry must be RFC3339'') (\<lambda>expires_at.
     rbind (parse_roles (sf_roles f)) (\<lambda>roles.
     Inr \<lparr>sc_principal_id = principal_id, sc_token_digest = digest, sc_expires_at = expires_at, sc_roles = roles\<rparr>))))"

definition mtls_identity_try_from :: "mtls_identity_file \<Rightarrow> string + mtls_identity" where
  "mtls_identity_try_from f =
     rbind (validate_identity_text (mf_principal_id f) ''principal_id'') (\<lambda>principal_id.
     rbind (parse_roles (mf_roles f)) (\<lambda>roles.
     Inr \<lparr>mi_principal_id = principal_id, mi_roles = roles\<rparr>))"

fun insert_subjects ::
    "mtls_identity_file list \<Rightarrow> (string \<times> mtls_identity) list \<Rightarrow> string + (string \<times> mtls_identity) list" where
  "insert_subjects [] m = Inr m"
| "insert_subjects (f # fs) m =
     rbind (validate_identity_text (mf_subject f) ''mTLS subject'') (\<lambda>subject.
     rbind (mtls_identity_try_from f) (\<lambda>identity.
     if map_of m subject \<noteq> None then Inl ''auth config contains a duplicate mTLS subject''
     else insert_subjects fs (m @ [(subject, identity)])))"

definition jwk_entry :: "jwk \<Rightarrow> string + oidc_key_file" where
  "jwk_entry k =
     (if jk_kty k \<noteq> ''OKP'' \<or> jk_crv k \<noteq> ''Ed25519'' \<or> jk_alg k \<noteq> ''EdDSA'' \<or> jk_use k \<noteq> ''sig''
      then Inl ''OIDC JWKS key must be an Ed25519 signing key''
      else Inr \<lparr>kf_kid = jk_kid k, kf_algorithm = jk_alg k, kf_public_key = jk_x k\<rparr>)"

fun insert_oidc_keys :: "api_ext \<Rightarrow> oidc_key_file list \<Rightarrow> (string \<rightharpoonup> bytes) \<Rightarrow> string + (string \<rightharpoonup> bytes)" where
  "insert_oidc_keys A [] m = Inr m"
| "insert_oidc_keys A (k # ks) m =
     rbind (ensure (kf_algorithm k = ''EdDSA'') ''OIDC key algorithm must be EdDSA'') (\<lambda>_.
     rbind (validate_identity_text (kf_kid k) ''OIDC key id'') (\<lambda>kid.
     rbind (ok_or (ax_base64 A (kf_public_key k)) ''OIDC Ed25519 key is invalid'') (\<lambda>decoded.
     rbind (ensure (length decoded = 32) ''OIDC Ed25519 key must be 32 bytes'') (\<lambda>_.
     if m kid \<noteq> None then Inl ''OIDC key id is duplicated'' else insert_oidc_keys A ks (m(kid \<mapsto> decoded))))))"

fun insert_mappings :: "(string \<times> string) list \<Rightarrow> (string \<rightharpoonup> role set) \<Rightarrow> string + (string \<rightharpoonup> role set)" where
  "insert_mappings [] m = Inr m"
| "insert_mappings (gr # grs) m =
     rbind (validate_identity_text (fst gr) ''OIDC group'') (\<lambda>group.
     rbind (role_parse (snd gr)) (\<lambda>role.
     insert_mappings grs (m(group \<mapsto> insert role (case m group of None \<Rightarrow> {} | Some rs \<Rightarrow> rs)))))"

definition oidc_try_from :: "api_ext \<Rightarrow> oidc_file \<Rightarrow> string + oidc_verifier" where
  "oidc_try_from A f =
     rbind (validate_identity_text (of_issuer f) ''OIDC issuer'') (\<lambda>issuer.
     rbind (validate_identity_text (of_audience f) ''OIDC audience'') (\<lambda>audience.
     rbind (validate_identity_text (of_groups_claim f) ''OIDC groups claim'') (\<lambda>groups_claim.
     rbind (case of_jwks_file f of
         None \<Rightarrow> Inr []
       | Some path \<Rightarrow>
           rbind (ensure (starts_with ''/'' path) ''OIDC jwks_file must be absolute'') (\<lambda>_.
           rbind (ax_read_jwks A path) (map_ok jwk_entry))) (\<lambda>extra.
     let keys = of_keys f @ extra in
     rbind (ensure (\<not> (keys = [] \<or> length keys > MAX_AUTH_ENTRIES)) ''OIDC must configure 1-256 JWKS keys'') (\<lambda>_.
     rbind (insert_oidc_keys A keys Map.empty) (\<lambda>key_map.
     rbind (insert_mappings (of_role_mappings f) Map.empty) (\<lambda>mappings.
     Inr \<lparr>ov_issuer = issuer, ov_audience = audience, ov_groups_claim = groups_claim, ov_keys = key_map,
       ov_mappings = mappings\<rparr>)))))))"

definition break_glass_try_from :: "ext \<Rightarrow> int \<Rightarrow> break_glass_file \<Rightarrow> string + service_account" where
  "break_glass_try_from X now f =
     rbind (ensure (bf_enabled f) ''break-glass identity must be explicitly enabled'') (\<lambda>_.
     rbind (service_account_try_from X (bf_account f)) (\<lambda>account.
     rbind (ensure (SecurityAdmin \<in> sc_roles account) ''break-glass identity must include security-admin'') (\<lambda>_.
     rbind (ensure (\<not> (sc_expires_at account \<le> now \<or> sc_expires_at account > now + ns_of_secs 3600))
       ''break-glass expiry must be within one hour'') (\<lambda>_.
     Inr account))))"

text \<open>\<open>AuthConfig::from_private_file\<close> from the decoded file on.\<close>

definition auth_config_from_file :: "ext \<Rightarrow> api_ext \<Rightarrow> int \<Rightarrow> auth_config_file \<Rightarrow> string + auth_config" where
  "auth_config_from_file X A now f =
     rbind (ensure (\<not> (length (af_service_accounts f) > MAX_AUTH_ENTRIES \<or> length (af_mtls_subjects f) > MAX_AUTH_ENTRIES))
       ''auth config contains too many identities'') (\<lambda>_.
     rbind (case af_mtls_proxy_secret f of
         None \<Rightarrow> Inr None
       | Some v \<Rightarrow> rbind (parse_sha256 v ''mtls_proxy_secret_sha256'') (\<lambda>d. Inr (Some d))) (\<lambda>secret.
     rbind (ensure (\<not> (af_mtls_subjects f = [] \<and> secret \<noteq> None))
       ''mTLS proxy secret requires at least one mTLS subject mapping'') (\<lambda>_.
     rbind (ensure (\<not> (af_mtls_subjects f \<noteq> [] \<and> secret = None))
       ''mTLS subject mappings require mtls_proxy_secret_sha256'') (\<lambda>_.
     rbind (map_ok (service_account_try_from X) (af_service_accounts f)) (\<lambda>accounts.
     rbind (case af_break_glass f of
         None \<Rightarrow> Inr None
       | Some b \<Rightarrow> rbind (break_glass_try_from X now b) (\<lambda>a. Inr (Some a))) (\<lambda>break_glass.
     rbind (insert_subjects (af_mtls_subjects f) []) (\<lambda>subjects.
     rbind (case af_oidc f of None \<Rightarrow> Inr None | Some fo \<Rightarrow> rbind (oidc_try_from A fo) (\<lambda>v. Inr (Some v))) (\<lambda>oidc.
     Inr \<lparr>ac_local_development = af_local_development f, ac_mtls_proxy_secret = secret,
       ac_service_accounts = accounts, ac_oidc = oidc, ac_mtls_subjects = subjects,
       ac_break_glass = break_glass\<rparr>))))))))"

definition has_remote_method :: "auth_config \<Rightarrow> bool" where
  "has_remote_method c \<longleftrightarrow>
     ac_service_accounts c \<noteq> [] \<or> ac_oidc c \<noteq> None \<or> ac_mtls_subjects c \<noteq> [] \<or> ac_break_glass c \<noteq> None"

record authenticator =
  au_legacy_bearer :: "bytes option"
  au_config :: auth_config

definition authenticator_load ::
    "ext \<Rightarrow> api_ext \<Rightarrow> int \<Rightarrow> bytes option \<Rightarrow> auth_config_file option \<Rightarrow> string + authenticator" where
  "authenticator_load X A now legacy file =
     rbind (case file of
         Some f \<Rightarrow> auth_config_from_file X A now f
       | None \<Rightarrow> Inr \<lparr>ac_local_development = (legacy = None), ac_mtls_proxy_secret = None,
           ac_service_accounts = [], ac_oidc = None, ac_mtls_subjects = [], ac_break_glass = None\<rparr>) (\<lambda>config.
     if ac_local_development config \<and> (legacy \<noteq> None \<or> has_remote_method config)
     then Inl ''local development auth cannot be combined with remote authentication''
     else Inr \<lparr>au_legacy_bearer = legacy, au_config = config\<rparr>)"

definition auth_enabled :: "authenticator \<Rightarrow> bool" where
  "auth_enabled a \<longleftrightarrow> au_legacy_bearer a \<noteq> None \<or> has_remote_method (au_config a)"

definition mtls_proxy_enabled :: "authenticator \<Rightarrow> bool" where
  "mtls_proxy_enabled a \<longleftrightarrow> ac_mtls_subjects (au_config a) \<noteq> []"

section \<open>Decisions\<close>

datatype auth_failure = AuthMissing | AuthInvalid | AuthExpired

type_synonym headers = "string \<rightharpoonup> string"

definition MTLS_VERIFIED_HEADER :: string where "MTLS_VERIFIED_HEADER = ''x-ocfleet-mtls-verified''"
definition MTLS_SUBJECT_HEADER :: string where "MTLS_SUBJECT_HEADER = ''x-ocfleet-mtls-subject''"
definition MTLS_PROXY_SECRET_HEADER :: string where "MTLS_PROXY_SECRET_HEADER = ''x-ocfleet-mtls-proxy-secret''"

definition bearer_token :: "headers \<Rightarrow> string option" where
  "bearer_token h = Option.bind (h ''authorization'') (strip_prefix ''Bearer '')"

definition audience_contains :: "audience \<Rightarrow> string \<Rightarrow> bool" where
  "audience_contains a expected = (case a of One value \<Rightarrow> value = expected | Many values \<Rightarrow> expected \<in> set values)"

definition account_principal ::
    "service_account \<Rightarrow> int \<Rightarrow> authentication_method \<Rightarrow> auth_failure + principal" where
  "account_principal a now meth =
     (if sc_expires_at a \<le> now then Inl AuthExpired
      else Inr \<lparr>pr_id = sc_principal_id a, pr_roles = sc_roles a, pr_method = meth, pr_authenticated = True\<rparr>)"

definition mtls_principal :: "mtls_identity \<Rightarrow> authentication_method \<Rightarrow> principal" where
  "mtls_principal i meth =
     \<lparr>pr_id = mi_principal_id i, pr_roles = mi_roles i, pr_method = meth, pr_authenticated = True\<rparr>"

text \<open>\<open>OffsetDateTime::unix_timestamp\<close> of an instant in nanoseconds.\<close>

definition unix_timestamp :: "int \<Rightarrow> int" where
  "unix_timestamp now = now div 1000000000"

definition group_roles :: "(string \<rightharpoonup> role set) \<Rightarrow> json list \<Rightarrow> (auth_failure + role set)" where
  "group_roles mappings groups =
     rbind (map_ok (\<lambda>g. ok_or (as_str g) AuthInvalid) groups) (\<lambda>names.
     Inr (\<Union> (set (map (\<lambda>g. case mappings g of None \<Rightarrow> {} | Some rs \<Rightarrow> rs) names))))"

definition as_array :: "json \<Rightarrow> json list option" where
  "as_array v = (case v of JArr vs \<Rightarrow> Some vs | _ \<Rightarrow> None)"

definition decode_segment :: "api_ext \<Rightarrow> (bytes \<Rightarrow> 'a option) \<Rightarrow> string \<Rightarrow> auth_failure + 'a" where
  "decode_segment A dec segment = ok_or (Option.bind (ax_base64 A segment) dec) AuthInvalid"

definition oidc_check_claims :: "oidc_verifier \<Rightarrow> int \<Rightarrow> jwt_claims \<Rightarrow> auth_failure + principal" where
  "oidc_check_claims v now c =
     rbind (ensure (\<not> (jc_iss c \<noteq> ov_issuer v \<or> \<not> audience_contains (jc_aud c) (ov_audience v))) AuthInvalid) (\<lambda>_.
     rbind (ensure (\<not> jc_exp c \<le> unix_timestamp now) AuthExpired) (\<lambda>_.
     rbind (ensure (\<not> (case jc_nbf c of None \<Rightarrow> False | Some nbf \<Rightarrow> nbf > unix_timestamp now)) AuthInvalid) (\<lambda>_.
     rbind (map_err (\<lambda>_. AuthInvalid) (validate_identity_text (jc_sub c) ''OIDC subject'')) (\<lambda>subject.
     rbind (ok_or (Option.bind (jc_extra c (ov_groups_claim v)) as_array) AuthInvalid) (\<lambda>groups.
     rbind (ensure (\<not> length groups > MAX_AUTH_ENTRIES) AuthInvalid) (\<lambda>_.
     rbind (group_roles (ov_mappings v) groups) (\<lambda>roles.
     if roles = {} then Inl AuthInvalid
     else Inr \<lparr>pr_id = subject, pr_roles = roles, pr_method = Oidc, pr_authenticated = True\<rparr>)))))))"

definition oidc_authenticate :: "api_ext \<Rightarrow> oidc_verifier \<Rightarrow> int \<Rightarrow> string \<Rightarrow> auth_failure + principal" where
  "oidc_authenticate A v now token =
     (if length token > MAX_TOKEN_BYTES then Inl AuthInvalid
      else case split_on (\<lambda>c. c = CHR ''.'') token of
        [header_segment, claims_segment, signature_segment] \<Rightarrow>
          if length header_segment > MAX_JWT_SEGMENT_BYTES \<or> length claims_segment > MAX_JWT_SEGMENT_BYTES
             \<or> length signature_segment > MAX_JWT_SEGMENT_BYTES then Inl AuthInvalid
          else
            rbind (decode_segment A (ax_jwt_header A) header_segment) (\<lambda>header.
            rbind (ensure (\<not> (jh_alg header \<noteq> ''EdDSA''
                \<or> (case jh_typ header of None \<Rightarrow> False | Some typ \<Rightarrow> typ \<noteq> ''JWT''))) AuthInvalid) (\<lambda>_.
            rbind (ok_or (ov_keys v (jh_kid header)) AuthInvalid) (\<lambda>public_key.
            rbind (ok_or (ax_base64 A signature_segment) AuthInvalid) (\<lambda>signature.
            rbind (ensure (ax_verify A public_key (header_segment @ ''.'' @ claims_segment) signature) AuthInvalid) (\<lambda>_.
            rbind (decode_segment A (ax_jwt_claims A) claims_segment) (\<lambda>claims.
            oidc_check_claims v now claims))))))
      | _ \<Rightarrow> Inl AuthInvalid)"

definition try_oidc :: "api_ext \<Rightarrow> authenticator \<Rightarrow> int \<Rightarrow> string \<Rightarrow> auth_failure + principal" where
  "try_oidc A a now token =
     (case ac_oidc (au_config a) of
        Some v \<Rightarrow>
          if length (filter (\<lambda>c. c = CHR ''.'') token) = 2 then oidc_authenticate A v now token else Inl AuthInvalid
      | None \<Rightarrow> Inl AuthInvalid)"

definition authenticate_token :: "api_ext \<Rightarrow> authenticator \<Rightarrow> int \<Rightarrow> string \<Rightarrow> auth_failure + principal" where
  "authenticate_token A a now token =
     (if \<not> is_ok (validate_token token) then Inl AuthInvalid
      else let digest = ax_sha256 A token in
        if (case au_legacy_bearer a of None \<Rightarrow> False | Some d \<Rightarrow> digest_eq d digest) then Inr authenticated_viewer
        else case find (\<lambda>s. digest_eq (sc_token_digest s) digest) (ac_service_accounts (au_config a)) of
          Some account \<Rightarrow> account_principal account now ServiceAccountToken
        | None \<Rightarrow>
            (case ac_break_glass (au_config a) of
               Some account \<Rightarrow>
                 if digest_eq (sc_token_digest account) digest then account_principal account now BreakGlass
                 else try_oidc A a now token
             | None \<Rightarrow> try_oidc A a now token))"

definition authenticate_mtls :: "api_ext \<Rightarrow> authenticator \<Rightarrow> headers \<Rightarrow> auth_failure + principal" where
  "authenticate_mtls A a h =
     rbind (ok_or (h MTLS_PROXY_SECRET_HEADER) AuthInvalid) (\<lambda>proxy_secret.
     rbind (ok_or (ac_mtls_proxy_secret (au_config a)) AuthInvalid) (\<lambda>expected.
     rbind (ensure (is_ok (validate_token proxy_secret) \<and> digest_eq expected (ax_sha256 A proxy_secret)) AuthInvalid) (\<lambda>_.
     rbind (ok_or (h MTLS_SUBJECT_HEADER) AuthInvalid) (\<lambda>subject.
     rbind (ok_or (map_of (ac_mtls_subjects (au_config a)) subject) AuthInvalid) (\<lambda>identity.
     Inr (mtls_principal identity Mtls))))))"

definition authenticate :: "api_ext \<Rightarrow> authenticator \<Rightarrow> int \<Rightarrow> headers \<Rightarrow> auth_failure + principal" where
  "authenticate A a now h =
     (case bearer_token h of
        Some token \<Rightarrow> authenticate_token A a now token
      | None \<Rightarrow>
          if h MTLS_VERIFIED_HEADER = Some ''SUCCESS'' then authenticate_mtls A a h
          else if ac_local_development (au_config a) then Inr local_viewer
          else Inl AuthMissing)"

section \<open>Errors and authorization\<close>

text \<open>\<open>ApiError\<close> by its constructor functions; the message of \<open>unauthorized\<close>, \<open>forbidden\<close>, \<open>method_not_allowed\<close>
  and \<open>internal\<close> is fixed. The counters of \<open>AuthFailure::record\<close> are the metrics' and not part of the decision.\<close>

datatype api_error =
    BadRequest string | InvalidCursor string | Unauthorized | Forbidden | NotFound string | MethodNotAllowed | Internal

fun api_error_status :: "api_error \<Rightarrow> nat" where
  "api_error_status (BadRequest m) = 400"
| "api_error_status (InvalidCursor m) = 400"
| "api_error_status Unauthorized = 401"
| "api_error_status Forbidden = 403"
| "api_error_status (NotFound m) = 404"
| "api_error_status MethodNotAllowed = 405"
| "api_error_status Internal = 500"

fun api_error_code :: "api_error \<Rightarrow> string" where
  "api_error_code (BadRequest m) = ''BAD_REQUEST''"
| "api_error_code (InvalidCursor m) = ''INVALID_CURSOR''"
| "api_error_code Unauthorized = ''UNAUTHORIZED''"
| "api_error_code Forbidden = ''FORBIDDEN''"
| "api_error_code (NotFound m) = ''NOT_FOUND''"
| "api_error_code MethodNotAllowed = ''METHOD_NOT_ALLOWED''"
| "api_error_code Internal = ''INTERNAL_ERROR''"

definition authorize :: "api_ext \<Rightarrow> authenticator \<Rightarrow> int \<Rightarrow> headers \<Rightarrow> permission \<Rightarrow> api_error + principal" where
  "authorize A a now h perm =
     rbind (map_err (\<lambda>_. Unauthorized) (authenticate A a now h)) (\<lambda>p.
     if principal_permits p perm then Inr p else Inl Forbidden)"

text \<open>\<open>ApiConfig::from_cli\<close>: which listeners an authenticator may serve.\<close>

definition DEFAULT_MAX_LIMIT :: nat where "DEFAULT_MAX_LIMIT = 1000"
definition ABSOLUTE_MAX_LIMIT :: nat where "ABSOLUTE_MAX_LIMIT = 10000"

definition api_config_from_cli ::
    "bool \<Rightarrow> nat \<Rightarrow> bool \<Rightarrow> (string + bytes) option \<Rightarrow> (bytes option \<Rightarrow> string + authenticator) \<Rightarrow> (string + 'k) option
      \<Rightarrow> string + authenticator \<times> 'k" where
  "api_config_from_cli read_only max_limit loopback token load cursor_keys =
     rbind (ensure read_only
       ''--read-only is required; ocfleet-api refuses to start without explicit read-only mode'') (\<lambda>_.
     rbind (ensure (\<not> (max_limit = 0 \<or> max_limit > ABSOLUTE_MAX_LIMIT))
       (''--max-limit must be between 1 and '' @ show_nat ABSOLUTE_MAX_LIMIT)) (\<lambda>_.
     rbind (case token of None \<Rightarrow> Inr None
       | Some r \<Rightarrow> map_err (\<lambda>_. ''failed to load --auth-token-file'') (rbind r (\<lambda>d. Inr (Some d)))) (\<lambda>legacy.
     rbind (map_err (\<lambda>_. ''failed to load authentication configuration'') (load legacy)) (\<lambda>a.
     rbind (ensure (\<not> (\<not> loopback \<and> \<not> auth_enabled a))
       ''--auth-token-file or a remote method in --auth-config-file is required when --listen is not loopback'') (\<lambda>_.
     rbind (ensure (\<not> (\<not> loopback \<and> mtls_proxy_enabled a))
       ''mTLS forwarded identity headers require a loopback listener behind a trusted TLS proxy'') (\<lambda>_.
     rbind (ok_or cursor_keys ''--cursor-key-file is required for stable signed /api/v1 cursors'') (\<lambda>file.
     rbind (map_err (\<lambda>_. ''failed to load --cursor-key-file'') file) (\<lambda>keys.
     Inr (a, keys)))))))))"

section \<open>Digests\<close>

lemma xor_eq_0: "(l :: 8 word) XOR r = 0 \<longleftrightarrow> l = r"
  by (metis bit.xor_self xor.assoc xor.left_neutral xor.right_neutral)

lemma diff_zero:
  "foldl (\<lambda>diff (l, r). diff OR (l XOR r)) (acc :: 8 word) lrs = 0 \<longleftrightarrow> acc = 0 \<and> (\<forall>lr \<in> set lrs. fst lr = snd lr)"
  by (induction lrs arbitrary: acc) (auto simp: or_eq_0_iff xor_eq_0)

text \<open>The constant-time comparison is equality on arrays of equal length.\<close>

lemma digest_eq_iff: "length l = length r \<Longrightarrow> digest_eq l r \<longleftrightarrow> l = r"
  by (auto simp: digest_eq_def diff_zero list_eq_iff_nth_eq set_zip)

lemma hex_pairs_length: "length (hex_pairs s) = length s div 2"
  by (induction s rule: hex_pairs.induct) simp_all

lemma parse_sha256_sized: "parse_sha256 v f = Inr d \<Longrightarrow> length d = 32"
  by (auto simp: parse_sha256_def hex_pairs_length split: if_splits)

section \<open>Well-formed configurations\<close>

definition account_ok :: "service_account \<Rightarrow> bool" where
  "account_ok a \<longleftrightarrow> length (sc_token_digest a) = 32 \<and> sc_roles a \<noteq> {} \<and> sc_principal_id a \<noteq> []"

definition verifier_ok :: "oidc_verifier \<Rightarrow> bool" where
  "verifier_ok v \<longleftrightarrow> ov_keys v \<noteq> Map.empty \<and> (\<forall>k \<in> ran (ov_keys v). length k = 32) \<and> {} \<notin> ran (ov_mappings v)"

definition auth_config_ok :: "int \<Rightarrow> auth_config \<Rightarrow> bool" where
  "auth_config_ok now c \<longleftrightarrow>
     (\<forall>a \<in> set (ac_service_accounts c). account_ok a)
   \<and> (\<forall>a. ac_break_glass c = Some a \<longrightarrow> account_ok a \<and> SecurityAdmin \<in> sc_roles a
         \<and> now < sc_expires_at a \<and> sc_expires_at a \<le> now + ns_of_secs 3600)
   \<and> (\<forall>v. ac_oidc c = Some v \<longrightarrow> verifier_ok v)
   \<and> (\<forall>d. ac_mtls_proxy_secret c = Some d \<longrightarrow> length d = 32)
   \<and> (ac_mtls_subjects c = [] \<longleftrightarrow> ac_mtls_proxy_secret c = None)
   \<and> distinct (map fst (ac_mtls_subjects c)) \<and> (\<forall>i \<in> snd ` set (ac_mtls_subjects c). mi_roles i \<noteq> {})
   \<and> length (ac_service_accounts c) \<le> 256 \<and> length (ac_mtls_subjects c) \<le> 256"

lemma parse_roles_nonempty: "parse_roles vs = Inr rs \<Longrightarrow> rs \<noteq> {}"
  by (auto simp: parse_roles_def rbind_Inr_iff split: if_splits dest: map_ok_Inr_length)

lemma trim_Nil: "trim [] = []"
  by code_simp

lemma identity_text_nonempty: "validate_identity_text v f = Inr t \<Longrightarrow> t \<noteq> []"
  by (auto simp: validate_identity_text_def trim_Nil split: if_splits)

lemma account_try_from_ok: "service_account_try_from X f = Inr a \<Longrightarrow> account_ok a"
  by (auto simp: service_account_try_from_def account_ok_def result_simps
    dest: parse_sha256_sized parse_roles_nonempty identity_text_nonempty)

lemma insert_subjects_ok:
  "insert_subjects fs m = Inr m' \<Longrightarrow> distinct (map fst m) \<Longrightarrow> (\<forall>i \<in> snd ` set m. mi_roles i \<noteq> {})
   \<Longrightarrow> distinct (map fst m') \<and> (\<forall>i \<in> snd ` set m'. mi_roles i \<noteq> {}) \<and> length m' = length m + length fs"
proof (induction fs m rule: insert_subjects.induct)
  case (2 f fs m)
  then obtain subject identity where step: "validate_identity_text (mf_subject f) ''mTLS subject'' = Inr subject"
      "mtls_identity_try_from f = Inr identity" "\<not> map_of m subject \<noteq> None"
      "insert_subjects fs (m @ [(subject, identity)]) = Inr m'"
    by (auto simp: rbind_Inr_iff simp del: not_None_eq split: if_splits)
  have "mi_roles identity \<noteq> {}"
    using step(2) by (auto simp: mtls_identity_try_from_def rbind_Inr_iff dest: parse_roles_nonempty)
  then show ?case
    using "2.IH" [OF step(3,4)] step(3) "2.prems"(2,3) by (auto simp: map_of_eq_None_iff)
qed simp

lemma insert_oidc_keys_ok:
  "insert_oidc_keys A ks m = Inr m' \<Longrightarrow> (\<forall>k \<in> ran m. length k = 32)
   \<Longrightarrow> (\<forall>k \<in> ran m'. length k = 32) \<and> (ks \<noteq> [] \<longrightarrow> m' \<noteq> Map.empty) \<and> dom m \<subseteq> dom m'"
proof (induction A ks m rule: insert_oidc_keys.induct)
  case (2 A k ks m)
  then obtain kid decoded where step: "kf_algorithm k = ''EdDSA''" "validate_identity_text (kf_kid k) ''OIDC key id'' = Inr kid"
      "ax_base64 A (kf_public_key k) = Some decoded" "length decoded = 32" "\<not> m kid \<noteq> None"
      "insert_oidc_keys A ks (m(kid \<mapsto> decoded)) = Inr m'"
    by (auto simp: result_simps simp del: not_None_eq split: if_splits)
  then have "\<forall>k \<in> ran (m(kid \<mapsto> decoded)). length k = 32"
    using "2.prems"(2) by (simp add: ran_map_upd)
  then have "(\<forall>k \<in> ran m'. length k = 32) \<and> dom (m(kid \<mapsto> decoded)) \<subseteq> dom m'"
    using "2.IH" [OF step(5,6)] by blast
  then show ?case
    by auto
qed auto

lemma insert_mappings_ok: "insert_mappings grs m = Inr m' \<Longrightarrow> {} \<notin> ran m \<Longrightarrow> {} \<notin> ran m'"
proof (induction grs m rule: insert_mappings.induct)
  case (2 gr grs m)
  then obtain g r where step: "validate_identity_text (fst gr) ''OIDC group'' = Inr g" "role_parse (snd gr) = Inr r"
      "insert_mappings grs (m(g \<mapsto> insert r (case m g of None \<Rightarrow> {} | Some rs \<Rightarrow> rs))) = Inr m'"
    by (auto simp: rbind_Inr_iff)
  have "{} \<notin> ran (m(g \<mapsto> insert r (case m g of None \<Rightarrow> {} | Some rs \<Rightarrow> rs)))"
    using "2.prems"(2) by (auto simp: ran_def)
  then show ?case
    by (rule "2.IH" [OF step(3)])
qed simp

lemma oidc_try_from_ok: "oidc_try_from A f = Inr v \<Longrightarrow> verifier_ok v"
  by (auto simp: oidc_try_from_def verifier_ok_def result_simps Let_def
    dest!: insert_oidc_keys_ok insert_mappings_ok)

lemma break_glass_ok:
  "break_glass_try_from X now f = Inr a \<Longrightarrow> account_ok a \<and> SecurityAdmin \<in> sc_roles a
     \<and> now < sc_expires_at a \<and> sc_expires_at a \<le> now + ns_of_secs 3600"
  by (auto simp: break_glass_try_from_def result_simps dest: account_try_from_ok)

lemma map_ok_all: "map_ok f xs = Inr ys \<Longrightarrow> (\<And>x y. f x = Inr y \<Longrightarrow> P y) \<Longrightarrow> \<forall>y \<in> set ys. P y"
  unfolding map_ok_Inr_iff by (induction rule: list_all2_induct) auto

lemma opt_all:
  "(case x of None \<Rightarrow> Inr None | Some y \<Rightarrow> rbind (g y) (\<lambda>d. Inr (Some d))) = Inr r
   \<Longrightarrow> (\<And>y d. g y = Inr d \<Longrightarrow> P d) \<Longrightarrow> \<forall>d. r = Some d \<longrightarrow> P d"
  by (auto simp: rbind_Inr_iff split: option.splits)

lemma empty_config_ok:
  "auth_config_ok now \<lparr>ac_local_development = b, ac_mtls_proxy_secret = None, ac_service_accounts = [],
     ac_oidc = None, ac_mtls_subjects = [], ac_break_glass = None\<rparr>"
  by (simp add: auth_config_ok_def)

lemma config_from_file_ok:
  assumes "auth_config_from_file X A now f = Inr c"
  shows "auth_config_ok now c"
proof -
  obtain secret accounts break_glass subjects oidc where
      bounds: "length (af_service_accounts f) \<le> 256" "length (af_mtls_subjects f) \<le> 256"
        "\<not> (af_mtls_subjects f = [] \<and> secret \<noteq> None)" "\<not> (af_mtls_subjects f \<noteq> [] \<and> secret = None)"
    and secret: "(case af_mtls_proxy_secret f of None \<Rightarrow> Inr None
        | Some v \<Rightarrow> rbind (parse_sha256 v ''mtls_proxy_secret_sha256'') (\<lambda>d. Inr (Some d))) = Inr secret"
    and accounts: "map_ok (service_account_try_from X) (af_service_accounts f) = Inr accounts"
    and break_glass: "(case af_break_glass f of None \<Rightarrow> Inr None
        | Some b \<Rightarrow> rbind (break_glass_try_from X now b) (\<lambda>a. Inr (Some a))) = Inr break_glass"
    and subjects: "insert_subjects (af_mtls_subjects f) [] = Inr subjects"
    and oidc: "(case af_oidc f of None \<Rightarrow> Inr None
        | Some fo \<Rightarrow> rbind (oidc_try_from A fo) (\<lambda>v. Inr (Some v))) = Inr oidc"
    and "(Inr \<lparr>ac_local_development = af_local_development f, ac_mtls_proxy_secret = secret,
        ac_service_accounts = accounts, ac_oidc = oidc, ac_mtls_subjects = subjects, ac_break_glass = break_glass\<rparr> :: string + auth_config) = Inr c"
    using assms unfolding auth_config_from_file_def rbind_Inr_iff ensure_Inr_iff MAX_AUTH_ENTRIES_def not_less de_Morgan_disj
    by (elim exE conjE) (rule that; assumption)
  then have c: "c = \<lparr>ac_local_development = af_local_development f, ac_mtls_proxy_secret = secret,
      ac_service_accounts = accounts, ac_oidc = oidc, ac_mtls_subjects = subjects, ac_break_glass = break_glass\<rparr>"
    by simp
  have "\<forall>a \<in> set accounts. account_ok a"
    by (rule map_ok_all [OF accounts]) (rule account_try_from_ok)
  moreover have "\<forall>d. secret = Some d \<longrightarrow> length d = 32"
    by (rule opt_all [OF secret]) (rule parse_sha256_sized)
  moreover have "\<forall>a. break_glass = Some a \<longrightarrow> account_ok a \<and> SecurityAdmin \<in> sc_roles a
      \<and> now < sc_expires_at a \<and> sc_expires_at a \<le> now + ns_of_secs 3600"
    by (rule opt_all [OF break_glass]) (rule break_glass_ok)
  moreover have "\<forall>v. oidc = Some v \<longrightarrow> verifier_ok v"
    by (rule opt_all [OF oidc]) (rule oidc_try_from_ok)
  ultimately show ?thesis
    using bounds insert_subjects_ok [OF subjects] map_ok_Inr_length [OF accounts]
    by (auto simp: auth_config_ok_def c)
qed

lemma load_ok:
  assumes "authenticator_load X A now legacy file = Inr a"
  shows "auth_config_ok now (au_config a)"
    "ac_local_development (au_config a) \<Longrightarrow> \<not> auth_enabled a"
  using assms config_from_file_ok empty_config_ok
  by (auto simp: authenticator_load_def auth_enabled_def rbind_Inr_iff split: option.splits if_splits)

section \<open>Credentials\<close>

text \<open>What a request must present to be taken for a principal, one rule per method.\<close>

inductive credential :: "api_ext \<Rightarrow> authenticator \<Rightarrow> int \<Rightarrow> headers \<Rightarrow> principal \<Rightarrow> bool"
  for A :: api_ext and a :: authenticator and now :: int and h :: headers where
  anonymous: "ac_local_development (au_config a) \<Longrightarrow> bearer_token h = None \<Longrightarrow> credential A a now h local_viewer"
| legacy: "bearer_token h = Some token \<Longrightarrow> au_legacy_bearer a = Some (ax_sha256 A token)
    \<Longrightarrow> credential A a now h authenticated_viewer"
| account: "bearer_token h = Some token \<Longrightarrow> acc \<in> set (ac_service_accounts (au_config a))
    \<Longrightarrow> sc_token_digest acc = ax_sha256 A token \<Longrightarrow> now < sc_expires_at acc
    \<Longrightarrow> credential A a now h \<lparr>pr_id = sc_principal_id acc, pr_roles = sc_roles acc, pr_method = ServiceAccountToken,
          pr_authenticated = True\<rparr>"
| break_glass: "bearer_token h = Some token \<Longrightarrow> ac_break_glass (au_config a) = Some acc
    \<Longrightarrow> sc_token_digest acc = ax_sha256 A token \<Longrightarrow> now < sc_expires_at acc
    \<Longrightarrow> credential A a now h \<lparr>pr_id = sc_principal_id acc, pr_roles = sc_roles acc, pr_method = BreakGlass,
          pr_authenticated = True\<rparr>"
| oidc: "bearer_token h = Some (header @ ''.'' @ claims @ ''.'' @ signature) \<Longrightarrow> ac_oidc (au_config a) = Some v
    \<Longrightarrow> key \<in> ran (ov_keys v) \<Longrightarrow> ax_base64 A signature = Some sig
    \<Longrightarrow> ax_verify A key (header @ ''.'' @ claims) sig
    \<Longrightarrow> Option.bind (ax_base64 A claims) (ax_jwt_claims A) = Some c
    \<Longrightarrow> jc_iss c = ov_issuer v \<Longrightarrow> audience_contains (jc_aud c) (ov_audience v)
    \<Longrightarrow> unix_timestamp now < jc_exp c \<Longrightarrow> (\<And>t. jc_nbf c = Some t \<Longrightarrow> t \<le> unix_timestamp now)
    \<Longrightarrow> roles \<noteq> {} \<Longrightarrow> roles \<subseteq> \<Union> (ran (ov_mappings v))
    \<Longrightarrow> credential A a now h \<lparr>pr_id = jc_sub c, pr_roles = roles, pr_method = Oidc, pr_authenticated = True\<rparr>"
| mtls: "h MTLS_PROXY_SECRET_HEADER = Some secret \<Longrightarrow> ac_mtls_proxy_secret (au_config a) = Some (ax_sha256 A secret)
    \<Longrightarrow> h MTLS_SUBJECT_HEADER = Some subject \<Longrightarrow> (subject, identity) \<in> set (ac_mtls_subjects (au_config a))
    \<Longrightarrow> credential A a now h (mtls_principal identity Mtls)"

inductive_cases credentialE: "credential A a now h p"

lemma split_on_three:
  assumes "split_on (\<lambda>c. c = CHR ''.'') s = [x, y, z]"
  shows "s = x @ ''.'' @ y @ ''.'' @ z"
proof -
  have nonempty: "split_on (\<lambda>c. c = CHR ''.'') s \<noteq> []" for s :: string
    by (induction s) (simp_all split: list.splits)
  have join: "s = concat (map (\<lambda>seg. seg @ ''.'') (butlast (split_on (\<lambda>c. c = CHR ''.'') s))) @ last (split_on (\<lambda>c. c = CHR ''.'') s)"
    for s :: string
  proof (induction s)
    case (Cons c cs)
    then show ?case
      using nonempty [of cs] by (cases "split_on (\<lambda>c. c = CHR ''.'') cs") (simp_all split: list.splits if_splits)
  qed simp
  show ?thesis
    using join [of s] by (simp add: assms)
qed

lemma group_roles_mapped: "group_roles m groups = Inr rs \<Longrightarrow> rs \<subseteq> \<Union> (ran m)"
  by (auto simp: group_roles_def rbind_Inr_iff ran_def split: option.splits) blast

lemma identity_text_same: "validate_identity_text v f = Inr t \<Longrightarrow> t = v"
  by (simp add: validate_identity_text_def split: if_splits)

lemma check_claims_sound:
  assumes "oidc_check_claims v now c = Inr p"
  shows "\<exists>roles. p = \<lparr>pr_id = jc_sub c, pr_roles = roles, pr_method = Oidc, pr_authenticated = True\<rparr> \<and> roles \<noteq> {}
    \<and> roles \<subseteq> \<Union> (ran (ov_mappings v)) \<and> jc_iss c = ov_issuer v \<and> audience_contains (jc_aud c) (ov_audience v)
    \<and> unix_timestamp now < jc_exp c \<and> (\<forall>t. jc_nbf c = Some t \<longrightarrow> t \<le> unix_timestamp now)"
proof -
  obtain subject groups roles where
      "\<not> (jc_iss c \<noteq> ov_issuer v \<or> \<not> audience_contains (jc_aud c) (ov_audience v))" "\<not> jc_exp c \<le> unix_timestamp now"
      "\<not> (case jc_nbf c of None \<Rightarrow> False | Some nbf \<Rightarrow> nbf > unix_timestamp now)"
      "validate_identity_text (jc_sub c) ''OIDC subject'' = Inr subject"
    and roles: "group_roles (ov_mappings v) groups = Inr roles"
      "(if roles = {} then Inl AuthInvalid
        else Inr \<lparr>pr_id = subject, pr_roles = roles, pr_method = Oidc, pr_authenticated = True\<rparr>) = Inr p"
    using assms unfolding oidc_check_claims_def rbind_Inr_iff ensure_Inr_iff map_err_Inr_iff by blast
  then show ?thesis
    using group_roles_mapped [OF roles(1)] identity_text_same
    by (intro exI [of _ roles]) (auto split: if_splits option.splits)
qed

lemma oidc_authenticate_sound:
  assumes "oidc_authenticate A v now token = Inr p" "bearer_token h = Some token" "ac_oidc (au_config a) = Some v"
  shows "credential A a now h p"
proof -
  obtain header claims signature kid key sig c where
      split: "split_on (\<lambda>c. c = CHR ''.'') token = [header, claims, signature]"
    and facts: "ov_keys v kid = Some key" "ax_base64 A signature = Some sig"
      "ax_verify A key (header @ ''.'' @ claims) sig" "Option.bind (ax_base64 A claims) (ax_jwt_claims A) = Some c"
      "oidc_check_claims v now c = Inr p"
    using assms(1) unfolding oidc_authenticate_def decode_segment_def
    by (simp add: result_simps split: if_splits list.splits) blast
  have token: "bearer_token h = Some (header @ ''.'' @ claims @ ''.'' @ signature)"
    using assms(2) split_on_three [OF split] by simp
  obtain roles where p: "p = \<lparr>pr_id = jc_sub c, pr_roles = roles, pr_method = Oidc, pr_authenticated = True\<rparr>"
      and claims: "roles \<noteq> {}" "roles \<subseteq> \<Union> (ran (ov_mappings v))" "jc_iss c = ov_issuer v"
      "audience_contains (jc_aud c) (ov_audience v)" "unix_timestamp now < jc_exp c"
      "\<forall>t. jc_nbf c = Some t \<longrightarrow> t \<le> unix_timestamp now"
    using check_claims_sound [OF facts(5)] by blast
  show ?thesis
    unfolding p
    by (rule credential.oidc [OF token assms(3) ranI [of "ov_keys v", OF facts(1)] facts(2,3,4) claims(3,4,5) _ claims(1,2)])
      (simp add: claims(6))
qed

lemma account_sound:
  "account_principal acc now meth = Inr p \<longleftrightarrow> now < sc_expires_at acc \<and>
     p = \<lparr>pr_id = sc_principal_id acc, pr_roles = sc_roles acc, pr_method = meth, pr_authenticated = True\<rparr>"
  by (auto simp: account_principal_def)

lemma try_oidc_sound:
  "try_oidc A a now token = Inr p \<Longrightarrow> bearer_token h = Some token \<Longrightarrow> credential A a now h p"
  by (auto simp: try_oidc_def intro: oidc_authenticate_sound split: option.splits if_splits)

definition digests_sized :: "api_ext \<Rightarrow> authenticator \<Rightarrow> bool" where
  "digests_sized A a \<longleftrightarrow> sha256_sized A \<and> (\<forall>d. au_legacy_bearer a = Some d \<longrightarrow> length d = 32) \<and> (\<exists>t. auth_config_ok t (au_config a))"

lemma find_SomeD: "find P xs = Some x \<Longrightarrow> x \<in> set xs \<and> P x"
  by (auto simp: find_Some_iff)

lemma token_sound:
  assumes "authenticate_token A a now token = Inr p" "bearer_token h = Some token" "digests_sized A a"
  shows "credential A a now h p"
proof -
  have sized: "length d = 32 \<Longrightarrow> digest_eq d (ax_sha256 A token) \<longleftrightarrow> d = ax_sha256 A token" for d
    using assms(3) by (intro digest_eq_iff) (simp add: digests_sized_def sha256_sized_def)
  have accounts: "acc \<in> set (ac_service_accounts (au_config a)) \<or> ac_break_glass (au_config a) = Some acc
      \<Longrightarrow> length (sc_token_digest acc) = 32" for acc
    using assms(3) by (auto simp: digests_sized_def auth_config_ok_def account_ok_def)
  have run: "(if (case au_legacy_bearer a of None \<Rightarrow> False | Some d \<Rightarrow> digest_eq d (ax_sha256 A token)) then Inr authenticated_viewer
      else case find (\<lambda>s. digest_eq (sc_token_digest s) (ax_sha256 A token)) (ac_service_accounts (au_config a)) of
        Some account \<Rightarrow> account_principal account now ServiceAccountToken
      | None \<Rightarrow> (case ac_break_glass (au_config a) of
          Some account \<Rightarrow> if digest_eq (sc_token_digest account) (ax_sha256 A token) then account_principal account now BreakGlass
            else try_oidc A a now token
        | None \<Rightarrow> try_oidc A a now token)) = Inr p"
    using assms(1) unfolding authenticate_token_def Let_def by (cases "is_ok (validate_token token)") simp_all
  show ?thesis
  proof (cases "case au_legacy_bearer a of None \<Rightarrow> False | Some d \<Rightarrow> digest_eq d (ax_sha256 A token)")
    case True
    then show ?thesis
      using run assms(2,3) sized by (auto simp: digests_sized_def intro: credential.legacy split: option.splits)
  next
    case False
    note run = run [unfolded if_not_P [OF False]]
    show ?thesis
    proof (cases "find (\<lambda>s. digest_eq (sc_token_digest s) (ax_sha256 A token)) (ac_service_accounts (au_config a))")
      case (Some acc)
      then show ?thesis
        using run assms(2) sized accounts find_SomeD [OF Some] by (auto simp: account_sound intro: credential.account)
    next
      case None
      then show ?thesis
        using run assms(2) sized accounts try_oidc_sound [OF _ assms(2)]
        by (auto simp: account_sound intro: credential.break_glass split: option.splits if_splits)
    qed
  qed
qed

lemma mtls_sound:
  assumes "authenticate_mtls A a h = Inr p" "digests_sized A a"
  shows "credential A a now h p"
proof -
  obtain secret expected subject identity where facts: "h MTLS_PROXY_SECRET_HEADER = Some secret"
      "ac_mtls_proxy_secret (au_config a) = Some expected" "digest_eq expected (ax_sha256 A secret)"
      "h MTLS_SUBJECT_HEADER = Some subject" "map_of (ac_mtls_subjects (au_config a)) subject = Some identity"
      "p = mtls_principal identity Mtls"
    using assms(1) by (auto simp: authenticate_mtls_def result_simps)
  have expected: "expected = ax_sha256 A secret"
    using assms(2) digest_eq_iff [of expected "ax_sha256 A secret"] facts(2,3)
    by (auto simp: digests_sized_def sha256_sized_def auth_config_ok_def)
  show ?thesis
    unfolding facts(6)
    by (rule credential.mtls [OF facts(1) _ facts(4) map_of_SomeD [OF facts(5)]]) (simp add: facts(2) expected)
qed

lemma authenticate_sound:
  assumes "authenticate A a now h = Inr p" "digests_sized A a"
  shows "credential A a now h p"
proof (cases "bearer_token h")
  case (Some token)
  then show ?thesis
    using assms by (simp add: authenticate_def token_sound)
next
  case None
  then show ?thesis
    using assms credential.anonymous [of a h A now]
    by (auto simp: authenticate_def intro: mtls_sound split: if_splits)
qed

lemma config_from_cli:
  assumes "api_config_from_cli read_only max_limit loopback token load cursor_keys = Inr (a, keys)"
  shows "read_only" "loopback \<or> auth_enabled a \<and> \<not> mtls_proxy_enabled a"
    "\<exists>legacy. load legacy = Inr a \<and> (\<forall>d. legacy = Some d \<longrightarrow> token = Some (Inr d))"
  using assms
  by (auto simp: api_config_from_cli_def rbind_Inr_iff ensure_Inr_iff map_err_Inr_iff split: option.splits)

lemma authorize_sound:
  assumes "authorize A a now h perm = Inr p"
  shows "authenticate A a now h = Inr p" "principal_permits p perm"
  using assms by (auto simp: authorize_def result_simps split: if_splits)

section \<open>Example\<close>

text \<open>An operator with a service account; the hash repeats the length of the text.\<close>

definition auth_example_ext :: api_ext where
  "auth_example_ext = \<lparr>ax_sha256 = (\<lambda>s. replicate 32 (of_nat (length s))), ax_verify = (\<lambda>_ _ _. False),
     ax_base64 = (\<lambda>_. None), ax_base64_std = (\<lambda>_. None), ax_jwt_header = (\<lambda>_. None), ax_jwt_claims = (\<lambda>_. None),
     ax_read_jwks = (\<lambda>_. Inr [])\<rparr>"

definition auth_example_token :: string where
  "auth_example_token = replicate 32 (CHR ''t'')"

definition auth_example_file :: auth_config_file where
  "auth_example_file = \<lparr>af_local_development = False, af_mtls_proxy_secret = None,
     af_service_accounts = [\<lparr>sf_principal_id = ''ops'', sf_token_sha256 = concat (replicate 32 ''20''),
       sf_expires_at = ''2026Z'', sf_roles = [''operator'']\<rparr>],
     af_oidc = None, af_mtls_subjects = [], af_break_glass = None\<rparr>"

definition auth_example_headers :: headers where
  "auth_example_headers = [''authorization'' \<mapsto> ''Bearer '' @ auth_example_token]"

definition auth_example_account :: service_account where
  "auth_example_account = \<lparr>sc_principal_id = ''ops'', sc_token_digest = replicate 32 32, sc_expires_at = ns_of_secs 5,
     sc_roles = {Operator}\<rparr>"

definition auth_example :: authenticator where
  "auth_example = \<lparr>au_legacy_bearer = None, au_config = \<lparr>ac_local_development = False, ac_mtls_proxy_secret = None,
     ac_service_accounts = [auth_example_account], ac_oidc = None, ac_mtls_subjects = [], ac_break_glass = None\<rparr>\<rparr>"

definition auth_example_principal :: principal where
  "auth_example_principal =
     \<lparr>pr_id = ''ops'', pr_roles = {Operator}, pr_method = ServiceAccountToken, pr_authenticated = True\<rparr>"

lemma auth_example_digest:
  "parse_sha256 (concat (replicate 32 ''20'')) ''token_sha256'' = Inr (replicate 32 32)"
  by code_simp

lemma auth_example_load: "authenticator_load example_ext auth_example_ext 0 None (Some auth_example_file) = Inr auth_example"
proof -
  have "validate_identity_text ''ops'' ''principal_id'' = Inr ''ops''" "parse_roles [''operator''] = Inr {Operator}"
    "parse_rfc3339 example_ext ''2026Z'' = Some (ns_of_secs 5)"
    by code_simp+
  then show ?thesis
    by (simp add: authenticator_load_def auth_config_from_file_def auth_example_file_def auth_example_def
      service_account_try_from_def auth_example_digest auth_example_account_def MAX_AUTH_ENTRIES_def)
qed

lemma auth_example_authorizes:
  "authorize auth_example_ext auth_example 0 auth_example_headers FleetRead = Inr auth_example_principal"
proof -
  have "bearer_token auth_example_headers = Some auth_example_token" "is_ok (validate_token auth_example_token)"
    by code_simp+
  moreover have "digest_eq (replicate 32 32) (ax_sha256 auth_example_ext auth_example_token)"
    by (simp add: digest_eq_iff auth_example_ext_def auth_example_token_def)
  ultimately show ?thesis
    by (simp add: authorize_def authenticate_def authenticate_token_def Let_def auth_example_def
      auth_example_account_def account_principal_def ns_of_secs_def principal_permits_def role_permits_def
      auth_example_principal_def)
qed

lemma auth_example_server:
  "api_config_from_cli True 1000 False None (\<lambda>legacy. authenticator_load example_ext auth_example_ext 0 legacy (Some auth_example_file))
     (Some (Inr ())) = Inr (auth_example, ())"
  by (simp add: api_config_from_cli_def auth_example_load ABSOLUTE_MAX_LIMIT_def)
    (simp add: auth_example_def auth_enabled_def has_remote_method_def mtls_proxy_enabled_def)

lemma auth_example_sized: "sha256_sized auth_example_ext"
  by (simp add: sha256_sized_def auth_example_ext_def)

section \<open>Properties\<close>



end
