(* ===== verification/Api_Cursor.thy ===== *)
theory Api_Cursor
  imports Api_Auth
begin

text \<open>The signed cursors of the HTTP API: the key ring (\<open>ocfleet-api/src/cursor_keys.rs\<close>) and the encoding and
  checking of a cursor (\<open>ocfleet-api/src/v1.rs\<close>).

  A cursor is the JSON of a position in base64, a full stop and the HMAC-SHA-256 of the base64 text under a key of
  the ring. The JSON codec of the payload and the base64 encoder are the parameter \<open>cursor_ext\<close>; SHA-256 and the
  base64 decoders are those of \<open>api_ext\<close>. HMAC itself is written out in the source and modelled here. Texts are
  byte strings.\<close>

unbundle bit_operations_syntax

section \<open>The key ring\<close>

definition CURSOR_KEY_FILE_SCHEMA :: string where "CURSOR_KEY_FILE_SCHEMA = ''ocfleet.cursor-keys.v1''"
definition MAX_CURSOR_KEY_ID_BYTES :: nat where "MAX_CURSOR_KEY_ID_BYTES = 32"

record cursor_key =
  ck_key_id :: string
  ck_key :: bytes

record cursor_keyring =
  kr_current :: cursor_key
  kr_previous :: "cursor_key option"

record cursor_key_entry =
  ce_key_id :: string
  ce_key_base64 :: string

record cursor_key_file =
  cf_schema :: string
  cf_current :: cursor_key_entry
  cf_previous :: "cursor_key_entry option"

definition validate_key_id :: "string \<Rightarrow> string + unit" where
  "validate_key_id key_id =
     (if key_id = [] \<or> length key_id > MAX_CURSOR_KEY_ID_BYTES
        \<or> \<not> list_all (\<lambda>b. is_ascii_alphanumeric b \<or> b \<in> {CHR ''.'', CHR ''_'', CHR ''-''}) key_id
      then Inl (''cursor key_id must be 1-'' @ show_nat MAX_CURSOR_KEY_ID_BYTES @ '' ASCII letters, digits, ''
        @ [CHR 0x27, CHR ''.'', CHR 0x27] @ '', '' @ [CHR 0x27, CHR ''_'', CHR 0x27] @ '', or ''
        @ [CHR 0x27, CHR ''-'', CHR 0x27])
      else Inr ())"

definition decode_entry :: "api_ext \<Rightarrow> cursor_key_entry \<Rightarrow> string + cursor_key" where
  "decode_entry A entry =
     rbind (validate_key_id (ce_key_id entry)) (\<lambda>_.
     rbind (ok_or (ax_base64_std A (ce_key_base64 entry)) ''cursor key must be base64'') (\<lambda>decoded.
     rbind (ensure (length decoded = 32) ''cursor key must decode to exactly 32 bytes'') (\<lambda>_.
     Inr \<lparr>ck_key_id = ce_key_id entry, ck_key = decoded\<rparr>)))"

text \<open>\<open>CursorKeyring::from_private_file\<close> after the file is read and parsed.\<close>

definition keyring_from_file :: "api_ext \<Rightarrow> cursor_key_file \<Rightarrow> string + cursor_keyring" where
  "keyring_from_file A f =
     rbind (ensure (cf_schema f = CURSOR_KEY_FILE_SCHEMA) ''cursor key file schema is unsupported'') (\<lambda>_.
     rbind (decode_entry A (cf_current f)) (\<lambda>current.
     rbind (case cf_previous f of
         None \<Rightarrow> Inr None
       | Some entry \<Rightarrow> rbind (decode_entry A entry) (\<lambda>key. Inr (Some key))) (\<lambda>previous.
     if (case previous of None \<Rightarrow> False | Some p \<Rightarrow> ck_key_id p = ck_key_id current)
     then Inl ''cursor current and previous key IDs must differ''
     else Inr \<lparr>kr_current = current, kr_previous = previous\<rparr>)))"

definition keyring_find :: "cursor_keyring \<Rightarrow> string \<Rightarrow> cursor_key option" where
  "keyring_find ring key_id =
     (if ck_key_id (kr_current ring) = key_id then Some (kr_current ring)
      else case kr_previous ring of
        None \<Rightarrow> None
      | Some previous \<Rightarrow> if ck_key_id previous = key_id then Some previous else None)"

section \<open>Bytes\<close>

definition bytes_of :: "string \<Rightarrow> bytes" where
  "bytes_of s = map (\<lambda>c. word_of_nat (byte c)) s"

definition str_of :: "bytes \<Rightarrow> string" where
  "str_of bs = map (\<lambda>b. char_of (unat b)) bs"

definition hex_digit :: "nat \<Rightarrow> char" where
  "hex_digit n = char_of (if n < 10 then 48 + n else 87 + n)"

definition hex :: "bytes \<Rightarrow> string" where
  "hex bytes = concat (map (\<lambda>b. [hex_digit (unat b div 16), hex_digit (unat b mod 16)]) bytes)"

definition constant_time_eq :: "bytes \<Rightarrow> bytes \<Rightarrow> bool" where
  "constant_time_eq left right \<longleftrightarrow>
     (if length left \<noteq> length right then False
      else foldl (\<lambda>difference (l, r). difference OR (l XOR r)) 0 (zip left right) = 0)"

definition xor_key :: "8 word \<Rightarrow> bytes \<Rightarrow> bytes" where
  "xor_key pad key = foldl (\<lambda>k (index, b). k[index := k ! index XOR b]) (replicate 64 pad) (enumerate 0 key)"

definition hmac_sha256 :: "api_ext \<Rightarrow> bytes \<Rightarrow> string \<Rightarrow> bytes" where
  "hmac_sha256 A key message =
     (let inner = ax_sha256 A (str_of (xor_key 0x36 key) @ message)
      in ax_sha256 A (str_of (xor_key 0x5c key) @ str_of inner))"

section \<open>Cursors\<close>

definition MAX_CURSOR_BYTES :: nat where "MAX_CURSOR_BYTES = 2048"
definition CURSOR_TTL_SECONDS :: int where "CURSOR_TTL_SECONDS = 24 * 60 * 60"

record cursor_payload =
  cp_version :: nat
  cp_key_id :: string
  cp_expires_at :: int
  cp_resource :: string
  cp_after :: string
  cp_filter_hash :: string

record cursor_position =
  ps_resource :: string
  ps_after :: string
  ps_filter_hash :: string

text \<open>\<open>cx_to_vec\<close> and \<open>cx_from_slice\<close> are the JSON codec of the payload, \<open>cx_base64\<close> is the unpadded URL-safe
  encoder.\<close>

record cursor_ext =
  cx_to_vec :: "cursor_payload \<Rightarrow> bytes option"
  cx_from_slice :: "bytes \<Rightarrow> cursor_payload option"
  cx_base64 :: "bytes \<Rightarrow> string"

definition i64_saturate :: "int \<Rightarrow> int" where
  "i64_saturate x = max (- (2 ^ 63)) (min (2 ^ 63 - 1) x)"

definition cursor_expiry :: "int \<Rightarrow> int" where
  "cursor_expiry now = i64_saturate (i64_saturate (now div CURSOR_TTL_SECONDS + 2) * CURSOR_TTL_SECONDS)"

definition encode_cursor ::
    "api_ext \<Rightarrow> cursor_ext \<Rightarrow> int \<Rightarrow> cursor_position \<Rightarrow> cursor_keyring \<Rightarrow> api_error + string" where
  "encode_cursor A C now position keyring =
     (let key = kr_current keyring;
          payload = \<lparr>cp_version = 2, cp_key_id = ck_key_id key, cp_expires_at = cursor_expiry (unix_timestamp now),
            cp_resource = ps_resource position, cp_after = ps_after position,
            cp_filter_hash = ps_filter_hash position\<rparr>
      in rbind (ok_or (cx_to_vec C payload) (InvalidCursor ''cursor encoding failed'')) (\<lambda>payload.
         let encoded = cx_base64 C payload;
             signature = hex (hmac_sha256 A (ck_key key) encoded)
         in Inr (encoded @ ''.'' @ signature)))"

definition decode_cursor ::
    "api_ext \<Rightarrow> cursor_ext \<Rightarrow> int \<Rightarrow> string \<Rightarrow> cursor_keyring \<Rightarrow> string \<Rightarrow> string \<Rightarrow> api_error + string" where
  "decode_cursor A C now cursor keyring resource filter_hash =
     rbind (ensure (\<not> length cursor > MAX_CURSOR_BYTES) (InvalidCursor ''cursor is too large'')) (\<lambda>_.
     rbind (ok_or (split_once (CHR ''.'') cursor) (InvalidCursor ''cursor is malformed'')) (\<lambda>(encoded, supplied).
     rbind (ok_or (ax_base64 A encoded) (InvalidCursor ''cursor payload is invalid'')) (\<lambda>bytes.
     rbind (ok_or (cx_from_slice C bytes) (InvalidCursor ''cursor payload is invalid'')) (\<lambda>payload.
     rbind (ok_or (keyring_find keyring (cp_key_id payload)) (InvalidCursor ''cursor signature is invalid'')) (\<lambda>key.
     rbind (ensure (constant_time_eq (bytes_of supplied) (bytes_of (hex (hmac_sha256 A (ck_key key) encoded))))
       (InvalidCursor ''cursor signature is invalid'')) (\<lambda>_.
     rbind (ensure (\<not> (cp_version payload \<noteq> 2 \<or> cp_expires_at payload \<le> unix_timestamp now
          \<or> cp_resource payload \<noteq> resource \<or> cp_filter_hash payload \<noteq> filter_hash
          \<or> cp_after payload = [] \<or> length (cp_after payload) > 256))
       (InvalidCursor ''cursor does not match this query'')) (\<lambda>_.
     Inr (cp_after payload))))))))"

section \<open>Documented behaviour of the codecs\<close>

text \<open>A text without characters that JSON escapes.\<close>

definition plain :: "string \<Rightarrow> bool" where
  "plain s \<longleftrightarrow> list_all (\<lambda>c. is_ascii_graphic c \<and> c \<noteq> CHR 0x22 \<and> c \<noteq> CHR 0x5C) s"

definition plain_payload :: "cursor_payload \<Rightarrow> bool" where
  "plain_payload p \<longleftrightarrow> cp_version p < 256 \<and> - (2 ^ 63) \<le> cp_expires_at p \<and> cp_expires_at p < 2 ^ 63
     \<and> plain (cp_key_id p) \<and> plain (cp_resource p) \<and> plain (cp_after p) \<and> plain (cp_filter_hash p)"

definition payload_text :: "cursor_payload \<Rightarrow> nat" where
  "payload_text p = length (cp_key_id p) + length (cp_resource p) + length (cp_after p) + length (cp_filter_hash p)"

text \<open>The JSON codec and base64 are inverted by their decoders; JSON adds fewer than 200 bytes to texts it need not
  escape, base64 at most doubles the length and has no full stop in its alphabet.\<close>

definition cursor_codec :: "api_ext \<Rightarrow> cursor_ext \<Rightarrow> bool" where
  "cursor_codec A C \<longleftrightarrow>
     (\<forall>p. plain_payload p \<longrightarrow> (\<exists>v. cx_to_vec C p = Some v \<and> cx_from_slice C v = Some p
        \<and> length v \<le> 200 + payload_text p))
   \<and> (\<forall>b. ax_base64 A (cx_base64 C b) = Some b \<and> CHR ''.'' \<notin> set (cx_base64 C b)
        \<and> length (cx_base64 C b) \<le> 2 * length b)"

section \<open>Bytes and text\<close>

lemma str_of_bytes_of [simp]: "str_of (bytes_of s) = s"
proof -
  have "char_of (unat (word_of_nat (byte c) :: 8 word)) = c" for c
    using byte_less [of c] by (simp add: unat_of_nat)
  then show ?thesis
    by (simp add: str_of_def bytes_of_def comp_def)
qed

lemma bytes_of_inj: "bytes_of s = bytes_of t \<longleftrightarrow> s = t"
  by (metis str_of_bytes_of)

lemma constant_time_eq_iff: "constant_time_eq l r \<longleftrightarrow> l = r"
  using digest_eq_iff [of l r] by (auto simp: constant_time_eq_def digest_eq_def)

lemma hex_digits: "list_all (\<lambda>n. hex_value (hex_digit n) = Some n \<and> hex_digit n \<noteq> CHR ''.'' \<and> is_ascii_graphic (hex_digit n)
    \<and> hex_digit n \<noteq> CHR 0x22 \<and> hex_digit n \<noteq> CHR 0x5C) [0..<16]"
  by code_simp

lemma hex_digit:
  assumes "n < 16"
  shows "hex_value (hex_digit n) = Some n" "hex_digit n \<noteq> CHR ''.''" "is_ascii_graphic (hex_digit n)"
    "hex_digit n \<noteq> CHR 0x22" "hex_digit n \<noteq> CHR 0x5C"
  using hex_digits assms unfolding list_all_iff set_upt by (meson atLeastLessThan_iff le0)+

lemma nibbles: "unat (b :: 8 word) div 16 < 16" "unat b mod 16 < 16"
  using unsigned_less [of b, where 'a = nat] by auto

lemma hex_Cons: "hex (b # bs) = hex_digit (unat b div 16) # hex_digit (unat b mod 16) # hex bs"
  by (simp add: hex_def)

lemma hex_Nil [simp]: "hex [] = []"
  by (simp add: hex_def)

lemma hex_pairs_hex: "hex_pairs (hex bs) = bs"
proof (induction bs)
  case (Cons b bs)
  have "hex_pairs (hex (b # bs)) = of_nat (16 * (unat b div 16) + unat b mod 16) # hex_pairs (hex bs)"
    by (simp only: hex_Cons hex_pairs.simps hex_digit(1) nibbles option.sel)
  with Cons show ?case
    by (simp only: mult_div_mod_eq) simp
qed simp

lemma hex_no_stop: "CHR ''.'' \<notin> set (hex bs)"
  by (induction bs) (simp_all add: hex_Cons hex_digit(2) [OF nibbles(1)] hex_digit(2) [OF nibbles(2)] eq_commute [of "CHR ''.''"])

lemma hex_plain: "plain (hex bs)"
  by (induction bs) (simp_all add: plain_def hex_Cons hex_digit(3-5) [OF nibbles(1)] hex_digit(3-5) [OF nibbles(2)])

lemma length_hex [simp]: "length (hex bs) = 2 * length bs"
  by (induction bs) (simp_all add: hex_Cons)

lemma until_char: "c \<notin> set s \<Longrightarrow> takeWhile (\<lambda>b. b \<noteq> c) (s @ c # t) = s \<and> dropWhile (\<lambda>b. b \<noteq> c) (s @ c # t) = c # t"
  by (induction s) auto

lemma split_once_encoded: "c \<notin> set s \<Longrightarrow> split_once c (s @ c # t) = Some (s, t)"
  by (simp add: split_once_def until_char)

lemma split_once_Some:
  assumes "split_once c s = Some (l, r)"
  shows "s = l @ c # r \<and> c \<notin> set l"
proof -
  have "c \<in> set s"
    using assms by (auto simp: split_once_def split: if_splits)
  then obtain u v where s: "s = u @ c # v" "c \<notin> set u"
    by (meson split_list_first)
  with assms show ?thesis
    by (simp add: split_once_encoded)
qed

section \<open>The key ring\<close>

lemma key_char_plain:
  "is_ascii_alphanumeric c \<or> c \<in> {CHR ''.'', CHR ''_'', CHR ''-''} \<Longrightarrow> is_ascii_graphic c \<and> c \<noteq> CHR 0x22 \<and> c \<noteq> CHR 0x5C"
  by (auto simp: is_ascii_alphanumeric_def is_ascii_alphabetic_def is_ascii_lowercase_def is_ascii_uppercase_def
      is_ascii_digit_def is_ascii_graphic_def byte_def)

lemma key_id_plain:
  assumes "validate_key_id i = Inr u"
  shows "plain i \<and> length i \<le> 32"
proof
  have *: "length i \<le> 32" "list_all (\<lambda>b. is_ascii_alphanumeric b \<or> b \<in> {CHR ''.'', CHR ''_'', CHR ''-''}) i"
    using assms by (simp_all add: validate_key_id_def MAX_CURSOR_KEY_ID_BYTES_def split: if_split_asm)
  show "plain i"
    unfolding plain_def by (rule list.pred_mono_strong [OF *(2)]) (rule key_char_plain)
  show "length i \<le> 32"
    by (rule *(1))
qed

lemma decode_entry_ok:
  "decode_entry A e = Inr k \<Longrightarrow> plain (ck_key_id k) \<and> length (ck_key_id k) \<le> 32 \<and> length (ck_key k) = 32"
  by (auto simp: decode_entry_def result_simps dest: key_id_plain)

text \<open>A ring from a file has keys of 32 bytes with different names.\<close>

definition keyring_ok :: "cursor_keyring \<Rightarrow> bool" where
  "keyring_ok ring \<longleftrightarrow>
     (\<forall>k. k = kr_current ring \<or> kr_previous ring = Some k \<longrightarrow> plain (ck_key_id k) \<and> length (ck_key_id k) \<le> 32
        \<and> length (ck_key k) = 32)
   \<and> (\<forall>p. kr_previous ring = Some p \<longrightarrow> ck_key_id p \<noteq> ck_key_id (kr_current ring))"

lemma keyring_from_file_ok:
  assumes "keyring_from_file A f = Inr ring"
  shows "keyring_ok ring"
proof -
  obtain current previous where 1: "decode_entry A (cf_current f) = Inr current"
      and 2: "(case cf_previous f of None \<Rightarrow> Inr None | Some entry \<Rightarrow> rbind (decode_entry A entry) (\<lambda>key. Inr (Some key)))
        = (Inr previous :: string + cursor_key option)"
      and 3: "\<not> (case previous of None \<Rightarrow> False | Some p \<Rightarrow> ck_key_id p = ck_key_id current)"
      and ring: "ring = \<lparr>kr_current = current, kr_previous = previous\<rparr>"
    using assms unfolding keyring_from_file_def rbind_Inr_iff ensure_Inr_iff by (auto split: if_split_asm)
  show ?thesis
  proof (cases previous)
    case None
    then show ?thesis
      using decode_entry_ok [OF 1] by (simp add: keyring_ok_def ring)
  next
    case (Some p)
    then obtain e where "decode_entry A e = Inr p"
      using 2 by (cases "cf_previous f") (simp_all add: rbind_Inr_iff)
    from decode_entry_ok [OF this] show ?thesis
      using decode_entry_ok [OF 1] 3 by (simp add: keyring_ok_def ring Some)
  qed
qed

lemma keyring_find_name: "keyring_find ring i = Some k \<Longrightarrow> ck_key_id k = i"
  by (auto simp: keyring_find_def split: if_splits option.splits)

section \<open>Expiry\<close>

text \<open>The instants that the \<open>time\<close> crate represents.\<close>

definition clock_ok :: "int \<Rightarrow> bool" where
  "clock_ok now \<longleftrightarrow> -377705116800 \<le> unix_timestamp now \<and> unix_timestamp now \<le> 253402300799"

lemma cursor_expiry_window:
  assumes "clock_ok now"
  shows "unix_timestamp now + CURSOR_TTL_SECONDS < cursor_expiry (unix_timestamp now)
    \<and> cursor_expiry (unix_timestamp now) \<le> unix_timestamp now + 2 * CURSOR_TTL_SECONDS"
proof -
  define t where "t = unix_timestamp now"
  have t: "-377705116800 \<le> t" "t \<le> 253402300799"
    using assms by (auto simp: clock_ok_def t_def)
  have "cursor_expiry t = (t div 86400 + 2) * 86400"
    using t by (auto simp: cursor_expiry_def i64_saturate_def CURSOR_TTL_SECONDS_def max_def min_def)
  moreover have "t div 86400 * 86400 \<le> t" "t < t div 86400 * 86400 + 86400"
    using div_mult_mod_eq [of t 86400] pos_mod_bound [of 86400 t] pos_mod_sign [of 86400 t] by linarith+
  ultimately show ?thesis
    by (simp add: CURSOR_TTL_SECONDS_def flip: t_def)
qed

section \<open>Encoding and decoding\<close>

text \<open>A position as the handlers build it.\<close>

definition position_ok :: "cursor_position \<Rightarrow> bool" where
  "position_ok pos \<longleftrightarrow> plain (ps_resource pos) \<and> length (ps_resource pos) \<le> 32
     \<and> plain (ps_after pos) \<and> ps_after pos \<noteq> [] \<and> length (ps_after pos) \<le> 256
     \<and> plain (ps_filter_hash pos) \<and> length (ps_filter_hash pos) \<le> 64"

definition position_payload :: "int \<Rightarrow> cursor_position \<Rightarrow> cursor_key \<Rightarrow> cursor_payload" where
  "position_payload now pos key = \<lparr>cp_version = 2, cp_key_id = ck_key_id key,
     cp_expires_at = cursor_expiry (unix_timestamp now), cp_resource = ps_resource pos, cp_after = ps_after pos,
     cp_filter_hash = ps_filter_hash pos\<rparr>"

lemma cursor_expiry_i64: "- (2 ^ 63) \<le> cursor_expiry t \<and> cursor_expiry t < 2 ^ 63"
  by (auto simp: cursor_expiry_def i64_saturate_def max_def min_def)

lemma position_payload_plain: "position_ok pos \<Longrightarrow> plain (ck_key_id key) \<Longrightarrow> plain_payload (position_payload now pos key)"
  using cursor_expiry_i64 [of "unix_timestamp now"] by (simp add: plain_payload_def position_payload_def position_ok_def)

lemma encode_cursor_eq:
  assumes "cursor_codec A C" "keyring_ok ring" "position_ok pos"
  obtains v where "cx_from_slice C v = Some (position_payload now pos (kr_current ring))"
    "encode_cursor A C now pos ring
       = Inr (cx_base64 C v @ CHR ''.'' # hex (hmac_sha256 A (ck_key (kr_current ring)) (cx_base64 C v)))"
    "length (cx_base64 C v) \<le> 1168"
proof -
  let ?p = "position_payload now pos (kr_current ring)"
  have key: "plain (ck_key_id (kr_current ring))" "length (ck_key_id (kr_current ring)) \<le> 32"
    using assms(2) by (auto simp: keyring_ok_def)
  then obtain v where v: "cx_to_vec C ?p = Some v" "cx_from_slice C v = Some ?p" "length v \<le> 200 + payload_text ?p"
    using assms(1) position_payload_plain [OF assms(3)] unfolding cursor_codec_def by blast
  have "payload_text ?p \<le> 384"
    using key assms(3) by (simp add: payload_text_def position_payload_def position_ok_def)
  moreover have "length (cx_base64 C v) \<le> 2 * length v"
    using assms(1) by (simp add: cursor_codec_def)
  ultimately have "length (cx_base64 C v) \<le> 1168"
    using v(3) by linarith
  moreover have "encode_cursor A C now pos ring
      = Inr (cx_base64 C v @ CHR ''.'' # hex (hmac_sha256 A (ck_key (kr_current ring)) (cx_base64 C v)))"
    using v(1) by (simp add: encode_cursor_def Let_def position_payload_def)
  ultimately show thesis
    using that v(2) by blast
qed

text \<open>What a cursor of this server does at any later point, under any ring that still has its key.\<close>

lemma decode_encoded:
  assumes "cursor_codec A C" "sha256_sized A" "keyring_ok ring" "position_ok pos"
    and "encode_cursor A C now pos ring = Inr c"
    and "keyring_find ring' (ck_key_id (kr_current ring)) = Some k" "ck_key k = ck_key (kr_current ring)"
  shows "decode_cursor A C now' c ring' resource filter_hash =
    (if unix_timestamp now' < cursor_expiry (unix_timestamp now) \<and> resource = ps_resource pos
        \<and> filter_hash = ps_filter_hash pos
     then Inr (ps_after pos) else Inl (InvalidCursor ''cursor does not match this query''))"
proof -
  obtain v where v: "cx_from_slice C v = Some (position_payload now pos (kr_current ring))"
      and c: "c = cx_base64 C v @ CHR ''.'' # hex (hmac_sha256 A (ck_key (kr_current ring)) (cx_base64 C v))"
      and len: "length (cx_base64 C v) \<le> 1168"
    by (rule encode_cursor_eq [OF assms(1,3,4), of now]) (use assms(5) in simp)
  have mac: "length (hmac_sha256 A k m) = 32" for k m
    using assms(2) by (simp add: hmac_sha256_def sha256_sized_def Let_def)
  have "length c \<le> MAX_CURSOR_BYTES"
    using len mac by (simp add: c MAX_CURSOR_BYTES_def)
  moreover have "ax_base64 A (cx_base64 C v) = Some v" "CHR ''.'' \<notin> set (cx_base64 C v)"
    using assms(1) by (auto simp: cursor_codec_def)
  moreover from this have "split_once (CHR ''.'') c
      = Some (cx_base64 C v, hex (hmac_sha256 A (ck_key (kr_current ring)) (cx_base64 C v)))"
    unfolding c by (intro split_once_encoded)
  ultimately show ?thesis
    using v assms(4,6,7)
    by (simp add: decode_cursor_def position_payload_def constant_time_eq_iff position_ok_def ensure_def not_less not_le)
qed

text \<open>A cursor is accepted only with the MAC of a key of the ring, for its own listing and before its expiry.\<close>

lemma decode_cursor_authentic:
  assumes "decode_cursor A C now c ring resource filter_hash = Inr after"
  shows "\<exists>encoded v p k. c = encoded @ CHR ''.'' # hex (hmac_sha256 A (ck_key k) encoded)
    \<and> (k = kr_current ring \<or> kr_previous ring = Some k) \<and> ax_base64 A encoded = Some v \<and> cx_from_slice C v = Some p
    \<and> cp_key_id p = ck_key_id k \<and> cp_version p = 2 \<and> unix_timestamp now < cp_expires_at p
    \<and> cp_resource p = resource \<and> cp_filter_hash p = filter_hash \<and> cp_after p = after
    \<and> after \<noteq> [] \<and> length after \<le> 256"
proof -
  obtain encoded supplied v p k where *: "split_once (CHR ''.'') c = Some (encoded, supplied)"
      "ax_base64 A encoded = Some v" "cx_from_slice C v = Some p" "keyring_find ring (cp_key_id p) = Some k"
      "supplied = hex (hmac_sha256 A (ck_key k) encoded)" "cp_version p = 2" "unix_timestamp now < cp_expires_at p"
      "cp_resource p = resource" "cp_filter_hash p = filter_hash" "cp_after p = after" "after \<noteq> []" "length after \<le> 256"
    using assms by (auto simp: decode_cursor_def result_simps constant_time_eq_iff bytes_of_inj)
  have "k = kr_current ring \<or> kr_previous ring = Some k"
    using *(4) by (auto simp: keyring_find_def split: if_splits option.splits)
  then show ?thesis
    using * split_once_Some [OF *(1)] keyring_find_name [OF *(4)]
    by (intro exI [of _ encoded] exI [of _ v] exI [of _ p] exI [of _ k]) simp
qed

section \<open>Example\<close>

text \<open>A codec with the documented behaviour: bytes for the numbers, texts ended by a zero byte, and hexadecimal digits
  in the place of base64.\<close>

definition example_to_vec :: "cursor_payload \<Rightarrow> bytes" where
  "example_to_vec p = word_of_nat (cp_version p)
     # map (\<lambda>i. of_bool (bit (cp_expires_at p + 2 ^ 63) i)) [0..<64]
     @ bytes_of (cp_key_id p) @ 0 # bytes_of (cp_resource p) @ 0 # bytes_of (cp_after p) @ 0 # bytes_of (cp_filter_hash p)"

definition example_from_slice :: "bytes \<Rightarrow> cursor_payload option" where
  "example_from_slice b =
     (let (version, rest) = (unat (hd b), tl b);
          expires = horner_sum of_bool 2 (map (\<lambda>w. w = 1) (take 64 rest)) - 2 ^ 63;
          upto = takeWhile (\<lambda>w. w \<noteq> 0); past = (\<lambda>b. tl (dropWhile (\<lambda>w. w \<noteq> 0) b));
          s1 = drop 64 rest; s2 = past s1; s3 = past s2; s4 = past s3
      in Some \<lparr>cp_version = version, cp_key_id = str_of (upto s1), cp_expires_at = expires,
           cp_resource = str_of (upto s2), cp_after = str_of (upto s3), cp_filter_hash = str_of s4\<rparr>)"

definition cursor_example_ext :: cursor_ext where
  "cursor_example_ext = \<lparr>cx_to_vec = (\<lambda>p. Some (example_to_vec p)), cx_from_slice = example_from_slice, cx_base64 = hex\<rparr>"

definition cursor_example_api :: api_ext where
  "cursor_example_api = auth_example_ext\<lparr>ax_base64 := (\<lambda>s. Some (hex_pairs s)),
     ax_base64_std := (\<lambda>s. Some (replicate 32 (of_nat (length s))))\<rparr>"

definition cursor_example_file :: cursor_key_file where
  "cursor_example_file = \<lparr>cf_schema = CURSOR_KEY_FILE_SCHEMA, cf_current = \<lparr>ce_key_id = ''k2'', ce_key_base64 = ''two''\<rparr>,
     cf_previous = Some \<lparr>ce_key_id = ''k1'', ce_key_base64 = ''one''\<rparr>\<rparr>"

definition cursor_example_ring :: cursor_keyring where
  "cursor_example_ring = \<lparr>kr_current = \<lparr>ck_key_id = ''k2'', ck_key = replicate 32 3\<rparr>,
     kr_previous = Some \<lparr>ck_key_id = ''k1'', ck_key = replicate 32 3\<rparr>\<rparr>"

lemma example_file_ring: "keyring_from_file cursor_example_api cursor_example_file = Inr cursor_example_ring"
  by (simp add: keyring_from_file_def cursor_example_file_def cursor_example_ring_def decode_entry_def validate_key_id_def
    cursor_example_api_def MAX_CURSOR_KEY_ID_BYTES_def is_ascii_alphanumeric_def is_ascii_alphabetic_def
    is_ascii_lowercase_def is_ascii_uppercase_def is_ascii_digit_def byte_def)

lemma graphic_nonzero:
  assumes "is_ascii_graphic c"
  shows "(0 :: 8 word) \<noteq> word_of_nat (byte c)"
proof
  assume *: "(0 :: 8 word) = word_of_nat (byte c)"
  have "unat (word_of_nat (byte c) :: 8 word) = byte c"
    using byte_less [of c] by (simp add: unat_of_nat)
  with * have "byte c = 0"
    by simp
  with assms show False
    by (simp add: is_ascii_graphic_def)
qed

lemma plain_nonzero: "plain s \<Longrightarrow> (0 :: 8 word) \<notin> set (bytes_of s)"
  by (induction s) (simp_all add: plain_def bytes_of_def graphic_nonzero)

lemma until_zero: "(0 :: 8 word) \<notin> set s \<Longrightarrow> takeWhile (\<lambda>w. w \<noteq> 0) (s @ 0 # t) = s \<and> dropWhile (\<lambda>w. w \<noteq> 0) (s @ 0 # t) = 0 # t"
  by (induction s) auto

lemma expiry_bits:
  fixes e :: int
  assumes "- (2 ^ 63) \<le> e" "e < 2 ^ 63"
  shows "horner_sum of_bool 2 (map (\<lambda>w. w = (1 :: 8 word)) (map (\<lambda>i. of_bool (bit (e + 2 ^ 63) i)) [0..<64])) - 2 ^ 63 = e"
proof -
  have "map (\<lambda>w. w = (1 :: 8 word)) (map (\<lambda>i. of_bool (bit (e + 2 ^ 63) i)) [0..<64]) = map (bit (e + 2 ^ 63)) [0..<64]"
    by simp
  moreover have "take_bit 64 (e + 2 ^ 63) = e + 2 ^ 63"
    using assms by (intro take_bit_int_eq_self) auto
  ultimately show ?thesis
    by (simp only: horner_sum_bit_eq_take_bit add_diff_cancel_right')
qed

lemma example_codec: "cursor_codec cursor_example_api cursor_example_ext"
proof -
  have "example_from_slice (example_to_vec p) = Some p \<and> length (example_to_vec p) \<le> 200 + payload_text p"
    if "plain_payload p" for p
  proof
    show "length (example_to_vec p) \<le> 200 + payload_text p"
      by (simp add: example_to_vec_def payload_text_def bytes_of_def)
    have "unat (word_of_nat (cp_version p) :: 8 word) = cp_version p"
      using that by (simp add: plain_payload_def unat_of_nat)
    moreover have "(0 :: 8 word) \<notin> set (bytes_of (cp_key_id p))" "(0 :: 8 word) \<notin> set (bytes_of (cp_resource p))"
      "(0 :: 8 word) \<notin> set (bytes_of (cp_after p))"
      using that by (auto simp: plain_payload_def dest: plain_nonzero)
    ultimately show "example_from_slice (example_to_vec p) = Some p"
      using that expiry_bits [of "cp_expires_at p"]
      by (simp add: example_from_slice_def example_to_vec_def Let_def until_zero plain_payload_def del: upt_Suc map_map)
  qed
  then show ?thesis
    by (simp add: cursor_codec_def cursor_example_ext_def cursor_example_api_def hex_pairs_hex hex_no_stop)
qed

definition cursor_example_position :: cursor_position where
  "cursor_example_position = \<lparr>ps_resource = ''nodes'', ps_after = ''n1'', ps_filter_hash = ''h''\<rparr>"

definition cursor_example_rotated :: cursor_keyring where
  "cursor_example_rotated = \<lparr>kr_current = \<lparr>ck_key_id = ''k3'', ck_key = replicate 32 9\<rparr>,
     kr_previous = Some (kr_current cursor_example_ring)\<rparr>"

lemma cursor_example_ok:
  "sha256_sized cursor_example_api" "position_ok cursor_example_position" "clock_ok 0"
  by (simp_all add: sha256_sized_def cursor_example_api_def auth_example_ext_def position_ok_def cursor_example_position_def
    plain_def is_ascii_graphic_def byte_def clock_ok_def unix_timestamp_def)

section \<open>Properties\<close>

text \<open>C25. A server always issues a cursor for a position of its listings. The cursor is valid for more than 24 and at
  most 48 hours: until then it decodes to the position it was issued for, also after its key has moved to the second
  place of the ring, and with another listing, other filters or after its expiry it is refused. A text is accepted as
  a cursor only when it carries the MAC of a key of the ring.\<close>

theorem cursor_round_trip:
  assumes "cursor_codec A C" "sha256_sized A" "keyring_from_file A f = Inr ring" "position_ok pos" "clock_ok now"
    and "keyring_find ring' (ck_key_id (kr_current ring)) = Some k" "ck_key k = ck_key (kr_current ring)"
  shows "\<exists>c expiry. encode_cursor A C now pos ring = Inr c
    \<and> unix_timestamp now + 24 * 60 * 60 < expiry \<and> expiry \<le> unix_timestamp now + 48 * 60 * 60
    \<and> (\<forall>now' resource filter_hash. decode_cursor A C now' c ring' resource filter_hash =
        (if unix_timestamp now' < expiry \<and> resource = ps_resource pos \<and> filter_hash = ps_filter_hash pos
         then Inr (ps_after pos) else Inl (InvalidCursor ''cursor does not match this query'')))
    \<and> (\<forall>now' c' resource filter_hash after. decode_cursor A C now' c' ring' resource filter_hash = Inr after \<longrightarrow>
        (\<exists>key encoded. (key = kr_current ring' \<or> kr_previous ring' = Some key)
           \<and> c' = encoded @ CHR ''.'' # hex (hmac_sha256 A (ck_key key) encoded)))"
proof -
  have ring: "keyring_ok ring"
    using assms(3) by (rule keyring_from_file_ok)
  obtain c where c: "encode_cursor A C now pos ring = Inr c"
    using encode_cursor_eq [OF assms(1) ring assms(4)] by blast
  let ?expiry = "cursor_expiry (unix_timestamp now)"
  have "unix_timestamp now + 24 * 60 * 60 < ?expiry" "?expiry \<le> unix_timestamp now + 48 * 60 * 60"
    using cursor_expiry_window [OF assms(5)] by (simp_all add: CURSOR_TTL_SECONDS_def)
  moreover have "\<exists>key encoded. (key = kr_current ring' \<or> kr_previous ring' = Some key)
      \<and> c' = encoded @ CHR ''.'' # hex (hmac_sha256 A (ck_key key) encoded)"
    if "decode_cursor A C now' c' ring' resource filter_hash = Inr after" for now' c' resource filter_hash after
    using decode_cursor_authentic [OF that] by blast
  ultimately show ?thesis
    using c decode_encoded [OF assms(1,2) ring assms(4) c assms(6,7)] by blast
qed

theorem cursor_round_trip_witness:
  "\<exists>c. encode_cursor cursor_example_api cursor_example_ext 0 cursor_example_position cursor_example_ring = Inr c
    \<and> decode_cursor cursor_example_api cursor_example_ext 1000000000 c cursor_example_rotated ''nodes'' ''h'' = Inr ''n1''"
proof -
  have "keyring_find cursor_example_rotated (ck_key_id (kr_current cursor_example_ring)) = Some (kr_current cursor_example_ring)"
    by (simp add: keyring_find_def cursor_example_ring_def cursor_example_rotated_def)
  from cursor_round_trip [OF example_codec cursor_example_ok(1) example_file_ring cursor_example_ok(2,3) this refl]
  obtain c expiry where c: "encode_cursor cursor_example_api cursor_example_ext 0 cursor_example_position cursor_example_ring = Inr c"
      and "unix_timestamp 0 + 24 * 60 * 60 < expiry"
      and decode: "\<forall>now' resource filter_hash.
        decode_cursor cursor_example_api cursor_example_ext now' c cursor_example_rotated resource filter_hash =
          (if unix_timestamp now' < expiry \<and> resource = ps_resource cursor_example_position
              \<and> filter_hash = ps_filter_hash cursor_example_position
           then Inr (ps_after cursor_example_position) else Inl (InvalidCursor ''cursor does not match this query''))"
    by (elim exE conjE) (rule that)
  then have "unix_timestamp 1000000000 < expiry"
    by (simp add: unix_timestamp_def)
  with c decode show ?thesis
    by (simp add: cursor_example_position_def)
qed

text \<open>C28. A server that starts has a well-formed configuration: it is read-only and bounds its pages by a limit between 1
  and 10000; every configured digest and key has 32 bytes, every identity a role, mTLS subjects are distinct and come
  with a proxy secret, a break-glass account is an administrator's and ends within the hour; the cursor keys have
  different names. Without a remote authentication method it listens on the loopback interface only.\<close>

theorem api_start_well_formed:
  assumes "api_config_from_cli read_only max_limit loopback token (\<lambda>legacy. authenticator_load X A start legacy file)
      (Some (keyring_from_file A key_file)) = Inr (a, ring)"
    and "\<forall>d. token = Some (Inr d) \<longrightarrow> length d = 32"
  shows "read_only \<and> 1 \<le> max_limit \<and> max_limit \<le> 10000 \<and> auth_config_ok start (au_config a)
    \<and> (\<forall>d. au_legacy_bearer a = Some d \<longrightarrow> length d = 32) \<and> keyring_ok ring
    \<and> (\<not> auth_enabled a \<longrightarrow> loopback) \<and> (ac_local_development (au_config a) \<longrightarrow> \<not> auth_enabled a)"
proof -
  obtain legacy where load: "authenticator_load X A start legacy file = Inr a"
      and legacy: "\<forall>d. legacy = Some d \<longrightarrow> token = Some (Inr d)"
    using config_from_cli(3) [OF assms(1)] by blast
  moreover have "au_legacy_bearer a = legacy"
    using load by (auto simp: authenticator_load_def rbind_Inr_iff split: if_splits)
  moreover have "keyring_from_file A key_file = Inr ring" "1 \<le> max_limit" "max_limit \<le> 10000"
    using assms(1) by (auto simp: api_config_from_cli_def rbind_Inr_iff ABSOLUTE_MAX_LIMIT_def)
  ultimately show ?thesis
    using load_ok [OF load] config_from_cli(1,2) [OF assms(1)] keyring_from_file_ok assms(2) by blast
qed

theorem api_start_well_formed_witness:
  "auth_config_ok 0 (au_config auth_example) \<and> keyring_ok cursor_example_ring"
proof -
  have "authenticator_load example_ext cursor_example_api 0 None (Some auth_example_file) = Inr auth_example"
    using auth_example_load by (simp add: authenticator_load_def auth_config_from_file_def auth_example_file_def)
  then have "api_config_from_cli True 1000 False None
      (\<lambda>legacy. authenticator_load example_ext cursor_example_api 0 legacy (Some auth_example_file))
      (Some (keyring_from_file cursor_example_api cursor_example_file)) = Inr (auth_example, cursor_example_ring)"
    by (simp add: api_config_from_cli_def ABSOLUTE_MAX_LIMIT_def example_file_ring)
      (simp add: auth_example_def auth_enabled_def has_remote_method_def mtls_proxy_enabled_def)
  from api_start_well_formed [OF this] show ?thesis
    by simp
qed

end
