(* ===== verification/Api_Pages.thy ===== *)
theory Api_Pages
  imports Api_Cursor Retention
begin

text \<open>The node and health-history listings of the HTTP API: the statements of the read-only store
  (\<open>ocfleet-api/src/readonly_store.rs\<close>), the projections to JSON (\<open>projections.rs\<close>) and the handlers of
  \<open>v1.rs\<close> and \<open>routes.rs\<close>.

  The read-only store opens the database for each call, so a handler is a function of the tables at that moment. A
  JSON column is its value: the schema checks \<open>json_valid\<close>. The locale \<open>keyset\<close> is the contract between a statement
  with a keyset condition and the handlers that page through it: the rows after a position are proved in it, and it is
  interpreted for both listings. The client that follows the cursors and the theorems about it come after.\<close>

section \<open>Tables\<close>

record health_row =
  hr_node_id :: string
  hr_endpoint_id :: "string option"
  hr_computed_at :: string
  hr_status :: string
  hr_freshness_seconds :: "int option"
  hr_last_success_at :: "string option"
  hr_last_failure_at :: "string option"
  hr_last_error_code :: "string option"
  hr_degraded_methods :: json
  hr_summary :: json

record history_row =
  hy_evaluation_id :: string
  hy_health :: health_row

record node_metadata =
  nm_node_id :: string
  nm_environment :: string
  nm_site :: string
  nm_owner_team :: string
  nm_service_tier :: string
  nm_labels :: json
  nm_expected_agent_version :: "string option"
  nm_updated_at :: string

record node_maintenance_window =
  mw_node_id :: string
  mw_starts_at :: string
  mw_ends_at :: string
  mw_reason :: string
  mw_updated_at :: string

record api_tables =
  at_nodes :: "node_row list"
  at_health :: "health_row list"
  at_history :: "history_row list"
  at_metadata :: "node_metadata list"
  at_maintenance :: "node_maintenance_window list"

record health_snapshot =
  sn_node_id :: string
  sn_endpoint_id :: "string option"
  sn_computed_at :: string
  sn_status :: string
  sn_freshness_seconds :: "nat option"
  sn_last_success_at :: "string option"
  sn_last_failure_at :: "string option"
  sn_last_error_code :: "string option"
  sn_degraded_methods :: json
  sn_summary :: json

record node_health =
  nh_node :: node_record
  nh_snapshot :: "health_snapshot option"
  nh_metadata :: "json option"
  nh_maintenance :: "json option"

record history_record =
  hi_evaluation_id :: string
  hi_snapshot :: health_snapshot

text \<open>Failures of a read: a column that does not decode, a record that its validator refuses, an argument out of
  range. The handlers answer all of them with \<open>Internal\<close>.\<close>

datatype read_error = ReadColumn nat string | ReadRecord nat store_error | ReadArgument string

definition to_i64 :: "nat \<Rightarrow> string \<Rightarrow> read_error + nat" where
  "to_i64 value name = (if value \<le> i64_max then Inr value else Inl (ReadArgument (name @ '' is too large'')))"

section \<open>Rows to records\<close>

definition health_payloads :: "nat \<Rightarrow> health_row \<Rightarrow> read_error + unit" where
  "health_payloads column row =
     rbind (map_err (ReadColumn column) (degraded_from_value (hr_degraded_methods row))) (\<lambda>_.
     rbind (map_err (ReadColumn (column + 1)) (health_summary_from_value (hr_summary row))) (\<lambda>summary.
     map_err (ReadColumn (column + 1)) (validate_health_payload_relationship (hr_status row) summary)))"

definition snapshot_of :: "health_row \<Rightarrow> nat option \<Rightarrow> health_snapshot" where
  "snapshot_of row freshness = \<lparr>sn_node_id = hr_node_id row, sn_endpoint_id = hr_endpoint_id row,
     sn_computed_at = hr_computed_at row, sn_status = hr_status row, sn_freshness_seconds = freshness,
     sn_last_success_at = hr_last_success_at row, sn_last_failure_at = hr_last_failure_at row,
     sn_last_error_code = hr_last_error_code row, sn_degraded_methods = hr_degraded_methods row,
     sn_summary = hr_summary row\<rparr>"

definition non_negative :: "int option \<Rightarrow> nat option" where
  "non_negative v = Option.bind v (\<lambda>i. if 0 \<le> i then Some (nat i) else None)"

definition node_health_from_row :: "node_row \<Rightarrow> health_row option \<Rightarrow> read_error + node_health" where
  "node_health_from_row row health =
     rbind (case health of
         None \<Rightarrow> Inr None
       | Some h \<Rightarrow> rbind (health_payloads 14 h) (\<lambda>_.
           Inr (Some (snapshot_of h (non_negative (hr_freshness_seconds h)))))) (\<lambda>snapshot.
     Inr \<lparr>nh_node = \<lparr>nd_node_id = nr_node_id row, nd_endpoint_id = nr_endpoint_id row, nd_name = nr_name row,
         nd_region = nr_region row, nd_role = nr_role row, nd_enabled = nr_enabled row\<rparr>,
       nh_snapshot = snapshot, nh_metadata = None, nh_maintenance = None\<rparr>)"

definition health_history_from_row :: "history_row \<Rightarrow> read_error + history_record" where
  "health_history_from_row row =
     rbind (health_payloads 9 (hy_health row)) (\<lambda>_.
     rbind (case hr_freshness_seconds (hy_health row) of
         None \<Rightarrow> Inr None
       | Some i \<Rightarrow> if 0 \<le> i then Inr (Some (nat i)) else Inl (ReadColumn 5 ''out of range'')) (\<lambda>freshness.
     Inr \<lparr>hi_evaluation_id = hy_evaluation_id row, hi_snapshot = snapshot_of (hy_health row) freshness\<rparr>))"

definition validate_node_metadata_record :: "ext \<Rightarrow> node_metadata \<Rightarrow> store_error + unit" where
  "validate_node_metadata_record X m = all_ok [
     map_err (\<lambda>e. SeInvalidInput (validation_error_text e)) (validate_node_id (nm_node_id m)),
     map_err SeInvalidInput (validate_metadata_value (nm_environment m) ''environment''),
     map_err SeInvalidInput (validate_metadata_value (nm_site m) ''site''),
     map_err SeInvalidInput (validate_metadata_value (nm_owner_team m) ''owner_team''),
     map_err SeInvalidInput (validate_metadata_value (nm_service_tier m) ''service_tier''),
     map_err SeInvalidInput (validate_label_json (nm_labels m) ''labels''),
     validate_low_sensitive_json X (nm_labels m) ''node labels'',
     (case nm_expected_agent_version m of
        None \<Rightarrow> Inr ()
      | Some version \<Rightarrow> map_err SeInvalidInput (validate_agent_version version)),
     check_rfc3339 X (nm_updated_at m) ''metadata updated_at'']"

definition validate_node_maintenance_record :: "ext \<Rightarrow> node_maintenance_window \<Rightarrow> store_error + unit" where
  "validate_node_maintenance_record X w =
     rbind (map_err (\<lambda>e. SeInvalidInput (validation_error_text e)) (validate_node_id (mw_node_id w))) (\<lambda>_.
     rbind (validate_bounded_rfc3339 X (mw_starts_at w) ''node maintenance starts_at'') (\<lambda>start.
     rbind (validate_bounded_rfc3339 X (mw_ends_at w) ''node maintenance ends_at'') (\<lambda>end_at.
     rbind (ensure (\<not> start \<ge> end_at)
       (SeInvalidInput ''node maintenance ends_at must be later than starts_at'')) (\<lambda>_.
     rbind (map_err SeInvalidInput (validate_reason (mw_reason w))) (\<lambda>_.
     check_rfc3339 X (mw_updated_at w) ''node maintenance updated_at'')))))"

text \<open>\<open>query_row(..).optional()\<close> on a primary key.\<close>

definition optional_row :: "('a \<Rightarrow> read_error + 'b) \<Rightarrow> 'a option \<Rightarrow> read_error + 'b option" where
  "optional_row f row = (case row of None \<Rightarrow> Inr None | Some r \<Rightarrow> rbind (f r) (\<lambda>v. Inr (Some v)))"

definition metadata_json :: "ext \<Rightarrow> node_metadata \<Rightarrow> read_error + json" where
  "metadata_json X m =
     rbind (map_err (ReadRecord 4) (validate_node_metadata_record X m)) (\<lambda>_.
     Inr (jobj [(''environment'', JStr (nm_environment m)), (''site'', JStr (nm_site m)),
       (''owner_team'', JStr (nm_owner_team m)), (''service_tier'', JStr (nm_service_tier m)),
       (''labels'', nm_labels m), (''expected_agent_version'', jstr_opt (nm_expected_agent_version m)),
       (''updated_at'', JStr (nm_updated_at m))]))"

definition maintenance_json :: "ext \<Rightarrow> node_maintenance_window \<Rightarrow> read_error + json" where
  "maintenance_json X w =
     rbind (map_err (ReadRecord 0) (validate_node_maintenance_record X w)) (\<lambda>_.
     Inr (jobj [(''from'', JStr (mw_starts_at w)), (''to'', JStr (mw_ends_at w)), (''reason'', JStr (mw_reason w)),
       (''updated_at'', JStr (mw_updated_at w))]))"

definition attach_node_advisory :: "ext \<Rightarrow> api_tables \<Rightarrow> node_health \<Rightarrow> read_error + node_health" where
  "attach_node_advisory X t r =
     (let node_id = nd_node_id (nh_node r) in
      rbind (optional_row (metadata_json X) (find (\<lambda>m. nm_node_id m = node_id) (at_metadata t))) (\<lambda>metadata.
      rbind (optional_row (maintenance_json X) (find (\<lambda>w. mw_node_id w = node_id) (at_maintenance t))) (\<lambda>maintenance.
      Inr (r\<lparr>nh_metadata := metadata, nh_maintenance := maintenance\<rparr>))))"

section \<open>Statements\<close>

definition health_of :: "api_tables \<Rightarrow> node_row \<Rightarrow> health_row option" where
  "health_of t n = find (\<lambda>h. hr_node_id h = nr_node_id n) (at_health t)"

definition effective_status :: "api_tables \<Rightarrow> node_row \<Rightarrow> string" where
  "effective_status t n =
     (if \<not> nr_enabled n then ''disabled''
      else case health_of t n of None \<Rightarrow> ''unknown'' | Some h \<Rightarrow> hr_status h)"

text \<open>A record of the join, with its advisories.\<close>

definition node_health_of :: "ext \<Rightarrow> api_tables \<Rightarrow> node_row \<Rightarrow> read_error + node_health" where
  "node_health_of X t n = rbind (node_health_from_row n (health_of t n)) (attach_node_advisory X t)"

definition read_nodes :: "ext \<Rightarrow> api_tables \<Rightarrow> node_row list \<Rightarrow> read_error + node_health list" where
  "read_nodes X t rows =
     rbind (map_ok (\<lambda>n. node_health_from_row n (health_of t n)) rows) (\<lambda>records.
     map_ok (attach_node_advisory X t) records)"

definition list_node_health :: "ext \<Rightarrow> api_tables \<Rightarrow> nat \<Rightarrow> read_error + node_health list" where
  "list_node_health X t limit =
     rbind (to_i64 limit ''limit'') (\<lambda>limit. read_nodes X t (take limit (sort_key nr_node_id (at_nodes t))))"

definition get_node_health :: "ext \<Rightarrow> api_tables \<Rightarrow> string \<Rightarrow> read_error + node_health option" where
  "get_node_health X t node_id =
     optional_row (node_health_of X t) (find (\<lambda>n. nr_node_id n = node_id) (at_nodes t))"

record node_filters =
  nf_after :: "string option"
  nf_region :: "string option"
  nf_role :: "string option"
  nf_environment :: "string option"
  nf_label_key :: "string option"
  nf_label_value :: "string option"
  nf_status :: "string option"

text \<open>\<open>?n IS NULL OR column = ?n\<close>; a column of an absent joined row is \<open>NULL\<close> and equals nothing.\<close>

definition matches :: "'a option \<Rightarrow> 'a option \<Rightarrow> bool" where
  "matches wanted column \<longleftrightarrow> (case wanted of None \<Rightarrow> True | Some v \<Rightarrow> column = Some v)"

definition label_matches :: "node_filters \<Rightarrow> node_metadata option \<Rightarrow> bool" where
  "label_matches f m \<longleftrightarrow>
     (case nf_label_key f of
        None \<Rightarrow> True
      | Some key \<Rightarrow>
          (case m of
             Some md \<Rightarrow> (case nm_labels md of
                 JObj kvs \<Rightarrow> list_ex (\<lambda>(k, v). k = key \<and> (case v of JStr s \<Rightarrow> nf_label_value f = Some s | _ \<Rightarrow> False)) kvs
               | _ \<Rightarrow> False)
           | None \<Rightarrow> False))"

definition node_matches :: "api_tables \<Rightarrow> node_filters \<Rightarrow> node_row \<Rightarrow> bool" where
  "node_matches t f n \<longleftrightarrow>
     (let m = find (\<lambda>m. nm_node_id m = nr_node_id n) (at_metadata t) in
        matches (nf_region f) (Some (nr_region n)) \<and> matches (nf_role f) (Some (nr_role n))
      \<and> matches (nf_environment f) (map_option nm_environment m) \<and> label_matches f m
      \<and> matches (nf_status f) (Some (effective_status t n)))"

definition node_page_rows :: "api_tables \<Rightarrow> nat \<Rightarrow> node_filters \<Rightarrow> node_row list" where
  "node_page_rows t limit f = take limit (sort_key nr_node_id
     (filter (\<lambda>n. (case nf_after f of None \<Rightarrow> True | Some after \<Rightarrow> after < nr_node_id n) \<and> node_matches t f n)
       (at_nodes t)))"

definition list_node_health_page :: "ext \<Rightarrow> api_tables \<Rightarrow> nat \<Rightarrow> node_filters \<Rightarrow> read_error + node_health list" where
  "list_node_health_page X t limit f =
     rbind (to_i64 limit ''limit'') (\<lambda>limit. read_nodes X t (node_page_rows t limit f))"

record history_filters =
  hf_after :: "(string \<times> string \<times> string) option"
  hf_node_id :: "string option"
  hf_status :: "string option"
  hf_from :: string
  hf_to :: string

definition history_key :: "history_row \<Rightarrow> string \<times> string \<times> string" where
  "history_key row = (hr_computed_at (hy_health row), hr_node_id (hy_health row), hy_evaluation_id row)"

definition history_matches :: "history_filters \<Rightarrow> history_row \<Rightarrow> bool" where
  "history_matches f row \<longleftrightarrow>
     hf_from f \<le> hr_computed_at (hy_health row) \<and> hr_computed_at (hy_health row) < hf_to f
   \<and> matches (hf_node_id f) (Some (hr_node_id (hy_health row)))
   \<and> matches (hf_status f) (Some (hr_status (hy_health row)))"

definition history_page_rows :: "api_tables \<Rightarrow> nat \<Rightarrow> history_filters \<Rightarrow> history_row list" where
  "history_page_rows t limit f = take limit (rev (sort_key history_key
     (filter (\<lambda>r. history_matches f r \<and> (case hf_after f of None \<Rightarrow> True | Some after \<Rightarrow> history_key r < after))
       (at_history t))))"

definition list_health_history_page :: "api_tables \<Rightarrow> nat \<Rightarrow> history_filters \<Rightarrow> read_error + history_record list" where
  "list_health_history_page t limit f =
     rbind (to_i64 limit ''limit'') (\<lambda>limit. map_ok health_history_from_row (history_page_rows t limit f))"

text \<open>\<open>fleet_health_summary\<close>: the groups of the statement, each stored at the index of its status.\<close>

definition status_index :: "string \<Rightarrow> nat" where
  "status_index status =
     (if status = ''healthy'' then 0 else if status = ''degraded'' then 1 else if status = ''unreachable'' then 2
      else if status = ''stale'' then 3 else if status = ''disabled'' then 4 else 5)"

definition status_groups :: "api_tables \<Rightarrow> (string \<times> nat) list" where
  "status_groups t = map (\<lambda>s. (s, length (filter (\<lambda>n. effective_status t n = s) (at_nodes t))))
     (sort (remdups (map (effective_status t) (at_nodes t))))"

definition fleet_health_summary :: "api_tables \<Rightarrow> nat list" where
  "fleet_health_summary t =
     foldl (\<lambda>counts (status, count). counts[status_index status := count]) (replicate 6 0) (status_groups t)"

section \<open>Projections\<close>

definition safe_health_status :: "string \<Rightarrow> string" where
  "safe_health_status status =
     (if status \<in> {''healthy'', ''degraded'', ''unreachable'', ''stale'', ''disabled'', ''unknown''} then status
      else ''unknown'')"

definition ok_value :: "'e + 'a \<Rightarrow> 'a option" where
  "ok_value r = (case r of Inl _ \<Rightarrow> None | Inr a \<Rightarrow> Some a)"

definition summary_json :: "health_summary \<Rightarrow> json" where
  "summary_json s = jobj [(''region'', jstr_opt (hs_region s)), (''role'', jstr_opt (hs_role s)),
     (''status'', JStr (hs_status s)), (''endpoint_status'', jstr_opt (hs_endpoint_status s)),
     (''consecutive_failures'', jopt jnat (hs_consecutive_failures s))]"

definition health_node_to_json :: "node_health \<Rightarrow> json" where
  "health_node_to_json r =
     (let node = nh_node r; snapshot = nh_snapshot r;
          status = (if \<not> nd_enabled node then ''disabled''
            else case snapshot of None \<Rightarrow> ''unknown'' | Some s \<Rightarrow> safe_health_status (sn_status s));
          methods = (case Option.bind snapshot (\<lambda>s. ok_value (degraded_from_value (sn_degraded_methods s))) of
              None \<Rightarrow> [] | Some p \<Rightarrow> dm_methods p);
          summary = (case Option.bind snapshot (\<lambda>s. ok_value (health_summary_from_value (sn_summary s))) of
              None \<Rightarrow> jobj [] | Some s \<Rightarrow> summary_json s)
      in jobj [
        (''node_id'', JStr (nd_node_id node)), (''endpoint_id'', JStr (nd_endpoint_id node)),
        (''name'', JStr (nd_name node)), (''region'', JStr (nd_region node)), (''role'', JStr (nd_role node)),
        (''enabled'', JBool (nd_enabled node)), (''metadata'', jopt (\<lambda>v. v) (nh_metadata r)),
        (''maintenance'', jopt (\<lambda>v. v) (nh_maintenance r)), (''status'', JStr status),
        (''computed_at'', jstr_opt (map_option sn_computed_at snapshot)),
        (''freshness_seconds'', jopt jnat (Option.bind snapshot sn_freshness_seconds)),
        (''last_success_at'', jstr_opt (Option.bind snapshot sn_last_success_at)),
        (''last_failure_at'', jstr_opt (Option.bind snapshot sn_last_failure_at)),
        (''last_error_code'', jstr_opt (Option.bind snapshot sn_last_error_code)),
        (''degraded_methods'', jstrs methods), (''summary'', summary)])"

definition health_summary_to_json :: "node_health list \<Rightarrow> json" where
  "health_summary_to_json records =
     (let statuses = map (\<lambda>r. if \<not> nd_enabled (nh_node r) then ''disabled''
            else case nh_snapshot r of None \<Rightarrow> ''unknown'' | Some s \<Rightarrow> sn_status s) records;
          count = (\<lambda>i. JInt (int (length (filter (\<lambda>s. status_index s = i) statuses))))
      in jobj [(''total'', JInt (int (length statuses))), (''healthy'', count 0), (''degraded'', count 1),
           (''unreachable'', count 2), (''stale'', count 3), (''disabled'', count 4), (''unknown'', count 5)])"

definition history_json :: "history_record \<Rightarrow> json" where
  "history_json r =
     (let s = hi_snapshot r in jobj [(''evaluation_id'', JStr (hi_evaluation_id r)), (''node_id'', JStr (sn_node_id s)),
        (''endpoint_id'', jstr_opt (sn_endpoint_id s)), (''computed_at'', JStr (sn_computed_at s)),
        (''status'', JStr (sn_status s)), (''freshness_seconds'', jopt jnat (sn_freshness_seconds s)),
        (''last_success_at'', jstr_opt (sn_last_success_at s)), (''last_failure_at'', jstr_opt (sn_last_failure_at s)),
        (''last_error_code'', jstr_opt (sn_last_error_code s))])"

section \<open>Queries and responses\<close>

text \<open>The libraries of the handlers: those of the components below, the JSON printer, which is total on values, and the
  formatter of an instant in UTC.\<close>

record api_env =
  ae_ext :: ext
  ae_api :: api_ext
  ae_cursor :: cursor_ext
  ae_json :: "json \<Rightarrow> string"
  ae_format :: "int \<Rightarrow> string option"

record app_state =
  ap_max_limit :: nat
  ap_authenticator :: authenticator
  ap_cursor_keys :: cursor_keyring

definition DEFAULT_LIMIT :: nat where "DEFAULT_LIMIT = 50"

record nodes_query =
  nq_limit :: "nat option"
  nq_cursor :: "string option"
  nq_region :: "string option"
  nq_role :: "string option"
  nq_environment :: "string option"
  nq_label :: "string option"
  nq_status :: "string option"

record history_query =
  hq_from :: string
  hq_to :: string
  hq_limit :: "nat option"
  hq_cursor :: "string option"
  hq_node_id :: "string option"
  hq_status :: "string option"

definition db :: "read_error + 'a \<Rightarrow> api_error + 'a" where
  "db r = map_err (\<lambda>_. Internal) r"

definition page_limit :: "nat option \<Rightarrow> nat \<Rightarrow> api_error + nat" where
  "page_limit value mx =
     (let v = (case value of Some v \<Rightarrow> v | None \<Rightarrow> min DEFAULT_LIMIT mx)
      in if v = 0 \<or> v > mx then Inl (BadRequest (''limit must be between 1 and '' @ show_nat mx)) else Inr v)"

definition split_after :: "string \<Rightarrow> nat \<Rightarrow> api_error + string list" where
  "split_after value count =
     (let parts = split_on (\<lambda>c. c = CHR ''|'') value
      in if length parts \<noteq> count \<or> list_ex (\<lambda>v. v = []) parts then Inl (InvalidCursor ''cursor position is invalid'')
         else Inr parts)"

definition page_data :: "nat \<Rightarrow> string option \<Rightarrow> json list \<Rightarrow> json" where
  "page_data limit next_cursor items = jobj [(''schema'', JStr ''ocfleet.api.v1.page''), (''limit'', jnat limit),
     (''count'', jnat (length items)), (''next_cursor'', jstr_opt next_cursor), (''items'', JArr items)]"

definition validate_filter_value :: "string \<Rightarrow> string \<Rightarrow> api_error + unit" where
  "validate_filter_value field value =
     (if value \<noteq> [] \<and> length value \<le> 128
        \<and> list_all (\<lambda>b. is_ascii_alphanumeric b \<or> b \<in> {CHR ''.'', CHR ''_'', CHR ''-'', CHR ''@''}) value
      then Inr () else Inl (BadRequest (field @ '' is invalid'')))"

definition filter_value_opt :: "string \<Rightarrow> string option \<Rightarrow> api_error + unit" where
  "filter_value_opt field value = (case value of None \<Rightarrow> Inr () | Some v \<Rightarrow> validate_filter_value field v)"

definition status_supported :: "string option \<Rightarrow> api_error + unit" where
  "status_supported status =
     ensure (case status of None \<Rightarrow> True
       | Some s \<Rightarrow> s \<in> {''healthy'', ''degraded'', ''unreachable'', ''stale'', ''disabled'', ''unknown''})
       (BadRequest ''status is not supported'')"

definition parse_label_filter :: "string \<Rightarrow> api_error + string \<times> string" where
  "parse_label_filter value =
     rbind (ok_or (split_once (CHR ''='') value) (BadRequest ''label must use key=value'')) (\<lambda>(key, v).
     rbind (map_err BadRequest (validate_label_json (jobj [(key, JStr v)]) ''label'')) (\<lambda>_.
     Inr (key, v)))"

definition MAX_AUDIT_EXPORT_WINDOW_DAYS :: int where "MAX_AUDIT_EXPORT_WINDOW_DAYS = 31"

definition validate_window :: "ext \<Rightarrow> string \<Rightarrow> string \<Rightarrow> string + int \<times> int" where
  "validate_window X from to =
     rbind (ok_or (parse_rfc3339 X from) ''--from must be RFC3339'') (\<lambda>f.
     rbind (ok_or (parse_rfc3339 X to) ''--to must be RFC3339'') (\<lambda>t.
     rbind (ensure (\<not> f \<ge> t) ''--from must be before --to'') (\<lambda>_.
     rbind (ensure (\<not> t - f > ns_of_secs (MAX_AUDIT_EXPORT_WINDOW_DAYS * 86400))
       (''audit export window must be at most '' @ show_int MAX_AUDIT_EXPORT_WINDOW_DAYS @ '' days'')) (\<lambda>_.
     Inr (f, t)))))"

definition normalize_window :: "api_env \<Rightarrow> string \<Rightarrow> string \<Rightarrow> api_error + string \<times> string" where
  "normalize_window E from to =
     rbind (map_err BadRequest (validate_window (ae_ext E) from to)) (\<lambda>(f, t).
     rbind (ok_or (ae_format E f) Internal) (\<lambda>from.
     rbind (ok_or (ae_format E t) Internal) (\<lambda>to.
     Inr (from, to))))"

definition generic_filter_hash :: "api_env \<Rightarrow> json \<Rightarrow> string" where
  "generic_filter_hash E value = hex (ax_sha256 (ae_api E) (ae_json E value))"

definition filter_hash :: "api_env \<Rightarrow> nodes_query \<Rightarrow> string" where
  "filter_hash E q = hex (ax_sha256 (ae_api E) (ae_json E (jobj [(''region'', jstr_opt (nq_region q)),
     (''role'', jstr_opt (nq_role q)), (''environment'', jstr_opt (nq_environment q)),
     (''label'', jstr_opt (nq_label q)), (''status'', jstr_opt (nq_status q))])))"

text \<open>A response is its status, its entity tag and its body; both forms carry the same cache headers.\<close>

datatype api_response = NotModified string | JsonResponse string json

definition conditional_json :: "api_env \<Rightarrow> headers \<Rightarrow> json \<Rightarrow> api_response" where
  "conditional_json E h data =
     (let body = jobj [(''data'', data)];
          etag = [CHR 0x22] @ hex (ax_sha256 (ae_api E) (ae_json E body)) @ [CHR 0x22]
      in case h ''if-none-match'' of
           Some value \<Rightarrow>
             if list_ex (\<lambda>candidate. trim candidate = etag) (split_on (\<lambda>c. c = CHR '','') value) then NotModified etag
             else JsonResponse etag body
         | None \<Rightarrow> JsonResponse etag body)"

section \<open>Handlers\<close>

text \<open>A query that the framework could not decode is \<open>None\<close>. The clock is read once per request.\<close>

definition decode_after ::
    "api_env \<Rightarrow> app_state \<Rightarrow> int \<Rightarrow> string option \<Rightarrow> string \<Rightarrow> string \<Rightarrow> api_error + string option" where
  "decode_after E S now cursor resource hash =
     (case cursor of
        None \<Rightarrow> Inr None
      | Some c \<Rightarrow> rbind (decode_cursor (ae_api E) (ae_cursor E) now c (ap_cursor_keys S) resource hash)
          (\<lambda>after. Inr (Some after)))"

definition next_cursor ::
    "api_env \<Rightarrow> app_state \<Rightarrow> int \<Rightarrow> string \<Rightarrow> string \<Rightarrow> ('r \<Rightarrow> string) \<Rightarrow> bool \<Rightarrow> 'r list \<Rightarrow> api_error + string option" where
  "next_cursor E S now resource hash after_of has_more records =
     (if has_more \<and> records \<noteq> [] then
        rbind (encode_cursor (ae_api E) (ae_cursor E) now
            \<lparr>ps_resource = resource, ps_after = after_of (last records), ps_filter_hash = hash\<rparr> (ap_cursor_keys S))
          (\<lambda>c. Inr (Some c))
      else Inr None)"

definition nodes_handler ::
    "api_env \<Rightarrow> app_state \<Rightarrow> int \<Rightarrow> api_tables \<Rightarrow> headers \<Rightarrow> nodes_query option \<Rightarrow> api_error + api_response" where
  "nodes_handler E S now t h qry =
     rbind (authorize (ae_api E) (ap_authenticator S) now h FleetRead) (\<lambda>_.
     rbind (ok_or qry (BadRequest ''invalid or unsupported query parameters'')) (\<lambda>q.
     let limit = (case nq_limit q of Some v \<Rightarrow> v | None \<Rightarrow> min DEFAULT_LIMIT (ap_max_limit S)) in
     rbind (ensure (\<not> (limit = 0 \<or> limit > ap_max_limit S))
       (BadRequest (''limit must be between 1 and '' @ show_nat (ap_max_limit S)))) (\<lambda>_.
     rbind (filter_value_opt ''region'' (nq_region q)) (\<lambda>_.
     rbind (filter_value_opt ''role'' (nq_role q)) (\<lambda>_.
     rbind (filter_value_opt ''environment'' (nq_environment q)) (\<lambda>_.
     rbind (status_supported (nq_status q)) (\<lambda>_.
     rbind (case nq_label q of
         None \<Rightarrow> Inr (None, None)
       | Some l \<Rightarrow> rbind (parse_label_filter l) (\<lambda>(k, v). Inr (Some k, Some v))) (\<lambda>(label_key, label_value).
     let hash = filter_hash E q in
     rbind (decode_after E S now (nq_cursor q) ''nodes'' hash) (\<lambda>after.
     rbind (ensure (limit + 1 \<le> u64_max) (BadRequest ''limit is too large'')) (\<lambda>_.
     rbind (db (list_node_health_page (ae_ext E) t (limit + 1)
       \<lparr>nf_after = after, nf_region = nq_region q, nf_role = nq_role q, nf_environment = nq_environment q,
        nf_label_key = label_key, nf_label_value = label_value, nf_status = nq_status q\<rparr>)) (\<lambda>rows.
     let records = take limit rows in
     rbind (next_cursor E S now ''nodes'' hash (\<lambda>r. nd_node_id (nh_node r)) (length rows > limit) records) (\<lambda>next_c.
     Inr (conditional_json E h (page_data limit next_c (map health_node_to_json records)))))))))))))))"

definition health_history_handler ::
    "api_env \<Rightarrow> app_state \<Rightarrow> int \<Rightarrow> api_tables \<Rightarrow> headers \<Rightarrow> history_query option \<Rightarrow> api_error + api_response" where
  "health_history_handler E S now t h qry =
     rbind (authorize (ae_api E) (ap_authenticator S) now h HealthRead) (\<lambda>_.
     rbind (ok_or qry (BadRequest ''invalid or unsupported query parameters'')) (\<lambda>q.
     rbind (normalize_window E (hq_from q) (hq_to q)) (\<lambda>(from, to).
     rbind (page_limit (hq_limit q) (ap_max_limit S)) (\<lambda>limit.
     rbind (filter_value_opt ''node_id'' (hq_node_id q)) (\<lambda>_.
     rbind (status_supported (hq_status q)) (\<lambda>_.
     let hash = generic_filter_hash E (jobj [(''from'', JStr from), (''to'', JStr to),
           (''node_id'', jstr_opt (hq_node_id q)), (''status'', jstr_opt (hq_status q))]) in
     rbind (decode_after E S now (hq_cursor q) ''health-history'' hash) (\<lambda>after.
     rbind (case after of
         None \<Rightarrow> Inr None
       | Some a \<Rightarrow> rbind (split_after a 3) (\<lambda>p. Inr (Some (p ! 0, p ! 1, p ! 2)))) (\<lambda>parts.
     rbind (db (list_health_history_page t (limit + 1)
       \<lparr>hf_after = parts, hf_node_id = hq_node_id q, hf_status = hq_status q, hf_from = from, hf_to = to\<rparr>)) (\<lambda>rows.
     let records = take limit rows in
     rbind (next_cursor E S now ''health-history'' hash
       (\<lambda>r. sn_computed_at (hi_snapshot r) @ ''|'' @ sn_node_id (hi_snapshot r) @ ''|'' @ hi_evaluation_id r)
       (length rows > limit) records) (\<lambda>next_c.
     Inr (conditional_json E h (page_data limit next_c (map history_json records)))))))))))))"

definition fleet_summary_handler ::
    "api_env \<Rightarrow> app_state \<Rightarrow> int \<Rightarrow> api_tables \<Rightarrow> headers \<Rightarrow> unit option \<Rightarrow> api_error + api_response" where
  "fleet_summary_handler E S now t h qry =
     rbind (authorize (ae_api E) (ap_authenticator S) now h FleetRead) (\<lambda>_.
     rbind (ok_or qry (BadRequest ''query parameters are not supported'')) (\<lambda>_.
     let counts = fleet_health_summary t in
     Inr (conditional_json E h (jobj [(''schema'', JStr ''ocfleet.api.v1.fleet-summary''),
       (''total'', jnat (sum_list counts)),
       (''status'', jobj [(''healthy'', jnat (counts ! 0)), (''degraded'', jnat (counts ! 1)),
          (''unreachable'', jnat (counts ! 2)), (''stale'', jnat (counts ! 3)), (''disabled'', jnat (counts ! 4)),
          (''unknown'', jnat (counts ! 5))])]))))"

definition node_handler ::
    "api_env \<Rightarrow> app_state \<Rightarrow> int \<Rightarrow> api_tables \<Rightarrow> headers \<Rightarrow> string \<Rightarrow> unit option \<Rightarrow> api_error + api_response" where
  "node_handler E S now t h node_id qry =
     rbind (authorize (ae_api E) (ap_authenticator S) now h FleetRead) (\<lambda>_.
     rbind (ok_or qry (BadRequest ''query parameters are not supported'')) (\<lambda>_.
     rbind (validate_filter_value ''node_id'' node_id) (\<lambda>_.
     rbind (db (get_node_health (ae_ext E) t node_id)) (\<lambda>found.
     rbind (ok_or found (NotFound (''node not found: '' @ node_id))) (\<lambda>record.
     Inr (conditional_json E h (jobj [(''schema'', JStr ''ocfleet.api.v1.node''),
       (''item'', health_node_to_json record)])))))))"

text \<open>The unversioned routes answer with the time of the answer, the text \<open>generated_at\<close>.\<close>

definition list_response :: "string \<Rightarrow> nat \<Rightarrow> json list \<Rightarrow> json" where
  "list_response generated_at limit items = jobj [(''generated_at'', JStr generated_at), (''limit'', jnat limit),
     (''count'', jnat (length items)), (''items'', JArr items)]"

definition single_response :: "string \<Rightarrow> json \<Rightarrow> json" where
  "single_response generated_at item = jobj [(''generated_at'', JStr generated_at), (''item'', item)]"

definition summary_response :: "string \<Rightarrow> json \<Rightarrow> json" where
  "summary_response generated_at summary = jobj [(''generated_at'', JStr generated_at), (''summary'', summary)]"

definition validate_identifier :: "string \<Rightarrow> string \<Rightarrow> api_error + unit" where
  "validate_identifier field value =
     (if value \<noteq> [] \<and> length value \<le> 256
        \<and> list_all (\<lambda>b. is_ascii_alphanumeric b \<or> b \<in> {CHR ''-'', CHR ''_'', CHR ''.'', CHR '':''}) value
      then Inr () else Inl (BadRequest (field @ '' must be a safe identifier'')))"

definition health_summary_route ::
    "api_env \<Rightarrow> app_state \<Rightarrow> int \<Rightarrow> api_tables \<Rightarrow> headers \<Rightarrow> string \<Rightarrow> api_error + json" where
  "health_summary_route E S now t h generated_at =
     rbind (authorize (ae_api E) (ap_authenticator S) now h HealthRead) (\<lambda>_.
     rbind (db (list_node_health (ae_ext E) t (ap_max_limit S))) (\<lambda>records.
     Inr (summary_response generated_at (health_summary_to_json records))))"

definition health_nodes_route ::
    "api_env \<Rightarrow> app_state \<Rightarrow> int \<Rightarrow> api_tables \<Rightarrow> headers \<Rightarrow> string \<Rightarrow> api_error + json" where
  "health_nodes_route E S now t h generated_at =
     rbind (authorize (ae_api E) (ap_authenticator S) now h HealthRead) (\<lambda>_.
     rbind (db (list_node_health (ae_ext E) t (ap_max_limit S))) (\<lambda>records.
     Inr (list_response generated_at (ap_max_limit S) (map health_node_to_json records))))"

definition health_node_route ::
    "api_env \<Rightarrow> app_state \<Rightarrow> int \<Rightarrow> api_tables \<Rightarrow> headers \<Rightarrow> string \<Rightarrow> string \<Rightarrow> api_error + json" where
  "health_node_route E S now t h generated_at node_id =
     rbind (authorize (ae_api E) (ap_authenticator S) now h HealthRead) (\<lambda>_.
     rbind (validate_identifier ''node_id'' node_id) (\<lambda>_.
     rbind (db (get_node_health (ae_ext E) t node_id)) (\<lambda>found.
     rbind (ok_or found (NotFound (''node not found: '' @ node_id))) (\<lambda>record.
     Inr (single_response generated_at (health_node_to_json record))))))"

section \<open>Keyset pages\<close>

text \<open>The contract of a statement with a keyset condition: a page holds the first rows of the listing that come after
  a key. The listing of a valid table is strictly ordered by its keys.\<close>

locale keyset =
  fixes before :: "'k \<Rightarrow> 'k \<Rightarrow> bool"
    and key :: "'r \<Rightarrow> 'k"
    and valid :: "'d \<Rightarrow> bool"
    and listing :: "'d \<Rightarrow> 'r list"
    and page :: "'d \<Rightarrow> 'k option \<Rightarrow> nat \<Rightarrow> 'r list"
  assumes asym: "before k l \<Longrightarrow> \<not> before l k"
    and ordered: "valid d \<Longrightarrow> sorted_wrt (\<lambda>r s. before (key r) (key s)) (listing d)"
    and page: "page d after n
      = take n (filter (\<lambda>r. case after of None \<Rightarrow> True | Some k \<Rightarrow> before k (key r)) (listing d))"
begin

text \<open>The rows after a position: the last row seen, or the start.\<close>

definition rest :: "'d \<Rightarrow> 'k option \<Rightarrow> 'r list" where
  "rest d after = filter (\<lambda>r. case after of None \<Rightarrow> True | Some k \<Rightarrow> before k (key r)) (listing d)"

lemma page_rest: "page d after n = take n (rest d after)"
  by (simp add: page rest_def)

lemma rest_ordered: "valid d \<Longrightarrow> sorted_wrt (\<lambda>r s. before (key r) (key s)) (rest d after)"
  by (simp add: rest_def ordered sorted_wrt_filter)

lemma rest_append:
  assumes "valid d" "listing d = xs @ ys"
  shows "rest d (if xs = [] then None else Some (key (last xs))) = ys"
proof (cases xs rule: rev_cases)
  case (snoc zs z)
  have "sorted_wrt (\<lambda>r s. before (key r) (key s)) (zs @ z # ys)"
    using ordered [OF assms(1)] by (simp add: assms(2) snoc)
  then have "\<forall>r \<in> set zs. before (key r) (key z)" "\<forall>r \<in> set ys. before (key z) (key r)"
    by (auto simp: sorted_wrt_append)
  moreover have "\<not> before (key z) (key z)"
    using asym by blast
  ultimately have "filter (\<lambda>r. before (key z) (key r)) (zs @ z # ys) = ys"
    using asym by (auto simp: filter_empty_conv intro: filter_True)
  then show ?thesis
    by (simp add: rest_def assms(2) snoc)
qed (simp add: rest_def assms(2))

end

text \<open>A listing by a unique key, ascending or descending.\<close>

lemma sort_key_strict:
  assumes "distinct (map f xs)"
  shows "sorted_wrt (\<lambda>x y. f x < f y) (sort_key f xs)"
proof -
  have "distinct (map f (sort_key f xs))"
    using assms by (simp add: distinct_map)
  then have "sorted_wrt (<) (map f (sort_key f xs))"
    by (simp add: strict_sorted_iff)
  then show ?thesis
    by (simp add: sorted_wrt_map)
qed

lemma distinct_map_filter: "distinct (map f xs) \<Longrightarrow> distinct (map f (filter P xs))"
  by (induction xs) auto

definition node_listing :: "api_tables \<times> node_filters \<Rightarrow> node_row list" where
  "node_listing d = (case d of (t, f) \<Rightarrow> sort_key nr_node_id (filter (node_matches t f) (at_nodes t)))"

lemma label_matches_after [simp]: "label_matches (f\<lparr>nf_after := a\<rparr>) m = label_matches f m"
proof -
  have "nf_label_key (f\<lparr>nf_after := a\<rparr>) = nf_label_key f" "nf_label_value (f\<lparr>nf_after := a\<rparr>) = nf_label_value f"
    by simp_all
  then show ?thesis
    unfolding label_matches_def by presburger
qed

lemma node_matches_after [simp]: "node_matches t (f\<lparr>nf_after := a\<rparr>) = node_matches t f"
  by (simp add: node_matches_def fun_eq_iff)

interpretation node_pages: keyset "(<)" nr_node_id "\<lambda>(t, f). distinct (map nr_node_id (at_nodes t))" node_listing
  "\<lambda>(t, f) after n. node_page_rows t n (f\<lparr>nf_after := after\<rparr>)"
proof (unfold_locales, goal_cases)
  case (2 d)
  then show ?case
    by (auto simp: node_listing_def split: prod.splits intro!: sort_key_strict distinct_map_filter)
next
  case (3 d after n)
  show ?case
    by (cases d) (simp add: node_page_rows_def node_listing_def filter_sort conj_commute)
qed auto

definition history_listing :: "api_tables \<times> history_filters \<Rightarrow> history_row list" where
  "history_listing d = (case d of (t, f) \<Rightarrow> rev (sort_key history_key (filter (history_matches f) (at_history t))))"

lemma history_matches_after [simp]: "history_matches (f\<lparr>hf_after := a\<rparr>) = history_matches f"
  by (simp add: history_matches_def fun_eq_iff)

interpretation history_pages: keyset "(>)" history_key "\<lambda>(t, f). distinct (map history_key (at_history t))" history_listing
  "\<lambda>(t, f) after n. history_page_rows t n (f\<lparr>hf_after := after\<rparr>)"
proof (unfold_locales, goal_cases)
  case (2 d)
  then show ?case
    by (auto simp: history_listing_def sorted_wrt_rev split: prod.splits intro!: sort_key_strict distinct_map_filter)
next
  case (3 d after n)
  show ?case
    by (cases d) (simp add: history_page_rows_def history_listing_def filter_sort rev_filter [symmetric])
qed auto

section \<open>Following cursors\<close>

text \<open>What a client reads from a response, and the client that follows the cursors: the answer to its \<open>i\<close>-th request
  for the page at a cursor is \<open>get i c\<close>. It gives up after \<open>n\<close> pages.\<close>

definition page_items :: "api_response \<Rightarrow> json list option" where
  "page_items r = (case r of
     JsonResponse _ body \<Rightarrow> Option.bind (Option.bind (jget ''data'' body) (jget ''items'')) as_array
   | NotModified _ \<Rightarrow> None)"

definition page_next :: "api_response \<Rightarrow> string option" where
  "page_next r = (case r of
     JsonResponse _ body \<Rightarrow> Option.bind (Option.bind (jget ''data'' body) (jget ''next_cursor'')) as_str
   | NotModified _ \<Rightarrow> None)"

primrec walk :: "(nat \<Rightarrow> string option \<Rightarrow> api_error + api_response) \<Rightarrow> nat \<Rightarrow> nat \<Rightarrow> string option \<Rightarrow> json list option" where
  "walk get i 0 c = None"
| "walk get i (Suc n) c =
     (case get i c of
        Inl _ \<Rightarrow> None
      | Inr r \<Rightarrow> (case page_items r of
            None \<Rightarrow> None
          | Some items \<Rightarrow> (case page_next r of
                None \<Rightarrow> Some items
              | Some c' \<Rightarrow> map_option ((@) items) (walk get (Suc i) n (Some c')))))"

lemma page_of_response:
  assumes "h ''if-none-match'' = None"
  shows "page_items (conditional_json E h (page_data limit next_c items)) = Some items"
    and "page_next (conditional_json E h (page_data limit next_c items)) = next_c"
  using assms by (auto simp: page_items_def page_next_def conditional_json_def page_data_def as_array_def as_str_def
    jstr_opt_def jopt_def Let_def split: option.splits)

text \<open>A client sees the whole listing when each answer has the next rows, and a cursor to the rows after them.\<close>

lemma walk_all:
  assumes step: "\<And>i c xs ys. rows = xs @ ys \<Longrightarrow> reached i c xs \<Longrightarrow>
      \<exists>r. get i c = Inr r \<and> page_items r = Some (map item (take limit ys))
        \<and> (if length ys \<le> limit then page_next r = None
           else \<exists>c'. page_next r = Some c' \<and> reached (Suc i) (Some c') (xs @ take limit ys))"
    and "0 < limit" "rows = xs @ ys" "reached i c xs" "length ys div limit < n"
  shows "walk get i n c = Some (map item ys)"
  using assms(3-5)
proof (induction n arbitrary: i c xs ys)
  case (Suc n)
  obtain r where r: "get i c = Inr r" "page_items r = Some (map item (take limit ys))"
      and nxt: "if length ys \<le> limit then page_next r = None
         else \<exists>c'. page_next r = Some c' \<and> reached (Suc i) (Some c') (xs @ take limit ys)"
    using step [OF Suc.prems(1,2)] by blast
  show ?case
  proof (cases "length ys \<le> limit")
    case True
    then show ?thesis
      using r nxt by simp
  next
    case False
    then obtain c' where c': "page_next r = Some c'" "reached (Suc i) (Some c') (xs @ take limit ys)"
      using nxt by auto
    have "(length ys - limit) div limit < n"
      using False Suc.prems(3) \<open>0 < limit\<close> by (simp add: le_div_geq)
    then have "walk get (Suc i) n (Some c') = Some (map item (drop limit ys))"
      using Suc.IH [of "xs @ take limit ys" "drop limit ys", OF _ c'(2)] Suc.prems(1) by simp
    then show ?thesis
      using r c'(1) by (simp flip: map_append)
  qed
qed simp

text \<open>The same client while the tables change: \<open>rest i a\<close> are the rows after a position when the \<open>i\<close>-th answer is given.
  Every row it received is in the listing of its moment, the keys are strictly ascending, and a key that is always in
  the listing was received.\<close>

lemma walk_changing:
  fixes key :: "'r \<Rightarrow> 'k :: linorder"
  assumes step: "\<And>i c after. at_key i c after \<Longrightarrow>
      \<exists>r. get i c = Inr r \<and> page_items r = Some (map (item i) (take limit (rest i after)))
        \<and> (if length (rest i after) \<le> limit then page_next r = None
           else \<exists>c'. page_next r = Some c' \<and> at_key (Suc i) (Some c') (Some (key (last (take limit (rest i after))))))"
    and rest: "\<And>i after. sorted_wrt (\<lambda>r s. key r < key s) (rest i after)"
      "\<And>i after r. r \<in> set (rest i after) \<longleftrightarrow> r \<in> set (rest i None) \<and> (\<forall>k. after = Some k \<longrightarrow> k < key r)"
    and "0 < limit" "at_key i c after" "walk get i n c = Some items"
  shows "\<exists>rows. items = map (\<lambda>(j, r). item j r) rows \<and> sorted_wrt (<) (map (key \<circ> snd) rows)
    \<and> (\<forall>(j, r) \<in> set rows. r \<in> set (rest j after))
    \<and> (\<forall>k. (\<forall>j. k \<in> key ` set (rest j after)) \<longrightarrow> k \<in> key ` snd ` set rows)"
  using assms(5,6)
proof (induction n arbitrary: i c after items)
  case (Suc n)
  let ?ys = "rest i after" and ?page = "map (Pair i) (take limit (rest i after))"
  obtain r where r: "get i c = Inr r" "page_items r = Some (map (item i) (take limit ?ys))"
      and nxt: "if length ?ys \<le> limit then page_next r = None
         else \<exists>c'. page_next r = Some c' \<and> at_key (Suc i) (Some c') (Some (key (last (take limit ?ys))))"
    using step [OF Suc.prems(1)] by blast
  have sorted: "sorted_wrt (<) (map (key \<circ> snd) ?page)"
    using rest(1) [of i after] by (simp add: sorted_wrt_map comp_def sorted_wrt_take)
  have page: "\<forall>(j, r) \<in> set ?page. r \<in> set (rest j after)"
    by (auto dest: in_set_takeD)
  show ?case
  proof (cases "length ?ys \<le> limit")
    case True
    then have "items = map (\<lambda>(j, r). item j r) ?page"
      using r nxt Suc.prems(2) by (auto simp: comp_def)
    moreover have "\<forall>k. (\<forall>j. k \<in> key ` set (rest j after)) \<longrightarrow> k \<in> key ` snd ` set ?page"
      using True by (auto simp: image_image)
    ultimately show ?thesis
      using sorted page by blast
  next
    case False
    let ?k = "key (last (take limit ?ys))"
    obtain c' where c': "page_next r = Some c'" "at_key (Suc i) (Some c') (Some ?k)"
      using nxt False by auto
    obtain items' where w: "walk get (Suc i) n (Some c') = Some items'" "items = map (item i) (take limit ?ys) @ items'"
      using Suc.prems(2) r c'(1) by auto
    obtain rows where rows: "items' = map (\<lambda>(j, r). item j r) rows" "sorted_wrt (<) (map (key \<circ> snd) rows)"
        "\<forall>(j, r) \<in> set rows. r \<in> set (rest j (Some ?k))"
        "\<forall>k. (\<forall>j. k \<in> key ` set (rest j (Some ?k))) \<longrightarrow> k \<in> key ` snd ` set rows"
      using Suc.IH [OF c'(2) w(1)] by blast
    have ne: "take limit ?ys \<noteq> []"
      using False \<open>0 < limit\<close> by auto
    then have last: "last (take limit ?ys) \<in> set ?ys"
      by (metis in_set_takeD last_in_set)
    have below: "key r \<le> ?k" if "r \<in> set (take limit ?ys)" for r
      using that ne sorted_wrt_take [OF rest(1) [of i after], of limit]
      by (cases "take limit ?ys" rule: rev_cases) (auto simp: sorted_wrt_append)
    have above: "?k < key r" if "r \<in> set ?ys" "r \<notin> set (take limit ?ys)" for r
    proof -
      have "r \<in> set (drop limit ?ys)"
        using that by (metis Un_iff append_take_drop_id set_append)
      moreover have "\<forall>x \<in> set (take limit ?ys). \<forall>y \<in> set (drop limit ?ys). key x < key y"
        using rest(1) [of i after] by (metis append_take_drop_id sorted_wrt_append)
      ultimately show ?thesis
        using ne by simp
    qed
    have narrow: "r \<in> set (rest j (Some ?k)) \<longleftrightarrow> r \<in> set (rest j after) \<and> ?k < key r" for j r
      using last rest(2) [of r j after] rest(2) [of r j "Some ?k"] rest(2) [of "last (take limit ?ys)" i after]
      by (cases after) auto
    have "items = map (\<lambda>(j, r). item j r) (?page @ rows)"
      using w(2) rows(1) by (simp add: comp_def)
    moreover have "sorted_wrt (<) (map (key \<circ> snd) (?page @ rows))"
      using sorted rows(2,3) below narrow by (fastforce simp: sorted_wrt_append)
    moreover have "\<forall>(j, r) \<in> set (?page @ rows). r \<in> set (rest j after)"
      using page rows(3) narrow by auto
    moreover have "k \<in> key ` snd ` set (?page @ rows)" if always: "\<forall>j. k \<in> key ` set (rest j after)" for k
    proof (cases "?k < k")
      case True
      then have "\<forall>j. k \<in> key ` set (rest j (Some ?k))"
        using always narrow by fastforce
      with rows(4) show ?thesis
        by (simp add: image_Un)
    next
      case False
      obtain r where "r \<in> set ?ys" "k = key r"
        using always by blast
      with False above have "k \<in> key ` set (take limit ?ys)"
        by blast
      then show ?thesis
        by (simp add: image_Un image_image)
    qed
    ultimately show ?thesis
      by blast
  qed
qed simp

section \<open>Cursors of the handlers\<close>

text \<open>The laws of the environment, and a clock that does not jump: a client asks for the next page within a day.\<close>

definition cursor_env :: "api_env \<Rightarrow> app_state \<Rightarrow> bool" where
  "cursor_env E S \<longleftrightarrow> cursor_codec (ae_api E) (ae_cursor E) \<and> sha256_sized (ae_api E) \<and> keyring_ok (ap_cursor_keys S)"

definition steady_clock :: "(nat \<Rightarrow> int) \<Rightarrow> bool" where
  "steady_clock now \<longleftrightarrow>
     (\<forall>i. clock_ok (now i) \<and> unix_timestamp (now (Suc i)) \<le> unix_timestamp (now i) + 24 * 60 * 60)"

lemma hash_ok: "cursor_env E S \<Longrightarrow> plain (generic_filter_hash E v) \<and> length (generic_filter_hash E v) = 64"
  by (simp add: cursor_env_def generic_filter_hash_def sha256_sized_def hex_plain)

lemma filter_hash_generic: "filter_hash E q = generic_filter_hash E (jobj [(''region'', jstr_opt (nq_region q)),
     (''role'', jstr_opt (nq_role q)), (''environment'', jstr_opt (nq_environment q)),
     (''label'', jstr_opt (nq_label q)), (''status'', jstr_opt (nq_status q))])"
  by (simp add: filter_hash_def generic_filter_hash_def)

lemma next_cursor_decodes:
  assumes "cursor_env E S" "steady_clock now" "plain resource" "length resource \<le> 32" "hash = generic_filter_hash E v"
    and "plain (after_of (last rs))" "after_of (last rs) \<noteq> []" "length (after_of (last rs)) \<le> 256" "rs \<noteq> []"
  obtains c where "next_cursor E S (now i) resource hash after_of True rs = Inr (Some c)"
    "decode_after E S (now (Suc i)) (Some c) resource hash = Inr (Some (after_of (last rs)))"
proof -
  let ?pos = "\<lparr>ps_resource = resource, ps_after = after_of (last rs), ps_filter_hash = hash\<rparr>"
  have env: "cursor_codec (ae_api E) (ae_cursor E)" "sha256_sized (ae_api E)" "keyring_ok (ap_cursor_keys S)"
    using assms(1) by (auto simp: cursor_env_def)
  have pos: "position_ok ?pos"
    using assms hash_ok [OF assms(1), of v] by (simp add: position_ok_def)
  obtain c where c: "encode_cursor (ae_api E) (ae_cursor E) (now i) ?pos (ap_cursor_keys S) = Inr c"
    using encode_cursor_eq [OF env(1,3) pos] by blast
  have "keyring_find (ap_cursor_keys S) (ck_key_id (kr_current (ap_cursor_keys S))) = Some (kr_current (ap_cursor_keys S))"
    by (simp add: keyring_find_def)
  from decode_encoded [OF env pos c this refl, of "now (Suc i)" resource hash]
  have "decode_cursor (ae_api E) (ae_cursor E) (now (Suc i)) c (ap_cursor_keys S) resource hash
      = (if unix_timestamp (now (Suc i)) < cursor_expiry (unix_timestamp (now i)) then Inr (after_of (last rs))
         else Inl (InvalidCursor ''cursor does not match this query''))"
    by simp
  moreover have "unix_timestamp (now (Suc i)) < cursor_expiry (unix_timestamp (now i))"
  proof -
    have "clock_ok (now i)" "unix_timestamp (now (Suc i)) \<le> unix_timestamp (now i) + 24 * 60 * 60"
      using assms(2) by (auto simp: steady_clock_def)
    with cursor_expiry_window [of "now i"] show ?thesis
      by (simp add: CURSOR_TTL_SECONDS_def)
  qed
  ultimately show thesis
    using that [of c] c assms(9) by (simp add: next_cursor_def decode_after_def)
qed

section \<open>The node listing\<close>

definition query_filters :: "nodes_query \<Rightarrow> node_filters" where
  "query_filters q = \<lparr>nf_after = None, nf_region = nq_region q, nf_role = nq_role q, nf_environment = nq_environment q,
     nf_label_key = Option.bind (nq_label q) (\<lambda>l. map_option fst (split_once (CHR ''='') l)),
     nf_label_value = Option.bind (nq_label q) (\<lambda>l. map_option snd (split_once (CHR ''='') l)),
     nf_status = nq_status q\<rparr>"

definition query_limit :: "app_state \<Rightarrow> nodes_query \<Rightarrow> nat" where
  "query_limit S q = (case nq_limit q of Some v \<Rightarrow> v | None \<Rightarrow> min DEFAULT_LIMIT (ap_max_limit S))"

definition node_item :: "ext \<Rightarrow> api_tables \<Rightarrow> node_row \<Rightarrow> json" where
  "node_item X t n = (case node_health_of X t n of Inl _ \<Rightarrow> JNull | Inr r \<Rightarrow> health_node_to_json r)"

text \<open>The tables as the store writes them: unique, well-formed node identities, and rows that decode.\<close>

definition tables_ok :: "ext \<Rightarrow> api_tables \<Rightarrow> bool" where
  "tables_ok X t \<longleftrightarrow> distinct (map nr_node_id (at_nodes t))
     \<and> (\<forall>n \<in> set (at_nodes t). is_ok (validate_node_id (nr_node_id n)) \<and> is_ok (node_health_of X t n))"

lemma node_health_of_id: "node_health_of X t n = Inr r \<Longrightarrow> nd_node_id (nh_node r) = nr_node_id n"
  by (auto simp: node_health_of_def node_health_from_row_def attach_node_advisory_def rbind_Inr_iff Let_def)

lemma read_nodes_ok:
  assumes "\<forall>n \<in> set rows. is_ok (node_health_of X t n)"
  obtains rs where "read_nodes X t rows = Inr rs" "list_all2 (\<lambda>n r. node_health_of X t n = Inr r) rows rs"
proof -
  have "\<exists>rs. read_nodes X t rows = Inr rs \<and> list_all2 (\<lambda>n r. node_health_of X t n = Inr r) rows rs"
    using assms
  proof (induction rows)
    case (Cons n rows)
    then obtain rs where "read_nodes X t rows = Inr rs" "list_all2 (\<lambda>n r. node_health_of X t n = Inr r) rows rs"
      by auto
    moreover obtain r where "node_health_of X t n = Inr r"
      using Cons.prems by (auto simp: is_ok_iff)
    ultimately show ?case
      by (intro exI [of _ "r # rs"]) (auto simp: read_nodes_def node_health_of_def rbind_Inr_iff)
  qed (simp add: read_nodes_def)
  then show thesis
    using that by blast
qed

lemma items_of_records: "list_all2 (\<lambda>n r. node_health_of X t n = Inr r) rows rs \<Longrightarrow> map health_node_to_json rs = map (node_item X t) rows"
  by (induction rule: list_all2_induct) (simp_all add: node_item_def)

lemma safe_plain: "list_all safe_char s \<Longrightarrow> plain s"
  unfolding plain_def by (erule list.pred_mono_strong) (rule key_char_plain, simp add: safe_char_def)

lemma node_id_plain: "is_ok (validate_node_id i) \<Longrightarrow> plain i \<and> i \<noteq> [] \<and> length i \<le> 64"
  by (auto simp: is_ok_iff validate_node_id_def safe_plain)

text \<open>A query that was answered once passes the checks again, with any cursor.\<close>

definition query_ok :: "app_state \<Rightarrow> nodes_query \<Rightarrow> bool" where
  "query_ok S q \<longleftrightarrow> 0 < query_limit S q \<and> query_limit S q \<le> ap_max_limit S \<and> query_limit S q + 1 \<le> i64_max
     \<and> filter_value_opt ''region'' (nq_region q) = Inr () \<and> filter_value_opt ''role'' (nq_role q) = Inr ()
     \<and> filter_value_opt ''environment'' (nq_environment q) = Inr () \<and> status_supported (nq_status q) = Inr ()
     \<and> (\<forall>l. nq_label q = Some l \<longrightarrow> is_ok (parse_label_filter l))"

lemma to_i64_Inr: "to_i64 n s = Inr m \<longleftrightarrow> n \<le> i64_max \<and> m = n"
  by (auto simp: to_i64_def)

lemma answered_query_ok:
  assumes "nodes_handler E S now t h (Some q) = Inr r"
  shows "query_ok S q"
  using assms unfolding nodes_handler_def Let_def rbind_Inr_iff ensure_Inr_iff ok_or_Inr_iff query_ok_def query_limit_def
    [symmetric] db_def map_err_Inr_iff list_node_health_page_def to_i64_Inr
  by (auto simp: is_ok_iff rbind_Inr_iff to_i64_Inr split: option.splits)

text \<open>The answer for a cursor: the rows after its position, and a cursor to the last of them when there are more.\<close>

lemma label_of_query:
  assumes "query_ok S q"
  shows "(case nq_label q of None \<Rightarrow> Inr (None, None)
      | Some l \<Rightarrow> rbind (parse_label_filter l) (\<lambda>(k, v). Inr (Some k, Some v)))
    = (Inr (nf_label_key (query_filters q), nf_label_value (query_filters q)) :: api_error + string option \<times> string option)"
proof (cases "nq_label q")
  case (Some l)
  then obtain k v where "parse_label_filter l = Inr (k, v)"
    using assms by (auto simp: query_ok_def is_ok_iff)
  moreover from this have "split_once (CHR ''='') l = Some (k, v)"
    by (auto simp: parse_label_filter_def rbind_Inr_iff)
  ultimately show ?thesis
    using Some by (simp add: query_filters_def)
qed (simp add: query_filters_def)

lemma nodes_handler_eq:
  assumes "query_ok S q" "is_ok (authorize (ae_api E) (ap_authenticator S) now h FleetRead)"
    and "decode_after E S now c ''nodes'' (filter_hash E q) = Inr after"
  shows "nodes_handler E S now t h (Some (q\<lparr>nq_cursor := c\<rparr>)) =
    rbind (db (read_nodes (ae_ext E) t (node_page_rows t (query_limit S q + 1) ((query_filters q)\<lparr>nf_after := after\<rparr>)))) (\<lambda>rows.
    rbind (next_cursor E S now ''nodes'' (filter_hash E q) (\<lambda>r. nd_node_id (nh_node r)) (length rows > query_limit S q)
        (take (query_limit S q) rows)) (\<lambda>next_c.
    Inr (conditional_json E h (page_data (query_limit S q) next_c
      (map health_node_to_json (take (query_limit S q) rows))))))"
proof -
  obtain p where p: "authorize (ae_api E) (ap_authenticator S) now h FleetRead = Inr p"
    using assms(2) by (auto simp: is_ok_iff)
  have hash: "filter_hash E (q\<lparr>nq_cursor := c\<rparr>) = filter_hash E q"
    by (simp add: filter_hash_def)
  have i64: "i64_max \<le> u64_max"
    by (simp add: i64_max_def u64_max_def)
  have label: "(case nq_label q of None \<Rightarrow> Inr (None, None)
      | Some l \<Rightarrow> rbind (parse_label_filter l) (\<lambda>(k, v). Inr (Some k, Some v)))
    = (Inr (nf_label_key (query_filters q), nf_label_value (query_filters q)) :: api_error + string option \<times> string option)"
    using assms(1) by (rule label_of_query)
  have filters: "\<lparr>nf_after = after, nf_region = nq_region q, nf_role = nq_role q, nf_environment = nq_environment q,
      nf_label_key = nf_label_key (query_filters q), nf_label_value = nf_label_value (query_filters q), nf_status = nq_status q\<rparr>
    = (query_filters q)\<lparr>nf_after := after\<rparr>"
    by (simp add: query_filters_def)
  have lim: "query_limit S (q\<lparr>nq_cursor := c\<rparr>) = query_limit S q"
    by (simp add: query_limit_def)
  have q: "0 < query_limit S q" "query_limit S q \<le> ap_max_limit S" "query_limit S q + 1 \<le> i64_max" "query_limit S q + 1 \<le> u64_max"
    using assms(1) i64 by (simp_all add: query_ok_def)
  show ?thesis
    using assms(1) q assms(3) unfolding query_ok_def
    by (simp add: nodes_handler_def p hash label filters lim assms(3) list_node_health_page_def to_i64_def Let_def
      flip: query_limit_def)
qed

lemma nodes_page:
  assumes env: "cursor_env E S" "steady_clock now" "tables_ok (ae_ext E) t" "query_ok S q"
    and auth: "is_ok (authorize (ae_api E) (ap_authenticator S) (now i) h FleetRead)" and h: "h ''if-none-match'' = None"
    and at: "decode_after E S (now i) c ''nodes'' (filter_hash E q) = Inr after"
  defines "ys \<equiv> node_pages.rest (t, query_filters q) after" and "limit \<equiv> query_limit S q"
  shows "\<exists>r. nodes_handler E S (now i) t h (Some (q\<lparr>nq_cursor := c\<rparr>)) = Inr r
    \<and> page_items r = Some (map (node_item (ae_ext E) t) (take limit ys))
    \<and> (if length ys \<le> limit then page_next r = None
       else \<exists>c'. page_next r = Some c'
         \<and> decode_after E S (now (Suc i)) (Some c') ''nodes'' (filter_hash E q) = Inr (Some (nr_node_id (last (take limit ys)))))"
proof -
  let ?hash = "filter_hash E q"
  have limit: "0 < limit"
    using env(4) by (simp add: query_ok_def limit_def)
  have page: "node_page_rows t (limit + 1) ((query_filters q)\<lparr>nf_after := after\<rparr>) = take (limit + 1) ys"
    using node_pages.page_rest [of "(t, query_filters q)" after] by (simp add: ys_def)
  have known: "set ys \<subseteq> set (at_nodes t)"
    by (auto simp: ys_def node_pages.rest_def node_listing_def)
  then have "\<forall>n \<in> set (take (limit + 1) ys). is_ok (node_health_of (ae_ext E) t n)"
    using env(3) by (auto simp: tables_ok_def dest!: in_set_takeD)
  then obtain rs where rs: "read_nodes (ae_ext E) t (take (limit + 1) ys) = Inr rs"
      and all2: "list_all2 (\<lambda>n r. node_health_of (ae_ext E) t n = Inr r) (take (limit + 1) ys) rs"
    by (rule read_nodes_ok)
  have len: "length rs = min (length ys) (limit + 1)"
    using all2 by (simp add: list_all2_lengthD [symmetric])
  have all2': "list_all2 (\<lambda>n r. node_health_of (ae_ext E) t n = Inr r) (take limit ys) (take limit rs)"
    using list_all2_takeI [OF all2, of limit] by simp
  note items = items_of_records [OF all2']
  have handler: "nodes_handler E S (now i) t h (Some (q\<lparr>nq_cursor := c\<rparr>)) =
      rbind (next_cursor E S (now i) ''nodes'' ?hash (\<lambda>r. nd_node_id (nh_node r)) (length rs > limit) (take limit rs)) (\<lambda>next_c.
      Inr (conditional_json E h (page_data limit next_c (map (node_item (ae_ext E) t) (take limit ys)))))"
    using nodes_handler_eq [OF env(4) auth at] by (simp only: page limit_def [symmetric] rs db_def map_err_simps rbind_simps items)
  show ?thesis
  proof (cases "length ys \<le> limit")
    case True
    then have "next_cursor E S (now i) ''nodes'' ?hash (\<lambda>r. nd_node_id (nh_node r)) (length rs > limit) (take limit rs) = Inr None"
      using len by (simp add: next_cursor_def)
    with True show ?thesis
      by (simp add: handler page_of_response [where h = h, OF h])
  next
    case False
    then have more: "length rs > limit" and ne: "take limit rs \<noteq> []" "take limit ys \<noteq> []"
      using len limit by auto
    have last: "nd_node_id (nh_node (last (take limit rs))) = nr_node_id (last (take limit ys))"
      using all2' ne node_health_of_id by (metis (mono_tags, lifting) last_conv_nth list_all2_conv_all_nth length_greater_0_conv diff_less zero_less_one)
    have "last (take limit ys) \<in> set (at_nodes t)"
      using ne(2) known last_in_set in_set_takeD by (metis subsetD)
    then have id: "plain (nr_node_id (last (take limit ys)))" "nr_node_id (last (take limit ys)) \<noteq> []"
        "length (nr_node_id (last (take limit ys))) \<le> 256"
      using env(3) node_id_plain [of "nr_node_id (last (take limit ys))"] by (auto simp: tables_ok_def)
    obtain c' where c': "next_cursor E S (now i) ''nodes'' ?hash (\<lambda>r. nd_node_id (nh_node r)) True (take limit rs) = Inr (Some c')"
        "decode_after E S (now (Suc i)) (Some c') ''nodes'' ?hash = Inr (Some (nr_node_id (last (take limit ys))))"
      by (rule next_cursor_decodes [OF env(1,2) _ _ filter_hash_generic, of "''nodes''" "\<lambda>r. nd_node_id (nh_node r)" "take limit rs"])
        (use id ne last in \<open>simp_all add: plain_def is_ascii_graphic_def byte_def\<close>)
    show ?thesis
      using False more ne(2) c' by (simp add: handler page_of_response [where h = h, OF h])
  qed
qed

lemma walk_nodes:
  assumes "cursor_env E S" "steady_clock now" "tables_ok (ae_ext E) t" "query_ok S q"
    and "\<forall>i. is_ok (authorize (ae_api E) (ap_authenticator S) (now i) h FleetRead)" "h ''if-none-match'' = None"
  shows "walk (\<lambda>i c. nodes_handler E S (now i) t h (Some (q\<lparr>nq_cursor := c\<rparr>))) 0
      (length (node_listing (t, query_filters q)) div query_limit S q + 1) None
    = Some (map (node_item (ae_ext E) t) (node_listing (t, query_filters q)))"
proof -
  have limit: "0 < query_limit S q"
    using assms(4) by (simp add: query_ok_def)
  let ?rows = "node_listing (t, query_filters q)"
  have "walk (\<lambda>i c. nodes_handler E S (now i) t h (Some (q\<lparr>nq_cursor := c\<rparr>))) 0 (length ?rows div query_limit S q + 1) None
      = Some (map (node_item (ae_ext E) t) ?rows)"
  proof (rule walk_all [where rows = ?rows and limit = "query_limit S q" and xs = "[]" and reached =
        "\<lambda>i c xs. decode_after E S (now i) c ''nodes'' (filter_hash E q)
           = Inr (if xs = [] then None else Some (nr_node_id (last xs)))"])
    fix i c xs ys
    assume "?rows = xs @ ys" and at: "decode_after E S (now i) c ''nodes'' (filter_hash E q)
        = Inr (if xs = [] then None else Some (nr_node_id (last xs)))"
    then have rest: "node_pages.rest (t, query_filters q) (if xs = [] then None else Some (nr_node_id (last xs))) = ys"
      using assms(3) by (intro node_pages.rest_append) (simp_all add: tables_ok_def)
    show "\<exists>r. nodes_handler E S (now i) t h (Some (q\<lparr>nq_cursor := c\<rparr>)) = Inr r
        \<and> page_items r = Some (map (node_item (ae_ext E) t) (take (query_limit S q) ys))
        \<and> (if length ys \<le> query_limit S q then page_next r = None
           else \<exists>c'. page_next r = Some c' \<and> decode_after E S (now (Suc i)) (Some c') ''nodes'' (filter_hash E q)
             = Inr (if xs @ take (query_limit S q) ys = [] then None else Some (nr_node_id (last (xs @ take (query_limit S q) ys)))))"
      using nodes_page [where h = h, OF assms(1) assms(2,3,4) spec [OF assms(5)] assms(6) at, unfolded rest] limit
      by (cases ys) auto
  qed (use limit in \<open>simp_all add: decode_after_def\<close>)
  then show ?thesis .
qed

section \<open>Example\<close>

definition page_example_env :: api_env where
  "page_example_env = \<lparr>ae_ext = example_ext, ae_api = cursor_example_api, ae_cursor = cursor_example_ext,
     ae_json = (\<lambda>_. ''json''), ae_format = (\<lambda>_. Some ''t'')\<rparr>"

definition page_example_state :: app_state where
  "page_example_state = \<lparr>ap_max_limit = 100, ap_authenticator = auth_example, ap_cursor_keys = cursor_example_ring\<rparr>"

definition page_example_node :: "string \<Rightarrow> node_row" where
  "page_example_node i = \<lparr>nr_node_id = i, nr_endpoint_id = ''e'', nr_name = ''n'', nr_region = ''r'', nr_role = ''ocserv'',
     nr_enabled = True, nr_created_at = ''Z'', nr_updated_at = ''Z''\<rparr>"

definition page_example_tables :: api_tables where
  "page_example_tables = \<lparr>at_nodes = [page_example_node ''b'', page_example_node ''a''], at_health = [], at_history = [],
     at_metadata = [], at_maintenance = []\<rparr>"

definition page_example_query :: nodes_query where
  "page_example_query = \<lparr>nq_limit = Some 1, nq_cursor = None, nq_region = None, nq_role = None, nq_environment = None,
     nq_label = None, nq_status = Some ''unknown''\<rparr>"

lemma page_example_auth: "is_ok (authorize cursor_example_api auth_example 0 auth_example_headers FleetRead)"
proof -
  have "bearer_token auth_example_headers = Some auth_example_token" "is_ok (validate_token auth_example_token)"
    by code_simp+
  moreover have "digest_eq (replicate 32 32) (ax_sha256 cursor_example_api auth_example_token)"
    by (simp add: digest_eq_iff cursor_example_api_def auth_example_ext_def auth_example_token_def)
  ultimately show ?thesis
    by (simp add: authorize_def authenticate_def authenticate_token_def Let_def auth_example_def
      auth_example_account_def account_principal_def ns_of_secs_def principal_permits_def role_permits_def)
qed

lemma page_example_ok:
  "cursor_env page_example_env page_example_state" "steady_clock (\<lambda>_. 0)"
  "tables_ok example_ext page_example_tables" "query_ok page_example_state page_example_query"
proof -
  show "cursor_env page_example_env page_example_state"
    using keyring_from_file_ok [OF example_file_ring] example_codec cursor_example_ok(1)
    by (simp add: cursor_env_def page_example_env_def page_example_state_def)
  show "steady_clock (\<lambda>_. 0)"
    using cursor_example_ok(3) by (simp add: steady_clock_def)
  show "tables_ok example_ext page_example_tables"
    by (simp add: tables_ok_def page_example_tables_def page_example_node_def is_ok_iff validate_node_id_def safe_char_def
      is_ascii_alphanumeric_def is_ascii_alphabetic_def is_ascii_lowercase_def byte_def node_health_of_def health_of_def
      node_health_from_row_def attach_node_advisory_def optional_row_def Let_def)
  show "query_ok page_example_state page_example_query"
    by (simp add: query_ok_def page_example_query_def query_limit_def page_example_state_def filter_value_opt_def
      status_supported_def i64_max_def)
qed

text \<open>Between the first and the second page, a node is removed and another added.\<close>

definition page_example_change :: "nat \<Rightarrow> api_tables" where
  "page_example_change i = (if i = 0 then page_example_tables
     else page_example_tables\<lparr>at_nodes := [page_example_node ''b'', page_example_node ''c'']\<rparr>)"

lemma page_example_simps:
  "ae_ext page_example_env = example_ext" "ae_api page_example_env = cursor_example_api"
  "ae_cursor page_example_env = cursor_example_ext" "ap_authenticator page_example_state = auth_example"
  "ap_cursor_keys page_example_state = cursor_example_ring"
  by (simp_all add: page_example_env_def page_example_state_def)

lemma page_example_change_ok: "tables_ok example_ext (page_example_change i)"
  by (simp add: page_example_change_def tables_ok_def page_example_tables_def page_example_node_def is_ok_iff
    validate_node_id_def safe_char_def is_ascii_alphanumeric_def is_ascii_alphabetic_def is_ascii_lowercase_def byte_def
    node_health_of_def health_of_def node_health_from_row_def attach_node_advisory_def optional_row_def Let_def)

lemma page_example_rest:
  "node_pages.rest (page_example_change 0, query_filters page_example_query) None
    = [page_example_node ''a'', page_example_node ''b'']"
  "node_pages.rest (page_example_change (Suc i), query_filters page_example_query) (Some ''a'')
    = [page_example_node ''b'', page_example_node ''c'']"
  "node_pages.rest (page_example_change (Suc i), query_filters page_example_query) (Some ''b'') = [page_example_node ''c'']"
proof -
  have "node_listing (page_example_tables, query_filters page_example_query) = [page_example_node ''a'', page_example_node ''b'']"
    "node_listing (page_example_tables\<lparr>at_nodes := [page_example_node ''b'', page_example_node ''c'']\<rparr>, query_filters page_example_query)
      = [page_example_node ''b'', page_example_node ''c'']"
    by code_simp+
  moreover have "''a'' < ''b''" "''a'' < ''c''" "''b'' < ''c''" "\<not> ''b'' < ''b''"
    by code_simp+
  ultimately show
    "node_pages.rest (page_example_change 0, query_filters page_example_query) None
      = [page_example_node ''a'', page_example_node ''b'']"
    "node_pages.rest (page_example_change (Suc i), query_filters page_example_query) (Some ''a'')
      = [page_example_node ''b'', page_example_node ''c'']"
    "node_pages.rest (page_example_change (Suc i), query_filters page_example_query) (Some ''b'') = [page_example_node ''c'']"
    by (simp_all add: node_pages.rest_def page_example_change_def page_example_node_def)
qed

lemma page_example_walk:
  "walk (\<lambda>i c. nodes_handler page_example_env page_example_state ((\<lambda>_. 0) i) (page_example_change i) auth_example_headers
      (Some (page_example_query\<lparr>nq_cursor := c\<rparr>))) 0 3 None
    = Some [node_item example_ext (page_example_change 0) (page_example_node ''a''),
        node_item example_ext (page_example_change 1) (page_example_node ''b''),
        node_item example_ext (page_example_change 2) (page_example_node ''c'')]"
proof -
  let ?get = "\<lambda>i c. nodes_handler page_example_env page_example_state 0 (page_example_change i) auth_example_headers
      (Some (page_example_query\<lparr>nq_cursor := c\<rparr>))"
  let ?at = "\<lambda>c. decode_after page_example_env page_example_state 0 c ''nodes'' (filter_hash page_example_env page_example_query)"
  have limit: "query_limit page_example_state page_example_query = 1"
    by code_simp
  have h: "auth_example_headers ''if-none-match'' = None"
    by (simp add: auth_example_headers_def)
  have step: "\<exists>r. ?get i c = Inr r
      \<and> page_items r = Some (map (node_item example_ext (page_example_change i)) (take 1 ys))
      \<and> (if length ys \<le> 1 then page_next r = None
         else \<exists>c'. page_next r = Some c' \<and> ?at (Some c') = Inr (Some (nr_node_id (last (take 1 ys)))))"
    if "?at c = Inr after" "node_pages.rest (page_example_change i, query_filters page_example_query) after = ys" for i c after ys
    by (rule nodes_page [where h = auth_example_headers and now = "\<lambda>_. 0" and t = "page_example_change i" and i = i,
        OF page_example_ok(1,2) _ page_example_ok(4) _ h that(1), unfolded page_example_simps limit that(2),
        OF page_example_change_ok page_example_auth])
  have start: "?at None = Inr None"
    by (simp add: decode_after_def)
  obtain r0 c0 where 0: "?get 0 None = Inr r0" "page_items r0 = Some [node_item example_ext (page_example_change 0) (page_example_node ''a'')]"
      "page_next r0 = Some c0" "?at (Some c0) = Inr (Some ''a'')"
    using step [OF start page_example_rest(1)] by (auto simp: page_example_node_def)
  obtain r1 c1 where 1: "?get 1 (Some c0) = Inr r1" "page_items r1 = Some [node_item example_ext (page_example_change 1) (page_example_node ''b'')]"
      "page_next r1 = Some c1" "?at (Some c1) = Inr (Some ''b'')"
    using step [OF 0(4) page_example_rest(2) [of 0]] by (auto simp: page_example_node_def)
  obtain r2 where 2: "?get 2 (Some c1) = Inr r2" "page_items r2 = Some [node_item example_ext (page_example_change 2) (page_example_node ''c'')]"
      "page_next r2 = None"
    using step [OF 1(4) page_example_rest(3) [of 1]] by (auto simp: numeral_2_eq_2)
  show ?thesis
    using 0 1 2 by (simp add: numeral_3_eq_3 numeral_2_eq_2)
qed

lemma page_example_answer:
  "is_ok (nodes_handler page_example_env page_example_state 0 (page_example_change 0) auth_example_headers (Some page_example_query))"
proof -
  have "page_example_query\<lparr>nq_cursor := None\<rparr> = page_example_query"
    by (simp add: page_example_query_def)
  moreover have "auth_example_headers ''if-none-match'' = None"
    by (simp add: auth_example_headers_def)
  ultimately show ?thesis
    using nodes_page [where h = auth_example_headers and t = "page_example_change 0" and c = None and i = 0 and after = None,
        OF page_example_ok(1,2) _ page_example_ok(4)]
      page_example_change_ok page_example_auth by (auto simp: page_example_simps is_ok_iff decode_after_def)
qed

section \<open>Properties\<close>



text \<open>C27. The listing is also safe to follow while nodes are added, changed and removed between two requests, without a
  restart of the client: whenever the client reaches the end, every item it received described a node that matched
  the query at the moment of its page, no node was received twice, the identities are in order, and every node that
  matched during the whole walk was received.\<close>

theorem nodes_walk_consistent:
  assumes "cursor_codec (ae_api E) (ae_cursor E)" "sha256_sized (ae_api E)"
    and "keyring_from_file (ae_api E) f = Inr (ap_cursor_keys S)" "\<forall>i. tables_ok (ae_ext E) (tables i)" "steady_clock now"
    and "\<forall>i. is_ok (authorize (ae_api E) (ap_authenticator S) (now i) h FleetRead)" "h ''if-none-match'' = None"
    and "is_ok (nodes_handler E S (now 0) (tables 0) h (Some q))"
    and "walk (\<lambda>i c. nodes_handler E S (now i) (tables i) h (Some (q\<lparr>nq_cursor := c\<rparr>))) 0 n None = Some items"
  shows "\<exists>rows. items = map (\<lambda>(i, r). node_item (ae_ext E) (tables i) r) rows
    \<and> sorted_wrt (<) (map (nr_node_id \<circ> snd) rows)
    \<and> (\<forall>(i, r) \<in> set rows. r \<in> set (at_nodes (tables i)) \<and> node_matches (tables i) (query_filters q) r)
    \<and> (\<forall>node_id. (\<forall>i. \<exists>r \<in> set (at_nodes (tables i)). nr_node_id r = node_id \<and> node_matches (tables i) (query_filters q) r)
        \<longrightarrow> node_id \<in> nr_node_id ` snd ` set rows)"
proof -
  have env: "cursor_env E S"
    using assms(1-3) keyring_from_file_ok by (auto simp: cursor_env_def)
  have q: "query_ok S q"
    using assms(8) answered_query_ok by (auto simp: is_ok_iff)
  then have limit: "0 < query_limit S q"
    by (simp add: query_ok_def)
  let ?rest = "\<lambda>i. node_pages.rest (tables i, query_filters q)"
  have rest: "set (?rest i after) = {r \<in> set (at_nodes (tables i)). node_matches (tables i) (query_filters q) r
      \<and> (\<forall>k. after = Some k \<longrightarrow> k < nr_node_id r)}" for i after
    by (auto simp: node_pages.rest_def node_listing_def split: option.splits)
  have "\<exists>rows. items = map (\<lambda>(j, r). node_item (ae_ext E) (tables j) r) rows \<and> sorted_wrt (<) (map (nr_node_id \<circ> snd) rows)
    \<and> (\<forall>(j, r) \<in> set rows. r \<in> set (?rest j None))
    \<and> (\<forall>k. (\<forall>j. k \<in> nr_node_id ` set (?rest j None)) \<longrightarrow> k \<in> nr_node_id ` snd ` set rows)"
  proof (rule walk_changing [where at_key = "\<lambda>i c after. decode_after E S (now i) c ''nodes'' (filter_hash E q) = Inr after"
        and limit = "query_limit S q" and c = None and i = 0, OF _ _ _ limit _ assms(9)])
    show "sorted_wrt (\<lambda>r s. nr_node_id r < nr_node_id s) (?rest i after)" for i after
      using assms(4) by (intro node_pages.rest_ordered) (simp add: tables_ok_def)
  qed (use nodes_page [where h = h, OF env assms(5) spec [OF assms(4)] q spec [OF assms(6)] assms(7)] rest in
      \<open>simp_all add: decode_after_def\<close>)
  then obtain rows where rows: "items = map (\<lambda>(j, r). node_item (ae_ext E) (tables j) r) rows"
      "sorted_wrt (<) (map (nr_node_id \<circ> snd) rows)" "\<forall>(j, r) \<in> set rows. r \<in> set (?rest j None)"
      "\<forall>k. (\<forall>j. k \<in> nr_node_id ` set (?rest j None)) \<longrightarrow> k \<in> nr_node_id ` snd ` set rows"
    by blast
  have "\<forall>(i, r) \<in> set rows. r \<in> set (at_nodes (tables i)) \<and> node_matches (tables i) (query_filters q) r"
    using rows(3) by (auto simp: rest)
  moreover have "node_id \<in> nr_node_id ` snd ` set rows"
    if "\<forall>i. \<exists>r \<in> set (at_nodes (tables i)). nr_node_id r = node_id \<and> node_matches (tables i) (query_filters q) r" for node_id
    using that by (intro rows(4) [rule_format]) (auto simp: rest)
  ultimately show ?thesis
    using rows(1,2) by blast
qed

theorem nodes_walk_consistent_witness:
  "\<exists>rows. [node_item example_ext (page_example_change 0) (page_example_node ''a''),
        node_item example_ext (page_example_change 1) (page_example_node ''b''),
        node_item example_ext (page_example_change 2) (page_example_node ''c'')]
      = map (\<lambda>(i, r). node_item example_ext (page_example_change i) r) rows
    \<and> ''b'' \<in> nr_node_id ` snd ` set rows"
proof -
  have h: "auth_example_headers ''if-none-match'' = None"
    by (simp add: auth_example_headers_def)
  have b: "\<exists>r \<in> set (at_nodes (page_example_change i)). nr_node_id r = ''b''
      \<and> node_matches (page_example_change i) (query_filters page_example_query) r" for i
    by (rule bexI [of _ "page_example_node ''b''"])
      (simp_all add: page_example_change_def page_example_tables_def page_example_node_def node_matches_def page_example_query_def
        query_filters_def matches_def label_matches_def effective_status_def health_of_def)
  have env: "\<forall>i. tables_ok example_ext (page_example_change i)"
      "\<forall>i :: nat. is_ok (authorize cursor_example_api auth_example 0 auth_example_headers FleetRead)"
    using page_example_change_ok page_example_auth by simp_all
  note walk = nodes_walk_consistent [where h = auth_example_headers and f = cursor_example_file and E = page_example_env
      and S = page_example_state and q = page_example_query and tables = page_example_change, OF _ _ _ _ page_example_ok(2) _ h _
      page_example_walk, unfolded page_example_simps, OF example_codec cursor_example_ok(1) example_file_ring env page_example_answer]
  from walk show ?thesis
    by (elim exE conjE) (rule exI, rule conjI, assumption, elim allE [of _ "''b''"] impE, intro allI b)
qed

end
