(* ===== verification/Spec2Isabelle.thy ===== *)
theory Spec2Isabelle
  imports Nonce_Cache Audit_Limiter Authz Capabilities Agent_Server Controller_Rpc Scheduler_Leases Retention Api_Pages
begin

text \<open>
  A verification development of ocserv-fleet-agent, a system that observes a fleet of ocserv VPN nodes.

  \<^bold>\<open>The program.\<close> An agent on each node (\<open>crates/ocfleet-agent\<close>) answers a closed set of read-only requests that a
  controller or a peer sends over authenticated connections. The controller (\<open>crates/ocfleet-cli\<close>) keeps the registry
  of nodes and trusted endpoints, enrollment, scheduled observations and an audit log in one SQLite database, and calls
  agents. A read-only HTTP API (\<open>crates/ocfleet-api\<close>) serves that database. Both sides share the wire protocol
  (\<open>crates/ocfleet-protocol\<close>) and the validators (\<open>crates/ocfleet-config\<close>).

  \<^bold>\<open>How the model corresponds to the code.\<close> A struct is a record, an enum a datatype, a function a function of the same
  name; a name that HOL or another component has already is varied. \<open>Result\<close> is a sum with the error on the left, and an error is the source's variant or its
  text. A function that can panic returns \<open>fault\<close>, whose \<open>Panic\<close> is a value of its own, so that the absence of panics is
  provable. A string is its UTF-8 byte sequence. Integers are natural numbers or integers with the saturating and
  checked operations of the source written out; digests and keys are lists of 8-bit words. A database is a record of
  tables, a table the list of its rows, a transaction a function on it that commits or rolls back as a whole
  (\<open>Transactions\<close>). A loop is a recursive function with a termination proof; there is no fuel in the model. Only the client
  \<open>walk\<close> in \<open>Api_Pages\<close>, which is not part of the program, takes a bound on its requests: its theorem shows that the
  number of pages is enough.

  What lies outside the sources is a parameter: the record \<open>ext\<close> of \<open>Prelude\<close> (timestamps, UUIDs, base64, endpoint
  identities), \<open>request_env\<close> of \<open>Agent_Server\<close> (clocks, providers, the audit writer), \<open>transport\<close> of \<open>Rpc_Client\<close>,
  \<open>store_env\<close>, \<open>sched_env\<close> and \<open>ret_env\<close> (clocks, hashes), \<open>api_ext\<close>, \<open>cursor_ext\<close> and \<open>api_env\<close> of the HTTP API.
  What a theorem needs of them is a named hypothesis that states documented behaviour (\<open>odt_add_exact\<close>,
  \<open>endpoint_id_canonical\<close>, \<open>sha256_sized\<close>, \<open>cursor_codec\<close>), and an example instance satisfies it in the theorem's
  witness.

  \<^bold>\<open>Shared theories.\<close>
  \<^item> \<open>Prelude\<close>: results, integers, byte strings with the \<open>str\<close> methods, JSON values, third-party functions.
  \<^item> \<open>Config_Validation\<close> (\<open>ocfleet-config/src/validation.rs\<close>), \<open>Input_Validation\<close>
    (\<open>ocfleet-cli/src/input_validation.rs\<close>): the field validators and what they accept.
  \<^item> \<open>Protocol\<close> (\<open>ocfleet-protocol/src\<close>): envelope, errors, methods, frames. Decoding a frame inverts encoding it and
    accepts nothing else.
  \<^item> \<open>Transactions\<close>: the transaction monad with its verification conditions.

  \<^bold>\<open>The agent.\<close>
  \<^item> \<open>Agent_Config\<close> (\<open>ocfleet-config/src/agent.rs\<close>): the sections and every check; an accepted configuration is consistent.
  \<^item> \<open>Nonce_Cache\<close> (\<open>nonce.rs\<close>): the cache refines a finite map of live nonces, reports every replay before expiry and stays
    within its limits. The locale \<open>replay_guard\<close> is its contract with the server.
  \<^item> \<open>Audit_Limiter\<close> (\<open>audit_limiter.rs\<close>): rate, accounting and size bounds of the token buckets.
  \<^item> \<open>Authz\<close> (\<open>authz.rs\<close>): the tables decide exactly what the configuration says.
  \<^item> \<open>Capabilities\<close> (\<open>capabilities.rs\<close>): the advertised catalogue is read-only and always passes its own validation.
  \<^item> \<open>Agent_Server\<close> (\<open>server.rs\<close>): a request from the frame to the audited answer. Success implies authorization, every
    answer is audited before it is written, an unauthorized request is rejected and a captured one cannot be replayed.

  \<^bold>\<open>The registry.\<close>
  \<^item> \<open>Stored_Json\<close>, \<open>Store_Payloads\<close> (\<open>store.rs\<close>, \<open>storage_payloads.rs\<close>): what may enter the database; the traversal is
    equivalent to a condition on every position of a document.
  \<^item> \<open>Store_Core\<close>, \<open>Trust_Registry\<close>, \<open>Enrollment\<close> (\<open>store.rs\<close>): tables, statements, and one function per public operation.
  \<^item> \<open>Fleet_Spec\<close>: the contract, a transition system of nodes, endpoints, tokens and join requests with its invariant.
  \<^item> \<open>Store_Logic\<close>, \<open>Registry_Refinement\<close>, \<open>Enrollment_Refinement\<close>: each operation rolls back or makes one step of the
    contract and records it.
  \<^item> \<open>Store_Operations\<close> (\<open>backend.rs\<close>): hence any sequence of calls keeps the invariant, bounds the uses of a token and only
    appends to the audit log.

  \<^bold>\<open>The controller.\<close>
  \<^item> \<open>Dispatch_Gate\<close>, \<open>Rpc_Client\<close>, \<open>Ocserv_Output\<close>, \<open>Controller_Summaries\<close>, \<open>Controller_Rpc\<close> (\<open>controller_rpc.rs\<close>,
    \<open>rpc_client.rs\<close>, \<open>ocserv_output.rs\<close>): the gate is open exactly for the endpoint of an enabled node; a call contacts no
    other endpoint, never a revoked one, and a success has an audit record.
  \<^item> \<open>Observability_Payloads\<close>, \<open>Scheduler_Store\<close>, \<open>Scheduler_Leases\<close> (\<open>storage_payloads.rs\<close>, \<open>store.rs\<close>): jobs, runs and
    claims. The calls refine a lease service: claims do not overlap, and a superseded owner can write nothing.
  \<^item> \<open>Retention\<close> (\<open>retention.rs\<close>, \<open>store.rs\<close>): the batched deletion ends, deletes exactly the announced oldest rows, can be
    retried, and does what its dry run predicts.

  \<^bold>\<open>The HTTP API.\<close>
  \<^item> \<open>Api_Auth\<close> (\<open>auth.rs\<close>, \<open>authorize\<close>, \<open>args.rs\<close>): an accepted request presents a valid credential that permits the route.
  \<^item> \<open>Api_Cursor\<close> (\<open>cursor_keys.rs\<close>, \<open>v1.rs\<close>): cursors round-trip for 24 to 48 hours across a key rotation and carry a MAC;
    a server that starts has a well-formed configuration.
  \<^item> \<open>Api_Pages\<close> (\<open>readonly_store.rs\<close>, \<open>projections.rs\<close>, \<open>v1.rs\<close>, \<open>routes.rs\<close>): the node and history listings. The locale
    \<open>keyset\<close> is the contract of their statements; a client that follows the cursors gets every node exactly once, and
    no inconsistency when the nodes change meanwhile.

  \<^bold>\<open>Bounds.\<close> Natural numbers stand for \<open>u64\<close> and \<open>usize\<close> where the code checks or saturates; a theorem that depends on a
  sum staying in range says so (\<open>i64_max\<close>, \<open>u64_max\<close>, \<open>clock_ok\<close>). Instants are nanoseconds, of the Unix epoch or of the
  monotonic clock.

  \<^bold>\<open>Not modelled.\<close> Network, files, processes and key storage: they are operating system interfaces, and the model takes
  their results as parameters. The accept loop with its semaphores is concurrency of the async runtime. Argument parsing and
  printing. The PostgreSQL backend is a second implementation of the same contract in another SQL dialect. The planning
  and execution of scheduled tasks, the scoring of health, alert rules and webhook delivery, audit export, trust policy
  review, version governance and the controlled-write protocol are components of their own above the modelled store;
  they are left out because of their size. Of the API, the routes of jobs, runs, observations, alerts,
  service levels, audit export, version readiness and metrics are left out; they read the same tables without cursors,
  except the alert listing, whose statement has the form of the history listing.
\<close>

end
